(* ===== verification/Prelude.thy ===== *)
theory Prelude
  imports Main "HOL-Library.Word" "HOL-Library.Char_ord" "HOL-Library.List_Lexorder"
    "HOL-Library.State_Monad" "HOL-Library.Monad_Syntax"
begin

text \<open>
  The shared base of the development: names for Go's machine integers, the error values Go code
  passes around, the monad in which code that talks to the outside world is written, and the
  generic lemmas the component theories use.

  Code that calls libvirt, the operating system or gRPC is modelled as a computation that appends
  every outside call to a trace. What such a call answers is given by an environment, a record of
  functions that see the trace so far: the outside world may answer anything, and may answer
  differently each time. A theorem that quantifies over the environment therefore holds for every
  behaviour of the code that is not under \<^verbatim>\<open>src/\<close>.
\<close>

section \<open>Machine integers\<close>

type_synonym u8 = "8 word"
type_synonym u16 = "16 word"
type_synonym u32 = "32 word"
type_synonym u64 = "64 word"
type_synonym i32 = "32 word" \<comment> \<open>read with \<open>sint\<close>\<close>

text \<open>An unsigned sum that does not wrap is the sum of the numbers.\<close>

lemma unat_add_no_wrap:
  fixes a b :: "'a::len word"
  assumes "unat a + unat b < 2 ^ LENGTH('a)"
  shows "unat (a + b) = unat a + unat b"
  using assms by (simp add: unat_word_ariths)

lemma unat_mult_no_wrap:
  fixes a b :: "'a::len word"
  assumes "unat a * unat b < 2 ^ LENGTH('a)"
  shows "unat (a * b) = unat a * unat b"
  using assms by (simp add: unat_word_ariths)

lemma unat_sub_le:
  fixes a b :: "'a::len word"
  assumes "b \<le> a"
  shows "unat (a - b) = unat a - unat b"
  using assms by (rule unat_sub)

lemma unat_less_word: "unat (a :: 'a::len word) < 2 ^ LENGTH('a)"
  by (rule unsigned_less)

section \<open>Error values\<close>

text \<open>
  A Go \<^verbatim>\<open>error\<close>: a leaf built by \<^verbatim>\<open>errors.New\<close> (or by a library), or an error wrapped by
  \<^verbatim>\<open>fmt.Errorf\<close> with \<^verbatim>\<open>%w\<close>, whose text goes before and after that of the error it wraps.
  \<open>err_is\<close> is \<^verbatim>\<open>errors.Is\<close>: it looks through the wrappers.
\<close>

datatype goerr = Leaf string | Wrap string goerr string

fun err_text :: "goerr \<Rightarrow> string" where
  "err_text (Leaf s) = s"
| "err_text (Wrap pre e post) = pre @ err_text e @ post"

fun err_root :: "goerr \<Rightarrow> goerr" where
  "err_root (Leaf s) = Leaf s"
| "err_root (Wrap pre e post) = err_root e"

fun err_is :: "goerr \<Rightarrow> goerr \<Rightarrow> bool" where
  "err_is (Leaf s) target = (Leaf s = target)"
| "err_is (Wrap pre e post) target = (Wrap pre e post = target \<or> err_is e target)"

definition wrap :: "string \<Rightarrow> goerr \<Rightarrow> goerr" where
  "wrap pre e = Wrap pre e []"

lemma err_root_wrap [simp]: "err_root (wrap pre e) = err_root e"
  by (simp add: wrap_def)

lemma err_text_wrap [simp]: "err_text (wrap pre e) = pre @ err_text e"
  by (simp add: wrap_def)

lemma err_is_wrap_Leaf [simp]: "err_is (wrap pre e) (Leaf s) = err_is e (Leaf s)"
  by (simp add: wrap_def)

definition canceled :: goerr where
  "canceled = Leaf ''context canceled''"

definition deadlineExceeded :: goerr where
  "deadlineExceeded = Leaf ''context deadline exceeded''"

section \<open>Computations over a trace of outside calls\<close>

named_theorems io_simps \<open>equations that run a computation over a trace\<close>

type_synonym ('e, 'a) io = "('e list, 'a) state"

abbreviation ret :: "'a \<Rightarrow> ('e, 'a) io" where
  "ret x \<equiv> State_Monad.return x"

text \<open>
  \<open>ask mk reply\<close> makes one outside call: the environment answers with \<open>reply\<close> of the trace so far,
  and the event \<open>mk\<close> of that answer is appended.
\<close>

definition ask :: "('a \<Rightarrow> 'e) \<Rightarrow> ('e list \<Rightarrow> 'a) \<Rightarrow> ('e, 'a) io" where
  "ask mk reply = State (\<lambda>t. (reply t, t @ [mk (reply t)]))"

lemma run_ask [io_simps]: "run_state (ask mk reply) t = (reply t, t @ [mk (reply t)])"
  by (simp add: ask_def)

lemma run_ret [io_simps]: "run_state (ret x) t = (x, t)"
  by (simp add: State_Monad.return_def)

lemma run_bind [io_simps]:
  "run_state (m \<bind> f) t = (case run_state m t of (a, t') \<Rightarrow> run_state (f a) t')"
  by (simp add: State_Monad.bind_def split_def)

text \<open>
  \<open>emits m Q\<close>: whatever the trace so far, \<open>m\<close> only appends to it, and what it appends and
  returns satisfies \<open>Q\<close>.
\<close>

definition emits :: "('e, 'a) io \<Rightarrow> ('e list \<Rightarrow> 'e list \<Rightarrow> 'a \<Rightarrow> bool) \<Rightarrow> bool" where
  "emits m Q \<longleftrightarrow>
     (\<forall>t. \<exists>es. snd (run_state m t) = t @ es \<and> Q t es (fst (run_state m t)))"

lemma emitsI:
  assumes "\<And>t. \<exists>es. snd (run_state m t) = t @ es \<and> Q t es (fst (run_state m t))"
  shows "emits m Q"
  using assms by (simp add: emits_def)

lemma emitsE:
  assumes "emits m Q"
  obtains es where "run_state m t = (fst (run_state m t), t @ es)"
    and "Q t es (fst (run_state m t))"
  using assms unfolding emits_def by (metis prod.collapse)

lemma emits_mono:
  assumes "emits m Q" and "\<And>t es a. Q t es a \<Longrightarrow> Q' t es a"
  shows "emits m Q'"
  using assms unfolding emits_def by blast

lemma emits_ret: "(\<And>t. Q t [] x) \<Longrightarrow> emits (ret x) Q"
  by (rule emitsI) (simp add: io_simps)

lemma emits_ask: "(\<And>t. Q t [mk (reply t)] (reply t)) \<Longrightarrow> emits (ask mk reply) Q"
  by (rule emitsI) (simp add: io_simps)

lemma emits_bind:
  assumes m: "emits m R"
    and f: "\<And>a. emits (f a) (\<lambda>t' es' b. \<forall>t es. t' = t @ es \<longrightarrow> R t es a \<longrightarrow> Q t (es @ es') b)"
  shows "emits (m \<bind> f) Q"
proof (rule emitsI)
  fix t
  obtain es where run: "run_state m t = (fst (run_state m t), t @ es)"
    and R: "R t es (fst (run_state m t))"
    by (rule emitsE [OF m])
  let ?a = "fst (run_state m t)"
  obtain es' where run': "run_state (f ?a) (t @ es) = (fst (run_state (f ?a) (t @ es)), (t @ es) @ es')"
    and Q: "\<forall>t1 es1. t @ es = t1 @ es1 \<longrightarrow> R t1 es1 ?a \<longrightarrow>
              Q t1 (es1 @ es') (fst (run_state (f ?a) (t @ es)))"
    by (rule emitsE [OF f])
  have "run_state (m \<bind> f) t = run_state (f ?a) (t @ es)"
    by (subst run_bind, subst run) simp
  with run' Q R show "\<exists>es. snd (run_state (m \<bind> f) t) = t @ es \<and>
      Q t es (fst (run_state (m \<bind> f) t))"
    by (metis append.assoc snd_conv)
qed

text \<open>
  The commonest use: every event a computation emits satisfies a predicate.
\<close>

definition only :: "('e \<Rightarrow> bool) \<Rightarrow> ('e, 'a) io \<Rightarrow> bool" where
  "only P m \<longleftrightarrow> emits m (\<lambda>t es a. \<forall>e \<in> set es. P e)"

lemma only_ret [intro!]: "only P (ret x)"
  unfolding only_def by (rule emits_ret) simp

lemma only_ask [intro!]: "(\<And>r. P (mk r)) \<Longrightarrow> only P (ask mk reply)"
  unfolding only_def by (rule emits_ask) simp

lemma only_bind [intro!]:
  assumes "only P m" and "\<And>a. only P (f a)"
  shows "only P (m \<bind> f)"
  using assms(1) unfolding only_def
  by (rule emits_bind) (rule emits_mono [OF assms(2) [unfolded only_def]], auto)

lemma only_mono: "only P m \<Longrightarrow> (\<And>e. P e \<Longrightarrow> P' e) \<Longrightarrow> only P' m"
  unfolding only_def by (erule emits_mono) auto

lemma only_run:
  assumes "only P m" and "run_state m t = (a, t')"
  obtains es where "t' = t @ es" and "\<forall>e \<in> set es. P e"
proof -
  have "\<exists>es. snd (run_state m t) = t @ es \<and> (\<forall>e \<in> set es. P e)"
    using assms(1) unfolding only_def emits_def by blast
  with assms(2) that show thesis by auto
qed

text \<open>
  Weakest preconditions: \<open>wp m Q t\<close> says that \<open>m\<close>, run after the trace \<open>t\<close>, ends with an answer and a
  trace that satisfy \<open>Q\<close>. A straight-line computation is calculated away by \<open>wp_simps\<close>.
\<close>

named_theorems wp_simps \<open>weakest preconditions of the primitives\<close>

definition wp :: "('e, 'a) io \<Rightarrow> ('a \<Rightarrow> 'e list \<Rightarrow> bool) \<Rightarrow> 'e list \<Rightarrow> bool" where
  "wp m Q t = (case run_state m t of (a, t') \<Rightarrow> Q a t')"

lemma wp_ret [wp_simps]: "wp (ret x) Q t = Q x t"
  by (simp add: wp_def io_simps)

lemma wp_ask [wp_simps]: "wp (ask mk reply) Q t = Q (reply t) (t @ [mk (reply t)])"
  by (simp add: wp_def io_simps)

lemma wp_bind [wp_simps]: "wp (m \<bind> f) Q t = wp m (\<lambda>a. wp (f a) Q) t"
  by (simp add: wp_def io_simps split_def)

lemma wp_mono: "wp m Q t \<Longrightarrow> (\<And>a t'. Q a t' \<Longrightarrow> Q' a t') \<Longrightarrow> wp m Q' t"
  by (auto simp: wp_def split_def)

lemma wp_seq: "wp m Q t \<Longrightarrow> (\<And>a t'. Q a t' \<Longrightarrow> wp (f a) R t') \<Longrightarrow> wp (m \<bind> f) R t"
  unfolding wp_bind by (rule wp_mono)

lemma wp_conj: "wp m Q t \<Longrightarrow> wp m Q' t \<Longrightarrow> wp m (\<lambda>a t'. Q a t' \<and> Q' a t') t"
  by (simp add: wp_def split_def)

lemma wp_any: "(\<And>a t'. wp (f a) Q t') \<Longrightarrow> wp (m \<bind> f) Q t"
  by (simp add: wp_bind wp_def [of m] split_def)

lemma wp_sum_case:
  "(\<And>e. x = Inl e \<Longrightarrow> wp (f e) Q t) \<Longrightarrow> (\<And>b. x = Inr b \<Longrightarrow> wp (g b) Q t) \<Longrightarrow> wp (case_sum f g x) Q t"
  by (cases x) simp_all

lemma wp_option_case:
  "(x = None \<Longrightarrow> wp m Q t) \<Longrightarrow> (\<And>b. x = Some b \<Longrightarrow> wp (g b) Q t) \<Longrightarrow> wp (case_option m g x) Q t"
  by (cases x) simp_all

lemma wp_prod_case: "(\<And>a b. x = (a, b) \<Longrightarrow> wp (g a b) Q t) \<Longrightarrow> wp (case_prod g x) Q t"
  by (cases x) simp

lemma wp_if: "(b \<Longrightarrow> wp m Q t) \<Longrightarrow> (\<not> b \<Longrightarrow> wp m' Q t) \<Longrightarrow> wp (if b then m else m') Q t"
  by simp

lemmas wp_cases = wp_sum_case wp_option_case wp_prod_case wp_if

lemma wp_retI: "Q x t \<Longrightarrow> wp (ret x) Q t"
  by (simp add: wp_ret)

lemma wp_askI: "Q (reply t) (t @ [mk (reply t)]) \<Longrightarrow> wp (ask mk reply) Q t"
  by (simp add: wp_ask)

lemma wp_bindI: "wp m (\<lambda>a. wp (f a) Q) t \<Longrightarrow> wp (m \<bind> f) Q t"
  by (simp add: wp_bind)

text \<open>Stepping through a straight-line computation and its branches by \<open>intro\<close>.\<close>

lemmas wp_steps = wp_cases wp_retI wp_askI wp_bindI

lemma wp_run: "wp m Q t \<Longrightarrow> run_state m t = (a, t') \<Longrightarrow> Q a t'"
  by (simp add: wp_def)

lemma wp_fst_snd: "wp m Q t \<longleftrightarrow> Q (fst (run_state m t)) (snd (run_state m t))"
  by (simp add: wp_def split_def)

lemma wp_emits: "emits m Q \<longleftrightarrow> (\<forall>t. wp m (\<lambda>a t'. \<exists>es. t' = t @ es \<and> Q t es a) t)"
  by (auto simp: emits_def wp_def split_def)

end
