(* ===== verification/Go_Strings.thy ===== *)
theory Go_Strings
  imports Prelude
begin

text \<open>
  What the agent uses of Go's packages \<^verbatim>\<open>strings\<close>, \<^verbatim>\<open>strconv\<close> (integers) and \<^verbatim>\<open>path/filepath\<close>,
  on byte strings. White space, letter case and \<^verbatim>\<open>EqualFold\<close> are those of ASCII; on text outside
  ASCII Go's functions know more spaces and letters. \<^verbatim>\<open>strings.Split\<close> and \<^verbatim>\<open>strings.SplitN\<close> occur
  in the code with a separator of one byte only, and are modelled so.
\<close>

section \<open>Package strings\<close>

definition is_space :: "char \<Rightarrow> bool" where
  "is_space c \<longleftrightarrow> c \<in> {CHR '' '', CHR 0x09, CHR 0x0A, CHR 0x0B, CHR 0x0C, CHR 0x0D}"

definition trimLeftSpace :: "string \<Rightarrow> string" where
  "trimLeftSpace s = dropWhile is_space s"

definition trimSpace :: "string \<Rightarrow> string" where
  "trimSpace s = rev (dropWhile is_space (rev (dropWhile is_space s)))"

fun strFields_go :: "string \<Rightarrow> string \<Rightarrow> string list" where
  "strFields_go cur [] = (if cur = [] then [] else [rev cur])"
| "strFields_go cur (c # cs) =
     (if is_space c then (if cur = [] then strFields_go [] cs else rev cur # strFields_go [] cs)
      else strFields_go (c # cur) cs)"

definition strFields :: "string \<Rightarrow> string list" where
  "strFields s = strFields_go [] s"

fun splitChar :: "char \<Rightarrow> string \<Rightarrow> string list" where
  "splitChar sep [] = [[]]"
| "splitChar sep (c # cs) =
     (if c = sep then [] # splitChar sep cs
      else (case splitChar sep cs of [] \<Rightarrow> [[c]] | w # ws \<Rightarrow> (c # w) # ws))"

definition lines :: "string \<Rightarrow> string list" where
  "lines s = splitChar (CHR 0x0A) s"

text \<open>\<^verbatim>\<open>strings.SplitN(s, sep, 2)\<close>: two parts when the separator occurs, else one.\<close>

definition splitN2 :: "char \<Rightarrow> string \<Rightarrow> string list" where
  "splitN2 sep s =
     (if sep \<in> set s
      then [takeWhile (\<lambda>c. c \<noteq> sep) s, tl (dropWhile (\<lambda>c. c \<noteq> sep) s)] else [s])"

definition hasPrefix :: "string \<Rightarrow> string \<Rightarrow> bool" where
  "hasPrefix s p \<longleftrightarrow> take (length p) s = p"

definition hasSuffix :: "string \<Rightarrow> string \<Rightarrow> bool" where
  "hasSuffix s p \<longleftrightarrow> length p \<le> length s \<and> drop (length s - length p) s = p"

definition trimPrefix :: "string \<Rightarrow> string \<Rightarrow> string" where
  "trimPrefix s p = (if hasPrefix s p then drop (length p) s else s)"

definition trimSuffix :: "string \<Rightarrow> string \<Rightarrow> string" where
  "trimSuffix s p = (if hasSuffix s p then take (length s - length p) s else s)"

definition trimRight :: "string \<Rightarrow> string \<Rightarrow> string" where
  "trimRight s cutset = rev (dropWhile (\<lambda>c. c \<in> set cutset) (rev s))"

fun index_of :: "string \<Rightarrow> string \<Rightarrow> nat option" where
  "index_of [] sub = (if sub = [] then Some 0 else None)"
| "index_of (c # cs) sub =
     (if hasPrefix (c # cs) sub then Some 0 else map_option Suc (index_of cs sub))"

definition contains :: "string \<Rightarrow> string \<Rightarrow> bool" where
  "contains s sub \<longleftrightarrow> index_of s sub \<noteq> None"

fun last_index_char :: "string \<Rightarrow> char \<Rightarrow> nat option" where
  "last_index_char [] c = None"
| "last_index_char (x # xs) c =
     (case last_index_char xs c of Some i \<Rightarrow> Some (Suc i)
      | None \<Rightarrow> (if x = c then Some 0 else None))"

definition lower_char :: "char \<Rightarrow> char" where
  "lower_char c =
     (if 65 \<le> (of_char c :: nat) \<and> (of_char c :: nat) \<le> 90 then char_of ((of_char c :: nat) + 32)
      else c)"

definition toLower :: "string \<Rightarrow> string" where
  "toLower s = map lower_char s"

definition equalFold :: "string \<Rightarrow> string \<Rightarrow> bool" where
  "equalFold a b \<longleftrightarrow> toLower a = toLower b"

fun joinStr :: "string list \<Rightarrow> string \<Rightarrow> string" where
  "joinStr [] sep = []"
| "joinStr [x] sep = x"
| "joinStr (x # y # ys) sep = x @ sep @ joinStr (y # ys) sep"

definition count_char :: "string \<Rightarrow> char \<Rightarrow> nat" where
  "count_char s c = length (filter (\<lambda>x. x = c) s)"

section \<open>Package strconv: integers\<close>

definition is_digit :: "char \<Rightarrow> bool" where
  "is_digit c \<longleftrightarrow> 48 \<le> (of_char c :: nat) \<and> (of_char c :: nat) \<le> 57"

definition digit_val :: "char \<Rightarrow> nat" where
  "digit_val c = (of_char c :: nat) - 48"

definition digits_val :: "string \<Rightarrow> nat" where
  "digits_val s = foldl (\<lambda>n c. 10 * n + digit_val c) 0 s"

text \<open>
  \<^verbatim>\<open>strconv.ParseUint(s, 10, 64)\<close>, \<open>None\<close> for either of its errors: no digit string, or a
  number that does not fit.
\<close>

definition parseUint :: "string \<Rightarrow> u64 option" where
  "parseUint s =
     (if s = [] \<or> \<not> list_all is_digit s then None
      else if digits_val s < 2 ^ 64 then Some (of_nat (digits_val s)) else None)"

definition atoi :: "string \<Rightarrow> int option" where
  "atoi s =
     (let neg = hasPrefix s ''-'';
          body = (if neg \<or> hasPrefix s ''+'' then tl s else s)
      in if body = [] \<or> \<not> list_all is_digit body then None
         else let n = (if neg then - int (digits_val body) else int (digits_val body))
              in if - (2 ^ 63) \<le> n \<and> n < 2 ^ 63 then Some n else None)"

fun show_nat :: "nat \<Rightarrow> string" where
  "show_nat n = (if n < 10 then [char_of (48 + n)] else show_nat (n div 10) @ [char_of (48 + n mod 10)])"

declare show_nat.simps [simp del]

definition formatUint :: "u64 \<Rightarrow> string" where
  "formatUint w = show_nat (unat w)"

text \<open>Hexadecimal digits, and numbers with a fixed number of them.\<close>

definition hex_digit :: "nat \<Rightarrow> char" where
  "hex_digit d = (if d < 10 then char_of (48 + d) else char_of (87 + d))"

fun hex_fixed :: "nat \<Rightarrow> nat \<Rightarrow> string" where
  "hex_fixed 0 v = []"
| "hex_fixed (Suc n) v = hex_fixed n (v div 16) @ [hex_digit (v mod 16)]"

text \<open>\<^verbatim>\<open>strconv.Quote\<close> (and \<^verbatim>\<open>%q\<close>) on ASCII text.\<close>

definition quote_char :: "char \<Rightarrow> string" where
  "quote_char c =
     (if c = CHR 0x22 \<or> c = CHR 0x5C then [CHR 0x5C, c]
      else if c = CHR 0x07 then [CHR 0x5C, CHR ''a''] else if c = CHR 0x08 then [CHR 0x5C, CHR ''b'']
      else if c = CHR 0x0C then [CHR 0x5C, CHR ''f''] else if c = CHR 0x0A then [CHR 0x5C, CHR ''n'']
      else if c = CHR 0x0D then [CHR 0x5C, CHR ''r''] else if c = CHR 0x09 then [CHR 0x5C, CHR ''t'']
      else if c = CHR 0x0B then [CHR 0x5C, CHR ''v'']
      else if (of_char c :: nat) < 32 \<or> (of_char c :: nat) = 127
        then [CHR 0x5C, CHR ''x''] @ hex_fixed 2 (of_char c)
      else [c])"

definition quoteGo :: "string \<Rightarrow> string" where
  "quoteGo s = CHR 0x22 # concat (map quote_char s) @ [CHR 0x22]"

text \<open>The error of \<^verbatim>\<open>strconv.ParseUint\<close>: a number out of range is noticed before what follows it.\<close>

definition parseUintErr :: "string \<Rightarrow> goerr" where
  "parseUintErr s =
     Leaf (''strconv.ParseUint: parsing '' @ quoteGo s @ '': '' @
       (if 2 ^ 64 \<le> digits_val (takeWhile is_digit s) then ''value out of range'' else ''invalid syntax''))"

section \<open>Package path/filepath\<close>

text \<open>
  \<^verbatim>\<open>filepath.Clean\<close> works on the path's elements: \<open>.\<close> and empty elements go, \<open>..\<close> takes
  back the element before it, and at the root it is dropped.
\<close>

fun clean_elems :: "bool \<Rightarrow> string list \<Rightarrow> string list \<Rightarrow> string list" where
  "clean_elems rooted acc [] = rev acc"
| "clean_elems rooted acc (e # es) =
     (if e = [] \<or> e = ''.'' then clean_elems rooted acc es
      else if e = ''..'' then
        (case acc of
           [] \<Rightarrow> clean_elems rooted (if rooted then [] else [''..'']) es
         | a # as \<Rightarrow> if a = ''..'' then clean_elems rooted (''..'' # acc) es
                     else clean_elems rooted as es)
      else clean_elems rooted (e # acc) es)"

definition fpClean :: "string \<Rightarrow> string" where
  "fpClean p =
     (let rooted = hasPrefix p ''/'';
          body = joinStr (clean_elems rooted [] (splitChar (CHR ''/'') p)) ''/'';
          out = (if rooted then CHR ''/'' # body else body)
      in if out = [] then ''.'' else out)"

definition fpJoin :: "string list \<Rightarrow> string" where
  "fpJoin es =
     (let ne = dropWhile (\<lambda>e. e = []) es
      in if ne = [] then [] else fpClean (joinStr ne ''/''))"

definition fpDir :: "string \<Rightarrow> string" where
  "fpDir p =
     (case last_index_char p (CHR ''/'') of
        None \<Rightarrow> ''.''
      | Some i \<Rightarrow> fpClean (take (Suc i) p))"

definition fpBase :: "string \<Rightarrow> string" where
  "fpBase p =
     (if p = [] then ''.''
      else let q = trimRight p ''/''
           in if q = [] then ''/''
              else (case last_index_char q (CHR ''/'') of
                      None \<Rightarrow> q | Some i \<Rightarrow> drop (Suc i) q))"

definition fpIsAbs :: "string \<Rightarrow> bool" where
  "fpIsAbs p \<longleftrightarrow> hasPrefix p ''/''"

section \<open>Facts\<close>

subsection \<open>Trimming\<close>

lemma trimSpace_Nil [simp]: "trimSpace [] = []"
  by (simp add: trimSpace_def)

lemma dropWhile_hd: "dropWhile P xs = y # ys \<Longrightarrow> \<not> P y"
  by (metis hd_dropWhile list.distinct(1) list.sel(1))

lemma trimSpace_hd: "trimSpace s = c # cs \<Longrightarrow> \<not> is_space c"
proof -
  assume t: "trimSpace s = c # cs"
  let ?d = "dropWhile is_space s"
  have "rev ?d = takeWhile is_space (rev ?d) @ rev (c # cs)"
    using t unfolding trimSpace_def
    by (metis rev_rev_ident takeWhile_dropWhile_id)
  then have "?d = (c # cs) @ rev (takeWhile is_space (rev ?d))"
    by (metis rev_append rev_rev_ident)
  then show "\<not> is_space c" by (metis append_Cons dropWhile_hd)
qed

lemma dropWhile_idle: "(xs = [] \<or> \<not> P (hd xs)) \<Longrightarrow> dropWhile P xs = xs"
  by (cases xs) auto

lemma trimSpace_last: "trimSpace s \<noteq> [] \<Longrightarrow> \<not> is_space (last (trimSpace s))"
proof -
  assume ne: "trimSpace s \<noteq> []"
  let ?r = "dropWhile is_space (rev (dropWhile is_space s))"
  from ne have "?r \<noteq> []" by (simp add: trimSpace_def)
  then have "\<not> is_space (hd ?r)" by (rule hd_dropWhile)
  with ne show ?thesis by (simp add: trimSpace_def last_rev)
qed

lemma trimSpace_idem [simp]: "trimSpace (trimSpace s) = trimSpace s"
proof (cases "trimSpace s = []")
  case True
  then show ?thesis by simp
next
  case False
  let ?t = "trimSpace s"
  from False have h: "\<not> is_space (hd ?t)"
    by (metis list.collapse trimSpace_hd)
  have l: "\<not> is_space (hd (rev ?t))"
    using trimSpace_last [OF False] by (simp add: hd_rev)
  have "dropWhile is_space ?t = ?t" using h by (rule dropWhile_idle [OF disjI2])
  moreover have "dropWhile is_space (rev ?t) = rev ?t"
    using l by (rule dropWhile_idle [OF disjI2])
  ultimately show ?thesis by (simp add: trimSpace_def [of ?t])
qed

subsection \<open>Fields\<close>

lemma strFields_go_nonempty: "w \<in> set (strFields_go cur s) \<Longrightarrow> w \<noteq> []"
  by (induction cur s rule: strFields_go.induct) (auto split: if_splits)

lemma strFields_nonempty: "w \<in> set (strFields s) \<Longrightarrow> w \<noteq> []"
  by (simp add: strFields_def strFields_go_nonempty)

lemma strFields_go_no_space:
  "list_all (\<lambda>c. \<not> is_space c) cur \<Longrightarrow>
   list_all (list_all (\<lambda>c. \<not> is_space c)) (strFields_go cur s)"
  by (induction cur s rule: strFields_go.induct) simp_all

lemma strFields_no_space: "w \<in> set (strFields s) \<Longrightarrow> c \<in> set w \<Longrightarrow> \<not> is_space c"
  using strFields_go_no_space [of "[]" s] by (auto simp: strFields_def list_all_iff)

lemma strFields_go_Nil_iff: "strFields_go cur s = [] \<longleftrightarrow> cur = [] \<and> (\<forall>c \<in> set s. is_space c)"
  by (induction cur s rule: strFields_go.induct) auto

lemma fields_Nil_iff: "strFields s = [] \<longleftrightarrow> (\<forall>c \<in> set s. is_space c)"
  by (simp add: strFields_def strFields_go_Nil_iff)

lemma trimSpace_Nil_iff: "trimSpace s = [] \<longleftrightarrow> (\<forall>c \<in> set s. is_space c)"
proof
  assume "trimSpace s = []"
  then have "\<forall>c \<in> set (dropWhile is_space s). is_space c"
    by (simp add: trimSpace_def)
  then have "dropWhile is_space s = []"
    by (metis dropWhile_hd list.exhaust list.set_intros(1))
  then show "\<forall>c \<in> set s. is_space c" by simp
next
  assume "\<forall>c \<in> set s. is_space c"
  then have "dropWhile is_space s = []" by (simp only: dropWhile_eq_Nil_conv)
  then show "trimSpace s = []" unfolding trimSpace_def by (simp only: dropWhile.simps rev.simps)
qed

lemma strFields_of_trimmed: "trimSpace s \<noteq> [] \<Longrightarrow> strFields (trimSpace s) \<noteq> []"
  by (metis fields_Nil_iff trimSpace_Nil_iff trimSpace_idem)

subsection \<open>Prefixes and splitting\<close>

lemma hasPrefix_iff: "hasPrefix s p \<longleftrightarrow> (\<exists>r. s = p @ r)"
  unfolding hasPrefix_def by (metis append_eq_conv_conj append_take_drop_id)

lemma hasPrefix_append [simp]: "hasPrefix (p @ r) p"
  by (auto simp: hasPrefix_iff)

lemma hasSuffix_append [simp]: "hasSuffix (r @ p) p"
  by (simp add: hasSuffix_def)

lemma trimSuffix_append [simp]: "trimSuffix (r @ p) p = r"
  by (simp add: trimSuffix_def hasSuffix_def)

lemma splitChar_nonempty [simp]: "splitChar sep s \<noteq> []"
  by (cases s) (auto split: list.splits)

lemma joinStr_splitChar: "joinStr (splitChar sep s) [sep] = s"
proof (induction s)
  case Nil
  then show ?case by simp
next
  case (Cons c cs)
  obtain w ws where ws: "splitChar sep cs = w # ws"
    by (metis list.exhaust splitChar_nonempty)
  show ?case using Cons ws by (cases ws) auto
qed

subsection \<open>Decimal numbers\<close>

lemma digits_val_append1: "digits_val (s @ [c]) = 10 * digits_val s + digit_val c"
  by (simp add: digits_val_def)

lemma digit_of_digit:
  assumes "d < 10"
  shows "is_digit (char_of (48 + d :: nat))" and "digit_val (char_of (48 + d :: nat)) = d"
  using assms by (simp_all add: is_digit_def digit_val_def)

lemma show_nat_digits: "list_all is_digit (show_nat n) \<and> digits_val (show_nat n) = n \<and> show_nat n \<noteq> []"
proof (induction n rule: show_nat.induct)
  case (1 n)
  show ?case
  proof (cases "n < 10")
    case True
    then show ?thesis
      by (subst (1 2 3) show_nat.simps) (simp add: digit_of_digit digits_val_def)
  next
    case False
    with 1 have IH: "list_all is_digit (show_nat (n div 10))"
      "digits_val (show_nat (n div 10)) = n div 10" by auto
    have "n mod 10 < 10" by simp
    with False IH show ?thesis
      by (subst (1 2 3) show_nat.simps) (simp add: digit_of_digit digits_val_append1)
  qed
qed

lemma parseUint_formatUint [simp]: "parseUint (formatUint w) = Some w"
  using show_nat_digits [of "unat w"] unat_less_word [of w]
  by (simp add: parseUint_def formatUint_def)

lemma show_nat_inj: "show_nat m = show_nat n \<Longrightarrow> m = n"
  by (metis show_nat_digits)

end
