(* ===== verification/Go_Float.thy ===== *)
theory Go_Float
  imports Go_Strings Complex_Main
begin

text \<open>
  Go's \<^verbatim>\<open>float64\<close>: IEEE binary64. A finite value is the rational number it stands for (the two
  zeros are one value here), and every operation computes exactly and then rounds to the nearest
  binary64 number, ties to even. The comparison operators answer false on a NaN, as in Go.
  \<open>parseFloat\<close> is \<^verbatim>\<open>strconv.ParseFloat(s, 64)\<close>.
\<close>

section \<open>Rounding\<close>

fun ilog2 :: "nat \<Rightarrow> nat" where
  "ilog2 n = (if n \<le> 1 then 0 else Suc (ilog2 (n div 2)))"

declare ilog2.simps [simp del]

text \<open>\<open>flog2 x\<close> is the binary exponent of a positive rational: \<open>2 powi flog2 x \<le> x\<close>.\<close>

definition flog2 :: "rat \<Rightarrow> int" where
  "flog2 x =
     (let (p, q) = quotient_of x;
          d = int (ilog2 (nat p)) - int (ilog2 (nat q))
      in if 2 powi d \<le> x then d else d - 1)"

definition round_half_even :: "rat \<Rightarrow> int" where
  "round_half_even y =
     (let f = \<lfloor>y\<rfloor>; r = y - of_int f
      in if r < 1 / 2 then f else if 1 / 2 < r then f + 1 else if even f then f else f + 1)"

datatype f64 = NaN | PInf | NInf | Fin rat

text \<open>
  The unit in the last place of a number with binary exponent \<open>k\<close> is \<open>2 powi (k - 52)\<close>, and never
  less than \<open>2 powi -1074\<close> (the subnormal numbers). What rounds to \<open>2 ^ 1024\<close> or more is an
  infinity.
\<close>

definition ulp :: "rat \<Rightarrow> rat" where
  "ulp x = 2 powi (max (flog2 x - 52) (- 1074))"

definition rnd_pos :: "rat \<Rightarrow> rat" where
  "rnd_pos x = of_int (round_half_even (x / ulp x)) * ulp x"

definition rnd :: "rat \<Rightarrow> f64" where
  "rnd x =
     (if x = 0 then Fin 0
      else if 0 < x then (if rnd_pos x < 2 ^ 1024 then Fin (rnd_pos x) else PInf)
      else (if rnd_pos (- x) < 2 ^ 1024 then Fin (- rnd_pos (- x)) else NInf))"

section \<open>Arithmetic and comparison\<close>

instantiation f64 :: "{zero, one, plus, uminus, minus, times, inverse, ord}"
begin

definition zero_f64 :: f64 where "zero_f64 = Fin 0"

definition one_f64 :: f64 where "one_f64 = Fin 1"

fun uminus_f64 :: "f64 \<Rightarrow> f64" where
  "uminus_f64 NaN = NaN"
| "uminus_f64 PInf = NInf"
| "uminus_f64 NInf = PInf"
| "uminus_f64 (Fin a) = Fin (- a)"

fun plus_f64 :: "f64 \<Rightarrow> f64 \<Rightarrow> f64" where
  "plus_f64 (Fin a) (Fin b) = rnd (a + b)"
| "plus_f64 NaN _ = NaN"
| "plus_f64 _ NaN = NaN"
| "plus_f64 PInf NInf = NaN"
| "plus_f64 NInf PInf = NaN"
| "plus_f64 PInf _ = PInf"
| "plus_f64 _ PInf = PInf"
| "plus_f64 NInf _ = NInf"
| "plus_f64 _ NInf = NInf"

definition minus_f64 :: "f64 \<Rightarrow> f64 \<Rightarrow> f64" where
  "minus_f64 x y = x + (- y)"

definition signed_inf :: "bool \<Rightarrow> f64" where
  "signed_inf pos = (if pos then PInf else NInf)"

fun times_f64 :: "f64 \<Rightarrow> f64 \<Rightarrow> f64" where
  "times_f64 (Fin a) (Fin b) = rnd (a * b)"
| "times_f64 NaN _ = NaN"
| "times_f64 _ NaN = NaN"
| "times_f64 PInf PInf = PInf"
| "times_f64 PInf NInf = NInf"
| "times_f64 NInf PInf = NInf"
| "times_f64 NInf NInf = PInf"
| "times_f64 PInf (Fin b) = (if b = 0 then NaN else signed_inf (0 < b))"
| "times_f64 NInf (Fin b) = (if b = 0 then NaN else signed_inf (b < 0))"
| "times_f64 (Fin a) PInf = (if a = 0 then NaN else signed_inf (0 < a))"
| "times_f64 (Fin a) NInf = (if a = 0 then NaN else signed_inf (a < 0))"

fun divide_f64 :: "f64 \<Rightarrow> f64 \<Rightarrow> f64" where
  "divide_f64 (Fin a) (Fin b) =
     (if b = 0 then (if a = 0 then NaN else signed_inf (0 < a)) else rnd (a / b))"
| "divide_f64 NaN _ = NaN"
| "divide_f64 _ NaN = NaN"
| "divide_f64 (Fin a) _ = Fin 0"
| "divide_f64 PInf (Fin b) = signed_inf (0 \<le> b)"
| "divide_f64 NInf (Fin b) = signed_inf (b < 0)"
| "divide_f64 _ _ = NaN"

definition inverse_f64 :: "f64 \<Rightarrow> f64" where
  "inverse_f64 x = Fin 1 div x"

fun less_f64 :: "f64 \<Rightarrow> f64 \<Rightarrow> bool" where
  "less_f64 (Fin a) (Fin b) = (a < b)"
| "less_f64 NaN _ = False"
| "less_f64 _ NaN = False"
| "less_f64 PInf _ = False"
| "less_f64 NInf NInf = False"
| "less_f64 NInf _ = True"
| "less_f64 (Fin a) PInf = True"
| "less_f64 (Fin a) NInf = False"

definition less_eq_f64 :: "f64 \<Rightarrow> f64 \<Rightarrow> bool" where
  "less_eq_f64 x y \<longleftrightarrow> x < y \<or> (x = y \<and> x \<noteq> NaN)"

instance ..

end

text \<open>Go's \<^verbatim>\<open>==\<close> on floats.\<close>

definition feq :: "f64 \<Rightarrow> f64 \<Rightarrow> bool" where
  "feq x y \<longleftrightarrow> x = y \<and> x \<noteq> NaN"

definition is_finite :: "f64 \<Rightarrow> bool" where
  "is_finite x \<longleftrightarrow> x \<noteq> NaN \<and> x \<noteq> PInf \<and> x \<noteq> NInf"

section \<open>Conversions\<close>

definition f64_of_u64 :: "u64 \<Rightarrow> f64" where
  "f64_of_u64 w = rnd (of_nat (unat w))"

definition f64_of_int :: "int \<Rightarrow> f64" where
  "f64_of_int i = rnd (of_int i)"

text \<open>
  What Go leaves to the platform: the result of \<^verbatim>\<open>uint64(f)\<close> when \<^verbatim>\<open>f\<close> truncated does not fit, the
  architecture's name, the page size, the number of CPUs.
\<close>

record platform =
  cvt_u64 :: "f64 \<Rightarrow> u64"
  goarch :: string
  page_size :: int
  num_cpu :: int

fun trunc_rat :: "rat \<Rightarrow> int" where
  "trunc_rat r = (if r < 0 then - \<lfloor>- r\<rfloor> else \<lfloor>r\<rfloor>)"

definition u64_of_f64 :: "platform \<Rightarrow> f64 \<Rightarrow> u64" where
  "u64_of_f64 pf f =
     (case f of
        Fin r \<Rightarrow> (if 0 \<le> trunc_rat r \<and> trunc_rat r < 2 ^ 64 then of_int (trunc_rat r) else cvt_u64 pf f)
      | _ \<Rightarrow> cvt_u64 pf f)"

section \<open>strconv.ParseFloat\<close>

definition hex_val :: "char \<Rightarrow> nat option" where
  "hex_val c =
     (let n = (of_char (lower_char c) :: nat)
      in if is_digit c then Some (digit_val c)
         else if 97 \<le> n \<and> n \<le> 102 then Some (n - 87) else None)"

text \<open>The state of \<^verbatim>\<open>underscoreOK\<close>: the kind of character seen last.\<close>

fun underscore_scan :: "bool \<Rightarrow> char \<Rightarrow> string \<Rightarrow> bool" where
  "underscore_scan hex st [] = (st \<noteq> CHR ''_'')"
| "underscore_scan hex st (c # cs) =
     (if is_digit c \<or> hex \<and> hex_val c \<noteq> None then underscore_scan hex (CHR ''0'') cs
      else if c = CHR ''_'' then (if st \<noteq> CHR ''0'' then False else underscore_scan hex (CHR ''_'') cs)
      else if st = CHR ''_'' then False
      else underscore_scan hex (CHR ''!'') cs)"

definition drop_sign :: "string \<Rightarrow> string" where
  "drop_sign s = (if hasPrefix s ''-'' \<or> hasPrefix s ''+'' then tl s else s)"

definition underscoreOK :: "string \<Rightarrow> bool" where
  "underscoreOK s =
     (let t = drop_sign s; pre = take 2 t;
          based = length t \<ge> 2 \<and> (toLower pre = ''0b'' \<or> toLower pre = ''0o'' \<or> toLower pre = ''0x'')
      in if based then underscore_scan (toLower pre = ''0x'') (CHR ''0'') (drop 2 t)
         else underscore_scan False (CHR ''^'') t)"

text \<open>The mantissa: its digits as one number, how many came after the point, whether any came.\<close>

fun scan_mant :: "bool \<Rightarrow> bool \<Rightarrow> nat \<Rightarrow> nat \<Rightarrow> bool \<Rightarrow> string \<Rightarrow> nat \<times> nat \<times> bool \<times> string" where
  "scan_mant hex dot m fr dig [] = (m, fr, dig, [])"
| "scan_mant hex dot m fr dig (c # cs) =
     (if c = CHR ''_'' then scan_mant hex dot m fr dig cs
      else if c = CHR ''.'' then (if dot then (m, fr, dig, c # cs) else scan_mant hex True m fr dig cs)
      else if is_digit c then
        scan_mant hex dot ((if hex then 16 else 10) * m + digit_val c) (if dot then Suc fr else fr) True cs
      else (case (if hex then hex_val c else None) of
              Some v \<Rightarrow> scan_mant hex dot (16 * m + v) (if dot then Suc fr else fr) True cs
            | None \<Rightarrow> (m, fr, dig, c # cs)))"

definition scan_exp :: "string \<Rightarrow> int option" where
  "scan_exp s =
     (let neg = hasPrefix s ''-''; body = drop_sign s
      in if body = [] \<or> \<not> is_digit (hd body) \<or> \<not> list_all (\<lambda>c. is_digit c \<or> c = CHR ''_'') body then None
         else let n = int (digits_val (filter is_digit body)) in Some (if neg then - n else n))"

definition readFloat :: "string \<Rightarrow> rat option" where
  "readFloat s =
     (let neg = hasPrefix s ''-''; t = drop_sign s;
          hex = length t > 2 \<and> toLower (take 2 t) = ''0x'';
          (m, fr, dig, rest) = scan_mant hex False 0 0 False (if hex then drop 2 t else t);
          ex = (case rest of [] \<Rightarrow> (if hex then None else Some 0)
                | c # cs \<Rightarrow> if lower_char c = (if hex then CHR ''p'' else CHR ''e'') then scan_exp cs else None)
      in if \<not> dig \<or> (CHR ''_'' \<in> set s \<and> \<not> underscoreOK s) then None
         else (case ex of None \<Rightarrow> None
               | Some e \<Rightarrow>
                   let v = (if hex then of_nat m * 2 powi (e - 4 * int fr) else of_nat m * 10 powi (e - int fr))
                   in Some (if neg then - v else v)))"

text \<open>
  The value and whether the error is \<^verbatim>\<open>nil\<close>: no number gives zero and an error, a number too large
  gives an infinity and an error.
\<close>

definition parseFloat :: "string \<Rightarrow> f64 \<times> bool" where
  "parseFloat s =
     (let l = toLower s; body = drop_sign l
      in if body = ''inf'' \<or> body = ''infinity'' then (signed_inf (\<not> hasPrefix l ''-''), True)
         else if l = ''nan'' then (NaN, True)
         else (case readFloat s of
                 None \<Rightarrow> (Fin 0, False)
               | Some v \<Rightarrow> let f = rnd v in (f, f \<noteq> PInf \<and> f \<noteq> NInf)))"

section \<open>Facts about rounding\<close>

lemma ilog2_bounds: "n > 0 \<Longrightarrow> 2 ^ ilog2 n \<le> n \<and> n < 2 ^ Suc (ilog2 n)"
proof (induction n rule: ilog2.induct)
  case (1 n)
  show ?case
  proof (cases "n \<le> 1")
    case True
    with 1 have "n = 1" by simp
    then show ?thesis by (simp add: ilog2.simps)
  next
    case False
    with 1 have "2 ^ ilog2 (n div 2) \<le> n div 2 \<and> n div 2 < 2 ^ Suc (ilog2 (n div 2))" by simp
    with False show ?thesis by (subst (1 2) ilog2.simps) auto
  qed
qed

lemma flog2_bounds:
  assumes "0 < x"
  shows "2 powi flog2 x \<le> x" and "x < 2 powi (flog2 x + 1)"
proof -
  obtain p q where pq: "quotient_of x = (p, q)" by fastforce
  then have q: "0 < q" and x: "x = of_int p / of_int q"
    by (auto simp: quotient_of_denom_pos quotient_of_div)
  with assms have p: "0 < p" by (simp add: zero_less_divide_iff)
  define a where "a = ilog2 (nat p)"
  define b where "b = ilog2 (nat q)"
  have "rat_of_nat (2 ^ a) \<le> rat_of_nat (nat p)" "rat_of_nat (nat p) < rat_of_nat (2 ^ Suc a)"
    using ilog2_bounds [of "nat p"] p a_def by (simp_all only: of_nat_le_iff of_nat_less_iff)
  then have pa: "(2::rat) ^ a \<le> of_int p" and pa': "of_int p < (2::rat) ^ Suc a"
    using p by simp_all
  have "rat_of_nat (2 ^ b) \<le> rat_of_nat (nat q)" "rat_of_nat (nat q) < rat_of_nat (2 ^ Suc b)"
    using ilog2_bounds [of "nat q"] q b_def by (simp_all only: of_nat_le_iff of_nat_less_iff)
  then have qb: "(2::rat) ^ b \<le> of_int q" and qb': "of_int q < (2::rat) ^ Suc b"
    using q by simp_all
  let ?d = "int a - int b"
  have pow: "2 powi ?d = (2::rat) ^ a / 2 ^ b" by (simp add: power_int_diff)
  have up: "x < 2 powi (?d + 1)"
  proof -
    have "x < 2 ^ Suc a / of_int q" using x pa' q by (simp add: divide_strict_right_mono)
    also have "\<dots> \<le> 2 ^ Suc a / 2 ^ b" using qb q by (simp add: frac_le)
    also have "\<dots> = 2 powi (?d + 1)" by (simp add: power_int_add pow)
    finally show ?thesis .
  qed
  have low: "2 powi (?d - 1) \<le> x"
  proof -
    have "2 powi (?d - 1) = (2::rat) ^ a / 2 ^ Suc b" by (simp add: power_int_diff)
    also have "\<dots> \<le> 2 ^ a / of_int q" using qb' q by (simp add: frac_le)
    also have "\<dots> \<le> x" using x pa q by (simp add: divide_right_mono)
    finally show ?thesis .
  qed
  have fl: "flog2 x = (if 2 powi ?d \<le> x then ?d else ?d - 1)"
    by (simp add: flog2_def pq a_def b_def)
  show "2 powi flog2 x \<le> x" using low by (simp add: fl)
  show "x < 2 powi (flog2 x + 1)" using up by (simp add: fl not_le)
qed

lemma ulp_pos [simp]: "0 < ulp x"
  by (simp add: ulp_def)

lemma round_half_even_ge: "of_int n \<le> y \<Longrightarrow> n \<le> round_half_even y"
proof -
  assume "of_int n \<le> y"
  then have "n \<le> \<lfloor>y\<rfloor>" by (simp add: le_floor_iff)
  then show ?thesis by (auto simp: round_half_even_def Let_def)
qed

lemma round_half_even_of_int [simp]: "round_half_even (of_int n) = n"
  by (simp add: round_half_even_def)

lemma rnd_pos_nonneg: "0 \<le> x \<Longrightarrow> 0 \<le> rnd_pos x"
  using round_half_even_ge [of 0 "x / ulp x"] ulp_pos [of x]
  by (simp add: rnd_pos_def less_imp_le)

lemma rnd_not_NaN [simp]: "rnd x \<noteq> NaN" "NaN \<noteq> rnd x"
  by (auto simp: rnd_def)

text \<open>A float that is zero or positive, possibly infinite: what every rate and share is.\<close>

definition fnonneg :: "f64 \<Rightarrow> bool" where
  "fnonneg f \<longleftrightarrow> (case f of Fin r \<Rightarrow> 0 \<le> r | PInf \<Rightarrow> True | _ \<Rightarrow> False)"

definition fpos :: "f64 \<Rightarrow> bool" where
  "fpos f \<longleftrightarrow> (case f of Fin r \<Rightarrow> 0 < r | PInf \<Rightarrow> True | _ \<Rightarrow> False)"

lemma fnonneg_rnd: "0 \<le> x \<Longrightarrow> fnonneg (rnd x)"
  using rnd_pos_nonneg [of x] by (simp add: rnd_def fnonneg_def)

lemma fnonneg_simps [simp]:
  "fnonneg (Fin r) = (0 \<le> r)" "fnonneg PInf" "\<not> fnonneg NInf" "\<not> fnonneg NaN"
  "fpos (Fin r) = (0 < r)" "fpos PInf" "\<not> fpos NInf" "\<not> fpos NaN"
  by (simp_all add: fnonneg_def fpos_def)

lemma fnonneg_add: "fnonneg x \<Longrightarrow> fnonneg y \<Longrightarrow> fnonneg (x + y)"
  by (cases x; cases y) (auto intro: fnonneg_rnd)

lemma fnonneg_divide: "fnonneg x \<Longrightarrow> fpos y \<Longrightarrow> y \<noteq> PInf \<Longrightarrow> fnonneg (x / y)"
  by (cases x; cases y) (auto intro: fnonneg_rnd simp: signed_inf_def)

lemma fnonneg_times: "fnonneg x \<Longrightarrow> fpos y \<Longrightarrow> y \<noteq> PInf \<Longrightarrow> fnonneg (x * y)"
  by (cases x; cases y) (auto intro: fnonneg_rnd simp: signed_inf_def)

lemma fnonneg_of_u64: "fnonneg (f64_of_u64 w)"
  unfolding f64_of_u64_def by (rule fnonneg_rnd) (rule of_nat_0_le_iff)

lemma fnonneg_not_NaN: "fnonneg x \<Longrightarrow> x \<noteq> NaN"
  by (cases x) auto

lemma power_of_two_bound: "0 < x \<Longrightarrow> 0 \<le> flog2 x \<Longrightarrow> 1 \<le> rnd_pos x"
proof -
  assume x: "0 < x" and k: "0 \<le> flog2 x"
  let ?k = "flog2 x"
  have u: "ulp x = 2 powi (?k - 52)" using k by (simp add: ulp_def)
  have e: "of_int (2 ^ 52) * ulp x = 2 powi ?k"
    unfolding u by (simp add: power_int_diff)
  have "of_int (2 ^ 52) \<le> x / ulp x"
    using flog2_bounds(1) [OF x] e by (simp add: pos_le_divide_eq del: of_int_power)
  then have "2 ^ 52 \<le> round_half_even (x / ulp x)" by (rule round_half_even_ge)
  then have "of_int (2 ^ 52) * ulp x \<le> rnd_pos x"
    unfolding rnd_pos_def by (metis mult_right_mono of_int_le_iff ulp_pos less_imp_le)
  moreover have "(1::rat) \<le> 2 powi ?k" using k by (simp add: one_le_power_int)
  ultimately show ?thesis using e by simp
qed

lemma flog2_ge_0: "1 \<le> x \<Longrightarrow> 0 \<le> flog2 x"
proof (rule ccontr)
  assume x: "1 \<le> x" and "\<not> 0 \<le> flog2 x"
  then have "flog2 x + 1 \<le> 0" by simp
  then have "(2::rat) powi (flog2 x + 1) \<le> 2 powi 0" by (intro power_int_increasing) auto
  with flog2_bounds(2) [of x] x show False by simp
qed

lemma fpos_rnd_ge_1: "1 \<le> x \<Longrightarrow> fpos (rnd x)"
  using power_of_two_bound [of x] flog2_ge_0 [of x] by (auto simp: rnd_def)

lemma fpos_of_u64: "w \<noteq> 0 \<Longrightarrow> fpos (f64_of_u64 w)"
proof -
  assume "w \<noteq> 0"
  then have "0 < unat w" by (simp add: unat_gt_0)
  then have "1 \<le> unat w" by simp
  then have "(1::rat) \<le> of_nat (unat w)" by (metis of_nat_1 of_nat_le_iff)
  then show ?thesis unfolding f64_of_u64_def by (rule fpos_rnd_ge_1)
qed

text \<open>Whole numbers up to \<open>2 ^ 53\<close> in magnitude are exact.\<close>

lemma flog2_le:
  assumes "0 < x" and "x < 2 powi (k + 1)"
  shows "flog2 x \<le> k"
proof (rule ccontr)
  assume "\<not> flog2 x \<le> k"
  then have "(2::rat) powi (k + 1) \<le> 2 powi flog2 x" by (intro power_int_increasing) auto
  with flog2_bounds(1) [OF assms(1)] assms(2) show False by simp
qed

lemma rnd_pos_exact:
  assumes "0 < x" and "x = of_int m * ulp x"
  shows "rnd_pos x = x"
proof -
  from assms(2) have "x / ulp x = of_int m" by (metis nonzero_mult_div_cancel_right ulp_pos less_irrefl)
  then show ?thesis using assms(2) by (simp add: rnd_pos_def)
qed

lemma rnd_pos_of_nat:
  assumes n: "0 < n" and le: "n < 2 ^ 53"
  shows "rnd_pos (of_nat n) = of_nat n"
proof -
  let ?x = "of_nat n :: rat"
  have x: "1 \<le> ?x" using n by simp
  have "?x < 2 ^ 53" using le by (metis of_nat_less_iff of_nat_numeral of_nat_power)
  then have k: "flog2 ?x \<le> 52" using x by (intro flog2_le) (auto simp: power_int_numeral)
  have k0: "0 \<le> flog2 ?x" using x by (rule flog2_ge_0)
  have u: "ulp ?x = 2 powi (flog2 ?x - 52)" using k0 by (simp add: ulp_def)
  define j where "j = nat (52 - flog2 ?x)"
  have j: "flog2 ?x - 52 = - int j" using k by (simp add: j_def)
  have "ulp ?x = 1 / 2 ^ j" unfolding u j by (simp add: power_int_minus divide_inverse)
  then have e: "?x = of_int (int n * 2 ^ j) * ulp ?x" by simp
  have "0 < ?x" using x by linarith
  then show ?thesis using e by (rule rnd_pos_exact)
qed

lemma rnd_of_nat [simp]: "n < 2 ^ 53 \<Longrightarrow> rnd (of_nat n) = Fin (of_nat n)"
proof (cases "n = 0")
  case True
  then show ?thesis by (simp add: rnd_def)
next
  case False
  assume le: "n < 2 ^ 53"
  have "(of_nat n :: rat) < of_nat (2 ^ 53)" using le by (simp only: of_nat_less_iff)
  also have "(of_nat (2 ^ 53) :: rat) < 2 ^ 1024" by simp
  finally show ?thesis using False le by (simp add: rnd_def rnd_pos_of_nat)
qed

lemma rnd_numeral [simp]: "numeral k < (2 ^ 53 :: nat) \<Longrightarrow> rnd (numeral k) = Fin (numeral k)"
  using rnd_of_nat [of "numeral k"] by simp

lemma rnd_0 [simp]: "rnd 0 = Fin 0"
  by (simp add: rnd_def)

lemma rnd_1 [simp]: "rnd 1 = Fin 1"
  using rnd_of_nat [of 1] by simp

lemma f64_of_u64_exact: "unat w < 2 ^ 53 \<Longrightarrow> f64_of_u64 w = Fin (of_nat (unat w))"
  unfolding f64_of_u64_def by (rule rnd_of_nat)

subsection \<open>Order\<close>

text \<open>Rounding keeps the order, stays within the powers of two around a number, and keeps what is exact.\<close>

lemma round_half_even_le: "y \<le> of_int n \<Longrightarrow> round_half_even y \<le> n"
proof -
  assume y: "y \<le> of_int n"
  then have f: "\<lfloor>y\<rfloor> \<le> n" by (simp add: floor_le_iff)
  show ?thesis
  proof (cases "\<lfloor>y\<rfloor> = n")
    case True
    then have "of_int n \<le> y" by (metis of_int_floor_le)
    with y have "y = of_int n" by simp
    then show ?thesis by simp
  next
    case False
    with f show ?thesis by (auto simp: round_half_even_def Let_def)
  qed
qed

lemma round_half_even_mono: "x \<le> y \<Longrightarrow> round_half_even x \<le> round_half_even y"
proof -
  assume xy: "x \<le> y"
  show ?thesis
  proof (cases "\<lfloor>x\<rfloor> = \<lfloor>y\<rfloor>")
    case True
    with xy show ?thesis by (auto simp: round_half_even_def Let_def)
  next
    case False
    with xy have "\<lfloor>x\<rfloor> + 1 \<le> \<lfloor>y\<rfloor>" using floor_mono [OF xy] by simp
    moreover have "round_half_even x \<le> \<lfloor>x\<rfloor> + 1" "\<lfloor>y\<rfloor> \<le> round_half_even y"
      by (auto simp: round_half_even_def Let_def)
    ultimately show ?thesis by simp
  qed
qed

lemma flog2_mono: "0 < x \<Longrightarrow> x \<le> y \<Longrightarrow> flog2 x \<le> flog2 y"
proof (rule ccontr)
  assume x: "0 < x" "x \<le> y" and "\<not> flog2 x \<le> flog2 y"
  then have "(2::rat) powi (flog2 y + 1) \<le> 2 powi flog2 x" by (intro power_int_increasing) auto
  with flog2_bounds(1) [of x] flog2_bounds(2) [of y] x show False by simp
qed

lemma powi_le_iff: "(2::rat) powi j \<le> 2 powi k \<longleftrightarrow> j \<le> k"
  by (metis linorder_not_less order.strict_implies_order power_int_increasing power_int_strict_increasing
      one_le_numeral one_less_numeral_iff semiring_norm(76) not_less)

lemma ulp_pow: "ulp x \<le> 2 powi k \<Longrightarrow> \<exists>n :: int. 2 powi k = of_int n * ulp x"
proof -
  define j where "j = max (flog2 x - 52) (- 1074)"
  have u: "ulp x = 2 powi j" by (simp add: ulp_def j_def)
  assume "ulp x \<le> 2 powi k"
  then have j: "j \<le> k" by (simp add: u powi_le_iff)
  have "(2::rat) powi k = 2 powi (k - j) * 2 powi j" by (simp flip: power_int_add)
  also have "(2::rat) powi (k - j) = of_int (2 ^ nat (k - j))" using j by (simp add: power_int_def)
  finally show ?thesis unfolding u by blast
qed

lemma rnd_pos_le_pow:
  assumes "0 < x" and "x \<le> 2 powi k" and "- 1074 \<le> k"
  shows "rnd_pos x \<le> 2 powi k"
proof -
  have "flog2 x \<le> k"
  proof (rule ccontr)
    assume "\<not> flog2 x \<le> k"
    then have "(2::rat) powi k < 2 powi flog2 x" by (intro power_int_strict_increasing) auto
    with flog2_bounds(1) [OF assms(1)] assms(2) show False by simp
  qed
  then have "ulp x \<le> 2 powi k" using assms(3) by (simp add: ulp_def powi_le_iff)
  then obtain n :: int where n: "2 powi k = of_int n * ulp x" using ulp_pow by blast
  have "x / ulp x \<le> of_int n" using assms(2) n by (simp add: pos_divide_le_eq)
  then have "round_half_even (x / ulp x) \<le> n" by (rule round_half_even_le)
  then show ?thesis unfolding n rnd_pos_def by (simp add: mult_right_mono less_imp_le)
qed

lemma rnd_pos_ge_pow:
  assumes "2 powi k \<le> x" and "- 1074 \<le> k"
  shows "2 powi k \<le> rnd_pos x"
proof -
  have x: "0 < x" using assms(1) by (meson less_le_trans zero_less_numeral zero_less_power_int)
  have kx: "k \<le> flog2 x"
  proof (rule ccontr)
    assume "\<not> k \<le> flog2 x"
    then have "(2::rat) powi (flog2 x + 1) \<le> 2 powi k" by (intro power_int_increasing) auto
    with flog2_bounds(2) [OF x] assms(1) show False by simp
  qed
  let ?j = "max (flog2 x - 52) k"
  define m where "m = (if ulp x \<le> 2 powi k then k else flog2 x)"
  have m: "ulp x \<le> 2 powi m" "2 powi m \<le> x" "k \<le> m"
    using kx flog2_bounds(1) [OF x] assms by (auto simp: m_def ulp_def powi_le_iff)
  from ulp_pow [OF m(1)] obtain n :: int where n: "2 powi m = of_int n * ulp x" by blast
  have "of_int n \<le> x / ulp x" using m(2) n by (simp add: pos_le_divide_eq)
  then have "n \<le> round_half_even (x / ulp x)" by (rule round_half_even_ge)
  then have "2 powi m \<le> rnd_pos x" unfolding n rnd_pos_def by (simp add: mult_right_mono less_imp_le)
  moreover have "(2::rat) powi k \<le> 2 powi m" using m(3) by (simp add: powi_le_iff)
  ultimately show ?thesis by simp
qed

lemma rnd_pos_mono:
  assumes "0 < x" and "x \<le> y"
  shows "rnd_pos x \<le> rnd_pos y"
proof (cases "ulp x = ulp y")
  case True
  have "round_half_even (x / ulp y) \<le> round_half_even (y / ulp y)"
    using assms(2) by (intro round_half_even_mono divide_right_mono) (simp_all add: less_imp_le)
  then show ?thesis unfolding rnd_pos_def True by (simp add: mult_right_mono less_imp_le)
next
  case False
  have y: "0 < y" using assms by simp
  have "flog2 x \<le> flog2 y" using assms by (rule flog2_mono)
  moreover have "flog2 x \<noteq> flog2 y" using False by (auto simp: ulp_def)
  moreover have "- 1022 \<le> flog2 y"
  proof (rule ccontr)
    assume "\<not> - 1022 \<le> flog2 y"
    with calculation(1) have "ulp x = ulp y" by (simp add: ulp_def max_def)
    with False show False ..
  qed
  ultimately have l: "flog2 x + 1 \<le> flog2 y" "- 1022 \<le> flog2 y" by simp_all
  have "rnd_pos x \<le> 2 powi flog2 y"
  proof (rule rnd_pos_le_pow [OF assms(1)])
    have "x \<le> 2 powi (flog2 x + 1)" using flog2_bounds(2) [OF assms(1)] by simp
    also have "\<dots> \<le> 2 powi flog2 y" using l by (simp add: powi_le_iff)
    finally show "x \<le> 2 powi flog2 y" .
    show "- 1074 \<le> flog2 y" using l by simp
  qed
  also have "\<dots> \<le> rnd_pos y" by (rule rnd_pos_ge_pow [OF flog2_bounds(1) [OF y]]) (use l in simp)
  finally show ?thesis .
qed

text \<open>Between zero and a number that is exact and finite, rounding stays there.\<close>

lemma rnd_between:
  assumes "0 \<le> x" and "x \<le> c" and "rnd c = Fin c"
  shows "\<exists>r. rnd x = Fin r \<and> 0 \<le> r \<and> r \<le> c"
proof (cases "x = 0")
  case True
  with assms show ?thesis by simp
next
  case False
  with assms have x: "0 < x" "0 < c" by simp_all
  from assms(3) x have c: "rnd_pos c = c" "c < 2 ^ 1024" by (auto simp: rnd_def split: if_splits)
  have "rnd_pos x \<le> c" using rnd_pos_mono [OF x(1) assms(2)] c by simp
  with x c rnd_pos_nonneg [of x] show ?thesis by (auto simp: rnd_def)
qed

lemma rnd_fpos: "2 powi k \<le> x \<Longrightarrow> - 1074 \<le> k \<Longrightarrow> fpos (rnd x)"
proof -
  assume k: "2 powi k \<le> x" "- 1074 \<le> k"
  have "(0::rat) < 2 powi k" by simp
  with k(1) rnd_pos_ge_pow [OF k] have "0 < x" "0 < rnd_pos x" by linarith+
  then show ?thesis by (auto simp: rnd_def)
qed

lemma rnd_pow [simp]: "k < 1024 \<Longrightarrow> rnd (2 ^ k) = Fin (2 ^ k)"
proof -
  assume "k < 1024"
  then have "(2::rat) ^ k < 2 ^ 1024" by (intro power_strict_increasing) auto
  moreover have "rnd_pos ((2::rat) ^ k) = 2 ^ k"
    using rnd_pos_le_pow [of "2 ^ k" "int k"] rnd_pos_ge_pow [of "int k" "2 ^ k"] by simp
  ultimately show ?thesis by (simp add: rnd_def)
qed

lemma f64_of_u64_finite: "\<exists>r. f64_of_u64 w = Fin r \<and> 0 \<le> r \<and> r \<le> 2 ^ 64"
proof -
  have "of_nat (unat w) \<le> (of_nat (2 ^ 64) :: rat)"
    using unat_less_word [of w] by (simp only: of_nat_le_iff) simp
  then have "of_nat (unat w) \<le> (2 ^ 64 :: rat)" by (simp only: of_nat_power of_nat_numeral)
  moreover have "rnd (2 ^ 64) = Fin (2 ^ 64)" by (rule rnd_pow) simp
  ultimately show ?thesis unfolding f64_of_u64_def by (intro rnd_between) (simp_all only: of_nat_0_le_iff)
qed

lemma f64_of_u64_mono: "v \<le> w \<Longrightarrow> \<exists>a b. f64_of_u64 v = Fin a \<and> f64_of_u64 w = Fin b \<and> 0 \<le> a \<and> a \<le> b"
proof -
  assume vw: "v \<le> w"
  obtain a where a: "f64_of_u64 v = Fin a" "0 \<le> a" using f64_of_u64_finite by blast
  obtain b where b: "f64_of_u64 w = Fin b" "0 \<le> b" using f64_of_u64_finite by blast
  have le: "of_nat (unat v) \<le> (of_nat (unat w) :: rat)"
    using vw by (simp only: of_nat_le_iff word_le_nat_alt)
  show ?thesis
  proof (cases "v = 0")
    case True
    with a b show ?thesis by (auto simp: f64_of_u64_def)
  next
    case False
    then have "0 < unat v" by (simp add: unat_gt_0)
    then have v: "0 < (of_nat (unat v) :: rat)" by (simp only: of_nat_0_less_iff)
    with le have w: "0 < (of_nat (unat w) :: rat)" by linarith
    have "rnd_pos (of_nat (unat v)) = a" "rnd_pos (of_nat (unat w)) = b"
      using a(1) b(1) v w unfolding f64_of_u64_def rnd_def by (simp_all split: if_splits)
    with rnd_pos_mono [OF v le] have "a \<le> b" by simp
    with a b show ?thesis by blast
  qed
qed

end
