(* ===== verification/Model_Types.thy ===== *)
theory Model_Types
  imports Go_Float
begin

text \<open>
  The data the agent reports: package \<^verbatim>\<open>internal/model\<close>. Each record is the Go struct of the same
  name; a field is named after the struct's field, with a prefix that tells the records apart. A
  pointer that may be nil is an option, \<^verbatim>\<open>int64\<close> Unix seconds are \<open>int\<close>.
\<close>

text \<open>Identity and hardware inventory of a node (\<^verbatim>\<open>node_info.go\<close>).\<close>

record NodeCpuInfo =
  nci_Model :: string
  nci_Vendor :: string
  nci_Cores :: u64
  nci_Threads :: u64
  nci_Sockets :: u64
  nci_BaseMhz :: u64
  nci_MaxMhz :: u64
  nci_Architecture :: string
  nci_VirtualizationSupport :: bool

record NodeRamStick =
  nrs_Slot :: string
  nrs_SizeBytes :: u64
  nrs_SpeedMhz :: u64
  nrs_Type :: string
  nrs_Model :: string
  nrs_Manufacturer :: string
  nrs_Serial :: string

record NodeDiskInfo =
  ndi_Name :: string
  ndi_Model :: string
  ndi_Serial :: string
  ndi_Type :: string
  ndi_SizeBytes :: u64
  ndi_Mountpoint :: string
  ndi_Filesystem :: string

record NodeNetIfInfo =
  nni_Name :: string
  nni_MacAddress :: string
  nni_MTU :: u64
  nni_SpeedMbps :: u64
  nni_Driver :: string
  nni_PCIAddress :: string
  nni_Type :: string

record NodeGpuInfo =
  ngi_Index :: u64
  ngi_UUID :: string
  ngi_Vendor :: string
  ngi_Model :: string
  ngi_MemoryTotalBytes :: u64
  ngi_PCIAddress :: string
  ngi_DriverVersion :: string

record NodeHardwareInfo =
  nhi_NodeID :: string
  nhi_Hostname :: string
  nhi_CPU :: NodeCpuInfo
  nhi_RAMSticks :: "NodeRamStick list"
  nhi_Disks :: "NodeDiskInfo list"
  nhi_NetIfs :: "NodeNetIfInfo list"
  nhi_GPUs :: "NodeGpuInfo list"
  nhi_CollectedAtUnix :: int

text \<open>Metrics of a node (\<^verbatim>\<open>node_metric_*.go\<close>).\<close>

record NodeMetricsLite =
  nm_NodeID :: string
  nm_Hostname :: string
  nm_TimestampUnix :: int
  nm_CPUUsagePercent :: f64
  nm_CPULoad1 :: f64
  nm_CPULoad5 :: f64
  nm_CPULoad15 :: f64
  nm_CPUCores :: u64
  nm_CPURunQueue :: f64
  nm_RAMUsagePercent :: f64
  nm_RAMUsedBytes :: u64
  nm_RAMTotalBytes :: u64
  nm_DiskReadMBS :: f64
  nm_DiskWriteMBS :: f64
  nm_DiskTotalMBS :: f64
  nm_DiskUtilPercent :: f64
  nm_DiskIOPS :: f64
  nm_NetRxMBS :: f64
  nm_NetTxMBS :: f64
  nm_NetTotalMBS :: f64
  nm_NetPacketRate :: f64
  nm_GPUCount :: u64
  nm_GPUTotalUtilPercent :: f64
  nm_GPUMemoryUtilPercent :: f64
  nm_GPUMemoryUsedBytes :: u64
  nm_GPUMemoryTotalBytes :: u64
  nm_ProcessCount :: u64
  nm_ThreadCount :: u64
  nm_SystemLoadPercent :: f64

record NodeDiskMetricLite =
  ndm_NodeID :: string
  ndm_DiskName :: string
  ndm_TimestampUnix :: int
  ndm_ReadMBS :: f64
  ndm_WriteMBS :: f64
  ndm_TotalMBS :: f64
  ndm_ReadIOPS :: f64
  ndm_WriteIOPS :: f64
  ndm_TotalIOPS :: f64
  ndm_UtilPercent :: f64
  ndm_ReadLatencyMs :: f64
  ndm_WriteLatencyMs :: f64
  ndm_FSUsagePercent :: f64
  ndm_SizeBytes :: u64
  ndm_Mountpoint :: string

record NodeNetIfMetricLite =
  nnm_NodeID :: string
  nnm_InterfaceName :: string
  nnm_TimestampUnix :: int
  nnm_RxMBS :: f64
  nnm_TxMBS :: f64
  nnm_TotalMBS :: f64
  nnm_RxPacketsPerSec :: f64
  nnm_TxPacketsPerSec :: f64
  nnm_RxErrors :: u64
  nnm_TxErrors :: u64
  nnm_RxDropped :: u64
  nnm_TxDropped :: u64
  nnm_BandwidthUtilPercent :: f64
  nnm_SpeedMbps :: u64
  nnm_LinkUp :: bool

datatype GpuVendor = GpuVendorUnknown | GpuVendorNvidia | GpuVendorAmd | GpuVendorIntel

record NvidiaExtra =
  nvx_MIGEnabled :: bool
  nvx_MIGInstances :: u64
  nvx_TensorUtilPercent :: f64
  nvx_SMUtilPercent :: f64
  nvx_NVLinkRxMBS :: f64
  nvx_NVLinkTxMBS :: f64
  nvx_TemperatureMemoryCelsius :: f64
  nvx_PState :: u64
  nvx_ComputeMode :: string

record AmdExtra =
  amx_GFXUtilPercent :: f64
  amx_MemoryControllerUtilPercent :: f64
  amx_TemperatureEdgeCelsius :: f64
  amx_TemperatureHotspotCelsius :: f64
  amx_PowerAverageWatts :: f64
  amx_ClockSocMhz :: u64
  amx_ClockMemoryMhz :: u64

record NodeGpuMetricLite =
  ngm_NodeID :: string
  ngm_GPUIndex :: u64
  ngm_GPUUUID :: string
  ngm_Vendor :: GpuVendor
  ngm_TimestampUnix :: int
  ngm_GPUUtilPercent :: f64
  ngm_MemoryUtilPercent :: f64
  ngm_MemoryTotalBytes :: u64
  ngm_MemoryUsedBytes :: u64
  ngm_MemoryFreeBytes :: u64
  ngm_PowerUsageWatts :: f64
  ngm_PowerLimitWatts :: f64
  ngm_TemperatureCelsius :: f64
  ngm_FanSpeedPercent :: f64
  ngm_ClockCoreMhz :: u64
  ngm_ClockMemMhz :: u64
  ngm_PCIeRxMBS :: f64
  ngm_PCIeTxMBS :: f64
  ngm_PCIeBandwidthUtilPercent :: f64
  ngm_EncoderUtilPercent :: f64
  ngm_DecoderUtilPercent :: f64
  ngm_ComputeUtilPercent :: f64
  ngm_Nvidia :: "NvidiaExtra option"
  ngm_Amd :: "AmdExtra option"

text \<open>Metrics and identity of a virtual machine (\<^verbatim>\<open>vm_*.go\<close>).\<close>

record VMLiteMetrics =
  vl_NodeID :: string
  vl_VMID :: string
  vl_VMName :: string
  vl_State :: string
  vl_TimestampUnix :: int
  vl_CPUUsagePct :: f64
  vl_VCPUCount :: u64
  vl_RAMUsedBytes :: u64
  vl_RAMTotalBytes :: u64
  vl_NetRxBytesPerSec :: f64
  vl_NetTxBytesPerSec :: f64

record VMRuntimeDiskMetric =
  vrd_Name :: string
  vrd_ReadBytesPerSec :: f64
  vrd_WriteBytesPerSec :: f64
  vrd_UtilPercent :: f64
  vrd_FSUsagePercent :: f64

record VMRuntimeGPUMetric =
  vrg_GPUIndex :: u32
  vrg_GPUUUID :: string
  vrg_GPUModel :: string
  vrg_GPUUtilPercent :: f64
  vrg_MemoryUsedBytes :: u64
  vrg_MemoryTotalBytes :: u64

record VMRuntimeMetrics =
  vr_NodeID :: string
  vr_VMID :: string
  vr_VMName :: string
  vr_TimestampUnix :: int
  vr_CPUUsagePercent :: f64
  vr_CPUStealPercent :: f64
  vr_VCPUCount :: u64
  vr_Load1 :: f64
  vr_Load5 :: f64
  vr_Load15 :: f64
  vr_RAMTotalBytes :: u64
  vr_RAMUsedBytes :: u64
  vr_RAMUsagePercent :: f64
  vr_SwapUsedBytes :: u64
  vr_SwapUsagePercent :: f64
  vr_DiskReadBytesPerSec :: f64
  vr_DiskWriteBytesPerSec :: f64
  vr_DiskReadIOPS :: f64
  vr_DiskWriteIOPS :: f64
  vr_DiskUtilPercent :: f64
  vr_DiskReadBytesTotal :: u64
  vr_DiskWriteBytesTotal :: u64
  vr_Disks :: "VMRuntimeDiskMetric list"
  vr_NetRxBytesPerSec :: f64
  vr_NetTxBytesPerSec :: f64
  vr_NetRxPacketsPerSec :: f64
  vr_NetTxPacketsPerSec :: f64
  vr_NetRxErrors :: u64
  vr_NetTxErrors :: u64
  vr_NetRxBytesTotal :: u64
  vr_NetTxBytesTotal :: u64
  vr_GPUCount :: u64
  vr_GPUUtilPercent :: f64
  vr_GPUMemoryUsedBytes :: u64
  vr_GPUMemoryTotalBytes :: u64
  vr_GPUMemoryUtilPercent :: f64
  vr_GPUProcessCount :: u64
  vr_GPUs :: "VMRuntimeGPUMetric list"
  vr_VMState :: string
  vr_UptimeSeconds :: u64

record VMInfo =
  vi_NodeID :: string
  vi_VMID :: string
  vi_VMName :: string
  vi_State :: string
  vi_VCPUCount :: u64
  vi_RAMTotalBytes :: u64
  vi_DiskCount :: u64
  vi_GPUCount :: u64

record VMInfoSync =
  vs_NodeID :: string
  vs_TimestampUnix :: int
  vs_SyncMode :: string
  vs_Reason :: string
  vs_Upserts :: "VMInfo list"
  vs_RemovedVMIDs :: "string list"

text \<open>
  The names \<^verbatim>\<open>NodeMetrics\<close> and \<^verbatim>\<open>VMMetrics\<close> are aliases (\<^verbatim>\<open>compat_aliases.go\<close>), and the payload of an
  envelope is one of the metric types.
\<close>

type_synonym NodeMetrics = NodeMetricsLite
type_synonym VMMetrics = VMLiteMetrics

datatype MetricType =
  MetricTypeNodeLite | MetricTypeVMLite | MetricTypeVMRuntime | MetricTypeNodeInfo | MetricTypeVMInfoSync

datatype payload =
  PNode NodeMetrics | PVM "VMMetrics list" | PRuntime "VMRuntimeMetrics list"
| PHardware NodeHardwareInfo | PSync VMInfoSync

record Envelope =
  env_Type :: MetricType
  env_NodeID :: string
  env_TimestampUnix :: int
  env_Payload :: payload

end
