(* ===== verification/Go_Maps.thy ===== *)
theory Go_Maps
  imports Prelude "HOL-Library.AList"
begin

text \<open>
  Go's maps and sorts. A map is the list of its entries, with distinct keys; the order of the list
  stands for the order in which the next \<^verbatim>\<open>range\<close> visits them, which Go leaves open. What the code
  computes must not depend on it: \<open>same_map\<close> relates two maps with the same entries, and the
  component theories prove their results equal on such maps. \<^verbatim>\<open>sort.Strings\<close> is \<open>sort\<close> in byte order,
  \<^verbatim>\<open>sort.Slice\<close> by a key is \<open>sort_key\<close> (stable, one of the results \<^verbatim>\<open>sort.Slice\<close> may give when keys
  repeat).
\<close>

type_synonym ('k, 'v) gomap = "('k \<times> 'v) list"

definition mput :: "'k \<Rightarrow> 'v \<Rightarrow> ('k, 'v) gomap \<Rightarrow> ('k, 'v) gomap" where
  "mput k v m = AList.update k v m"

definition mget :: "'v \<Rightarrow> ('k, 'v) gomap \<Rightarrow> 'k \<Rightarrow> 'v" where
  "mget dflt m k = (case map_of m k of Some v \<Rightarrow> v | None \<Rightarrow> dflt)"

definition mwf :: "('k, 'v) gomap \<Rightarrow> bool" where
  "mwf m \<longleftrightarrow> distinct (map fst m)"

definition same_map :: "('k, 'v) gomap \<Rightarrow> ('k, 'v) gomap \<Rightarrow> bool" where
  "same_map m m' \<longleftrightarrow> mwf m \<and> mwf m' \<and> set m = set m'"

lemma mwf_Nil [simp, intro]: "mwf []"
  by (simp add: mwf_def)

lemma mwf_mput [simp, intro]: "mwf m \<Longrightarrow> mwf (mput k v m)"
  by (simp add: mwf_def mput_def distinct_update)

lemma map_of_mput [simp]: "map_of (mput k v m) = (map_of m)(k \<mapsto> v)"
  by (simp add: mput_def update_conv')

lemma mget_mput: "mget d (mput k v m) k' = (if k' = k then v else mget d m k')"
  by (simp add: mget_def)

lemma mwf_map_of: "mwf m \<Longrightarrow> map_of m k = Some v \<longleftrightarrow> (k, v) \<in> set m"
  by (simp add: mwf_def)

lemma mwf_distinct: "mwf m \<Longrightarrow> distinct m"
  by (simp add: mwf_def distinct_map)

lemma same_map_map_of: "same_map m m' \<Longrightarrow> map_of m = map_of m'"
  by (auto simp: same_map_def mwf_def map_of_inject_set)

lemma same_mapI: "mwf m \<Longrightarrow> mwf m' \<Longrightarrow> map_of m = map_of m' \<Longrightarrow> same_map m m'"
  by (simp add: same_map_def mwf_def map_of_inject_set)

lemma map_of_None_fst: "map_of m k = None \<longleftrightarrow> k \<notin> fst ` set m"
  by (rule map_of_eq_None_iff)

text \<open>Sorting by a key that tells the elements apart gives one result per set of elements.\<close>

lemma sort_key_unique:
  assumes "inj_on f (set xs)" and "distinct xs" and "distinct ys" and "set xs = set ys"
  shows "sort_key f xs = sort_key f ys"
proof (rule map_sorted_distinct_set_unique)
  show "inj_on f (set (sort_key f xs) \<union> set (sort_key f ys))" using assms by simp
  show "distinct (map f (sort_key f xs))" "distinct (map f (sort_key f ys))"
    using assms by (simp_all add: distinct_map)
  show "set (sort_key f xs) = set (sort_key f ys)" using assms by simp
qed simp_all

lemma sort_unique:
  fixes xs ys :: "'a::linorder list"
  assumes "distinct xs" and "distinct ys" and "set xs = set ys"
  shows "sort xs = sort ys"
  using assms by (intro sort_key_unique) simp_all

end
