(* ===== verification/Sync_Info.thy ===== *)
theory Sync_Info
  imports Model_Types Go_Maps
begin

text \<open>
  The identity view of the virtual machines that the agent keeps in step with the control plane
  (\<^verbatim>\<open>internal/model/vm_info_sync.go\<close>): how it is built from the metrics of one cycle, and what a
  full or a delta message means to the side that receives it.
\<close>

section \<open>Building the map\<close>

definition SyncModeFull :: string where
  "SyncModeFull = ''full''"

definition SyncModeDelta :: string where
  "SyncModeDelta = ''delta''"

type_synonym vm_map = "(string, VMInfo) gomap"

definition BuildVMInfoFromLiteMetric :: "VMLiteMetrics \<Rightarrow> VMInfo" where
  "BuildVMInfoFromLiteMetric m =
     \<lparr>vi_NodeID = vl_NodeID m, vi_VMID = vl_VMID m, vi_VMName = vl_VMName m, vi_State = vl_State m,
      vi_VCPUCount = vl_VCPUCount m, vi_RAMTotalBytes = vl_RAMTotalBytes m,
      vi_DiskCount = 0, vi_GPUCount = 0\<rparr>"

text \<open>Both builders skip a metric without an id and let a later metric of the same id win.\<close>

fun build_map :: "('m \<Rightarrow> string) \<Rightarrow> ('m \<Rightarrow> VMInfo) \<Rightarrow> vm_map \<Rightarrow> 'm list \<Rightarrow> vm_map" where
  "build_map idOf mk out [] = out"
| "build_map idOf mk out (m # ms) =
     (if idOf m = [] then build_map idOf mk out ms
      else build_map idOf mk (mput (idOf m) (mk m) out) ms)"

definition BuildVMInfoMapFromLite :: "VMLiteMetrics list \<Rightarrow> vm_map" where
  "BuildVMInfoMapFromLite metrics = build_map vl_VMID BuildVMInfoFromLiteMetric [] metrics"

definition BuildVMInfoMap :: "VMMetrics list \<Rightarrow> vm_map" where
  "BuildVMInfoMap metrics = BuildVMInfoMapFromLite metrics"

definition BuildVMInfoFromRuntimeMetric :: "VMRuntimeMetrics \<Rightarrow> VMInfo" where
  "BuildVMInfoFromRuntimeMetric m =
     \<lparr>vi_NodeID = vr_NodeID m, vi_VMID = vr_VMID m, vi_VMName = vr_VMName m, vi_State = vr_VMState m,
      vi_VCPUCount = vr_VCPUCount m, vi_RAMTotalBytes = vr_RAMTotalBytes m,
      vi_DiskCount = of_nat (length (vr_Disks m)), vi_GPUCount = vr_GPUCount m\<rparr>"

definition BuildVMInfoMapFromRuntime :: "VMRuntimeMetrics list \<Rightarrow> vm_map" where
  "BuildVMInfoMapFromRuntime metrics = build_map vr_VMID BuildVMInfoFromRuntimeMetric [] metrics"

text \<open>A missing key reads as Go's zero value.\<close>

definition zero_VMInfo :: VMInfo where
  "zero_VMInfo =
     \<lparr>vi_NodeID = [], vi_VMID = [], vi_VMName = [], vi_State = [], vi_VCPUCount = 0,
      vi_RAMTotalBytes = 0, vi_DiskCount = 0, vi_GPUCount = 0\<rparr>"

definition SortedVMInfosByID :: "vm_map \<Rightarrow> VMInfo list" where
  "SortedVMInfosByID m =
     (if m = [] then [] else map (mget zero_VMInfo m) (sort (map fst m)))"

section \<open>What a message means\<close>

text \<open>
  The receiver's table. A full message replaces it by the upserts; a delta drops the removed ids and
  then writes each upsert under its own id.
\<close>

type_synonym vm_table = "string \<rightharpoonup> VMInfo"

definition table_of :: "vm_map \<Rightarrow> vm_table" where
  "table_of m = map_of m"

definition upsert_all :: "VMInfo list \<Rightarrow> vm_table \<Rightarrow> vm_table" where
  "upsert_all vs tab = foldl (\<lambda>t v. t(vi_VMID v \<mapsto> v)) tab vs"

definition receive :: "VMInfoSync \<Rightarrow> vm_table \<Rightarrow> vm_table" where
  "receive msg tab =
     (if vs_SyncMode msg = SyncModeFull then upsert_all (vs_Upserts msg) Map.empty
      else upsert_all (vs_Upserts msg) (tab |` (- set (vs_RemovedVMIDs msg))))"

section \<open>Facts\<close>

text \<open>Every entry stands under its own, non-empty id.\<close>

definition keyed :: "vm_map \<Rightarrow> bool" where
  "keyed m \<longleftrightarrow> mwf m \<and> (\<forall>(k, v) \<in> set m. vi_VMID v = k)"

lemma keyedD: "keyed m \<Longrightarrow> map_of m k = Some v \<Longrightarrow> vi_VMID v = k"
  by (auto simp: keyed_def mwf_map_of)

lemma keyed_mwf: "keyed m \<Longrightarrow> mwf m"
  by (simp add: keyed_def)

lemma keyed_Nil [simp, intro]: "keyed []"
  by (simp add: keyed_def)

lemma keyed_mput: "keyed m \<Longrightarrow> vi_VMID v = k \<Longrightarrow> keyed (mput k v m)"
proof -
  assume m: "keyed m" and v: "vi_VMID v = k"
  have wf: "mwf (mput k v m)" using m by (simp add: keyed_def)
  moreover have "vi_VMID x = j" if "(j, x) \<in> set (mput k v m)" for j x
  proof -
    from that wf have "map_of (mput k v m) j = Some x" using mwf_map_of [OF wf] by blast
    then show ?thesis using v keyedD [OF m] by (auto split: if_splits)
  qed
  ultimately show ?thesis by (auto simp: keyed_def)
qed

lemma keyed_build_map:
  "keyed out \<Longrightarrow> (\<And>m. vi_VMID (mk m) = idOf m) \<Longrightarrow> keyed (build_map idOf mk out ms)"
  by (induction ms arbitrary: out) (auto simp: keyed_mput)

lemma build_map_nonempty_ids:
  "[] \<notin> fst ` set out \<Longrightarrow> [] \<notin> fst ` set (build_map idOf mk out ms)"
  by (induction ms arbitrary: out) (auto simp: mput_def dom_update)

lemma keyed_BuildVMInfoMap: "keyed (BuildVMInfoMap ms)"
  unfolding BuildVMInfoMap_def BuildVMInfoMapFromLite_def
  by (rule keyed_build_map) (simp_all add: BuildVMInfoFromLiteMetric_def)

lemma keyed_BuildVMInfoMapFromRuntime: "keyed (BuildVMInfoMapFromRuntime ms)"
  unfolding BuildVMInfoMapFromRuntime_def
  by (rule keyed_build_map) (simp_all add: BuildVMInfoFromRuntimeMetric_def)

text \<open>The last metric of an id is the one kept.\<close>

lemma map_of_build_map:
  "map_of (build_map idOf mk out ms) k =
     (if k = [] then map_of out k
      else case List.find (\<lambda>m. idOf m = k) (rev ms) of Some m \<Rightarrow> Some (mk m) | None \<Rightarrow> map_of out k)"
proof (induction ms arbitrary: out)
  case Nil
  then show ?case by simp
next
  case (Cons m ms)
  have app: "List.find P (xs @ [x]) = (case List.find P xs of Some y \<Rightarrow> Some y | None \<Rightarrow> if P x then Some x else None)"
    for P and xs :: "'a list" and x
    by (induction xs) auto
  show ?case using Cons.IH by (auto simp: app split: option.splits)
qed

lemma set_SortedVMInfosByID: "mwf m \<Longrightarrow> set (SortedVMInfosByID m) = snd ` set m"
proof -
  assume m: "mwf m"
  have "mget zero_VMInfo m k = v" if "(k, v) \<in> set m" for k v
    using that m by (simp add: mget_def mwf_map_of [THEN iffD2])
  then show ?thesis by (force simp: SortedVMInfosByID_def image_iff)
qed

lemma ids_SortedVMInfosByID:
  assumes "keyed m"
  shows "map vi_VMID (SortedVMInfosByID m) = sort (map fst m)"
proof -
  have "vi_VMID (mget zero_VMInfo m k) = k" if "k \<in> fst ` set m" for k
  proof -
    from that obtain v where "map_of m k = Some v"
      by (metis map_of_None_fst not_None_eq)
    with keyedD [OF assms this] show ?thesis by (simp add: mget_def)
  qed
  then show ?thesis
    unfolding SortedVMInfosByID_def by (auto simp: comp_def intro!: map_idI)
qed

lemma SortedVMInfosByID_order:
  assumes "same_map m m'"
  shows "SortedVMInfosByID m = SortedVMInfosByID m'"
proof -
  have s: "sort (map fst m) = sort (map fst m')"
    using assms by (intro sort_unique) (auto simp: same_map_def mwf_def)
  have "m = [] \<longleftrightarrow> m' = []" using assms by (auto simp: same_map_def)
  then show ?thesis
    using s same_map_map_of [OF assms] by (simp add: SortedVMInfosByID_def mget_def)
qed

text \<open>Writing a list of entries with distinct ids.\<close>

lemma upsert_all_Nil [simp]: "upsert_all [] tab = tab"
  by (simp add: upsert_all_def)

lemma upsert_all_Cons [simp]: "upsert_all (v # vs) tab = upsert_all vs (tab(vi_VMID v \<mapsto> v))"
  by (simp add: upsert_all_def)

lemma upsert_all_other: "k \<notin> vi_VMID ` set vs \<Longrightarrow> upsert_all vs tab k = tab k"
  by (induction vs arbitrary: tab) auto

lemma upsert_all_in:
  "distinct (map vi_VMID vs) \<Longrightarrow> v \<in> set vs \<Longrightarrow> upsert_all vs tab (vi_VMID v) = Some v"
  by (induction vs arbitrary: tab) (auto simp: upsert_all_other image_iff)

lemma upsert_all_keyed:
  assumes m: "keyed m" and vs: "distinct (map vi_VMID vs)" and sub: "set vs \<subseteq> snd ` set m"
    and old: "\<And>k. k \<notin> vi_VMID ` set vs \<Longrightarrow> tab k = map_of m k"
  shows "upsert_all vs tab = table_of m"
proof
  fix k
  show "upsert_all vs tab k = table_of m k"
  proof (cases "k \<in> vi_VMID ` set vs")
    case True
    then obtain v where v: "v \<in> set vs" "k = vi_VMID v" by auto
    with sub obtain j where "(j, v) \<in> set m" by auto
    with m v have "map_of m k = Some v"
      by (metis keyedD keyed_mwf mwf_map_of)
    with v vs show ?thesis by (simp add: upsert_all_in table_of_def)
  next
    case False
    with old show ?thesis by (simp add: upsert_all_other table_of_def)
  qed
qed

lemma receive_full:
  assumes "keyed m" and "vs_SyncMode msg = SyncModeFull" and "vs_Upserts msg = SortedVMInfosByID m"
  shows "receive msg tab = table_of m"
proof -
  have wf: "mwf m" using assms(1) by (rule keyed_mwf)
  have d: "distinct (map vi_VMID (SortedVMInfosByID m))"
    using assms(1) by (simp add: ids_SortedVMInfosByID keyed_def mwf_def)
  have ids: "vi_VMID ` set (SortedVMInfosByID m) = fst ` set m"
    using arg_cong [where f = set, OF ids_SortedVMInfosByID [OF assms(1)]] by simp
  have "upsert_all (SortedVMInfosByID m) Map.empty = table_of m"
  proof (rule upsert_all_keyed [OF assms(1) d])
    show "set (SortedVMInfosByID m) \<subseteq> snd ` set m"
      using set_SortedVMInfosByID [OF wf] by simp
    show "None = map_of m k" if "k \<notin> vi_VMID ` set (SortedVMInfosByID m)" for k
      using that ids by (metis map_of_None_fst)
  qed
  then show ?thesis using assms(2,3) by (simp add: receive_def)
qed

end
