(* ===== verification/Sink.thy ===== *)
theory Sink
  imports Sync_Info
begin

text \<open>
  The boundary between the collectors and the transport: the frames of
  \<^verbatim>\<open>internal/stream/encoder.go\<close> and the interface \<^verbatim>\<open>Sink\<close>. An implementation of the interface is
  a record of its methods over a state of its own. The locale \<open>sink\<close> is what a caller may rely on:
  a method that answers without an error has put exactly its frame on the wire, one that answers
  with an error has put nothing there.
\<close>

section \<open>Frames\<close>

record NodeFrame =
  nf_NodeID :: string
  nf_TimestampUnix :: int
  nf_Metrics :: NodeMetrics

record VMFrame =
  vf_NodeID :: string
  vf_TimestampUnix :: int
  vf_Metrics :: "VMMetrics list"

record VMInfoSyncFrame =
  sf_NodeID :: string
  sf_TimestampUnix :: int
  sf_SyncMode :: string
  sf_Reason :: string
  sf_Upserts :: "VMInfo list"
  sf_RemovedVMIDs :: "string list"

record NodeHardwareInfoFrame =
  hf_NodeID :: string
  hf_TimestampUnix :: int
  hf_Metrics :: NodeHardwareInfo

record VMRuntimeFrame =
  rf_NodeID :: string
  rf_TimestampUnix :: int
  rf_Metrics :: "VMRuntimeMetrics list"

definition NewNodeFrame :: "NodeMetrics \<Rightarrow> NodeFrame" where
  "NewNodeFrame m =
     \<lparr>nf_NodeID = nm_NodeID m, nf_TimestampUnix = nm_TimestampUnix m, nf_Metrics = m\<rparr>"

text \<open>\<open>now\<close> is the current Unix time, which dates a frame without metrics.\<close>

definition NewVMFrame :: "int \<Rightarrow> VMMetrics list \<Rightarrow> VMFrame" where
  "NewVMFrame now metrics =
     (case metrics of
        [] \<Rightarrow> \<lparr>vf_NodeID = [], vf_TimestampUnix = now, vf_Metrics = metrics\<rparr>
      | m # _ \<Rightarrow> \<lparr>vf_NodeID = vl_NodeID m, vf_TimestampUnix = vl_TimestampUnix m, vf_Metrics = metrics\<rparr>)"

definition NewVMRuntimeFrame :: "int \<Rightarrow> VMRuntimeMetrics list \<Rightarrow> VMRuntimeFrame" where
  "NewVMRuntimeFrame now metrics =
     (case metrics of
        [] \<Rightarrow> \<lparr>rf_NodeID = [], rf_TimestampUnix = now, rf_Metrics = metrics\<rparr>
      | m # _ \<Rightarrow> \<lparr>rf_NodeID = vr_NodeID m, rf_TimestampUnix = vr_TimestampUnix m, rf_Metrics = metrics\<rparr>)"

definition NewVMInfoSyncFrame :: "VMInfoSync \<Rightarrow> VMInfoSyncFrame" where
  "NewVMInfoSyncFrame info =
     \<lparr>sf_NodeID = vs_NodeID info, sf_TimestampUnix = vs_TimestampUnix info,
      sf_SyncMode = vs_SyncMode info, sf_Reason = vs_Reason info,
      sf_Upserts = vs_Upserts info, sf_RemovedVMIDs = vs_RemovedVMIDs info\<rparr>"

definition NewNodeHardwareInfoFrame :: "NodeHardwareInfo \<Rightarrow> NodeHardwareInfoFrame" where
  "NewNodeHardwareInfoFrame info =
     \<lparr>hf_NodeID = nhi_NodeID info, hf_TimestampUnix = nhi_CollectedAtUnix info, hf_Metrics = info\<rparr>"

datatype frame =
  FNode NodeFrame | FHardware NodeHardwareInfoFrame | FVM VMFrame | FRuntime VMRuntimeFrame
| FSync VMInfoSyncFrame

text \<open>The date of a frame does not matter once it carries a metric.\<close>

lemma NewVMFrame_nonempty: "ms \<noteq> [] \<Longrightarrow> NewVMFrame now ms = NewVMFrame 0 ms"
  by (cases ms) (simp_all add: NewVMFrame_def)

lemma NewVMRuntimeFrame_nonempty: "ms \<noteq> [] \<Longrightarrow> NewVMRuntimeFrame now ms = NewVMRuntimeFrame 0 ms"
  by (cases ms) (simp_all add: NewVMRuntimeFrame_def)

text \<open>A sync frame carries its message whole.\<close>

definition sync_of_frame :: "VMInfoSyncFrame \<Rightarrow> VMInfoSync" where
  "sync_of_frame f =
     \<lparr>vs_NodeID = sf_NodeID f, vs_TimestampUnix = sf_TimestampUnix f, vs_SyncMode = sf_SyncMode f,
      vs_Reason = sf_Reason f, vs_Upserts = sf_Upserts f, vs_RemovedVMIDs = sf_RemovedVMIDs f\<rparr>"

lemma sync_of_NewVMInfoSyncFrame [simp]: "sync_of_frame (NewVMInfoSyncFrame info) = info"
  by (simp add: sync_of_frame_def NewVMInfoSyncFrame_def)

text \<open>The receiver's table after a sequence of frames: only sync frames touch it.\<close>

fun receive_frame :: "frame \<Rightarrow> vm_table \<Rightarrow> vm_table" where
  "receive_frame (FSync f) tab = receive (sync_of_frame f) tab"
| "receive_frame _ tab = tab"

definition view :: "frame list \<Rightarrow> vm_table" where
  "view fs = foldl (\<lambda>tab f. receive_frame f tab) Map.empty fs"

lemma view_Nil [simp]: "view [] = Map.empty"
  by (simp add: view_def)

lemma view_snoc [simp]: "view (fs @ [f]) = receive_frame f (view fs)"
  by (simp add: view_def)

section \<open>The interface Sink\<close>

record 's sink_ops =
  SendNodeMetrics :: "NodeMetrics \<Rightarrow> 's \<Rightarrow> goerr option \<times> 's"
  SendNodeHardwareInfo :: "NodeHardwareInfo \<Rightarrow> 's \<Rightarrow> goerr option \<times> 's"
  SendVMMetrics :: "VMMetrics list \<Rightarrow> 's \<Rightarrow> goerr option \<times> 's"
  SendVMRuntimeMetrics :: "VMRuntimeMetrics list \<Rightarrow> 's \<Rightarrow> goerr option \<times> 's"
  SendVMInfoSync :: "VMInfoSync \<Rightarrow> 's \<Rightarrow> goerr option \<times> 's"
  CloseSink :: "'s \<Rightarrow> goerr option \<times> 's"

text \<open>
  \<open>sends sent r s s' fs\<close>: the step from \<open>s\<close> to \<open>s'\<close> with answer \<open>r\<close> delivered the frames \<open>fs\<close> if
  there was no error, and none otherwise.
\<close>

definition sends :: "('s \<Rightarrow> frame list) \<Rightarrow> goerr option \<Rightarrow> 's \<Rightarrow> 's \<Rightarrow> frame list \<Rightarrow> bool" where
  "sends sent r s s' fs \<longleftrightarrow> sent s' = (if r = None then sent s @ fs else sent s)"

locale sink =
  fixes S :: "'s sink_ops"
    and sent :: "'s \<Rightarrow> frame list"
    and inv :: "'s \<Rightarrow> bool"
  assumes node_law: "\<And>m s. inv s \<Longrightarrow>
      inv (snd (SendNodeMetrics S m s)) \<and>
      sends sent (fst (SendNodeMetrics S m s)) s (snd (SendNodeMetrics S m s)) [FNode (NewNodeFrame m)]"
    and hardware_law: "\<And>h s. inv s \<Longrightarrow>
      inv (snd (SendNodeHardwareInfo S h s)) \<and>
      sends sent (fst (SendNodeHardwareInfo S h s)) s (snd (SendNodeHardwareInfo S h s))
        [FHardware (NewNodeHardwareInfoFrame h)]"
    and vm_law: "\<And>ms s. inv s \<Longrightarrow>
      inv (snd (SendVMMetrics S ms s)) \<and>
      sends sent (fst (SendVMMetrics S ms s)) s (snd (SendVMMetrics S ms s))
        (if ms = [] then [] else [FVM (NewVMFrame 0 ms)])"
    and runtime_law: "\<And>ms s. inv s \<Longrightarrow>
      inv (snd (SendVMRuntimeMetrics S ms s)) \<and>
      sends sent (fst (SendVMRuntimeMetrics S ms s)) s (snd (SendVMRuntimeMetrics S ms s))
        (if ms = [] then [] else [FRuntime (NewVMRuntimeFrame 0 ms)])"
    and sync_law: "\<And>info s. inv s \<Longrightarrow>
      inv (snd (SendVMInfoSync S info s)) \<and>
      sends sent (fst (SendVMInfoSync S info s)) s (snd (SendVMInfoSync S info s))
        [FSync (NewVMInfoSyncFrame info)]"
    and close_law: "\<And>s. inv s \<Longrightarrow>
      inv (snd (CloseSink S s)) \<and> sent (snd (CloseSink S s)) = sent s"
begin

lemma sync_inv: "inv s \<Longrightarrow> inv (snd (SendVMInfoSync S info s))"
  using sync_law by blast

lemma sync_ok:
  assumes "inv s" and "SendVMInfoSync S info s = (None, s')"
  shows "sent s' = sent s @ [FSync (NewVMInfoSyncFrame info)]" and "inv s'"
  using sync_law [OF assms(1), of info] assms(2) by (simp_all add: sends_def)

lemma sync_err:
  assumes "inv s" and "SendVMInfoSync S info s = (Some e, s')"
  shows "sent s' = sent s" and "inv s'"
  using sync_law [OF assms(1), of info] assms(2) by (simp_all add: sends_def)

lemma view_sync_ok:
  "inv s \<Longrightarrow> SendVMInfoSync S info s = (None, s') \<Longrightarrow> view (sent s') = receive info (view (sent s))"
  by (simp add: sync_ok)

text \<open>The metric frames leave the receiver's table alone.\<close>

lemma view_runtime:
  "inv s \<Longrightarrow> SendVMRuntimeMetrics S ms s = (r, s') \<Longrightarrow> inv s' \<and> view (sent s') = view (sent s)"
  using runtime_law [of s ms] by (auto simp: sends_def)

lemma view_vm:
  "inv s \<Longrightarrow> SendVMMetrics S ms s = (r, s') \<Longrightarrow> inv s' \<and> view (sent s') = view (sent s)"
  using vm_law [of s ms] by (auto simp: sends_def)

end

end
