(* ===== verification/Scheduler.thy ===== *)
theory Scheduler
  imports Sink
begin

text \<open>
  \<^verbatim>\<open>internal/collector/scheduler.go\<close>: the loops that collect metrics and send them, and the state
  that keeps the control plane's table of virtual machines in step. The critical sections under
  \<^verbatim>\<open>s.mu\<close> are definitions of their own (\<open>computeVMInfoDiff\<close>, \<open>commitVMInfoSync\<close>,
  \<open>periodicSnapshot\<close>, \<open>periodicCommit\<close>), so that the methods, which run them one after another, and
  the interleavings of two goroutines (theory \<open>Sync_Race\<close>) are built from the same parts.

  What a collector answers in a cycle, and the current time, are arguments.
\<close>

section \<open>State\<close>

record scheduler =
  sc_hasHardware :: bool \<comment> \<open>\<^verbatim>\<open>nodeHardware != nil\<close>\<close>
  sc_hasRuntime :: bool \<comment> \<open>\<^verbatim>\<open>vmRuntime != nil\<close>\<close>
  sc_nodeInterval :: int
  sc_infoSyncInterval :: int
  sc_vmInterval :: int
  sc_vmRuntimeInterval :: int
  sc_errorBackoff :: int
  sc_agentVersion :: string
  sc_capabilities :: "string list"
  latestVMInfoByID :: vm_map
  lastVMInfoByID :: vm_map
  vmInfoSynced :: bool

definition second :: int where
  "second = 1000000000"

definition NewScheduler :: "bool \<Rightarrow> bool \<Rightarrow> int \<Rightarrow> int \<Rightarrow> int \<Rightarrow> int \<Rightarrow> int \<Rightarrow> string \<Rightarrow> scheduler" where
  "NewScheduler hasHardware hasRuntime nodeInterval infoSyncInterval vmInterval vmRuntimeInterval
     errorBackoff agentVersion =
     \<lparr>sc_hasHardware = hasHardware, sc_hasRuntime = hasRuntime,
      sc_nodeInterval = (if nodeInterval \<le> 0 then 1 * second else nodeInterval),
      sc_infoSyncInterval = (if infoSyncInterval \<le> 0 then 10 * 60 * second else infoSyncInterval),
      sc_vmInterval = (if vmInterval \<le> 0 then 1 * second else vmInterval),
      sc_vmRuntimeInterval = (if vmRuntimeInterval \<le> 0 then 5 * second else vmRuntimeInterval),
      sc_errorBackoff = (if errorBackoff \<le> 0 then second else errorBackoff),
      sc_agentVersion = agentVersion,
      sc_capabilities = [''node_metrics_stream'', ''node_hardware_info_sync'', ''vm_metrics_stream'',
        ''vm_runtime_metrics_stream'', ''vm_info_sync''],
      latestVMInfoByID = [], lastVMInfoByID = [], vmInfoSynced = False\<rparr>"

section \<open>The diff against the last synchronised table\<close>

definition cloneVMInfoMap :: "vm_map \<Rightarrow> vm_map" where
  "cloneVMInfoMap m = m"

definition changed_infos :: "vm_map \<Rightarrow> vm_map \<Rightarrow> VMInfo list" where
  "changed_infos lastm current =
     map snd (filter (\<lambda>(vmID, info). case map_of lastm vmID of None \<Rightarrow> True | Some prev \<Rightarrow> prev \<noteq> info) current)"

definition removed_ids :: "vm_map \<Rightarrow> vm_map \<Rightarrow> string list" where
  "removed_ids lastm current = filter (\<lambda>vmID. map_of current vmID = None) (map fst lastm)"

text \<open>The answer: upserts, removed ids, sync mode, and whether to send; and the new state.\<close>

definition computeVMInfoDiff ::
    "scheduler \<Rightarrow> vm_map \<Rightarrow> (VMInfo list \<times> string list \<times> string \<times> bool) \<times> scheduler" where
  "computeVMInfoDiff s current =
     (let s' = s\<lparr>latestVMInfoByID := cloneVMInfoMap current\<rparr>
      in if \<not> vmInfoSynced s then ((SortedVMInfosByID current, [], SyncModeFull, True), s')
         else let upserts = sort_key vi_VMID (changed_infos (lastVMInfoByID s) current);
                  removed = sort (removed_ids (lastVMInfoByID s) current)
              in if upserts = [] \<and> removed = [] then (([], [], [], False), s')
                 else ((upserts, removed, SyncModeDelta, True), s'))"

text \<open>The first non-empty node id among the current, the latest and the last entries.\<close>

definition first_node_id :: "vm_map \<Rightarrow> string option" where
  "first_node_id m = map_option vi_NodeID (List.find (\<lambda>info. vi_NodeID info \<noteq> []) (map snd m))"

definition resolveVMNodeID :: "scheduler \<Rightarrow> vm_map \<Rightarrow> string" where
  "resolveVMNodeID s current =
     (case first_node_id current of Some n \<Rightarrow> n
      | None \<Rightarrow> (case first_node_id (latestVMInfoByID s) of Some n \<Rightarrow> n
        | None \<Rightarrow> (case first_node_id (lastVMInfoByID s) of Some n \<Rightarrow> n | None \<Rightarrow> [])))"

definition commitVMInfoSync :: "scheduler \<Rightarrow> vm_map \<Rightarrow> scheduler" where
  "commitVMInfoSync s current =
     s\<lparr>vmInfoSynced := True, lastVMInfoByID := cloneVMInfoMap current,
       latestVMInfoByID := cloneVMInfoMap current\<rparr>"

definition sync_message ::
    "string \<Rightarrow> int \<Rightarrow> string \<Rightarrow> VMInfo list \<times> string list \<times> string \<times> bool \<Rightarrow> VMInfoSync" where
  "sync_message nodeID tsUnix reason d =
     (case d of (upserts, removed, syncMode, _) \<Rightarrow>
        \<lparr>vs_NodeID = nodeID, vs_TimestampUnix = tsUnix, vs_SyncMode = syncMode,
         vs_Reason = (if syncMode = SyncModeFull then ''agent_boot'' else reason),
         vs_Upserts = upserts, vs_RemovedVMIDs = removed\<rparr>)"

definition syncVMInfoFromMap ::
    "'s sink_ops \<Rightarrow> vm_map \<Rightarrow> string \<Rightarrow> int \<Rightarrow> string \<Rightarrow> scheduler \<times> 's \<Rightarrow> goerr option \<times> scheduler \<times> 's" where
  "syncVMInfoFromMap S current nodeID0 tsUnix reason st =
     (let (s, k) = st;
          nodeID = (if nodeID0 = [] then resolveVMNodeID s current else nodeID0);
          (d, s1) = computeVMInfoDiff s current
      in if \<not> snd (snd (snd d)) then (None, s1, k)
         else (case SendVMInfoSync S (sync_message nodeID tsUnix reason d) k of
                 (Some e, k') \<Rightarrow> (Some e, s1, k')
               | (None, k') \<Rightarrow> (None, commitVMInfoSync s1 current, k')))"

section \<open>The periodic full snapshot\<close>

definition periodicSnapshot :: "scheduler \<Rightarrow> int \<Rightarrow> VMInfoSync option" where
  "periodicSnapshot s now =
     (if latestVMInfoByID s = [] then None
      else let full = SortedVMInfosByID (latestVMInfoByID s)
           in Some \<lparr>vs_NodeID = (case full of [] \<Rightarrow> [] | v # _ \<Rightarrow> vi_NodeID v),
                    vs_TimestampUnix = now, vs_SyncMode = SyncModeFull, vs_Reason = ''periodic_sync'',
                    vs_Upserts = full, vs_RemovedVMIDs = []\<rparr>)"

definition periodicCommit :: "scheduler \<Rightarrow> scheduler" where
  "periodicCommit s =
     (let s' = s\<lparr>vmInfoSynced := True\<rparr>
      in if latestVMInfoByID s' \<noteq> [] then s'\<lparr>lastVMInfoByID := cloneVMInfoMap (latestVMInfoByID s')\<rparr> else s')"

definition syncVMInfoPeriodic :: "'s sink_ops \<Rightarrow> int \<Rightarrow> scheduler \<times> 's \<Rightarrow> goerr option \<times> scheduler \<times> 's" where
  "syncVMInfoPeriodic S now st =
     (let (s, k) = st
      in case periodicSnapshot s now of
           None \<Rightarrow> (None, s, k)
         | Some info \<Rightarrow>
             (case SendVMInfoSync S info k of
                (Some e, k') \<Rightarrow> (Some e, s, k')
              | (None, k') \<Rightarrow> (None, periodicCommit s, k')))"

section \<open>One cycle of each loop\<close>

definition syncVMInfoFromVMMetrics ::
    "'s sink_ops \<Rightarrow> VMMetrics list \<Rightarrow> int \<Rightarrow> string \<Rightarrow> scheduler \<times> 's \<Rightarrow> goerr option \<times> scheduler \<times> 's" where
  "syncVMInfoFromVMMetrics S metrics now reason st =
     (let currentMap = BuildVMInfoMap metrics;
          (tsUnix, nodeID) = (case metrics of [] \<Rightarrow> (now, []) | m # _ \<Rightarrow> (vl_TimestampUnix m, vl_NodeID m))
      in syncVMInfoFromMap S currentMap nodeID tsUnix reason st)"

definition syncVMInfoFromRuntimeMetrics ::
    "'s sink_ops \<Rightarrow> VMRuntimeMetrics list \<Rightarrow> int \<Rightarrow> string \<Rightarrow> scheduler \<times> 's \<Rightarrow> goerr option \<times> scheduler \<times> 's" where
  "syncVMInfoFromRuntimeMetrics S metrics now reason st =
     (let currentMap = BuildVMInfoMapFromRuntime metrics;
          (tsUnix, nodeID) = (case metrics of [] \<Rightarrow> (now, []) | m # _ \<Rightarrow> (vr_TimestampUnix m, vr_NodeID m))
      in syncVMInfoFromMap S currentMap nodeID tsUnix reason st)"

definition collectAndSendNode ::
    "'s sink_ops \<Rightarrow> goerr + NodeMetrics \<Rightarrow> scheduler \<times> 's \<Rightarrow> goerr option \<times> scheduler \<times> 's" where
  "collectAndSendNode S collected st =
     (case collected of
        Inl e \<Rightarrow> (Some e, st)
      | Inr m \<Rightarrow> (let (r, k') = SendNodeMetrics S m (snd st) in (r, fst st, k')))"

definition syncNodeHardwarePeriodic ::
    "'s sink_ops \<Rightarrow> goerr + NodeHardwareInfo \<Rightarrow> scheduler \<times> 's \<Rightarrow> goerr option \<times> scheduler \<times> 's" where
  "syncNodeHardwarePeriodic S collected st =
     (if \<not> sc_hasHardware (fst st) then (None, st)
      else case collected of
             Inl e \<Rightarrow> (Some e, st)
           | Inr info \<Rightarrow> (let (r, k') = SendNodeHardwareInfo S info (snd st) in (r, fst st, k')))"

definition collectAndSendVM ::
    "'s sink_ops \<Rightarrow> goerr + VMMetrics list \<Rightarrow> int \<Rightarrow> scheduler \<times> 's \<Rightarrow> goerr option \<times> scheduler \<times> 's" where
  "collectAndSendVM S collected now st =
     (case collected of
        Inl e \<Rightarrow> (Some e, st)
      | Inr metrics \<Rightarrow>
          if metrics = [] then
            (if \<not> sc_hasRuntime (fst st) then syncVMInfoFromMap S [] [] now ''runtime_change'' st
             else (None, st))
          else (case SendVMMetrics S metrics (snd st) of
                  (Some e, k') \<Rightarrow> (Some e, fst st, k')
                | (None, k') \<Rightarrow>
                    if \<not> sc_hasRuntime (fst st)
                    then syncVMInfoFromVMMetrics S metrics now ''runtime_change'' (fst st, k')
                    else (None, fst st, k')))"

definition collectAndSendVMRuntime ::
    "'s sink_ops \<Rightarrow> goerr + VMRuntimeMetrics list \<Rightarrow> int \<Rightarrow> scheduler \<times> 's \<Rightarrow> goerr option \<times> scheduler \<times> 's" where
  "collectAndSendVMRuntime S collected now st =
     (case collected of
        Inl e \<Rightarrow> (Some e, st)
      | Inr metrics \<Rightarrow>
          if metrics = [] then syncVMInfoFromMap S [] [] now ''runtime_change'' st
          else (case SendVMRuntimeMetrics S metrics (snd st) of
                  (Some e, k') \<Rightarrow> (Some e, fst st, k')
                | (None, k') \<Rightarrow> syncVMInfoFromRuntimeMetrics S metrics now ''runtime_change'' (fst st, k')))"

section \<open>The loops\<close>

text \<open>
  What a select of a loop sees next: a tick or the end of the context. The loop function answers
  the list of what it did, and whether it has returned (always with \<^verbatim>\<open>nil\<close>); a list of selects that
  ends without \<open>Done\<close> leaves it waiting.
\<close>

datatype select = Tick | Done

datatype loop_event = Ran "goerr option" | Slept int

definition sleepWithContext :: "int \<Rightarrow> loop_event list" where
  "sleepWithContext d = (if d \<le> 0 then [] else [Slept d])"

fun tickerLoop :: "int \<Rightarrow> ('s \<Rightarrow> goerr option \<times> 's) \<Rightarrow> select list \<Rightarrow> 's \<Rightarrow> loop_event list \<times> bool \<times> 's" where
  "tickerLoop backoff fn [] s = ([], False, s)"
| "tickerLoop backoff fn (Done # _) s = ([], True, s)"
| "tickerLoop backoff fn (Tick # rest) s =
     (let (r, s1) = fn s;
          (evs, fin, s2) = tickerLoop backoff fn rest s1
      in (Ran r # (case r of None \<Rightarrow> [] | Some _ \<Rightarrow> sleepWithContext backoff) @ evs, fin, s2))"

definition runTickerLoop ::
    "scheduler \<Rightarrow> ('s \<Rightarrow> goerr option \<times> 's) \<Rightarrow> select list \<Rightarrow> 's \<Rightarrow> loop_event list \<times> bool \<times> 's" where
  "runTickerLoop sc fn sels s =
     (let (r, s1) = fn s;
          (evs, fin, s2) = tickerLoop (sc_errorBackoff sc) fn sels s1
      in (Ran r # evs, fin, s2))"

fun infoLoop :: "('s \<Rightarrow> goerr option \<times> 's) \<Rightarrow> ('s \<Rightarrow> goerr option \<times> 's) \<Rightarrow> bool \<Rightarrow> select list \<Rightarrow> 's
    \<Rightarrow> loop_event list \<times> bool \<times> 's" where
  "infoLoop hw vmi hasHw [] s = ([], False, s)"
| "infoLoop hw vmi hasHw (Done # _) s = ([], True, s)"
| "infoLoop hw vmi hasHw (Tick # rest) s =
     (let (e1, s1) = (if hasHw then (let (r, s') = hw s in ([Ran r], s')) else ([], s));
          (r2, s2) = vmi s1;
          (evs, fin, s3) = infoLoop hw vmi hasHw rest s2
      in (e1 @ Ran r2 # evs, fin, s3))"

text \<open>
  \<open>hw\<close> and \<open>vmi\<close> are \<open>syncNodeHardwarePeriodic\<close> and \<open>syncVMInfoPeriodic\<close> on the loop's state.
\<close>

definition runInfoPeriodicLoop :: "scheduler \<Rightarrow> ('s \<Rightarrow> goerr option \<times> 's) \<Rightarrow> ('s \<Rightarrow> goerr option \<times> 's)
    \<Rightarrow> select list \<Rightarrow> 's \<Rightarrow> loop_event list \<times> bool \<times> 's" where
  "runInfoPeriodicLoop sc hw vmi sels s =
     (let (e1, s1) = (if sc_hasHardware sc then (let (r, s') = hw s in ([Ran r], s')) else ([], s));
          (evs, fin, s2) = infoLoop hw vmi (sc_hasHardware sc) sels s1
      in (e1 @ evs, fin, s2))"

section \<open>Envelopes\<close>

definition AsNodeEnvelope :: "NodeMetrics \<Rightarrow> Envelope" where
  "AsNodeEnvelope m =
     \<lparr>env_Type = MetricTypeNodeLite, env_NodeID = nm_NodeID m, env_TimestampUnix = nm_TimestampUnix m,
      env_Payload = PNode m\<rparr>"

definition AsVMEnvelope :: "int \<Rightarrow> string \<Rightarrow> VMMetrics list \<Rightarrow> int \<Rightarrow> Envelope" where
  "AsVMEnvelope now nodeID pl atUnix =
     \<lparr>env_Type = MetricTypeVMLite, env_NodeID = nodeID,
      env_TimestampUnix = (if atUnix = 0 then now else atUnix), env_Payload = PVM pl\<rparr>"

end
