(* ===== verification/Scheduler_Facts.thy ===== *)
theory Scheduler_Facts
  imports Scheduler
begin

text \<open>
  What the scheduler's synchronisation guarantees: the diff is exact and minimal, it does not depend
  on the order in which Go ranges over a map, and over any sink that keeps the contract of
  \<open>sink\<close> every run of cycles leaves the control plane's table equal to the last synchronised one,
  whatever sends fail on the way.
\<close>

section \<open>The diff\<close>

lemma in_changed_infos:
  "v \<in> set (changed_infos lastm current) \<longleftrightarrow> (\<exists>k. (k, v) \<in> set current \<and> map_of lastm k \<noteq> Some v)"
proof -
  have "(case map_of lastm k of None \<Rightarrow> True | Some prev \<Rightarrow> prev \<noteq> v) \<longleftrightarrow> map_of lastm k \<noteq> Some v" for k v
    by (simp split: option.splits)
  then show ?thesis by (auto simp: changed_infos_def image_iff Bex_def)
qed

lemma set_changed_infos:
  assumes "keyed current"
  shows "set (changed_infos lastm current) =
           {v. map_of current (vi_VMID v) = Some v \<and> map_of lastm (vi_VMID v) \<noteq> Some v}"
proof -
  have "(k, v) \<in> set current \<longleftrightarrow> k = vi_VMID v \<and> map_of current (vi_VMID v) = Some v" for k v
    using assms keyedD [OF assms] mwf_map_of [OF keyed_mwf [OF assms]] by metis
  then show ?thesis by (auto simp: in_changed_infos)
qed

lemma distinct_changed_ids:
  assumes "keyed current"
  shows "distinct (map vi_VMID (changed_infos lastm current))"
proof -
  have "map vi_VMID (changed_infos lastm current) =
        map fst (filter (\<lambda>(k, v). case map_of lastm k of None \<Rightarrow> True | Some p \<Rightarrow> p \<noteq> v) current)"
    using assms by (auto simp: changed_infos_def keyed_def comp_def)
  then show ?thesis using keyed_mwf [OF assms] by (simp add: mwf_def distinct_map_filter)
qed

lemma set_removed_ids: "set (removed_ids lastm current) = dom (map_of lastm) - dom (map_of current)"
  by (auto simp: removed_ids_def dom_map_of_conv_image_fst map_of_eq_None_iff domIff)

lemma distinct_removed_ids: "mwf lastm \<Longrightarrow> distinct (removed_ids lastm current)"
  by (simp add: removed_ids_def mwf_def)

lemma receive_delta:
  assumes cur: "keyed current" and lst: "keyed lastm"
    and mode: "vs_SyncMode msg \<noteq> SyncModeFull"
    and ups: "vs_Upserts msg = sort_key vi_VMID (changed_infos lastm current)"
    and rem: "vs_RemovedVMIDs msg = sort (removed_ids lastm current)"
  shows "receive msg (table_of lastm) = table_of current"
proof -
  let ?u = "sort_key vi_VMID (changed_infos lastm current)"
  have d: "distinct (map vi_VMID ?u)"
    using distinct_changed_ids [OF cur, of lastm] by (simp add: distinct_map)
  have sub: "set ?u \<subseteq> snd ` set current" by (auto simp: changed_infos_def)
  have "upsert_all ?u (table_of lastm |` (- set (sort (removed_ids lastm current)))) = table_of current"
  proof (rule upsert_all_keyed [OF cur d sub])
    fix k assume k: "k \<notin> vi_VMID ` set ?u"
    show "(table_of lastm |` (- set (sort (removed_ids lastm current)))) k = map_of current k"
    proof (cases "map_of current k")
      case None
      then have "k \<in> set (removed_ids lastm current) \<or> map_of lastm k = None"
        by (auto simp: set_removed_ids)
      with None show ?thesis by (auto simp: restrict_map_def table_of_def)
    next
      case (Some v)
      then have id: "vi_VMID v = k" by (rule keyedD [OF cur])
      with k Some have "map_of lastm k = Some v"
        by (auto simp: set_changed_infos [OF cur])
      with Some show ?thesis by (auto simp: restrict_map_def table_of_def set_removed_ids)
    qed
  qed
  with mode ups rem show ?thesis by (simp add: receive_def)
qed

lemma SyncMode_distinct [simp]: "SyncModeDelta \<noteq> SyncModeFull" "SyncModeFull \<noteq> SyncModeDelta"
  by (simp_all add: SyncModeDelta_def SyncModeFull_def)

text \<open>The shape of the diff, case by case.\<close>

lemma computeVMInfoDiff_state [simp]:
  "snd (computeVMInfoDiff s current) = s\<lparr>latestVMInfoByID := current\<rparr>"
  by (simp add: computeVMInfoDiff_def Let_def cloneVMInfoMap_def)

lemma diff_unsent_iff:
  assumes "keyed current" and "keyed (lastVMInfoByID s)"
  shows "\<not> snd (snd (snd (fst (computeVMInfoDiff s current)))) \<longleftrightarrow>
         vmInfoSynced s \<and> table_of (lastVMInfoByID s) = table_of current"
proof -
  let ?l = "lastVMInfoByID s"
  have eq: "changed_infos ?l current = [] \<and> removed_ids ?l current = [] \<longleftrightarrow> map_of ?l = map_of current"
    (is "?A \<longleftrightarrow> ?B")
  proof
    assume ?A
    show ?B
    proof
      fix k
      show "map_of ?l k = map_of current k"
      proof (cases "map_of current k")
        case None
        with \<open>?A\<close> set_removed_ids [of ?l current] show ?thesis by auto
      next
        case (Some v)
        with \<open>?A\<close> set_changed_infos [OF assms(1), of ?l] keyedD [OF assms(1) Some] show ?thesis by auto
      qed
    qed
  next
    assume ?B
    then show ?A
      using set_removed_ids [of ?l current] set_changed_infos [OF assms(1), of ?l] by auto
  qed
  have nil: "sort_key vi_VMID xs = [] \<longleftrightarrow> xs = []" "sort ys = [] \<longleftrightarrow> ys = []" for xs ys
    by (metis length_0_conv length_sort)+
  show ?thesis using eq by (auto simp: computeVMInfoDiff_def Let_def nil table_of_def)
qed

lemma diff_message_correct:
  assumes cur: "keyed current" and lst: "keyed (lastVMInfoByID s)"
    and sent: "snd (snd (snd (fst (computeVMInfoDiff s current))))"
    and tab: "vmInfoSynced s \<Longrightarrow> tab = table_of (lastVMInfoByID s)"
  shows "receive (sync_message n t r (fst (computeVMInfoDiff s current))) tab = table_of current"
proof (cases "vmInfoSynced s")
  case False
  then show ?thesis using cur
    by (intro receive_full) (simp_all add: computeVMInfoDiff_def sync_message_def)
next
  case True
  with tab have "tab = table_of (lastVMInfoByID s)" by simp
  then show ?thesis using True sent cur lst
    by (auto simp: computeVMInfoDiff_def sync_message_def Let_def split: if_splits intro!: receive_delta)
qed

section \<open>Runs over a sink\<close>

text \<open>
  \<open>in_step\<close> is the invariant that ties the scheduler to the other side: once something was
  synchronised, the receiver's table is the last synchronised map.
\<close>

definition sched_wf :: "scheduler \<Rightarrow> bool" where
  "sched_wf s \<longleftrightarrow> keyed (latestVMInfoByID s) \<and> keyed (lastVMInfoByID s)"

definition in_step :: "scheduler \<Rightarrow> vm_table \<Rightarrow> bool" where
  "in_step s tab \<longleftrightarrow> sched_wf s \<and> (vmInfoSynced s \<longrightarrow> tab = table_of (lastVMInfoByID s))"

text \<open>One cycle of any of the four loops, with what its collector answered.\<close>

datatype cycle =
  NodeCycle "goerr + NodeMetrics"
| HardwareCycle "goerr + NodeHardwareInfo"
| VMCycle "goerr + VMMetrics list" int
| RuntimeCycle "goerr + VMRuntimeMetrics list" int
| PeriodicCycle int

fun run_cycle :: "'s sink_ops \<Rightarrow> cycle \<Rightarrow> scheduler \<times> 's \<Rightarrow> goerr option \<times> scheduler \<times> 's" where
  "run_cycle S (NodeCycle c) st = collectAndSendNode S c st"
| "run_cycle S (HardwareCycle c) st = syncNodeHardwarePeriodic S c st"
| "run_cycle S (VMCycle c now) st = collectAndSendVM S c now st"
| "run_cycle S (RuntimeCycle c now) st = collectAndSendVMRuntime S c now st"
| "run_cycle S (PeriodicCycle now) st = syncVMInfoPeriodic S now st"

fun run_cycles :: "'s sink_ops \<Rightarrow> cycle list \<Rightarrow> scheduler \<times> 's \<Rightarrow> scheduler \<times> 's" where
  "run_cycles S [] st = st"
| "run_cycles S (c # cs) st = run_cycles S cs (snd (run_cycle S c st))"

context sink
begin

definition good :: "scheduler \<times> 's \<Rightarrow> bool" where
  "good st \<longleftrightarrow> inv (snd st) \<and> in_step (fst st) (view (sent (snd st)))"

lemma good_frame:
  "good (s, k) \<Longrightarrow> inv k' \<Longrightarrow> view (sent k') = view (sent k) \<Longrightarrow> good (s, k')"
  by (simp add: good_def)

lemma sync_from_map:
  assumes g: "good (s, k)" and cur: "keyed current"
    and run: "syncVMInfoFromMap S current n t r (s, k) = (res, s', k')"
  shows "good (s', k')" and "res = None \<Longrightarrow> view (sent k') = table_of current"
proof -
  let ?d = "computeVMInfoDiff s current"
  let ?n = "if n = [] then resolveVMNodeID s current else n"
  from g have k: "inv k" and lst: "keyed (lastVMInfoByID s)"
    and tab: "vmInfoSynced s \<Longrightarrow> view (sent k) = table_of (lastVMInfoByID s)"
    by (auto simp: good_def in_step_def sched_wf_def)
  have st: "snd ?d = s\<lparr>latestVMInfoByID := current\<rparr>" by simp
  have "good (s', k') \<and> (res = None \<longrightarrow> view (sent k') = table_of current)"
  proof (cases "snd (snd (snd (fst ?d)))")
    case False
    with diff_unsent_iff [OF cur lst] have eq: "vmInfoSynced s" "table_of (lastVMInfoByID s) = table_of current"
      by auto
    from run False st have "res = None" "s' = s\<lparr>latestVMInfoByID := current\<rparr>" "k' = k"
      by (auto simp: syncVMInfoFromMap_def Let_def split_def)
    then show ?thesis using g cur eq tab by (simp add: good_def in_step_def sched_wf_def)
  next
    case True
    note right = diff_message_correct [OF cur lst True tab, of ?n t r]
    show ?thesis
    proof (cases "SendVMInfoSync S (sync_message ?n t r (fst ?d)) k")
      case (Pair a k1)
      show ?thesis
      proof (cases a)
        case None
        with run True st Pair
        have out: "res = None" "s' = commitVMInfoSync (s\<lparr>latestVMInfoByID := current\<rparr>) current" "k' = k1"
          by (auto simp: syncVMInfoFromMap_def Let_def split_def split: if_splits)
        have "view (sent k1) = table_of current" "inv k1"
          using view_sync_ok [OF k Pair [unfolded None]] sync_ok(2) [OF k Pair [unfolded None]] right by simp_all
        then show ?thesis
          using out cur by (simp add: good_def in_step_def sched_wf_def commitVMInfoSync_def cloneVMInfoMap_def)
      next
        case (Some e)
        with run True st Pair
        have out: "res = Some e" "s' = s\<lparr>latestVMInfoByID := current\<rparr>" "k' = k1"
          by (auto simp: syncVMInfoFromMap_def Let_def split_def split: if_splits)
        then show ?thesis
          using sync_err [OF k Pair [unfolded Some]] lst cur tab by (simp add: good_def in_step_def sched_wf_def)
      qed
    qed
  qed
  then show "good (s', k')" and "res = None \<Longrightarrow> view (sent k') = table_of current" by simp_all
qed

lemma sync_periodic:
  assumes g: "good (s, k)" and run: "syncVMInfoPeriodic S now (s, k) = (res, s', k')"
  shows "good (s', k')"
    and "res = None \<Longrightarrow> latestVMInfoByID s \<noteq> [] \<Longrightarrow> view (sent k') = table_of (latestVMInfoByID s)"
proof -
  let ?l = "latestVMInfoByID s"
  from g have k: "inv k" and lat: "keyed ?l" by (auto simp: good_def in_step_def sched_wf_def)
  have "good (s', k') \<and> (res = None \<longrightarrow> ?l \<noteq> [] \<longrightarrow> view (sent k') = table_of ?l)"
  proof (cases "?l = []")
    case True
    with run g show ?thesis by (auto simp: syncVMInfoPeriodic_def periodicSnapshot_def)
  next
    case False
    then obtain info where info: "periodicSnapshot s now = Some info"
      and full: "vs_SyncMode info = SyncModeFull" "vs_Upserts info = SortedVMInfosByID ?l"
      by (auto simp: periodicSnapshot_def Let_def)
    show ?thesis
    proof (cases "SendVMInfoSync S info k")
      case (Pair a k1)
      show ?thesis
      proof (cases a)
        case None
        with run info Pair have out: "res = None" "s' = periodicCommit s" "k' = k1"
          by (auto simp: syncVMInfoPeriodic_def)
        have "view (sent k1) = table_of ?l" "inv k1"
          using view_sync_ok [OF k Pair [unfolded None]] sync_ok(2) [OF k Pair [unfolded None]]
            receive_full [OF lat full] by simp_all
        then show ?thesis using out False lat
          by (simp add: good_def in_step_def sched_wf_def periodicCommit_def cloneVMInfoMap_def Let_def)
      next
        case (Some e)
        with run info Pair have "res = Some e" "s' = s" "k' = k1"
          by (auto simp: syncVMInfoPeriodic_def)
        then show ?thesis using sync_err [OF k Pair [unfolded Some]] g by (simp add: good_def)
      qed
    qed
  qed
  then show "good (s', k')"
    and "res = None \<Longrightarrow> ?l \<noteq> [] \<Longrightarrow> view (sent k') = table_of ?l" by simp_all
qed

lemma runtime_cycle:
  assumes g: "good (s, k)"
    and run: "collectAndSendVMRuntime S collected now (s, k) = (res, s', k')"
  shows "good (s', k')"
    and "collected = Inr ms \<Longrightarrow> res = None \<Longrightarrow>
         view (sent k') = table_of (BuildVMInfoMapFromRuntime ms)"
proof -
  have "good (s', k') \<and> (\<forall>ms. collected = Inr ms \<longrightarrow> res = None \<longrightarrow>
          view (sent k') = table_of (BuildVMInfoMapFromRuntime ms))"
  proof (cases collected)
    case (Inl e)
    with run g show ?thesis by (auto simp: collectAndSendVMRuntime_def)
  next
    case (Inr ms)
    show ?thesis
    proof (cases "ms = []")
      case True
      with run Inr have "syncVMInfoFromMap S [] [] now ''runtime_change'' (s, k) = (res, s', k')"
        by (simp add: collectAndSendVMRuntime_def)
      from sync_from_map [OF g keyed_Nil this] show ?thesis
        using Inr True by (simp add: BuildVMInfoMapFromRuntime_def)
    next
      case False
      obtain a k1 where snd_eq: "SendVMRuntimeMetrics S ms k = (a, k1)" by fastforce
      have k1: "inv k1" "view (sent k1) = view (sent k)"
        using view_runtime [OF _ snd_eq] g by (simp_all add: good_def)
      have g1: "good (s, k1)" by (rule good_frame [OF g k1])
      show ?thesis
      proof (cases a)
        case (Some e)
        with run Inr False snd_eq have "res = Some e" "s' = s" "k' = k1"
          by (auto simp: collectAndSendVMRuntime_def)
        with g1 show ?thesis by simp
      next
        case None
        with run Inr False snd_eq obtain n t where
          "syncVMInfoFromMap S (BuildVMInfoMapFromRuntime ms) n t ''runtime_change'' (s, k1) = (res, s', k')"
          by (auto simp: collectAndSendVMRuntime_def syncVMInfoFromRuntimeMetrics_def Let_def split_def)
        from sync_from_map [OF g1 keyed_BuildVMInfoMapFromRuntime this] Inr show ?thesis by simp
      qed
    qed
  qed
  then show "good (s', k')"
    and "collected = Inr ms \<Longrightarrow> res = None \<Longrightarrow> view (sent k') = table_of (BuildVMInfoMapFromRuntime ms)"
    by simp_all
qed

lemma vm_cycle:
  assumes g: "good (s, k)" and run: "collectAndSendVM S collected now (s, k) = (res, s', k')"
  shows "good (s', k')"
proof (cases collected)
  case (Inl e)
  with run g show ?thesis by (auto simp: collectAndSendVM_def)
next
  case (Inr ms)
  show ?thesis
  proof (cases "ms = []")
    case True
    show ?thesis
    proof (cases "sc_hasRuntime s")
      case True
      with run g Inr \<open>ms = []\<close> show ?thesis by (auto simp: collectAndSendVM_def)
    next
      case False
      with run Inr True have "syncVMInfoFromMap S [] [] now ''runtime_change'' (s, k) = (res, s', k')"
        by (simp add: collectAndSendVM_def)
      from sync_from_map(1) [OF g keyed_Nil this] show ?thesis .
    qed
  next
    case False
    obtain a k1 where snd_eq: "SendVMMetrics S ms k = (a, k1)" by fastforce
    have k1: "inv k1" "view (sent k1) = view (sent k)"
      using view_vm [OF _ snd_eq] g by (simp_all add: good_def)
    have g1: "good (s, k1)" by (rule good_frame [OF g k1])
    show ?thesis
    proof (cases "a = None \<and> \<not> sc_hasRuntime s")
      case True
      with run Inr False snd_eq obtain n t where
        "syncVMInfoFromMap S (BuildVMInfoMap ms) n t ''runtime_change'' (s, k1) = (res, s', k')"
        by (auto simp: collectAndSendVM_def syncVMInfoFromVMMetrics_def Let_def split_def)
      from sync_from_map(1) [OF g1 keyed_BuildVMInfoMap this] show ?thesis .
    next
      case other: False
      with run Inr False snd_eq have "s' = s" "k' = k1"
        by (auto simp: collectAndSendVM_def split: option.splits if_splits)
      with g1 show ?thesis by simp
    qed
  qed
qed

lemma metric_cycle:
  assumes g: "good (s, k)"
  shows "good (snd (collectAndSendNode S cn (s, k)))"
    and "good (snd (syncNodeHardwarePeriodic S ch (s, k)))"
  using g node_law [of k] hardware_law [of k]
  by (auto simp: collectAndSendNode_def syncNodeHardwarePeriodic_def good_def sends_def split_def Let_def
      split: sum.splits)

lemma cycle_good: "good st \<Longrightarrow> good (snd (run_cycle S c st))"
proof (cases c)
  case (RuntimeCycle x now)
  assume "good st"
  then show ?thesis using runtime_cycle(1) [of "fst st" "snd st" x now] RuntimeCycle
    by (metis prod.collapse run_cycle.simps(4))
next
  case (VMCycle x now)
  assume "good st"
  then show ?thesis using vm_cycle [of "fst st" "snd st" x now] VMCycle
    by (metis prod.collapse run_cycle.simps(3))
next
  case (PeriodicCycle now)
  assume "good st"
  then show ?thesis using sync_periodic(1) [of "fst st" "snd st" now] PeriodicCycle
    by (metis prod.collapse run_cycle.simps(5))
qed (metis metric_cycle prod.collapse run_cycle.simps(1), metis metric_cycle prod.collapse run_cycle.simps(2))

lemma run_good: "good st \<Longrightarrow> good (run_cycles S cs st)"
  by (induction cs arbitrary: st) (auto simp: cycle_good)

text \<open>From a fresh scheduler: after any run, a synchronised scheduler is in step.\<close>

lemma run_in_step:
  assumes "inv k" and "view (sent k) = Map.empty"
    and "latestVMInfoByID s = []" and "lastVMInfoByID s = []" and "\<not> vmInfoSynced s"
  shows "good (run_cycles S cs (s, k))"
  using assms by (intro run_good) (simp add: good_def in_step_def sched_wf_def)

end

end
