(* ===== verification/Sync_Race.thy ===== *)
theory Sync_Race
  imports Scheduler_Facts
begin

text \<open>
  The two goroutines that synchronise the table of virtual machines, interleaved: the runtime loop
  (\<open>syncVMInfoFromMap\<close>) and the periodic loop (\<open>syncVMInfoPeriodic\<close>). Each runs its critical sections
  under \<^verbatim>\<open>s.mu\<close> and sends outside of them; a send itself is one step, because the transport
  serialises its callers. The state adds the receiver's table and the point each goroutine is at.
\<close>

datatype runtime_pc = RIdle | RSend VMInfoSync vm_map | RCommit vm_map

datatype periodic_pc = PIdle | PSend VMInfoSync | PCommit

record race =
  rc_sched :: scheduler
  rc_table :: vm_table
  rc_run :: runtime_pc
  rc_per :: periodic_pc

text \<open>
  The steps: the runtime loop computes the diff of a map of its cycle, sends, and commits; the
  periodic loop takes its snapshot, sends, and commits. The flag of a send is whether it succeeded.
\<close>

datatype action =
  RunDiff vm_map string int string
| RunSend bool
| RunCommit
| PerSnapshot int
| PerSend bool
| PerCommit

fun race_exec :: "action \<Rightarrow> race \<Rightarrow> race option" where
  "race_exec (RunDiff current n t reason) r =
     (case rc_run r of
        RIdle \<Rightarrow>
          if keyed current then
            (let (d, s') = computeVMInfoDiff (rc_sched r) current
             in Some (r\<lparr>rc_sched := s',
                        rc_run := (if snd (snd (snd d)) then RSend (sync_message n t reason d) current
                                   else RIdle)\<rparr>))
          else None
      | _ \<Rightarrow> None)"
| "race_exec (RunSend ok) r =
     (case rc_run r of
        RSend msg current \<Rightarrow>
          Some (if ok then r\<lparr>rc_table := receive msg (rc_table r), rc_run := RCommit current\<rparr>
                else r\<lparr>rc_run := RIdle\<rparr>)
      | _ \<Rightarrow> None)"
| "race_exec RunCommit r =
     (case rc_run r of
        RCommit current \<Rightarrow> Some (r\<lparr>rc_sched := commitVMInfoSync (rc_sched r) current, rc_run := RIdle\<rparr>)
      | _ \<Rightarrow> None)"
| "race_exec (PerSnapshot now) r =
     (case (rc_per r, periodicSnapshot (rc_sched r) now) of
        (PIdle, Some info) \<Rightarrow> Some (r\<lparr>rc_per := PSend info\<rparr>)
      | _ \<Rightarrow> None)"
| "race_exec (PerSend ok) r =
     (case rc_per r of
        PSend info \<Rightarrow>
          Some (if ok then r\<lparr>rc_table := receive info (rc_table r), rc_per := PCommit\<rparr>
                else r\<lparr>rc_per := PIdle\<rparr>)
      | _ \<Rightarrow> None)"
| "race_exec PerCommit r =
     (case rc_per r of
        PCommit \<Rightarrow> Some (r\<lparr>rc_sched := periodicCommit (rc_sched r), rc_per := PIdle\<rparr>)
      | _ \<Rightarrow> None)"

definition race_init :: "scheduler \<Rightarrow> race" where
  "race_init s = \<lparr>rc_sched = s, rc_table = Map.empty, rc_run = RIdle, rc_per = PIdle\<rparr>"

inductive race_reach :: "scheduler \<Rightarrow> race \<Rightarrow> bool" for s where
  race_start: "race_reach s (race_init s)"
| race_move: "race_reach s r \<Longrightarrow> race_exec a r = Some r' \<Longrightarrow> race_reach s r'"

fun race_run :: "action list \<Rightarrow> race \<Rightarrow> race option" where
  "race_run [] r = Some r"
| "race_run (a # as) r = (case race_exec a r of None \<Rightarrow> None | Some r' \<Rightarrow> race_run as r')"

lemma race_run_reach:
  "race_reach s r \<Longrightarrow> race_run as r = Some r' \<Longrightarrow> race_reach s r'"
  by (induction as arbitrary: r) (auto split: option.splits intro: race_move)

section \<open>What survives the interleaving\<close>

text \<open>
  In every reachable state the maps are keyed, and each message in flight is the one its sender
  computed: a full snapshot of some keyed map, or the message of some diff.
\<close>

definition race_ok :: "race \<Rightarrow> bool" where
  "race_ok r \<longleftrightarrow> sched_wf (rc_sched r) \<and>
     (case rc_run r of RIdle \<Rightarrow> True | RSend msg m \<Rightarrow> keyed m | RCommit m \<Rightarrow> keyed m) \<and>
     (case rc_per r of
        PSend info \<Rightarrow> \<exists>m. keyed m \<and> (\<forall>tab. receive info tab = table_of m)
      | _ \<Rightarrow> True)"

lemma periodicSnapshot_full:
  assumes "keyed (latestVMInfoByID s)" and "periodicSnapshot s now = Some info"
  shows "receive info tab = table_of (latestVMInfoByID s)"
  using assms by (intro receive_full) (auto simp: periodicSnapshot_def Let_def split: if_splits)

lemma race_exec_ok: "race_ok r \<Longrightarrow> race_exec a r = Some r' \<Longrightarrow> race_ok r'"
proof (cases a)
  case (RunDiff current n t reason)
  assume "race_ok r" "race_exec a r = Some r'"
  with RunDiff show ?thesis
    by (auto simp: race_ok_def sched_wf_def Let_def split_def split: runtime_pc.splits if_splits)
next
  case (PerSnapshot now)
  assume ok: "race_ok r" and st: "race_exec a r = Some r'"
  from st PerSnapshot obtain info where
    info: "periodicSnapshot (rc_sched r) now = Some info" and r': "r' = r\<lparr>rc_per := PSend info\<rparr>"
    by (auto split: periodic_pc.splits option.splits)
  have k: "keyed (latestVMInfoByID (rc_sched r))" using ok by (simp add: race_ok_def sched_wf_def)
  then have "\<forall>tab. receive info tab = table_of (latestVMInfoByID (rc_sched r))"
    using periodicSnapshot_full [OF k info] by blast
  with ok r' k show ?thesis by (auto simp: race_ok_def)
qed (auto simp: race_ok_def sched_wf_def commitVMInfoSync_def periodicCommit_def cloneVMInfoMap_def Let_def
    split: runtime_pc.splits periodic_pc.splits if_splits)

lemma race_reach_ok:
  assumes "race_reach s r" and "latestVMInfoByID s = []" and "lastVMInfoByID s = []"
  shows "race_ok r"
  using assms
proof (induction rule: race_reach.induct)
  case race_start
  then show ?case by (simp add: race_ok_def race_init_def sched_wf_def)
next
  case (race_move r a r')
  then show ?case by (blast intro: race_exec_ok)
qed

section \<open>A lost update\<close>

text \<open>
  Both goroutines at work on one machine \<open>a\<close> that stops: the periodic loop takes its snapshot while
  the machine runs, the runtime loop then sends and commits the stopped state, and only then does
  the snapshot go out and the periodic loop commits the latest map as synchronised.
\<close>

definition race_vm :: "string \<Rightarrow> VMInfo" where
  "race_vm st =
     \<lparr>vi_NodeID = ''n1'', vi_VMID = ''a'', vi_VMName = ''web'', vi_State = st, vi_VCPUCount = 2,
      vi_RAMTotalBytes = 1024, vi_DiskCount = 1, vi_GPUCount = 0\<rparr>"

definition race_actions :: "action list" where
  "race_actions =
     [RunDiff [(''a'', race_vm ''running'')] ''n1'' 1 ''runtime_change'', RunSend True, RunCommit,
      PerSnapshot 2,
      RunDiff [(''a'', race_vm ''shutoff'')] ''n1'' 3 ''runtime_change'', RunSend True, RunCommit,
      PerSend True, PerCommit]"

definition all_sends_ok :: "action list \<Rightarrow> bool" where
  "all_sends_ok as \<longleftrightarrow> RunSend False \<notin> set as \<and> PerSend False \<notin> set as"

lemmas race_eval =
  computeVMInfoDiff_def keyed_def mwf_def race_vm_def sync_message_def
  changed_infos_def removed_ids_def SyncModeFull_def SyncModeDelta_def cloneVMInfoMap_def
  commitVMInfoSync_def periodicSnapshot_def periodicCommit_def SortedVMInfosByID_def mget_def

lemma race_actions_end:
  "race_run race_actions (race_init (NewScheduler True True 0 0 0 0 0 v)) =
     Some \<lparr>rc_sched = (NewScheduler True True 0 0 0 0 0 v)
             \<lparr>latestVMInfoByID := [(''a'', race_vm ''shutoff'')],
              lastVMInfoByID := [(''a'', race_vm ''shutoff'')], vmInfoSynced := True\<rparr>,
           rc_table = [''a'' \<mapsto> race_vm ''running''], rc_run = RIdle, rc_per = PIdle\<rparr>"
  by (simp add: race_actions_def race_init_def NewScheduler_def receive_def upsert_all_def race_eval)

end
