(* ===== verification/Sync_Healing.thy ===== *)
theory Sync_Healing
  imports Sync_Race
begin

text \<open>
  What keeps the two synchronising loops from losing updates: a round of the periodic loop that no step
  of the runtime loop interrupts. Over every interleaving in which the periodic rounds are undisturbed
  the backend's table is the last synchronised one, and one such round repairs whatever an earlier
  interleaving has lost.
\<close>

section \<open>Messages in flight\<close>

text \<open>A message leaves the table that it describes alone.\<close>

lemma diff_message_idem:
  assumes cur: "keyed current" and sent: "snd (snd (snd (fst (computeVMInfoDiff s current))))"
  shows "receive (sync_message n t r (fst (computeVMInfoDiff s current))) (table_of current) = table_of current"
proof (cases "vmInfoSynced s")
  case False
  then show ?thesis using cur by (intro receive_full) (simp_all add: computeVMInfoDiff_def sync_message_def)
next
  case True
  let ?u = "sort_key vi_VMID (changed_infos (lastVMInfoByID s) current)"
  let ?r = "sort (removed_ids (lastVMInfoByID s) current)"
  have "upsert_all ?u (table_of current |` (- set ?r)) = table_of current"
  proof (rule upsert_all_keyed [OF cur])
    show "distinct (map vi_VMID ?u)"
      using distinct_changed_ids [OF cur, of "lastVMInfoByID s"] by (simp add: distinct_map)
    show "set ?u \<subseteq> snd ` set current" by (auto simp: changed_infos_def)
    show "(table_of current |` (- set ?r)) k = map_of current k" for k
      by (cases "map_of current k") (auto simp: restrict_map_def table_of_def set_removed_ids)
  qed
  with True sent show ?thesis
    by (auto simp: computeVMInfoDiff_def sync_message_def receive_def Let_def split: if_splits)
qed

text \<open>While the runtime loop is between its diff and its commit, its map is the latest one.\<close>

definition in_flight :: "race \<Rightarrow> bool" where
  "in_flight r \<longleftrightarrow>
     (case rc_run r of
        RIdle \<Rightarrow> True
      | RSend msg m \<Rightarrow> latestVMInfoByID (rc_sched r) = m \<and> receive msg (table_of m) = table_of m
      | RCommit m \<Rightarrow> latestVMInfoByID (rc_sched r) = m)"

lemma periodicCommit_latest [simp]: "latestVMInfoByID (periodicCommit s) = latestVMInfoByID s"
  by (simp add: periodicCommit_def Let_def)

lemma race_exec_in_flight: "in_flight r \<Longrightarrow> race_exec a r = Some r' \<Longrightarrow> in_flight r'"
proof (cases a)
  case (RunDiff current n t reason)
  assume "in_flight r" "race_exec a r = Some r'"
  with RunDiff show ?thesis
    using diff_message_idem [of current "rc_sched r" n t reason]
    by (auto simp: in_flight_def Let_def split_def split: runtime_pc.splits if_splits)
qed (auto simp: in_flight_def split: runtime_pc.splits periodic_pc.splits option.splits if_splits)

lemma race_reach_in_flight: "race_reach s r \<Longrightarrow> in_flight r"
proof (induction rule: race_reach.induct)
  case race_start
  show ?case by (simp add: in_flight_def race_init_def)
next
  case (race_move r a r')
  then show ?case by (blast intro: race_exec_in_flight)
qed

section \<open>Undisturbed rounds\<close>

text \<open>The interleavings in which a periodic round, once begun, runs to its end.\<close>

fun runtime_action :: "action \<Rightarrow> bool" where
  "runtime_action (RunDiff _ _ _ _) = True"
| "runtime_action (RunSend _) = True"
| "runtime_action RunCommit = True"
| "runtime_action _ = False"

inductive undisturbed :: "action list \<Rightarrow> bool" where
  no_action: "undisturbed []"
| round_sent: "undisturbed as \<Longrightarrow> undisturbed (PerSnapshot now # PerSend True # PerCommit # as)"
| round_failed: "undisturbed as \<Longrightarrow> undisturbed (PerSnapshot now # PerSend False # as)"
| runtime_step: "runtime_action a \<Longrightarrow> undisturbed as \<Longrightarrow> undisturbed (a # as)"

text \<open>
  \<open>in_sync\<close>: the backend holds the last synchronised table, or the one whose message the runtime loop
  has sent; a message not sent yet will turn the backend's table into the latest one.
\<close>

definition in_sync :: "race \<Rightarrow> bool" where
  "in_sync r \<longleftrightarrow> race_ok r \<and> in_flight r \<and> rc_per r = PIdle \<and>
     (let s = rc_sched r; synced = (vmInfoSynced s \<longrightarrow> rc_table r = table_of (lastVMInfoByID s))
      in case rc_run r of
           RIdle \<Rightarrow> synced
         | RSend msg m \<Rightarrow> synced \<and> receive msg (rc_table r) = table_of m
         | RCommit m \<Rightarrow> rc_table r = table_of m)"

lemma in_sync_run:
  assumes "in_sync r" and "race_exec a r = Some r'" and "runtime_action a"
  shows "in_sync r'"
proof -
  have ok: "race_ok r'" "in_flight r'"
    using assms(1,2) race_exec_ok race_exec_in_flight unfolding in_sync_def by blast+
  show ?thesis
  proof (cases a)
    case (RunDiff current n t reason)
    with assms(2) have k: "keyed current" and idle: "rc_run r = RIdle"
      by (auto split: runtime_pc.splits if_splits)
    let ?s = "rc_sched r" and ?d = "fst (computeVMInfoDiff (rc_sched r) current)"
    have tab: "vmInfoSynced ?s \<Longrightarrow> rc_table r = table_of (lastVMInfoByID ?s)" and lst: "keyed (lastVMInfoByID ?s)"
      using assms(1) idle by (simp_all add: in_sync_def race_ok_def sched_wf_def Let_def)
    have "snd (snd (snd ?d)) \<Longrightarrow> receive (sync_message n t reason ?d) (rc_table r) = table_of current"
      using diff_message_correct [OF k lst _ tab] by blast
    then show ?thesis
      using assms(1,2) ok RunDiff idle k tab
      unfolding in_sync_def by (auto simp: Let_def split_def split: if_splits)
  next
    case (RunSend b)
    with assms(1,2) ok show ?thesis
      unfolding in_sync_def by (auto simp: Let_def in_flight_def split: runtime_pc.splits if_splits)
  next
    case RunCommit
    with assms(1,2) ok show ?thesis
      unfolding in_sync_def by (auto simp: Let_def commitVMInfoSync_def cloneVMInfoMap_def split: runtime_pc.splits)
  qed (use assms(3) in auto)
qed

lemma race_run_kept:
  "race_run as r = Some r' \<Longrightarrow> race_ok r \<Longrightarrow> in_flight r \<Longrightarrow> race_ok r' \<and> in_flight r'"
proof (induction as arbitrary: r)
  case (Cons a as)
  then obtain r1 where "race_exec a r = Some r1" "race_run as r1 = Some r'"
    by (auto simp del: race_exec.simps split: option.splits)
  with Cons race_exec_ok race_exec_in_flight show ?case by blast
qed simp

text \<open>A successful round from any reachable state ends in step, whatever was lost before it.\<close>

lemma round_heals:
  assumes "race_ok r" and "in_flight r" and "rc_per r = PIdle"
    and "race_run [PerSnapshot now, PerSend True, PerCommit] r = Some r'"
  shows "in_sync r' \<and> vmInfoSynced (rc_sched r') \<and> rc_run r' = rc_run r \<and>
    lastVMInfoByID (rc_sched r') = latestVMInfoByID (rc_sched r)"
proof -
  let ?s = "rc_sched r"
  from assms(3,4) obtain info where info: "periodicSnapshot ?s now = Some info"
    by (auto split: option.splits)
  have k: "keyed (latestVMInfoByID ?s)" using assms(1) by (simp add: race_ok_def sched_wf_def)
  have ne: "latestVMInfoByID ?s \<noteq> []" using info by (auto simp: periodicSnapshot_def)
  have r': "r' = r\<lparr>rc_sched := periodicCommit ?s, rc_table := table_of (latestVMInfoByID ?s), rc_per := PIdle\<rparr>"
    using assms(3,4) info periodicSnapshot_full [OF k info] by auto
  have "race_ok r'" "in_flight r'"
    using race_run_kept [OF assms(4,1,2)] by blast+
  then show ?thesis
    using ne unfolding in_sync_def r'
    by (auto simp: Let_def periodicCommit_def cloneVMInfoMap_def in_flight_def split: runtime_pc.splits)
qed

lemma failed_round:
  assumes "in_sync r" and "race_run [PerSnapshot now, PerSend False] r = Some r'"
  shows "r' = r"
  using assms by (auto simp: in_sync_def split: option.splits periodic_pc.splits)

lemma race_run_append:
  "race_run (as @ bs) r = (case race_run as r of None \<Rightarrow> None | Some r' \<Rightarrow> race_run bs r')"
  by (induction as arbitrary: r) (simp_all split: option.splits)

lemma undisturbed_in_sync:
  "undisturbed as \<Longrightarrow> in_sync r \<Longrightarrow> race_run as r = Some r' \<Longrightarrow> in_sync r'"
proof (induction as arbitrary: r rule: undisturbed.induct)
  case (round_sent as now)
  from round_sent.prems obtain r1 where r1: "race_run [PerSnapshot now, PerSend True, PerCommit] r = Some r1"
    and rest: "race_run as r1 = Some r'"
    using race_run_append [of "[PerSnapshot now, PerSend True, PerCommit]" as r] by (auto split: option.splits)
  from round_sent.prems(1) have "race_ok r" "in_flight r" "rc_per r = PIdle" by (simp_all add: in_sync_def)
  from round_heals [OF this r1] have "in_sync r1" by blast
  then show ?case by (rule round_sent.IH [OF _ rest])
next
  case (round_failed as now)
  from round_failed.prems obtain r1 where r1: "race_run [PerSnapshot now, PerSend False] r = Some r1"
    and rest: "race_run as r1 = Some r'"
    using race_run_append [of "[PerSnapshot now, PerSend False]" as r] by (auto split: option.splits)
  then show ?case using round_failed.IH failed_round [OF round_failed.prems(1) r1] round_failed.prems by blast
next
  case (runtime_step a as)
  from runtime_step.prems obtain r1 where "race_exec a r = Some r1" and rest: "race_run as r1 = Some r'"
    by (auto simp del: race_exec.simps split: option.splits)
  with in_sync_run [OF runtime_step.prems(1)] runtime_step show ?case by blast
qed simp

lemma fresh_in_sync:
  assumes "latestVMInfoByID s = []" and "lastVMInfoByID s = []" and "\<not> vmInfoSynced s"
  shows "in_sync (race_init s)"
  using assms by (simp add: in_sync_def race_ok_def in_flight_def race_init_def sched_wf_def)

section \<open>Nothing is lost for good\<close>

text \<open>
  A periodic round repairs every loss: after any interleaving of the two loops, even one that has
  lost an update, one undisturbed successful round of the periodic loop and then any steps in which the
  periodic rounds are undisturbed (whatever sends fail) leave the backend, whenever the runtime loop is
  idle, with exactly the last synchronised table; and right after the round that is the latest table.
\<close>

theorem periodic_round_heals:
  assumes "race_reach (NewScheduler hw rt i1 i2 i3 i4 i5 v) r" and "rc_per r = PIdle"
    and "race_run [PerSnapshot now, PerSend True, PerCommit] r = Some r1"
    and "undisturbed as" and "race_run as r1 = Some r'"
  shows "rc_table r1 = table_of (latestVMInfoByID (rc_sched r)) \<and>
    (rc_run r' = RIdle \<longrightarrow> vmInfoSynced (rc_sched r') \<longrightarrow> rc_table r' = table_of (lastVMInfoByID (rc_sched r')))"
proof -
  have ok: "race_ok r" using race_reach_ok [OF assms(1)] by (simp add: NewScheduler_def)
  have fl: "in_flight r" by (rule race_reach_in_flight [OF assms(1)])
  have "periodicSnapshot (rc_sched r) now \<noteq> None"
    using assms(2,3) by (auto split: option.splits)
  then obtain info where info: "periodicSnapshot (rc_sched r) now = Some info" by auto
  have "keyed (latestVMInfoByID (rc_sched r))" using ok by (simp add: race_ok_def sched_wf_def)
  then have "rc_table r1 = table_of (latestVMInfoByID (rc_sched r))"
    using assms(2,3) info periodicSnapshot_full [OF _ info] by auto
  moreover have "in_sync r'"
    using undisturbed_in_sync [OF assms(4) _ assms(5)] round_heals [OF ok fl assms(2,3)] by blast
  ultimately show ?thesis by (auto simp: in_sync_def Let_def)
qed

text \<open>The lost update of \<open>race_actions\<close>, repaired by the next round.\<close>

theorem periodic_round_heals_witness:
  "\<exists>r r1. race_run race_actions (race_init (NewScheduler True True 0 0 0 0 0 [])) = Some r \<and>
     rc_table r = [''a'' \<mapsto> race_vm ''running''] \<and>
     race_run [PerSnapshot 9, PerSend True, PerCommit] r = Some r1 \<and>
     rc_table r1 = [''a'' \<mapsto> race_vm ''shutoff'']"
proof -
  let ?s = "NewScheduler True True 0 0 0 0 0 []"
  obtain r where run: "race_run race_actions (race_init ?s) = Some r"
    and r: "rc_per r = PIdle" "rc_table r = [''a'' \<mapsto> race_vm ''running'']"
      "latestVMInfoByID (rc_sched r) = [(''a'', race_vm ''shutoff'')]"
    using race_actions_end [of "[]"] by auto
  have reach: "race_reach ?s r" by (rule race_run_reach [OF race_start run])
  obtain r1 where r1: "race_run [PerSnapshot 9, PerSend True, PerCommit] r = Some r1"
    using r by (auto simp: periodicSnapshot_def Let_def)
  have "rc_table r1 = table_of (latestVMInfoByID (rc_sched r))"
    using periodic_round_heals [OF reach r(1) r1 no_action] by simp
  then show ?thesis using run r r1 by (auto simp: table_of_def)
qed

end
