(* ===== verification/Sync_Properties.thy ===== *)
theory Sync_Properties
  imports Sync_Healing
begin

text \<open>
  The properties of the synchronisation of the table of virtual machines, over the definitions of
  \<open>Sync_Info\<close>, \<open>Scheduler\<close> and \<open>Sync_Race\<close>.
\<close>

text \<open>
  C3. The message is right and sent only when needed: for a map of machines keyed by their ids, nothing
  is sent exactly when the scheduler is synchronised and the last synchronised table equals the current
  one; and when a message is sent, a receiver that holds the last synchronised table (any table at
  all, before the first synchronisation) holds exactly the current table after it.
\<close>

theorem sync_message_exact:
  assumes "keyed current" and "keyed (lastVMInfoByID s)"
  shows "let d = fst (computeVMInfoDiff s current); send = snd (snd (snd d)) in
    (\<not> send \<longleftrightarrow> vmInfoSynced s \<and> table_of (lastVMInfoByID s) = table_of current) \<and>
    (send \<longrightarrow> (\<forall>tab. (vmInfoSynced s \<longrightarrow> tab = table_of (lastVMInfoByID s)) \<longrightarrow>
       receive (sync_message n t r d) tab = table_of current))"
  using diff_unsent_iff [OF assms] diff_message_correct [OF assms] by (simp add: Let_def)

definition synced_scheduler :: "vm_map \<Rightarrow> scheduler" where
  "synced_scheduler m =
     (NewScheduler True True 0 0 0 0 0 [])\<lparr>latestVMInfoByID := m, lastVMInfoByID := m, vmInfoSynced := True\<rparr>"

theorem sync_message_exact_witness:
  "let d = fst (computeVMInfoDiff (synced_scheduler [(''a'', race_vm ''running'')]) []) in
     snd (snd (snd d)) \<and> receive (sync_message [] 0 [] d) [''a'' \<mapsto> race_vm ''running''] = Map.empty"
proof -
  let ?s = "synced_scheduler [(''a'', race_vm ''running'')]"
  have k: "keyed (lastVMInfoByID ?s)" by (simp add: synced_scheduler_def race_eval)
  have "snd (snd (snd (fst (computeVMInfoDiff ?s []))))"
    by (simp add: synced_scheduler_def NewScheduler_def race_eval)
  then show ?thesis
    using sync_message_exact [OF keyed_Nil k, of "[]" 0 "[]"]
    by (simp add: Let_def synced_scheduler_def table_of_def)
qed

text \<open>
  C14. The delta is minimal and in order: once synchronised, the upserts are exactly the current machines
  that are new or changed, in strictly increasing id order, and the removed ids are exactly the ids
  that disappeared, in strictly increasing order.
\<close>

theorem delta_minimal:
  assumes "keyed current" and "keyed (lastVMInfoByID s)" and "vmInfoSynced s"
    and "fst (computeVMInfoDiff s current) = (upserts, removed, mode, True)"
  shows "mode = SyncModeDelta \<and>
    set upserts = {v. map_of current (vi_VMID v) = Some v \<and> map_of (lastVMInfoByID s) (vi_VMID v) \<noteq> Some v} \<and>
    sorted_wrt (<) (map vi_VMID upserts) \<and>
    set removed = dom (map_of (lastVMInfoByID s)) - dom (map_of current) \<and> sorted_wrt (<) removed"
proof -
  let ?l = "lastVMInfoByID s"
  have u: "upserts = sort_key vi_VMID (changed_infos ?l current)" and r: "removed = sort (removed_ids ?l current)"
    and m: "mode = SyncModeDelta"
    using assms(3,4) by (auto simp: computeVMInfoDiff_def Let_def split: if_splits)
  have du: "distinct (map vi_VMID upserts)"
    using distinct_changed_ids [OF assms(1), of ?l] by (simp add: u distinct_map)
  have dr: "distinct removed" using distinct_removed_ids [of ?l current] assms(2) by (simp add: r keyed_mwf)
  show ?thesis
    using du dr set_changed_infos [OF assms(1)] set_removed_ids
    by (simp add: m u r strict_sorted_iff)
qed

theorem delta_minimal_witness:
  "fst (computeVMInfoDiff (synced_scheduler [(''a'', race_vm ''running'')]) [(''a'', race_vm ''shutoff'')]) =
     ([race_vm ''shutoff''], [], SyncModeDelta, True) \<and> set ([] :: string list) = dom Map.empty"
  using delta_minimal [of "[(''a'', race_vm ''shutoff'')]" "synced_scheduler [(''a'', race_vm ''running'')]"
      "[race_vm ''shutoff'']" "[]" SyncModeDelta]
  by (simp add: synced_scheduler_def NewScheduler_def race_eval)

text \<open>
  C15. The order in which Go ranges over a map does not show: on two maps with the same entries, in
  whatever order they are visited, the diff is the same message, for a full message and for a delta.
\<close>

theorem diff_order_independent:
  assumes "same_map current current'" and "same_map (lastVMInfoByID s) (lastVMInfoByID s')"
    and "vmInfoSynced s = vmInfoSynced s'" and "keyed current"
  shows "fst (computeVMInfoDiff s current) = fst (computeVMInfoDiff s' current')"
proof -
  let ?l = "lastVMInfoByID s" and ?l' = "lastVMInfoByID s'"
  have eq: "map_of current = map_of current'" "map_of ?l = map_of ?l'"
    using assms(1,2) by (simp_all add: same_map_map_of)
  have k': "keyed current'"
    using assms(1,4) by (auto simp: keyed_def same_map_def)
  have set_u: "set (changed_infos ?l current) = set (changed_infos ?l' current')"
    by (simp add: set_changed_infos [OF assms(4)] set_changed_infos [OF k'] eq)
  have d: "distinct (map vi_VMID (changed_infos ?l current))" "distinct (map vi_VMID (changed_infos ?l' current'))"
    using distinct_changed_ids assms(4) k' by blast+
  have u: "sort_key vi_VMID (changed_infos ?l current) = sort_key vi_VMID (changed_infos ?l' current')"
    using d set_u by (intro sort_key_unique) (simp_all add: distinct_map)
  have r: "sort (removed_ids ?l current) = sort (removed_ids ?l' current')"
    using assms(2) by (intro sort_unique) (simp_all add: distinct_removed_ids same_map_def set_removed_ids eq [unfolded same_map_def])
  show ?thesis
    by (simp add: computeVMInfoDiff_def Let_def u r assms(3) SortedVMInfosByID_order [OF assms(1)])
qed

theorem diff_order_independent_witness:
  "fst (computeVMInfoDiff (synced_scheduler []) [(''a'', race_vm ''running''), (''b'', race_vm ''running''\<lparr>vi_VMID := ''b''\<rparr>)]) =
   fst (computeVMInfoDiff (synced_scheduler []) [(''b'', race_vm ''running''\<lparr>vi_VMID := ''b''\<rparr>), (''a'', race_vm ''running'')])"
  by (rule diff_order_independent) (auto simp: same_map_def synced_scheduler_def race_eval)

text \<open>
  A periodic sync repairs any receiver: whatever table the other side holds, the periodic full
  message leaves it with exactly the scheduler's latest table.
\<close>

theorem periodic_sync_heals:
  assumes "keyed (latestVMInfoByID s)" and "periodicSnapshot s now = Some info"
  shows "receive info tab = table_of (latestVMInfoByID s)"
  by (rule periodicSnapshot_full [OF assms])

theorem periodic_sync_heals_witness:
  "receive (the (periodicSnapshot (synced_scheduler [(''a'', race_vm ''shutoff'')]) 1)) [''a'' \<mapsto> race_vm ''running''] =
     [''a'' \<mapsto> race_vm ''shutoff'']"
proof -
  let ?s = "synced_scheduler [(''a'', race_vm ''shutoff'')]"
  have k: "keyed (latestVMInfoByID ?s)" by (simp add: synced_scheduler_def race_eval)
  have "periodicSnapshot ?s 1 = Some (the (periodicSnapshot ?s 1))"
    by (simp add: synced_scheduler_def periodicSnapshot_def Let_def)
  from periodic_sync_heals [OF k this] show ?thesis by (simp add: synced_scheduler_def table_of_def)
qed

text \<open>
  The two loops can lose an update: there is an interleaving of the runtime loop and the periodic
  loop, in which every send succeeds, after which both are idle, the scheduler counts itself
  synchronised and computes no message for its current table, while the control plane still holds the
  older state of a machine.
\<close>

theorem interleaved_sync_loses_update:
  "\<exists>as r. all_sends_ok as \<and> race_run as (race_init (NewScheduler True True 0 0 0 0 0 v)) = Some r \<and>
     rc_run r = RIdle \<and> rc_per r = PIdle \<and> vmInfoSynced (rc_sched r) \<and>
     \<not> snd (snd (snd (fst (computeVMInfoDiff (rc_sched r) (latestVMInfoByID (rc_sched r)))))) \<and>
     rc_table r \<noteq> table_of (lastVMInfoByID (rc_sched r))"
proof -
  have "all_sends_ok race_actions" by (simp add: all_sends_ok_def race_actions_def)
  then show ?thesis
    using race_actions_end [of v] by (intro exI conjI) (assumption | simp add: race_eval table_of_def fun_eq_iff)+
qed

end
