(* ===== verification/VM_Control.thy ===== *)
theory VM_Control
  imports Go_Strings
begin

unbundle bit_operations_syntax

text \<open>
  The control plane's operations on virtual machines (\<^verbatim>\<open>internal/libvirt/vm/control.go\<close> and
  \<^verbatim>\<open>control_types.go\<close>): create, update, delete and migrate, with the admission check. Every call of
  libvirt, of the operating system and of an external command is an event with its outcome; an
  environment answers the calls. The constants of the libvirt library, its test for a missing domain
  and \<^verbatim>\<open>xml.Unmarshal\<close> on a domain description are parameters, fields of the environment.
\<close>

section \<open>Requests and results\<close>

record CreateVMSpec =
  cs_NodeID :: string
  cs_Name :: string
  cs_VCPUCount :: u32
  cs_RAMMB :: u64
  cs_DiskSizeGB :: u64
  cs_DiskPath :: string
  cs_NetworkName :: string
  cs_Autostart :: bool
  cs_StartNow :: bool

record UpdateVMSpec =
  us_NodeID :: string
  us_Name :: string
  us_VCPUCount :: u32
  us_RAMMB :: u64
  us_Autostart :: "bool option"

record DeleteVMSpec =
  ds_NodeID :: string
  ds_Name :: string
  ds_Force :: bool
  ds_RemoveDisk :: bool
  ds_ShutdownTimeoutS :: i32

record MigrateVMSpec =
  ms_NodeID :: string
  ms_Name :: string
  ms_DestinationURI :: string
  ms_MigrateURI :: string
  ms_DestinationName :: string
  ms_Live :: bool
  ms_Persistent :: bool
  ms_UndefineSource :: bool
  ms_CopyStorageAll :: bool
  ms_Unsafe :: bool
  ms_Compressed :: bool
  ms_AllowOfflineFallback :: bool
  ms_BandwidthMbps :: u64
  ms_TimeoutSeconds :: i32

record AdmissionReport =
  TotalVCPU :: u64
  UsedVCPU :: u64
  RemainingVCPU :: u64
  RequestedVCPU :: u64
  TotalRAMMB :: u64
  UsedRAMMB :: u64
  RemainingRAMMB :: u64
  RequestedRAMMB :: u64
  StoragePath :: string
  StorageFreeB :: u64
  StorageTotalB :: u64
  RequestedDiskB :: u64

record VMOperationResult =
  or_NodeID :: string
  or_VMName :: string
  or_OK :: bool
  or_Rejected :: bool
  or_Message :: string
  or_Admission :: "AdmissionReport option"

definition newResult :: "string \<Rightarrow> string \<Rightarrow> VMOperationResult" where
  "newResult nodeID name =
     \<lparr>or_NodeID = nodeID, or_VMName = name, or_OK = False, or_Rejected = False, or_Message = [],
      or_Admission = None\<rparr>"

section \<open>The outside world\<close>

record domain =
  dom_Name :: string
  dom_UUID :: string

text \<open>What \<^verbatim>\<open>xml.Unmarshal\<close> reads from a domain description (\<^verbatim>\<open>domainConfigXML\<close>).\<close>

record domainMemoryValueXML =
  mv_Unit :: string
  mv_Value :: string

record domainConfigXML =
  dc_Name :: string
  dc_Memory :: domainMemoryValueXML
  dc_CurrentMemory :: domainMemoryValueXML
  dc_VCPU :: string
  dc_DiskFiles :: "string list" \<comment> \<open>the \<^verbatim>\<open>file\<close> of each disk's source\<close>

datatype vmevent =
  XClient "goerr option"
| XLookup string "goerr + domain"
| XNodeInfo "goerr + u64 \<times> i32" \<comment> \<open>memory in KiB, and processors\<close>
| XListDomains "goerr + domain list"
| XGetXML domain "goerr + string"
| XGetInfo domain "goerr + u8"
| XDefine string "goerr + domain"
| XSetAutostart domain i32 "goerr option"
| XCreate domain "goerr option"
| XSetVcpus domain u32 u32 "goerr option"
| XSetMemory domain u64 u32 "goerr option"
| XShutdown domain "goerr option"
| XDestroy domain "goerr option"
| XUndefineFlags domain u32 "goerr option"
| XUndefine domain "goerr option"
| XStat string "goerr + bool" \<comment> \<open>whether it is a directory\<close>
| XStatfs string "goerr + u64 \<times> u64 \<times> u64" \<comment> \<open>blocks, available blocks, block size\<close>
| XMkdirAll string "goerr option"
| XLookPath string bool
| XExec string "string list" "int option" "goerr option \<times> string"
    \<comment> \<open>the deadline of its context in seconds, if it has its own; the error, and the output\<close>
| XRemove string "goerr option"
| XTick

type_synonym 'a vreply = "vmevent list \<Rightarrow> 'a"

record venv =
  ve_client :: "goerr option vreply"
  ve_lookup :: "(goerr + domain) vreply"
  ve_nodeInfo :: "(goerr + u64 \<times> i32) vreply"
  ve_listDomains :: "(goerr + domain list) vreply"
  ve_getXML :: "domain \<Rightarrow> (goerr + string) vreply"
  ve_getInfo :: "(goerr + u8) vreply"
  ve_define :: "(goerr + domain) vreply"
  ve_act :: "goerr option vreply" \<comment> \<open>the calls on a domain that only succeed or fail\<close>
  ve_stat :: "(goerr + bool) vreply"
  ve_statfs :: "(goerr + u64 \<times> u64 \<times> u64) vreply"
  ve_mkdir :: "goerr option vreply"
  ve_lookPath :: "bool vreply"
  ve_exec :: "(goerr option \<times> string) vreply"
  ve_remove :: "goerr option vreply"
  ve_ticks :: "int \<Rightarrow> nat vreply" \<comment> \<open>ticks a wait of so many seconds sees before its deadline\<close>
  ve_notFound :: "goerr \<Rightarrow> bool" \<comment> \<open>\<^verbatim>\<open>golibvirt.IsNotFound\<close>\<close>
  ve_unmarshal :: "string \<Rightarrow> goerr + domainConfigXML"
  ve_running :: "u8 set" \<comment> \<open>\<^verbatim>\<open>DomainRunning\<close>, \<^verbatim>\<open>DomainBlocked\<close>, \<^verbatim>\<open>DomainPaused\<close>, \<^verbatim>\<open>DomainPmsuspended\<close>\<close>
  ve_VCPULive :: u32
  ve_VCPUConfig :: u32
  ve_MemLive :: u32
  ve_MemConfig :: u32
  ve_undefineFlags :: u32 \<comment> \<open>managed save, snapshots and checkpoints metadata\<close>

type_synonym 'a vio = "(vmevent, 'a) io"

definition os_ErrNotExist :: goerr where
  "os_ErrNotExist = Leaf ''file does not exist''"

section \<open>Reading numbers\<close>

definition parseMemoryMB :: "string \<Rightarrow> string \<Rightarrow> u64 option" where
  "parseMemoryMB value0 unit0 =
     (let raw = trimSpace value0; u = toLower (trimSpace unit0)
      in if raw = [] then Some 0
         else case parseUint raw of None \<Rightarrow> None
         | Some base \<Rightarrow>
             Some (if u \<in> {[], ''k'', ''kb'', ''kib''} then base div 1024
                   else if u \<in> {''m'', ''mb'', ''mib''} then base
                   else if u \<in> {''g'', ''gb'', ''gib''} then base * 1024
                   else if u \<in> {''b'', ''bytes''} then base div (1024 * 1024)
                   else base div 1024))"

definition parseUintDefault :: "string \<Rightarrow> u64 \<Rightarrow> u64" where
  "parseUintDefault v fallback =
     (let raw = trimSpace v
      in if raw = [] then fallback else case parseUint raw of None \<Rightarrow> fallback | Some u \<Rightarrow> u)"

record parsedDomainConfig =
  pd_Name :: string
  pd_VCPU :: u64
  pd_MemoryMB :: u64
  pd_DiskFiles :: "string list"

definition parseDomainConfig :: "string \<Rightarrow> domainConfigXML \<Rightarrow> parsedDomainConfig" where
  "parseDomainConfig domName d =
     (let mem0 = (case parseMemoryMB (mv_Value (dc_Memory d)) (mv_Unit (dc_Memory d)) of
                    None \<Rightarrow> 0 | Some m \<Rightarrow> m);
          memMB = (if mem0 = 0
                   then (case parseMemoryMB (mv_Value (dc_CurrentMemory d)) (mv_Unit (dc_CurrentMemory d)) of
                           None \<Rightarrow> 0 | Some m \<Rightarrow> m)
                   else mem0);
          name = trimSpace (dc_Name d)
      in \<lparr>pd_Name = (if name = [] then trimSpace domName else name),
          pd_VCPU = parseUintDefault (dc_VCPU d) 0, pd_MemoryMB = memMB,
          pd_DiskFiles = filter (\<lambda>f. f \<noteq> []) (map trimSpace (dc_DiskFiles d))\<rparr>)"

definition readDomainConfig :: "venv \<Rightarrow> domain \<Rightarrow> (goerr + parsedDomainConfig) vio" where
  "readDomainConfig E vm =
     do {
       r \<leftarrow> ask (XGetXML vm) (ve_getXML E vm);
       ret (case r of
              Inl err \<Rightarrow> Inl err
            | Inr xmlDesc \<Rightarrow>
                (case ve_unmarshal E xmlDesc of
                   Inl err \<Rightarrow> Inl (wrap ''unmarshal domain xml: '' err)
                 | Inr d \<Rightarrow> Inr (parseDomainConfig (dom_Name vm) d)))
     }"

section \<open>Admission\<close>

definition readNodeCapacity :: "venv \<Rightarrow> (goerr + u64 \<times> u64) vio" where
  "readNodeCapacity E =
     do {
       r \<leftarrow> ask XNodeInfo (ve_nodeInfo E);
       ret (case r of
              Inl err \<Rightarrow> Inl (wrap ''read node info: '' err)
            | Inr (memKiB, cpus) \<Rightarrow> Inr (scast cpus, memKiB div 1024))
     }"

fun allocatedOf :: "venv \<Rightarrow> string \<Rightarrow> domain list \<Rightarrow> u64 \<Rightarrow> u64 \<Rightarrow> (u64 \<times> u64) vio" where
  "allocatedOf E excludeVMName [] usedVCPU usedRAMMB = ret (usedVCPU, usedRAMMB)"
| "allocatedOf E excludeVMName (vm # doms) usedVCPU usedRAMMB =
     do {
       cfg \<leftarrow> readDomainConfig E vm;
       (case cfg of
          Inl err \<Rightarrow> allocatedOf E excludeVMName doms usedVCPU usedRAMMB
        | Inr c \<Rightarrow>
            if excludeVMName \<noteq> [] \<and> pd_Name c = excludeVMName
            then allocatedOf E excludeVMName doms usedVCPU usedRAMMB
            else allocatedOf E excludeVMName doms (usedVCPU + pd_VCPU c) (usedRAMMB + pd_MemoryMB c))
     }"

definition readAllocatedCapacity :: "venv \<Rightarrow> string \<Rightarrow> (goerr + u64 \<times> u64) vio" where
  "readAllocatedCapacity E excludeVMName =
     do {
       r \<leftarrow> ask XListDomains (ve_listDomains E);
       (case r of
          Inl err \<Rightarrow> ret (Inl (wrap ''list domains: '' err))
        | Inr doms \<Rightarrow> do { used \<leftarrow> allocatedOf E excludeVMName doms 0 0; ret (Inr used) })
     }"

definition defaultImageDir :: string where
  "defaultImageDir = ''/var/lib/libvirt/images''"

definition storageCheckPath :: "venv \<Rightarrow> string \<Rightarrow> string vio" where
  "storageCheckPath E path =
     (let clean = trimSpace path
      in if clean = [] then ret defaultImageDir
         else do {
           info \<leftarrow> ask (XStat clean) (ve_stat E);
           ret (if info = Inr True then clean else fpDir clean)
         })"

definition readStorageCapacity :: "venv \<Rightarrow> string \<Rightarrow> (goerr + u64 \<times> u64) vio" where
  "readStorageCapacity E path =
     do {
       r \<leftarrow> ask (XStatfs path) (ve_statfs E);
       ret (case r of
              Inl err \<Rightarrow> Inl (wrap (''statfs '' @ path @ '': '') err)
            | Inr (blocks, bavail, bsize) \<Rightarrow> Inr (blocks * bsize, bavail * bsize))
     }"

record admissionInput =
  ai_excludeVMName :: string
  ai_requestVCPU :: u64
  ai_requestRAMMB :: u64
  ai_requestDiskB :: u64
  ai_diskPath :: string

text \<open>The report of an admission, and the decision on it: allowed, or the message of the refusal.\<close>

definition admissionReport ::
    "admissionInput \<Rightarrow> u64 \<times> u64 \<Rightarrow> u64 \<times> u64 \<Rightarrow> string \<Rightarrow> u64 \<times> u64 \<Rightarrow> AdmissionReport" where
  "admissionReport inp capacity used storagePath storage =
     \<lparr>TotalVCPU = fst capacity, UsedVCPU = fst used,
      RemainingVCPU = (if fst capacity > fst used then fst capacity - fst used else 0),
      RequestedVCPU = ai_requestVCPU inp, TotalRAMMB = snd capacity, UsedRAMMB = snd used,
      RemainingRAMMB = (if snd capacity > snd used then snd capacity - snd used else 0),
      RequestedRAMMB = ai_requestRAMMB inp, StoragePath = storagePath, StorageFreeB = snd storage,
      StorageTotalB = fst storage, RequestedDiskB = ai_requestDiskB inp\<rparr>"

definition admissionDecision :: "AdmissionReport \<Rightarrow> bool \<times> string" where
  "admissionDecision r =
     (if UsedVCPU r + RequestedVCPU r > TotalVCPU r then (False, ''insufficient cpu capacity'')
      else if UsedRAMMB r + RequestedRAMMB r > TotalRAMMB r then (False, ''insufficient ram capacity'')
      else if RequestedDiskB r > 0 \<and> StorageFreeB r < RequestedDiskB r
        then (False, ''insufficient storage capacity'')
      else (True, []))"

definition checkAdmission ::
    "venv \<Rightarrow> string \<Rightarrow> admissionInput \<Rightarrow> (goerr + AdmissionReport \<times> bool \<times> string) vio" where
  "checkAdmission E imageDir inp =
     do {
       capacity \<leftarrow> readNodeCapacity E;
       (case capacity of Inl err \<Rightarrow> ret (Inl err) | Inr capacity \<Rightarrow>
         do {
           used \<leftarrow> readAllocatedCapacity E (ai_excludeVMName inp);
           (case used of Inl err \<Rightarrow> ret (Inl err) | Inr used \<Rightarrow>
             do {
               storagePath \<leftarrow> storageCheckPath E
                 (if trimSpace (ai_diskPath inp) = [] then imageDir else ai_diskPath inp);
               storage \<leftarrow> readStorageCapacity E storagePath;
               (case storage of Inl err \<Rightarrow> ret (Inl err) | Inr storage \<Rightarrow>
                 (let report = admissionReport inp capacity used storagePath storage
                  in ret (Inr (report, admissionDecision report))))
             })
         })
     }"

section \<open>The disk image\<close>

definition ensureDiskImage :: "venv \<Rightarrow> string \<Rightarrow> u64 \<Rightarrow> goerr option vio" where
  "ensureDiskImage E path sizeGB =
     (if sizeGB = 0 then ret (Some (Leaf ''disk_size_gb must be > 0''))
      else do {
        st \<leftarrow> ask (XStat path) (ve_stat E);
        (case st of
           Inr _ \<Rightarrow> ret (Some (Leaf (''disk image already exists: '' @ path)))
         | Inl err \<Rightarrow>
             if \<not> err_is err os_ErrNotExist then ret (Some (wrap ''stat disk image: '' err))
             else do {
               mk \<leftarrow> ask (XMkdirAll (fpDir path)) (ve_mkdir E);
               (case mk of
                  Some err \<Rightarrow> ret (Some (wrap ''prepare disk directory: '' err))
                | None \<Rightarrow>
                    do {
                      found \<leftarrow> ask (XLookPath ''qemu-img'') (ve_lookPath E);
                      (if \<not> found then ret (Some (Leaf ''qemu-img not found''))
                       else do {
                         r \<leftarrow> ask (XExec ''qemu-img''
                                [''create'', ''-f'', ''qcow2'', path, formatUint sizeGB @ ''G''] None) (ve_exec E);
                         ret (case r of
                                (None, _) \<Rightarrow> None
                              | (Some err, out) \<Rightarrow>
                                  Some (Wrap ''create disk image: '' err ('': '' @ trimSpace out)))
                       })
                    })
             })
      })"

section \<open>The domain description\<close>

text \<open>
  \<^verbatim>\<open>xml.EscapeText\<close>, which \<^verbatim>\<open>xml.Marshal\<close> applies to texts and attribute values; a control character
  that XML cannot hold becomes U+FFFD. Bytes from 128 on (of UTF-8 text) pass unchanged.
\<close>

definition xmlEscapeChar :: "char \<Rightarrow> string" where
  "xmlEscapeChar c =
     (if c = CHR 0x22 then ''&#34;''
      else if c = CHR 0x27 then ''&#39;''
      else if c = CHR ''&'' then ''&amp;''
      else if c = CHR ''<'' then ''&lt;''
      else if c = CHR ''>'' then ''&gt;''
      else if c = CHR 0x09 then ''&#x9;''
      else if c = CHR 0x0A then ''&#xA;''
      else if c = CHR 0x0D then ''&#xD;''
      else if (of_char c :: nat) < 32 then [CHR 0xEF, CHR 0xBF, CHR 0xBD]
      else [c])"

definition xmlEscape :: "string \<Rightarrow> string" where
  "xmlEscape s = concat (map xmlEscapeChar s)"

text \<open>An element with its attributes (those that are empty are left out) around its content.\<close>

definition xmlAttr :: "string \<times> string \<Rightarrow> string" where
  "xmlAttr kv =
     (if snd kv = [] then [] else '' '' @ fst kv @ ''='' @ [CHR 0x22] @ xmlEscape (snd kv) @ [CHR 0x22])"

definition xmlElem :: "string \<Rightarrow> (string \<times> string) list \<Rightarrow> string \<Rightarrow> string" where
  "xmlElem tag attrs content =
     ''<'' @ tag @ concat (map xmlAttr attrs) @ ''>'' @ content @ ''</'' @ tag @ ''>''"

definition buildDomainXML :: "string \<Rightarrow> u32 \<Rightarrow> u64 \<Rightarrow> string \<Rightarrow> string \<Rightarrow> string" where
  "buildDomainXML name vcpu ramMB diskPath networkName =
     xmlElem ''domain'' []
       (xmlElem ''name'' [] (xmlEscape name) @
        xmlElem ''memory'' [(''unit'', ''MiB'')] (formatUint ramMB) @
        xmlElem ''currentMemory'' [(''unit'', ''MiB'')] (formatUint ramMB) @
        xmlElem ''vcpu'' [(''placement'', ''static'')] (formatUint (ucast vcpu)) @
        xmlElem ''os'' []
          (xmlElem ''type'' [(''arch'', ''x86_64''), (''machine'', ''pc'')] ''hvm'' @
           xmlElem ''boot'' [(''dev'', ''hd'')] []) @
        xmlElem ''features'' [] (xmlElem ''acpi'' [] [] @ xmlElem ''apic'' [] []) @
        xmlElem ''cpu'' [(''mode'', ''host-passthrough'')] [] @
        xmlElem ''clock'' [(''offset'', ''utc'')] [] @
        xmlElem ''on_poweroff'' [] ''destroy'' @
        xmlElem ''on_reboot'' [] ''restart'' @
        xmlElem ''on_crash'' [] ''restart'' @
        xmlElem ''devices'' []
          (xmlElem ''emulator'' [] ''/usr/bin/qemu-system-x86_64'' @
           xmlElem ''disk'' [(''type'', ''file''), (''device'', ''disk'')]
             (xmlElem ''driver'' [(''name'', ''qemu''), (''type'', ''qcow2'')] [] @
              xmlElem ''source'' [(''file'', diskPath)] [] @
              xmlElem ''target'' [(''dev'', ''vda''), (''bus'', ''virtio'')] []) @
           xmlElem ''interface'' [(''type'', ''network'')]
             (xmlElem ''source'' [(''network'', networkName)] [] @
              xmlElem ''model'' [(''type'', ''virtio'')] []) @
           xmlElem ''console'' [(''type'', ''pty'')] [] @
           xmlElem ''graphics'' [(''type'', ''vnc''), (''autoport'', ''yes''), (''listen'', ''127.0.0.1'')] []))"

section \<open>Creating\<close>

definition validateCreateSpec :: "CreateVMSpec \<Rightarrow> goerr option" where
  "validateCreateSpec spec =
     (if trimSpace (cs_Name spec) = [] then Some (Leaf ''vm_name is required'')
      else if cs_VCPUCount spec = 0 then Some (Leaf ''vcpu_count must be > 0'')
      else if cs_RAMMB spec = 0 then Some (Leaf ''ram_mb must be > 0'')
      else if cs_DiskSizeGB spec = 0 then Some (Leaf ''disk_size_gb must be > 0'')
      else None)"

type_synonym answer = "VMOperationResult \<times> goerr option"

abbreviation failWith :: "VMOperationResult \<Rightarrow> goerr \<Rightarrow> answer vio" where
  "failWith result err \<equiv> ret (result, Some err)"

abbreviation answerWith :: "VMOperationResult \<Rightarrow> string \<Rightarrow> answer vio" where
  "answerWith result msg \<equiv> ret (result\<lparr>or_Message := msg\<rparr>, None)"

text \<open>A call that only succeeds or fails, when it is asked for at all.\<close>

definition actIf :: "venv \<Rightarrow> bool \<Rightarrow> (goerr option \<Rightarrow> vmevent) \<Rightarrow> goerr option vio" where
  "actIf E b mk = (if b then ask mk (ve_act E) else ret None)"

definition createDiskPath :: "string \<Rightarrow> CreateVMSpec \<Rightarrow> string" where
  "createDiskPath imageDir spec =
     (let p = trimSpace (cs_DiskPath spec)
      in if p = [] then fpJoin [imageDir, trimSpace (cs_Name spec) @ ''.qcow2''] else p)"

definition defaultNetworkName :: string where
  "defaultNetworkName = ''default''"

definition createNetwork :: "CreateVMSpec \<Rightarrow> string" where
  "createNetwork spec =
     (let n = trimSpace (cs_NetworkName spec) in if n = [] then defaultNetworkName else n)"

text \<open>The part of \<^verbatim>\<open>CreateVM\<close> after the admission: the image, the definition, autostart and start.\<close>

definition createAdmitted :: "venv \<Rightarrow> string \<Rightarrow> CreateVMSpec \<Rightarrow> VMOperationResult \<Rightarrow> answer vio" where
  "createAdmitted E imageDir spec result =
     (let name = or_VMName result; diskPath = createDiskPath imageDir spec
      in do {
        img \<leftarrow> ensureDiskImage E diskPath (cs_DiskSizeGB spec);
        (case img of Some err \<Rightarrow> failWith result err | None \<Rightarrow>
          (let domainXML = buildDomainXML name (cs_VCPUCount spec) (cs_RAMMB spec) diskPath (createNetwork spec)
           in do {
             def \<leftarrow> ask (XDefine domainXML) (ve_define E);
             (case def of
                Inl err \<Rightarrow> failWith result (wrap (''define vm '' @ name @ '': '') err)
              | Inr vm \<Rightarrow>
                  do {
                    auto \<leftarrow> actIf E (cs_Autostart spec) (XSetAutostart vm 1);
                    (case auto of
                       Some err \<Rightarrow> failWith result (wrap (''set autostart vm '' @ name @ '': '') err)
                     | None \<Rightarrow>
                         do {
                           start \<leftarrow> actIf E (cs_StartNow spec) (XCreate vm);
                           (case start of
                              Some err \<Rightarrow> failWith result (wrap (''start vm '' @ name @ '': '') err)
                            | None \<Rightarrow> answerWith (result\<lparr>or_OK := True\<rparr>) ''vm created'')
                         })
                  })
           }))
      })"

definition CreateVM :: "venv \<Rightarrow> string \<Rightarrow> CreateVMSpec \<Rightarrow> answer vio" where
  "CreateVM E imageDir spec =
     (let name = trimSpace (cs_Name spec); result = newResult (cs_NodeID spec) name
      in case validateCreateSpec spec of
           Some err \<Rightarrow> answerWith result (err_text err)
         | None \<Rightarrow>
             do {
               client \<leftarrow> ask XClient (ve_client E);
               (case client of Some err \<Rightarrow> failWith result err | None \<Rightarrow>
                 do {
                   found \<leftarrow> ask (XLookup name) (ve_lookup E);
                   (case found of
                      Inr _ \<Rightarrow> answerWith result ''vm already exists''
                    | Inl err \<Rightarrow>
                        if \<not> ve_notFound E err then failWith result (wrap (''lookup vm '' @ name @ '': '') err)
                        else do {
                          adm \<leftarrow> checkAdmission E imageDir
                            \<lparr>ai_excludeVMName = [], ai_requestVCPU = ucast (cs_VCPUCount spec),
                             ai_requestRAMMB = cs_RAMMB spec,
                             ai_requestDiskB = cs_DiskSizeGB spec * 1024 * 1024 * 1024,
                             ai_diskPath = createDiskPath imageDir spec\<rparr>;
                          (case adm of
                             Inl err \<Rightarrow> failWith result err
                           | Inr (report, allow, rejectMsg) \<Rightarrow>
                               (let result' = result\<lparr>or_Admission := Some report\<rparr>
                                in if \<not> allow then answerWith (result'\<lparr>or_Rejected := True\<rparr>) rejectMsg
                                   else createAdmitted E imageDir spec result'))
                        })
                 })
             })"

section \<open>Updating\<close>

text \<open>
  A setting of a domain that is tried live first and then for the configuration only; the error is
  that of the first try.
\<close>

definition setWithFallback :: "venv \<Rightarrow> (u32 \<Rightarrow> goerr option \<Rightarrow> vmevent) \<Rightarrow> u32 \<Rightarrow> u32 \<Rightarrow> goerr option vio" where
  "setWithFallback E mk flags configOnly =
     do {
       r \<leftarrow> ask (mk flags) (ve_act E);
       (case r of None \<Rightarrow> ret None
        | Some err \<Rightarrow>
            do {
              r2 \<leftarrow> ask (mk configOnly) (ve_act E);
              ret (case r2 of None \<Rightarrow> None | Some _ \<Rightarrow> Some err)
            })
     }"

text \<open>The changes of \<^verbatim>\<open>UpdateVM\<close> after the admission.\<close>

definition updateAdmitted ::
    "venv \<Rightarrow> UpdateVMSpec \<Rightarrow> domain \<Rightarrow> parsedDomainConfig \<Rightarrow> u64 \<Rightarrow> u64 \<Rightarrow> VMOperationResult \<Rightarrow> answer vio" where
  "updateAdmitted E spec vm cfg desiredVCPU desiredRAMMB result =
     (let name = or_VMName result;
          vcpuChange = (desiredVCPU \<noteq> pd_VCPU cfg); ramChange = (desiredRAMMB \<noteq> pd_MemoryMB cfg);
          done = result\<lparr>or_OK := True\<rparr>
      in do {
        v \<leftarrow> (if vcpuChange
              then setWithFallback E (XSetVcpus vm (ucast desiredVCPU)) (ve_VCPUConfig E OR ve_VCPULive E)
                     (ve_VCPUConfig E)
              else ret None);
        (case v of Some err \<Rightarrow> failWith result (wrap (''update vm vcpu '' @ name @ '': '') err) | None \<Rightarrow>
          do {
            m \<leftarrow> (if ramChange
                  then setWithFallback E (XSetMemory vm (desiredRAMMB * 1024)) (ve_MemConfig E OR ve_MemLive E)
                         (ve_MemConfig E)
                  else ret None);
            (case m of Some err \<Rightarrow> failWith result (wrap (''update vm memory '' @ name @ '': '') err) | None \<Rightarrow>
              (case us_Autostart spec of
                 None \<Rightarrow> answerWith done (if vcpuChange \<or> ramChange then ''vm updated'' else ''no changes'')
               | Some b \<Rightarrow>
                   do {
                     a \<leftarrow> ask (XSetAutostart vm (if b then 1 else 0)) (ve_act E);
                     (case a of
                        Some err \<Rightarrow> failWith result (wrap (''update vm autostart '' @ name @ '': '') err)
                      | None \<Rightarrow> answerWith done ''vm updated'')
                   }))
          })
      })"

definition UpdateVM :: "venv \<Rightarrow> string \<Rightarrow> UpdateVMSpec \<Rightarrow> answer vio" where
  "UpdateVM E imageDir spec =
     (let name = trimSpace (us_Name spec); result = newResult (us_NodeID spec) name
      in if name = [] then answerWith result ''vm name is required''
         else do {
           client \<leftarrow> ask XClient (ve_client E);
           (case client of Some err \<Rightarrow> failWith result err | None \<Rightarrow>
             do {
               found \<leftarrow> ask (XLookup name) (ve_lookup E);
               (case found of
                  Inl err \<Rightarrow>
                    if ve_notFound E err then answerWith result ''vm not found''
                    else failWith result (wrap (''lookup vm '' @ name @ '': '') err)
                | Inr vm \<Rightarrow>
                    do {
                      rc \<leftarrow> readDomainConfig E vm;
                      (case rc of
                         Inl err \<Rightarrow> failWith result (wrap (''read vm config '' @ name @ '': '') err)
                       | Inr cfg \<Rightarrow>
                           (let desiredVCPU = (if us_VCPUCount spec > 0 then ucast (us_VCPUCount spec) else pd_VCPU cfg);
                                desiredRAMMB = (if us_RAMMB spec > 0 then us_RAMMB spec else pd_MemoryMB cfg)
                            in do {
                              adm \<leftarrow> checkAdmission E imageDir
                                \<lparr>ai_excludeVMName = name, ai_requestVCPU = desiredVCPU,
                                 ai_requestRAMMB = desiredRAMMB, ai_requestDiskB = 0, ai_diskPath = imageDir\<rparr>;
                              (case adm of
                                 Inl err \<Rightarrow> failWith result err
                               | Inr (report, allow, rejectMsg) \<Rightarrow>
                                   (let result' = result\<lparr>or_Admission := Some report\<rparr>
                                    in if \<not> allow then answerWith (result'\<lparr>or_Rejected := True\<rparr>) rejectMsg
                                       else updateAdmitted E spec vm cfg desiredVCPU desiredRAMMB result'))
                            }))
                    })
             })
         })"

section \<open>Deleting\<close>

definition isDomainRunning :: "venv \<Rightarrow> u8 \<Rightarrow> bool" where
  "isDomainRunning E st \<longleftrightarrow> st \<in> ve_running E"

text \<open>
  The polling loop: before each of its \<open>n\<close> ticks, and once more before the deadline ends it, it reads
  the state and stops when the domain is not running.
\<close>

fun waitLoop :: "venv \<Rightarrow> domain \<Rightarrow> nat \<Rightarrow> bool vio" where
  "waitLoop E vm n =
     do {
       st \<leftarrow> ask (XGetInfo vm) (ve_getInfo E);
       (if (case st of Inr v \<Rightarrow> \<not> isDomainRunning E v | Inl _ \<Rightarrow> False) then ret True
        else case n of
               0 \<Rightarrow> ret False
             | Suc k \<Rightarrow> do { ask (\<lambda>_. XTick) (\<lambda>_. ()); waitLoop E vm k })
     }"

declare waitLoop.simps [simp del]

definition waitDomainStopped :: "venv \<Rightarrow> domain \<Rightarrow> int \<Rightarrow> bool vio" where
  "waitDomainStopped E vm seconds = State (\<lambda>t. run_state (waitLoop E vm (ve_ticks E seconds t)) t)"

definition defaultShutdownWaitS :: int where
  "defaultShutdownWaitS = 20"

definition defaultMigrateWaitS :: int where
  "defaultMigrateWaitS = 600"

definition orDefault :: "i32 \<Rightarrow> int \<Rightarrow> int" where
  "orDefault w dflt = (if sint w \<le> 0 then dflt else sint w)"

text \<open>Stopping a running domain: an answer to give at once, or \<open>None\<close> to go on.\<close>

definition stopDomain :: "venv \<Rightarrow> bool \<Rightarrow> int \<Rightarrow> domain \<Rightarrow> VMOperationResult \<Rightarrow> answer option vio" where
  "stopDomain E force shutdownWait vm result =
     (let name = or_VMName result
      in do {
        sd \<leftarrow> ask (XShutdown vm) (ve_act E);
        (case sd of
           Some err \<Rightarrow>
             if \<not> force then ret (Some (result, Some (wrap (''shutdown vm '' @ name @ '': '') err)))
             else ret None
         | None \<Rightarrow> ret None)
          \<bind> (\<lambda>early. case early of Some a \<Rightarrow> ret (Some a) | None \<Rightarrow>
            do {
              stopped \<leftarrow> waitDomainStopped E vm shutdownWait;
              (if stopped then ret None
               else if \<not> force
                 then ret (Some (result\<lparr>or_Message := ''vm still running, retry with force=true''\<rparr>, None))
               else do {
                 d \<leftarrow> ask (XDestroy vm) (ve_act E);
                 ret (case d of None \<Rightarrow> None
                      | Some err \<Rightarrow> Some (result, Some (wrap (''destroy vm '' @ name @ '': '') err)))
               })
            })
      })"

fun removeDisks :: "venv \<Rightarrow> string list \<Rightarrow> unit vio" where
  "removeDisks E [] = ret ()"
| "removeDisks E (p # ps) =
     (if trimSpace p = [] then removeDisks E ps
      else do { ask (XRemove p) (ve_remove E); removeDisks E ps })"

definition undefineDomain :: "venv \<Rightarrow> domain \<Rightarrow> goerr option vio" where
  "undefineDomain E vm =
     do {
       r \<leftarrow> ask (XUndefineFlags vm (ve_undefineFlags E)) (ve_act E);
       (case r of None \<Rightarrow> ret None
        | Some err \<Rightarrow>
            do {
              r2 \<leftarrow> ask (XUndefine vm) (ve_act E);
              ret (case r2 of None \<Rightarrow> None | Some _ \<Rightarrow> Some err)
            })
     }"

text \<open>The end of \<^verbatim>\<open>DeleteVM\<close>: the definition goes, then the disks if asked for.\<close>

definition deleteStopped :: "venv \<Rightarrow> DeleteVMSpec \<Rightarrow> domain \<Rightarrow> parsedDomainConfig \<Rightarrow> VMOperationResult \<Rightarrow> answer vio" where
  "deleteStopped E spec vm cfg result =
     do {
       u \<leftarrow> undefineDomain E vm;
       (case u of
          Some err \<Rightarrow> failWith result (wrap (''undefine vm '' @ or_VMName result @ '': '') err)
        | None \<Rightarrow>
            do {
              (if ds_RemoveDisk spec then removeDisks E (pd_DiskFiles cfg) else ret ());
              answerWith (result\<lparr>or_OK := True\<rparr>) ''vm deleted''
            })
     }"

definition DeleteVM :: "venv \<Rightarrow> DeleteVMSpec \<Rightarrow> answer vio" where
  "DeleteVM E spec =
     (let name = trimSpace (ds_Name spec); result = newResult (ds_NodeID spec) name
      in if name = [] then answerWith result ''vm name is required''
         else do {
           client \<leftarrow> ask XClient (ve_client E);
           (case client of Some err \<Rightarrow> failWith result err | None \<Rightarrow>
             do {
               found \<leftarrow> ask (XLookup name) (ve_lookup E);
               (case found of
                  Inl err \<Rightarrow>
                    if ve_notFound E err then answerWith (result\<lparr>or_OK := True\<rparr>) ''vm not found''
                    else failWith result (wrap (''lookup vm '' @ name @ '': '') err)
                | Inr vm \<Rightarrow>
                    do {
                      rc \<leftarrow> readDomainConfig E vm;
                      (case rc of
                         Inl err \<Rightarrow> failWith result (wrap (''read vm config '' @ name @ '': '') err)
                       | Inr cfg \<Rightarrow>
                           do {
                             st \<leftarrow> ask (XGetInfo vm) (ve_getInfo E);
                             early \<leftarrow> (case st of
                                Inr v \<Rightarrow> if isDomainRunning E v then stopDomain E (ds_Force spec) (orDefault (ds_ShutdownTimeoutS spec) defaultShutdownWaitS)
                                       vm result
                                  else ret None
                              | Inl _ \<Rightarrow> ret None);
                             (case early of Some a \<Rightarrow> ret a | None \<Rightarrow> deleteStopped E spec vm cfg result)
                           })
                    })
             })
         })"

section \<open>Migrating\<close>

definition virshMigrateArgs :: "MigrateVMSpec \<Rightarrow> string list" where
  "virshMigrateArgs spec =
     [''migrate''] @
     (if ms_Live spec then [''--live''] else []) @
     (if ms_Persistent spec then [''--persistent''] else []) @
     (if ms_UndefineSource spec then [''--undefinesource''] else []) @
     (if ms_CopyStorageAll spec then [''--copy-storage-all''] else []) @
     (if ms_Unsafe spec then [''--unsafe''] else []) @
     (if ms_Compressed spec then [''--compressed''] else []) @
     (if ms_BandwidthMbps spec > 0 then [''--bandwidth'', formatUint (ms_BandwidthMbps spec)] else []) @
     [''--verbose'', trimSpace (ms_Name spec), trimSpace (ms_DestinationURI spec)] @
     (if trimSpace (ms_MigrateURI spec) \<noteq> [] then [trimSpace (ms_MigrateURI spec)] else []) @
     (if trimSpace (ms_DestinationName spec) \<noteq> [] then [trimSpace (ms_DestinationName spec)] else [])"

text \<open>The output of the command, and its error.\<close>

definition runVirshMigrate :: "venv \<Rightarrow> int \<Rightarrow> MigrateVMSpec \<Rightarrow> (string \<times> goerr option) vio" where
  "runVirshMigrate E timeoutS spec =
     do {
       found \<leftarrow> ask (XLookPath ''virsh'') (ve_lookPath E);
       (if \<not> found then ret ([], Some (Leaf ''virsh not found''))
        else do {
          r \<leftarrow> ask (XExec ''virsh'' (virshMigrateArgs spec) (Some timeoutS)) (ve_exec E);
          (let output = trimSpace (snd r)
           in ret (case fst r of
                     None \<Rightarrow> (output, None)
                   | Some err \<Rightarrow> if output \<noteq> [] then (output, Some (Wrap [] err ('': '' @ output)))
                                 else ([], Some err)))
        })
     }"

definition withOutput :: "string \<Rightarrow> string \<Rightarrow> string" where
  "withOutput msg output = (if output \<noteq> [] then msg @ '': '' @ output else msg)"

definition MigrateVM :: "venv \<Rightarrow> MigrateVMSpec \<Rightarrow> answer vio" where
  "MigrateVM E spec0 =
     (let name = trimSpace (ms_Name spec0); result = newResult (ms_NodeID spec0) name
      in if name = [] then answerWith result ''vm name is required''
         else if trimSpace (ms_DestinationURI spec0) = [] then answerWith result ''destination_uri is required''
         else do {
           client \<leftarrow> ask XClient (ve_client E);
           (case client of Some err \<Rightarrow> failWith result err | None \<Rightarrow>
             do {
               found \<leftarrow> ask (XLookup name) (ve_lookup E);
               (case found of
                  Inl err \<Rightarrow>
                    if ve_notFound E err then answerWith result ''vm not found''
                    else failWith result (wrap (''lookup vm '' @ name @ '': '') err)
                | Inr vm \<Rightarrow>
                    do {
                      st \<leftarrow> ask (XGetInfo vm) (ve_getInfo E);
                      (case st of
                         Inl err \<Rightarrow> failWith result (wrap (''read vm state '' @ name @ '': '') err)
                       | Inr v \<Rightarrow>
                           (let running = isDomainRunning E v;
                                spec = (if ms_Live spec0 \<and> \<not> running then spec0\<lparr>ms_Live := False\<rparr> else spec0);
                                timeoutS = orDefault (ms_TimeoutSeconds spec0) defaultMigrateWaitS
                            in do {
                              (output, migrateErr) \<leftarrow> runVirshMigrate E timeoutS spec;
                              (case migrateErr of
                                 None \<Rightarrow> answerWith (result\<lparr>or_OK := True\<rparr>) (withOutput ''vm migrated'' output)
                               | Some err \<Rightarrow>
                                   if ms_Live spec \<and> ms_AllowOfflineFallback spec \<and> running then
                                     do {
                                       sd \<leftarrow> ask (XShutdown vm) (ve_act E);
                                       (if sd = None then do { waitDomainStopped E vm defaultShutdownWaitS; ret () } else ret ());
                                       (out2, err2) \<leftarrow> runVirshMigrate E timeoutS (spec\<lparr>ms_Live := False, ms_Unsafe := True\<rparr>);
                                       (case err2 of
                                          None \<Rightarrow> answerWith (result\<lparr>or_OK := True\<rparr>)
                                                    (withOutput ''vm migrated with offline fallback'' out2)
                                        | Some e2 \<Rightarrow>
                                            failWith result
                                              (wrap (''live migrate failed: '' @ err_text err @
                                                     ''; offline fallback failed: '') e2))
                                     }
                                   else failWith result (wrap (''migrate vm '' @ name @ '': '') err))
                            }))
                    })
             })
         })"

section \<open>The controller\<close>

definition NewController :: "string \<Rightarrow> string" where
  "NewController imageDir = (if trimSpace imageDir = [] then defaultImageDir else imageDir)"

end
