(* ===== verification/Config.thy ===== *)
theory Config
  imports Go_Float
begin

text \<open>
  The configuration (\<^verbatim>\<open>internal/config/config.go\<close>): environment variables with fallbacks, their
  validation and the TLS settings; \<^verbatim>\<open>time.ParseDuration\<close>, which reads the durations; and the version
  service that answers from the configuration (\<^verbatim>\<open>internal/agent/version\<close>).
\<close>

section \<open>time.ParseDuration\<close>

definition two63 :: u64 where
  "two63 = 0x8000000000000000"

text \<open>The digits at the head of a string: their value and the rest, or \<open>None\<close> on overflow.\<close>

fun leadingInt :: "u64 \<Rightarrow> string \<Rightarrow> (u64 \<times> string) option" where
  "leadingInt x [] = Some (x, [])"
| "leadingInt x (c # s) =
     (if \<not> is_digit c then Some (x, c # s)
      else if x > two63 div 10 then None
      else let y = x * 10 + of_nat (digit_val c)
           in if y > two63 then None else leadingInt y s)"

fun leadingFraction :: "u64 \<Rightarrow> f64 \<Rightarrow> bool \<Rightarrow> string \<Rightarrow> u64 \<times> f64 \<times> string" where
  "leadingFraction x scale overflow [] = (x, scale, [])"
| "leadingFraction x scale overflow (c # s) =
     (if \<not> is_digit c then (x, scale, c # s)
      else if overflow then leadingFraction x scale overflow s
      else if x > (two63 - 1) div 10 then leadingFraction x scale True s
      else let y = x * 10 + of_nat (digit_val c)
           in if y > two63 then leadingFraction x scale True s
              else leadingFraction y (scale * Fin 10) overflow s)"

lemma leadingInt_length: "leadingInt x s = Some (v, r) \<Longrightarrow> length r \<le> length s"
  by (induction x s arbitrary: v r rule: leadingInt.induct) (fastforce simp: Let_def split: if_splits)+

lemma leadingFraction_length: "leadingFraction x sc ov s = (v, sc', r) \<Longrightarrow> length r \<le> length s"
  by (induction x sc ov s arbitrary: v r rule: leadingFraction.induct) (fastforce simp: Let_def split: if_splits)+

definition unitMap :: "string \<Rightarrow> u64 option" where
  "unitMap u =
     (if u = ''ns'' then Some 1
      else if u = ''us'' \<or> u = [CHR 0xC2, CHR 0xB5, CHR ''s''] \<or> u = [CHR 0xCE, CHR 0xBC, CHR ''s'']
        then Some 1000
      else if u = ''ms'' then Some 1000000
      else if u = ''s'' then Some 1000000000
      else if u = ''m'' then Some 60000000000
      else if u = ''h'' then Some 3600000000000 else None)"

text \<open>\<^verbatim>\<open>uint64(x)\<close> of a fraction of a unit, which is always in range.\<close>

definition trunc_u64 :: "f64 \<Rightarrow> u64" where
  "trunc_u64 x = (case x of Fin q \<Rightarrow> of_int (trunc_rat q) | _ \<Rightarrow> 0)"

definition is_unit_char :: "char \<Rightarrow> bool" where
  "is_unit_char c \<longleftrightarrow> \<not> (c = CHR ''.'' \<or> is_digit c)"

text \<open>The digits after a period, if any, and whether there were some.\<close>

definition fractionPart :: "string \<Rightarrow> u64 \<times> f64 \<times> string \<times> bool" where
  "fractionPart s1 =
     (case s1 of
        [] \<Rightarrow> (0, Fin 1, s1, False)
      | c # r \<Rightarrow>
          if c = CHR ''.'' then (let (f, scale, r') = leadingFraction 0 (Fin 1) False r
                                 in (f, scale, r', length r' \<noteq> length r))
          else (0, Fin 1, s1, False))"

lemma fractionPart_length: "fractionPart s1 = (f, sc, s2, post) \<Longrightarrow> length s2 \<le> length s1"
  using leadingFraction_length
  by (auto simp: fractionPart_def le_Suc_eq split: list.splits if_splits prod.splits)

text \<open>One number with its unit: the sum so far, and what is left of the text.\<close>

definition durationTerm :: "u64 \<Rightarrow> string \<Rightarrow> (u64 \<times> string) option" where
  "durationTerm d s =
     (if \<not> (hd s = CHR ''.'' \<or> is_digit (hd s)) then None
      else case leadingInt 0 s of None \<Rightarrow> None
      | Some (v, s1) \<Rightarrow>
          let pre = (length s1 \<noteq> length s);
              (f, scale, s2, post) = fractionPart s1;
              u = takeWhile is_unit_char s2
          in if \<not> pre \<and> \<not> post then None
             else if u = [] then None
             else case unitMap u of None \<Rightarrow> None
             | Some unit \<Rightarrow>
                 if v > two63 div unit then None
                 else let v1 = v * unit;
                          v2 = (if f > 0 then v1 + trunc_u64 (f64_of_u64 f * (f64_of_u64 unit / scale)) else v1)
                      in if f > 0 \<and> v2 > two63 then None
                         else if d + v2 > two63 then None
                         else Some (d + v2, drop (length u) s2))"

lemma durationTerm_shrinks: "durationTerm d s = Some (d', r) \<Longrightarrow> length r < length s"
proof -
  assume t: "durationTerm d s = Some (d', r)"
  from t obtain v s1 where l: "leadingInt 0 s = Some (v, s1)"
    by (auto simp: durationTerm_def split: if_splits option.splits)
  obtain f sc s2 post where q: "fractionPart s1 = (f, sc, s2, post)"
    by (cases "fractionPart s1") auto
  have "length s2 \<le> length s1" using q by (rule fractionPart_length)
  then have "length s2 \<le> length s" using leadingInt_length [OF l] by simp
  moreover have "takeWhile is_unit_char s2 \<noteq> []" and "r = drop (length (takeWhile is_unit_char s2)) s2"
    using t unfolding durationTerm_def by (auto simp: l q Let_def split: if_splits option.splits)
  ultimately show ?thesis by (cases s2) (auto split: if_splits)
qed

function durationTerms :: "u64 \<Rightarrow> string \<Rightarrow> u64 option" where
  "durationTerms d s =
     (if s = [] then Some d
      else case durationTerm d s of None \<Rightarrow> None | Some (d', r) \<Rightarrow> durationTerms d' r)"
  by pat_completeness auto
termination
  by (relation "measure (\<lambda>(d, s). length s)") (auto dest: durationTerm_shrinks)

declare durationTerms.simps [simp del]

text \<open>A duration in nanoseconds, \<open>None\<close> for an invalid text.\<close>

definition parseDuration :: "string \<Rightarrow> int option" where
  "parseDuration s0 =
     (let neg = hasPrefix s0 ''-'';
          s = (if neg \<or> hasPrefix s0 ''+'' then tl s0 else s0)
      in if s = ''0'' then Some 0
         else if s = [] then None
         else case durationTerms 0 s of None \<Rightarrow> None
         | Some d \<Rightarrow> if neg then Some (- uint d)
                    else if d > two63 - 1 then None else Some (uint d))"

section \<open>The configuration\<close>

definition HardcodedVersion :: string where
  "HardcodedVersion = ''V0.3''"

record config =
  NodeID :: string
  Hostname :: string
  LibvirtURI :: string
  ProbeListenAddr :: string
  HealthInterval :: int
  ReconnectInterval :: int
  ShutdownTimeout :: int
  BackendGRPCAddr :: string
  BackendToken :: string
  AgentVersion :: string
  TLSEnabled :: bool
  TLSSkipVerify :: bool
  TLSCAPath :: string
  TLSCertPath :: string
  TLSKeyPath :: string
  LogLevel :: string
  StreamBufferSize :: int
  CollectorErrorBackoff :: int
  MaxReconnectJitter :: int

type_synonym getenv = "string \<Rightarrow> string"

definition env_str :: "getenv \<Rightarrow> string \<Rightarrow> string \<Rightarrow> string" where
  "env_str E key fallback = (let v = trimSpace (E key) in if v = [] then fallback else v)"

definition envInt :: "getenv \<Rightarrow> string \<Rightarrow> int \<Rightarrow> int" where
  "envInt E key fallback =
     (let v = trimSpace (E key)
      in if v = [] then fallback else case atoi v of None \<Rightarrow> fallback | Some i \<Rightarrow> i)"

definition envBool :: "getenv \<Rightarrow> string \<Rightarrow> bool \<Rightarrow> bool" where
  "envBool E key fallback =
     (let v = trimSpace (toLower (E key))
      in if v = [] then fallback
         else if v \<in> {''1'', ''true'', ''yes'', ''y'', ''on''} then True
         else if v \<in> {''0'', ''false'', ''no'', ''n'', ''off''} then False
         else fallback)"

definition envDuration :: "getenv \<Rightarrow> string \<Rightarrow> int \<Rightarrow> int" where
  "envDuration E key fallback =
     (let v = trimSpace (E key)
      in if v = [] then fallback else case parseDuration v of None \<Rightarrow> fallback | Some d \<Rightarrow> d)"

definition Validate :: "config \<Rightarrow> goerr option" where
  "Validate c =
     (if NodeID c = [] then Some (Leaf ''AURORA_NODE_ID is required'')
      else if trimSpace (AgentVersion c) = [] then Some (Leaf ''agent version must not be empty'')
      else if LibvirtURI c = [] then Some (Leaf ''AURORA_LIBVIRT_URI is required'')
      else if trimSpace (ProbeListenAddr c) = [] then Some (Leaf ''AURORA_AGENT_PROBE_ADDR is required'')
      else if ShutdownTimeout c \<le> 0 then Some (Leaf ''AURORA_SHUTDOWN_TIMEOUT must be > 0'')
      else None)"

text \<open>\<open>host\<close> is what \<^verbatim>\<open>os.Hostname\<close> answers.\<close>

definition Load :: "getenv \<Rightarrow> goerr + string \<Rightarrow> goerr + config" where
  "Load E host =
     (let hostname = (case host of Inl _ \<Rightarrow> ''unknown-host'' | Inr h \<Rightarrow> h);
          cfg = \<lparr>NodeID = env_str E ''AURORA_NODE_ID'' hostname,
                 Hostname = hostname,
                 LibvirtURI = env_str E ''AURORA_LIBVIRT_URI'' ''qemu+unix:///system'',
                 ProbeListenAddr = env_str E ''AURORA_AGENT_PROBE_ADDR'' ''0.0.0.0:7443'',
                 HealthInterval = envDuration E ''AURORA_HEALTH_INTERVAL'' (10 * 1000000000),
                 ReconnectInterval = envDuration E ''AURORA_RECONNECT_INTERVAL'' (4 * 1000000000),
                 ShutdownTimeout = envDuration E ''AURORA_SHUTDOWN_TIMEOUT'' (20 * 1000000000),
                 BackendGRPCAddr = env_str E ''AURORA_BACKEND_GRPC_ADDR'' ''127.0.0.1:3001'',
                 BackendToken = env_str E ''AURORA_BACKEND_TOKEN'' [],
                 AgentVersion = HardcodedVersion,
                 TLSEnabled = envBool E ''AURORA_TLS_ENABLED'' False,
                 TLSSkipVerify = envBool E ''AURORA_TLS_SKIP_VERIFY'' False,
                 TLSCAPath = env_str E ''AURORA_TLS_CA_PATH'' [],
                 TLSCertPath = env_str E ''AURORA_TLS_CERT_PATH'' [],
                 TLSKeyPath = env_str E ''AURORA_TLS_KEY_PATH'' [],
                 LogLevel = toLower (env_str E ''AURORA_LOG_LEVEL'' ''info''),
                 StreamBufferSize = envInt E ''AURORA_STREAM_BUFFER_SIZE'' 1024,
                 CollectorErrorBackoff = envDuration E ''AURORA_COLLECTOR_ERROR_BACKOFF'' (1500 * 1000000),
                 MaxReconnectJitter = envDuration E ''AURORA_RECONNECT_MAX_JITTER'' (900 * 1000000)\<rparr>
      in case Validate cfg of Some err \<Rightarrow> Inl err | None \<Rightarrow> Inr cfg)"

section \<open>TLS\<close>

text \<open>The files and the standard library's readers of certificates.\<close>

record ('pool, 'cert) tls_env =
  te_readFile :: "string \<Rightarrow> goerr + string"
  te_pool :: "string \<Rightarrow> 'pool option" \<comment> \<open>\<^verbatim>\<open>AppendCertsFromPEM\<close> on a new pool\<close>
  te_keyPair :: "string \<Rightarrow> string \<Rightarrow> goerr + 'cert"

record ('pool, 'cert) tls_config =
  tc_MinVersion :: u16
  tc_InsecureSkipVerify :: bool
  tc_RootCAs :: "'pool option"
  tc_Certificates :: "'cert list"

definition VersionTLS12 :: u16 where
  "VersionTLS12 = 0x0303"

definition TLSConfig :: "('p, 'c) tls_env \<Rightarrow> config \<Rightarrow> goerr + ('p, 'c) tls_config option" where
  "TLSConfig E c =
     (if \<not> TLSEnabled c then Inr None
      else let base = \<lparr>tc_MinVersion = VersionTLS12, tc_InsecureSkipVerify = TLSSkipVerify c,
                       tc_RootCAs = None, tc_Certificates = []\<rparr>;
               withCA = (if TLSCAPath c = [] then Inr base
                         else case te_readFile E (TLSCAPath c) of
                                Inl err \<Rightarrow> Inl (wrap ''read CA file: '' err)
                              | Inr caBytes \<Rightarrow>
                                  (case te_pool E caBytes of
                                     None \<Rightarrow> Inl (Leaf ''append CA cert failed'')
                                   | Some pool \<Rightarrow> Inr (base\<lparr>tc_RootCAs := Some pool\<rparr>)))
           in case withCA of
                Inl err \<Rightarrow> Inl err
              | Inr tlsCfg \<Rightarrow>
                  if TLSCertPath c \<noteq> [] \<or> TLSKeyPath c \<noteq> [] then
                    (if TLSCertPath c = [] \<or> TLSKeyPath c = []
                     then Inl (Leaf ''both TLS cert and key are required'')
                     else case te_keyPair E (TLSCertPath c) (TLSKeyPath c) of
                            Inl err \<Rightarrow> Inl (wrap ''load mTLS cert/key: '' err)
                          | Inr crt \<Rightarrow> Inr (Some (tlsCfg\<lparr>tc_Certificates := [crt]\<rparr>)))
                  else Inr (Some tlsCfg))"

section \<open>The version service\<close>

record GetVersionResponse =
  gv_NodeID :: string
  gv_AgentVersion :: string
  gv_ProbeListenAddr :: string
  gv_CheckedAtUnix :: int

definition GetVersion :: "config \<Rightarrow> string option \<Rightarrow> int \<Rightarrow> GetVersionResponse" where
  "GetVersion cfg req now =
     \<lparr>gv_NodeID = NodeID cfg, gv_AgentVersion = AgentVersion cfg,
      gv_ProbeListenAddr = ProbeListenAddr cfg, gv_CheckedAtUnix = now\<rparr>"

section \<open>Facts\<close>

lemma digits_foldl_ge: "(x :: nat) \<le> foldl (\<lambda>n c. 10 * n + digit_val c) x ds"
proof (induction ds arbitrary: x)
  case (Cons c ds)
  have "x \<le> 10 * x + digit_val c" by simp
  also have "\<dots> \<le> foldl (\<lambda>n c. 10 * n + digit_val c) (10 * x + digit_val c) ds" by (rule Cons.IH)
  finally show ?case by simp
qed simp

lemma leadingInt_digits:
  assumes "list_all is_digit ds" and "rest = [] \<or> \<not> is_digit (hd rest)"
    and "foldl (\<lambda>n c. 10 * n + digit_val c) (unat x) ds \<le> 2 ^ 63"
  shows "leadingInt x (ds @ rest) =
    Some (of_nat (foldl (\<lambda>n c. 10 * n + digit_val c) (unat x) ds), rest)"
  using assms
proof (induction ds arbitrary: x)
  case Nil
  then show ?case by (cases rest) auto
next
  case (Cons c ds)
  let ?y = "10 * unat x + digit_val c"
  have y: "?y \<le> 2 ^ 63"
    using digits_foldl_ge [of ?y ds] Cons.prems(3) by simp
  have d: "digit_val c \<le> 9" using Cons.prems(1) by (auto simp: is_digit_def digit_val_def)
  have u: "unat (x * 10 + of_nat (digit_val c)) = ?y"
  proof -
    have "unat (of_nat (digit_val c) :: u64) = digit_val c"
      using d by (simp add: unat_of_nat take_bit_nat_eq_self)
    moreover have "unat (x * 10) = 10 * unat x" using y by (subst unat_mult_no_wrap) auto
    ultimately show ?thesis using y by (subst unat_add_no_wrap) auto
  qed
  have "\<not> x > two63 div 10"
    using y by (simp add: word_less_nat_alt two63_def unat_div_distrib)
  moreover have "\<not> x * 10 + of_nat (digit_val c) > two63"
    using y u by (simp add: word_less_nat_alt two63_def)
  ultimately show ?case
    using Cons.prems Cons.IH [of "x * 10 + of_nat (digit_val c)"] by (simp add: Let_def u)
qed



text \<open>
  C33. What loading promises: a loaded configuration names its node (as the environment does, or else
  after the host), the hypervisor and the listening address, carries the built-in version and a positive shutdown timeout; and loading fails only when
  the node has no name at all or the shutdown timeout was set to zero or less.
\<close>

theorem Load_correct:
  "case Load E host of
     Inr c \<Rightarrow> NodeID c \<noteq> [] \<and> LibvirtURI c \<noteq> [] \<and> trimSpace (ProbeListenAddr c) \<noteq> [] \<and>
              0 < ShutdownTimeout c \<and> AgentVersion c = HardcodedVersion \<and>
              NodeID c = (if trimSpace (E ''AURORA_NODE_ID'') = [] then Hostname c else trimSpace (E ''AURORA_NODE_ID''))
   | Inl e \<Rightarrow> (trimSpace (E ''AURORA_NODE_ID'') = [] \<and> host = Inr []) \<or>
              envDuration E ''AURORA_SHUTDOWN_TIMEOUT'' 20000000000 \<le> 0"
proof -
  have env: "env_str E k f = [] \<longleftrightarrow> trimSpace (E k) = [] \<and> f = []" for k f
    by (simp add: env_str_def Let_def)
  have probe: "trimSpace (env_str E ''AURORA_AGENT_PROBE_ADDR'' ''0.0.0.0:7443'') \<noteq> []"
  proof (cases "trimSpace (E ''AURORA_AGENT_PROBE_ADDR'') = []")
    case True
    then show ?thesis by (simp add: env_str_def Let_def trimSpace_Nil_iff [of "''0.0.0.0:7443''"] is_space_def)
  qed (simp add: env_str_def Let_def)
  have version: "trimSpace HardcodedVersion \<noteq> []"
    by (simp add: HardcodedVersion_def trimSpace_Nil_iff is_space_def)
  have node: "env_str E ''AURORA_NODE_ID'' f =
      (if trimSpace (E ''AURORA_NODE_ID'') = [] then f else trimSpace (E ''AURORA_NODE_ID''))" for f
    by (simp add: env_str_def Let_def)
  show ?thesis
    using probe version node
    by (cases host) (auto simp: Load_def Let_def Validate_def env)
qed

end
