(* ===== verification/Agent_RPC.thy ===== *)
theory Agent_RPC
  imports VM_Control Config
begin

text \<open>
  The RPC by which the backend operates on machines: the requests and the response of
  \<^verbatim>\<open>internal/agent/vm/vm_types.go\<close>, the service methods of \<^verbatim>\<open>vm_service.go\<close>, and the service description,
  the method handlers and the listener of \<^verbatim>\<open>internal/agent/probe_listener.go\<close>. The gRPC server, its
  listener and the JSON codec's two library calls are parameters: a handler is given \<open>decode\<close>, the
  codec's answer for the bytes of the call, and at most one interceptor.
\<close>

section \<open>Requests and the response\<close>

record GetVersionRequest =
  gr_NodeID :: string

record CreateVMRequest =
  cr_NodeID :: string
  cr_VMName :: string
  cr_VCPUCount :: u32
  cr_RAMMB :: u64
  cr_DiskSizeGB :: u64
  cr_DiskPath :: string
  cr_NetworkName :: string
  cr_Autostart :: bool
  cr_StartNow :: bool

record UpdateVMRequest =
  ur_NodeID :: string
  ur_VMName :: string
  ur_VCPUCount :: u32
  ur_RAMMB :: u64
  ur_Autostart :: "bool option"

record DeleteVMRequest =
  dr_NodeID :: string
  dr_VMName :: string
  dr_Force :: bool
  dr_RemoveDisk :: bool
  dr_ShutdownTimeoutS :: i32

record MigrateVMRequest =
  mr_NodeID :: string
  mr_VMName :: string
  mr_DestinationURI :: string
  mr_MigrateURI :: string
  mr_DestinationName :: string
  mr_Live :: bool
  mr_Persistent :: bool
  mr_UndefineSource :: bool
  mr_CopyStorageAll :: bool
  mr_Unsafe :: bool
  mr_Compressed :: bool
  mr_AllowOfflineFallback :: bool
  mr_BandwidthMbps :: u64
  mr_TimeoutSeconds :: i32

record VMOperationResponse =
  vo_NodeID :: string
  vo_VMName :: string
  vo_OK :: bool
  vo_Rejected :: bool
  vo_Message :: string
  vo_Admission :: "AdmissionReport option"

section \<open>The service methods\<close>

definition createSpec :: "CreateVMRequest \<Rightarrow> CreateVMSpec" where
  "createSpec req =
     \<lparr>cs_NodeID = cr_NodeID req, cs_Name = cr_VMName req, cs_VCPUCount = cr_VCPUCount req,
      cs_RAMMB = cr_RAMMB req, cs_DiskSizeGB = cr_DiskSizeGB req, cs_DiskPath = cr_DiskPath req,
      cs_NetworkName = cr_NetworkName req, cs_Autostart = cr_Autostart req, cs_StartNow = cr_StartNow req\<rparr>"

definition updateSpec :: "UpdateVMRequest \<Rightarrow> UpdateVMSpec" where
  "updateSpec req =
     \<lparr>us_NodeID = ur_NodeID req, us_Name = ur_VMName req, us_VCPUCount = ur_VCPUCount req,
      us_RAMMB = ur_RAMMB req, us_Autostart = ur_Autostart req\<rparr>"

definition deleteSpec :: "DeleteVMRequest \<Rightarrow> DeleteVMSpec" where
  "deleteSpec req =
     \<lparr>ds_NodeID = dr_NodeID req, ds_Name = dr_VMName req, ds_Force = dr_Force req,
      ds_RemoveDisk = dr_RemoveDisk req, ds_ShutdownTimeoutS = dr_ShutdownTimeoutS req\<rparr>"

definition migrateSpec :: "MigrateVMRequest \<Rightarrow> MigrateVMSpec" where
  "migrateSpec req =
     \<lparr>ms_NodeID = mr_NodeID req, ms_Name = mr_VMName req, ms_DestinationURI = mr_DestinationURI req,
      ms_MigrateURI = mr_MigrateURI req, ms_DestinationName = mr_DestinationName req, ms_Live = mr_Live req,
      ms_Persistent = mr_Persistent req, ms_UndefineSource = mr_UndefineSource req,
      ms_CopyStorageAll = mr_CopyStorageAll req, ms_Unsafe = mr_Unsafe req, ms_Compressed = mr_Compressed req,
      ms_AllowOfflineFallback = mr_AllowOfflineFallback req, ms_BandwidthMbps = mr_BandwidthMbps req,
      ms_TimeoutSeconds = mr_TimeoutSeconds req\<rparr>"

definition emptyResponse :: VMOperationResponse where
  "emptyResponse =
     \<lparr>vo_NodeID = [], vo_VMName = [], vo_OK = False, vo_Rejected = False, vo_Message = ''empty request'',
      vo_Admission = None\<rparr>"

definition responseOf :: "VMOperationResult \<Rightarrow> VMOperationResponse" where
  "responseOf result =
     \<lparr>vo_NodeID = or_NodeID result, vo_VMName = or_VMName result, vo_OK = or_OK result,
      vo_Rejected = or_Rejected result, vo_Message = or_Message result, vo_Admission = or_Admission result\<rparr>"

text \<open>The four methods differ in the operation only; a \<^verbatim>\<open>nil\<close> request is \<open>None\<close>.\<close>

definition serve ::
    "('req \<Rightarrow> 'spec) \<Rightarrow> ('spec \<Rightarrow> answer vio) \<Rightarrow> 'req option \<Rightarrow> (goerr + VMOperationResponse) vio" where
  "serve toSpec operation req =
     (case req of
        None \<Rightarrow> ret (Inr emptyResponse)
      | Some r \<Rightarrow>
          do {
            (result, err) \<leftarrow> operation (toSpec r);
            ret (case err of Some e \<Rightarrow> Inl e | None \<Rightarrow> Inr (responseOf result))
          })"

definition serviceCreate :: "venv \<Rightarrow> string \<Rightarrow> CreateVMRequest option \<Rightarrow> (goerr + VMOperationResponse) vio" where
  "serviceCreate E imageDir req = serve createSpec (CreateVM E imageDir) req"

definition serviceUpdate :: "venv \<Rightarrow> string \<Rightarrow> UpdateVMRequest option \<Rightarrow> (goerr + VMOperationResponse) vio" where
  "serviceUpdate E imageDir req = serve updateSpec (UpdateVM E imageDir) req"

definition serviceDelete :: "venv \<Rightarrow> DeleteVMRequest option \<Rightarrow> (goerr + VMOperationResponse) vio" where
  "serviceDelete E req = serve deleteSpec (DeleteVM E) req"

definition serviceMigrate :: "venv \<Rightarrow> MigrateVMRequest option \<Rightarrow> (goerr + VMOperationResponse) vio" where
  "serviceMigrate E req = serve migrateSpec (MigrateVM E) req"

section \<open>The handlers\<close>

text \<open>An interceptor sees the request, the method's full name, and the handler it may call.\<close>

type_synonym ('req, 'resp) interceptor =
  "'req \<Rightarrow> string \<Rightarrow> ('req \<Rightarrow> (goerr + 'resp) vio) \<Rightarrow> (goerr + 'resp) vio"

definition unaryHandler ::
    "string \<Rightarrow> ('req option \<Rightarrow> (goerr + 'resp) vio) \<Rightarrow> goerr + 'req \<Rightarrow> ('req, 'resp) interceptor option
     \<Rightarrow> (goerr + 'resp) vio" where
  "unaryHandler fullMethod serviceMethod decoded interceptor =
     (case decoded of
        Inl err \<Rightarrow> ret (Inl err)
      | Inr req \<Rightarrow>
          (case interceptor of
             None \<Rightarrow> serviceMethod (Some req)
           | Some intercept \<Rightarrow> intercept req fullMethod (\<lambda>req. serviceMethod (Some req))))"

definition agentServiceName :: string where
  "agentServiceName = ''aurora.agent.v1.AgentService''"

definition agentServiceGetVersion :: "config \<Rightarrow> int \<Rightarrow> GetVersionRequest option \<Rightarrow> (goerr + GetVersionResponse) vio" where
  "agentServiceGetVersion cfg now req = ret (Inr (GetVersion cfg (map_option gr_NodeID req) now))"

definition agentServiceGetVersionHandler ::
    "config \<Rightarrow> int \<Rightarrow> goerr + GetVersionRequest \<Rightarrow> (GetVersionRequest, GetVersionResponse) interceptor option
     \<Rightarrow> (goerr + GetVersionResponse) vio" where
  "agentServiceGetVersionHandler cfg now =
     unaryHandler ''/aurora.agent.v1.AgentService/GetVersion'' (agentServiceGetVersion cfg now)"

definition agentServiceCreateVMHandler ::
    "venv \<Rightarrow> string \<Rightarrow> goerr + CreateVMRequest \<Rightarrow> (CreateVMRequest, VMOperationResponse) interceptor option
     \<Rightarrow> (goerr + VMOperationResponse) vio" where
  "agentServiceCreateVMHandler E imageDir =
     unaryHandler ''/aurora.agent.v1.AgentService/CreateVM'' (serviceCreate E imageDir)"

definition agentServiceUpdateVMHandler ::
    "venv \<Rightarrow> string \<Rightarrow> goerr + UpdateVMRequest \<Rightarrow> (UpdateVMRequest, VMOperationResponse) interceptor option
     \<Rightarrow> (goerr + VMOperationResponse) vio" where
  "agentServiceUpdateVMHandler E imageDir =
     unaryHandler ''/aurora.agent.v1.AgentService/UpdateVM'' (serviceUpdate E imageDir)"

definition agentServiceDeleteVMHandler ::
    "venv \<Rightarrow> goerr + DeleteVMRequest \<Rightarrow> (DeleteVMRequest, VMOperationResponse) interceptor option
     \<Rightarrow> (goerr + VMOperationResponse) vio" where
  "agentServiceDeleteVMHandler E =
     unaryHandler ''/aurora.agent.v1.AgentService/DeleteVM'' (serviceDelete E)"

definition agentServiceMigrateVMHandler ::
    "venv \<Rightarrow> goerr + MigrateVMRequest \<Rightarrow> (MigrateVMRequest, VMOperationResponse) interceptor option
     \<Rightarrow> (goerr + VMOperationResponse) vio" where
  "agentServiceMigrateVMHandler E =
     unaryHandler ''/aurora.agent.v1.AgentService/MigrateVM'' (serviceMigrate E)"

text \<open>
  The service description: the handler of each method name, here with the codec's decoders and without
  an interceptor, as \<^verbatim>\<open>grpc.NewServer()\<close> without options gives them. The controller is created with an
  empty image directory, so that it takes its default.
\<close>

record 'b json_codec =
  jc_version :: "'b \<Rightarrow> goerr + GetVersionRequest"
  jc_create :: "'b \<Rightarrow> goerr + CreateVMRequest"
  jc_update :: "'b \<Rightarrow> goerr + UpdateVMRequest"
  jc_delete :: "'b \<Rightarrow> goerr + DeleteVMRequest"
  jc_migrate :: "'b \<Rightarrow> goerr + MigrateVMRequest"

datatype rpc_reply = ReplyVersion GetVersionResponse | ReplyOperation VMOperationResponse

definition replying :: "('resp \<Rightarrow> rpc_reply) \<Rightarrow> (goerr + 'resp) vio \<Rightarrow> (goerr + rpc_reply) vio" where
  "replying reply m = do { r \<leftarrow> m; ret (map_sum id reply r) }"

definition agentServiceDesc ::
    "'b json_codec \<Rightarrow> venv \<Rightarrow> config \<Rightarrow> int \<Rightarrow> (string \<times> ('b \<Rightarrow> (goerr + rpc_reply) vio)) list" where
  "agentServiceDesc J E cfg now =
     [(''GetVersion'', \<lambda>b. replying ReplyVersion (agentServiceGetVersionHandler cfg now (jc_version J b) None)),
      (''CreateVM'', \<lambda>b. replying ReplyOperation
         (agentServiceCreateVMHandler E (NewController []) (jc_create J b) None)),
      (''UpdateVM'', \<lambda>b. replying ReplyOperation
         (agentServiceUpdateVMHandler E (NewController []) (jc_update J b) None)),
      (''DeleteVM'', \<lambda>b. replying ReplyOperation (agentServiceDeleteVMHandler E (jc_delete J b) None)),
      (''MigrateVM'', \<lambda>b. replying ReplyOperation (agentServiceMigrateVMHandler E (jc_migrate J b) None))]"

section \<open>The listener\<close>

text \<open>
  \<open>pe_serve\<close> is what \<^verbatim>\<open>server.Serve\<close> returned, and \<open>pe_cancelled\<close> whether the context was over then. The
  goroutine that waits for the end of the context stops the server gracefully, and by force when that
  takes longer than two seconds.
\<close>

record probe_env =
  pe_listen :: "string \<Rightarrow> goerr option"
  pe_serve :: "goerr option"
  pe_cancelled :: bool

datatype probe_stop = PGracefulStop | PStop | PCloseListener

definition stopServer :: "bool \<Rightarrow> probe_stop list" where
  "stopServer gracefulInTime =
     [PGracefulStop] @ (if gracefulInTime then [] else [PStop]) @ [PCloseListener]"

definition runProbeListener :: "probe_env \<Rightarrow> config \<Rightarrow> goerr option" where
  "runProbeListener E cfg =
     (let addr = ProbeListenAddr cfg
      in if addr = [] then Some (Leaf ''empty probe listen address'')
         else case pe_listen E addr of
                Some err \<Rightarrow> Some (wrap (''listen probe endpoint '' @ addr @ '': '') err)
              | None \<Rightarrow>
                  (case pe_serve E of
                     Some err \<Rightarrow>
                       if pe_cancelled E then None
                       else Some (wrap (''serve probe rpc endpoint '' @ addr @ '': '') err)
                   | None \<Rightarrow> None))"

text \<open>\<^verbatim>\<open>sync.Once\<close> around the registration: whether it ran, and the codecs registered.\<close>

definition registerAgentJSONCodec :: "bool \<times> string list \<Rightarrow> bool \<times> string list" where
  "registerAgentJSONCodec st = (if fst st then st else (True, snd st @ [''json'']))"

section \<open>Facts\<close>

text \<open>A call that the codec rejects does nothing; a call without an interceptor is the service's method.\<close>

lemma unaryHandler_simps [simp]:
  "unaryHandler n f (Inl err) i = ret (Inl err)"
  "unaryHandler n f (Inr req) None = f (Some req)"
  by (simp_all add: unaryHandler_def)

lemma responseOf_simps [simp]:
  "vo_OK (responseOf r) = or_OK r" "vo_Rejected (responseOf r) = or_Rejected r"
  "vo_Message (responseOf r) = or_Message r" "vo_Admission (responseOf r) = or_Admission r"
  "vo_NodeID (responseOf r) = or_NodeID r" "vo_VMName (responseOf r) = or_VMName r"
  by (simp_all add: responseOf_def)

text \<open>
  What a reply says, the operation answered: the method's reply is \<open>OK\<close> exactly when the operation
  ended without an error and reported success.
\<close>

lemma wp_ret_fun: "wp (ret x) Q = Q x"
  by (rule ext) (rule wp_ret)

lemma wp_serve:
  "wp (serve toSpec operation (Some req)) Q t \<longleftrightarrow>
   wp (operation (toSpec req))
     (\<lambda>(result, err) t'. Q (case err of Some e \<Rightarrow> Inl e | None \<Rightarrow> Inr (responseOf result)) t') t"
  by (simp add: serve_def wp_bind wp_ret_fun split_def)

lemma wp_replying: "wp (replying reply m) Q t \<longleftrightarrow> wp m (\<lambda>r. Q (map_sum id reply r)) t"
  by (simp add: replying_def wp_bind wp_ret_fun)

text \<open>The handler that the description gives a name is the only one that runs.\<close>

lemma agentServiceDesc_names:
  "map fst (agentServiceDesc J E cfg now) = [''GetVersion'', ''CreateVM'', ''UpdateVM'', ''DeleteVM'', ''MigrateVM'']"
  by (simp add: agentServiceDesc_def)

end
