(* ===== verification/VM_Facts.thy ===== *)
theory VM_Facts
  imports VM_Control
begin

text \<open>
  What the operations on virtual machines guarantee, for every behaviour of libvirt and of the host:
  a refusal changes nothing, a creation does exactly its steps in order and only what was admitted, a
  deletion removes disks only after the definition is gone, a migration runs its command at most
  twice. The last section shows where the code falls short.
\<close>

section \<open>Changes\<close>

text \<open>The calls that change something outside; the others only read.\<close>

fun mutates :: "vmevent \<Rightarrow> bool" where
  "mutates (XDefine _ _) = True"
| "mutates (XSetAutostart _ _ _) = True"
| "mutates (XCreate _ _) = True"
| "mutates (XSetVcpus _ _ _ _) = True"
| "mutates (XSetMemory _ _ _ _) = True"
| "mutates (XShutdown _ _) = True"
| "mutates (XDestroy _ _) = True"
| "mutates (XUndefineFlags _ _ _) = True"
| "mutates (XUndefine _ _) = True"
| "mutates (XMkdirAll _ _) = True"
| "mutates (XExec _ _ _ _) = True"
| "mutates (XRemove _ _) = True"
| "mutates _ = False"

definition effects :: "vmevent list \<Rightarrow> vmevent list" where
  "effects t = filter mutates t"

lemma effects_simps [simp]:
  "effects [] = []" "effects (t @ t') = effects t @ effects t'"
  "effects (e # t) = (if mutates e then e # effects t else effects t)"
  by (simp_all add: effects_def)

text \<open>A computation that makes no change.\<close>

definition reads :: "'a vio \<Rightarrow> bool" where
  "reads m \<longleftrightarrow> only (\<lambda>e. \<not> mutates e) m"

lemma reads_intros [intro!]:
  "reads (ret x)" "(\<And>r. \<not> mutates (mk r)) \<Longrightarrow> reads (ask mk reply)"
  "reads m \<Longrightarrow> (\<And>a. reads (f a)) \<Longrightarrow> reads (m \<bind> f)"
  unfolding reads_def by (blast intro: only_ret only_ask only_bind)+

lemma wp_reads:
  assumes "reads m"
  shows "wp m (\<lambda>r t'. effects t' = effects t) t"
proof -
  obtain a t' where run: "run_state m t = (a, t')" by fastforce
  from only_run [OF assms [unfolded reads_def] run]
  obtain es where "t' = t @ es" "\<forall>e \<in> set es. \<not> mutates e" .
  then have "effects t' = effects t" by (simp add: effects_def)
  with run show ?thesis by (simp add: wp_def)
qed

lemma reads_readDomainConfig [intro!]: "reads (readDomainConfig E vm)"
  unfolding readDomainConfig_def by auto

lemma reads_allocatedOf [intro!]: "reads (allocatedOf E ex vms u v)"
  by (induction vms arbitrary: u v) (auto split: sum.splits)

lemma reads_checkAdmission [intro!]: "reads (checkAdmission E dir inp)"
  unfolding checkAdmission_def readNodeCapacity_def readAllocatedCapacity_def storageCheckPath_def
    readStorageCapacity_def Let_def
  by (auto split: sum.splits)

text \<open>A computation only adds to the trace, so that what was read stays read.\<close>

lemma wp_kept: "only (\<lambda>_. True) m \<Longrightarrow> wp m (\<lambda>_ t'. set t \<subseteq> set t') t"
  unfolding wp_def split_def by (metis (no_types, lifting) only_run prod.collapse set_append Un_upper1)

text \<open>
  What a run read of a machine's configuration: \<open>None\<close> when libvirt or the XML reader refused.
\<close>

definition domain_read :: "venv \<Rightarrow> vmevent list \<Rightarrow> domain \<Rightarrow> parsedDomainConfig option \<Rightarrow> bool" where
  "domain_read E t vm r \<longleftrightarrow>
     (\<exists>x. XGetXML vm x \<in> set t \<and>
        r = (case x of Inl _ \<Rightarrow> None
             | Inr xml \<Rightarrow> (case ve_unmarshal E xml of Inl _ \<Rightarrow> None
                 | Inr d \<Rightarrow> Some (parseDomainConfig (dom_Name vm) d))))"

lemma domain_read_mono: "domain_read E t vm r \<Longrightarrow> set t \<subseteq> set t' \<Longrightarrow> domain_read E t' vm r"
  unfolding domain_read_def by blast

lemma wp_readDomainConfig:
  "wp (readDomainConfig E vm) (\<lambda>rc t'. effects t' = effects t \<and> set t \<subseteq> set t' \<and>
     domain_read E t' vm (case rc of Inl _ \<Rightarrow> None | Inr c \<Rightarrow> Some c)) t"
proof -
  let ?x = "ve_getXML E vm t"
  have "domain_read E (t @ [XGetXML vm ?x]) vm
      (case ?x of Inl _ \<Rightarrow> None | Inr xml \<Rightarrow> (case ve_unmarshal E xml of Inl _ \<Rightarrow> None
         | Inr d \<Rightarrow> Some (parseDomainConfig (dom_Name vm) d)))"
    unfolding domain_read_def by (rule exI [of _ ?x]) simp
  then show ?thesis
    unfolding readDomainConfig_def
    by (cases ?x; cases "ve_unmarshal E (projr ?x)") (auto simp: wp_simps)
qed

text \<open>The configurations that count: those that could be read, but for the machine being changed.\<close>

definition counted :: "string \<Rightarrow> parsedDomainConfig option list \<Rightarrow> parsedDomainConfig list" where
  "counted exclude rs =
     filter (\<lambda>c. \<not> (exclude \<noteq> [] \<and> pd_Name c = exclude)) (concat (map (case_option [] (\<lambda>c. [c])) rs))"

lemma wp_allocatedOf:
  "wp (allocatedOf E exclude vms u v) (\<lambda>(u', v') t'. set t \<subseteq> set t' \<and>
     (\<exists>rs. list_all2 (domain_read E t') vms rs \<and> u' = u + sum_list (map pd_VCPU (counted exclude rs)) \<and>
        v' = v + sum_list (map pd_MemoryMB (counted exclude rs)))) t"
proof (induction vms arbitrary: u v t)
  case Nil
  then show ?case by (simp add: wp_simps counted_def)
next
  case (Cons vm vms)
  have step: "wp (allocatedOf E exclude vms u1 v1) (\<lambda>(u', v') t'. set t \<subseteq> set t' \<and>
      (\<exists>rs. list_all2 (domain_read E t') (vm # vms) rs \<and>
         u' = u + sum_list (map pd_VCPU (counted exclude rs)) \<and>
         v' = v + sum_list (map pd_MemoryMB (counted exclude rs)))) t1"
    if "set t \<subseteq> set t1" "domain_read E t1 vm r" "u1 = u + sum_list (map pd_VCPU (counted exclude [r]))"
      "v1 = v + sum_list (map pd_MemoryMB (counted exclude [r]))" for u1 v1 r t1
  proof (rule wp_mono [OF Cons.IH [of u1 v1 t1]], clarify, goal_cases)
    case (1 u' v' t' rs)
    have "domain_read E t' vm r" using that(2) 1(1) by (rule domain_read_mono)
    with 1 that show ?case by (intro conjI exI [of _ "r # rs"]) (auto simp: counted_def algebra_simps)
  qed
  show ?case
    unfolding allocatedOf.simps
  proof (rule wp_seq [OF wp_readDomainConfig], clarify, goal_cases)
    case (1 rc t1)
    show ?case
    proof (cases rc)
      case (Inl err)
      with 1 show ?thesis unfolding Inl sum.case by (intro step [of t1 None]) (simp_all add: counted_def)
    next
      case (Inr c)
      with 1 show ?thesis
        unfolding Inr sum.case by (intro wp_if step [of t1 "Some c"]) (simp_all add: counted_def)
    qed
  qed
qed

text \<open>A report that says what the host and its machines answered during the run.\<close>

definition capacity_read :: "vmevent list \<Rightarrow> u64 \<times> u64 \<Rightarrow> bool" where
  "capacity_read t cap \<longleftrightarrow>
     (\<exists>memKiB cpus. XNodeInfo (Inr (memKiB, cpus)) \<in> set t \<and> cap = (scast cpus, memKiB div 1024))"

definition allocated_read :: "venv \<Rightarrow> string \<Rightarrow> vmevent list \<Rightarrow> u64 \<times> u64 \<Rightarrow> bool" where
  "allocated_read E exclude t used \<longleftrightarrow>
     (\<exists>doms rs. XListDomains (Inr doms) \<in> set t \<and> list_all2 (domain_read E t) doms rs \<and>
        used = (sum_list (map pd_VCPU (counted exclude rs)), sum_list (map pd_MemoryMB (counted exclude rs))))"

definition storage_read :: "string \<Rightarrow> vmevent list \<Rightarrow> u64 \<times> u64 \<Rightarrow> bool" where
  "storage_read path t c \<longleftrightarrow>
     (\<exists>blocks bavail bsize. XStatfs path (Inr (blocks, bavail, bsize)) \<in> set t \<and>
        c = (blocks * bsize, bavail * bsize))"

lemma read_mono:
  assumes "set t \<subseteq> set t'"
  shows "capacity_read t cap \<Longrightarrow> capacity_read t' cap"
    and "allocated_read E exclude t used \<Longrightarrow> allocated_read E exclude t' used"
    and "storage_read path t c \<Longrightarrow> storage_read path t' c"
proof -
  show "capacity_read t cap \<Longrightarrow> capacity_read t' cap" "storage_read path t c \<Longrightarrow> storage_read path t' c"
    using assms unfolding capacity_read_def storage_read_def by blast+
  have mono: "list_all2 (domain_read E t) doms rs \<Longrightarrow> list_all2 (domain_read E t') doms rs" for doms rs
    by (erule list_all2_mono) (rule domain_read_mono [OF _ assms])
  show "allocated_read E exclude t used \<Longrightarrow> allocated_read E exclude t' used"
    using assms unfolding allocated_read_def by (blast intro: mono)
qed

definition honest :: "venv \<Rightarrow> string \<Rightarrow> AdmissionReport \<Rightarrow> vmevent list \<Rightarrow> bool" where
  "honest E exclude report t \<longleftrightarrow>
     capacity_read t (TotalVCPU report, TotalRAMMB report) \<and>
     allocated_read E exclude t (UsedVCPU report, UsedRAMMB report) \<and>
     storage_read (StoragePath report) t (StorageTotalB report, StorageFreeB report)"

lemma honest_mono: "honest E exclude report t \<Longrightarrow> set t \<subseteq> set t' \<Longrightarrow> honest E exclude report t'"
  unfolding honest_def using read_mono by blast

definition decided :: "venv \<Rightarrow> admissionInput \<Rightarrow> goerr + AdmissionReport \<times> bool \<times> string \<Rightarrow> vmevent list \<Rightarrow> bool" where
  "decided E inp r t \<longleftrightarrow>
     (case r of Inl _ \<Rightarrow> True
      | Inr (report, allow, msg) \<Rightarrow> allow = fst (admissionDecision report) \<and> msg = snd (admissionDecision report) \<and>
          honest E (ai_excludeVMName inp) report t \<and>
          RequestedVCPU report = ai_requestVCPU inp \<and> RequestedRAMMB report = ai_requestRAMMB inp \<and>
          RequestedDiskB report = ai_requestDiskB inp)"

lemma wp_readNodeCapacity:
  "wp (readNodeCapacity E) (\<lambda>r t'. set t \<subseteq> set t' \<and> (\<forall>cap. r = Inr cap \<longrightarrow> capacity_read t' cap)) t"
  unfolding readNodeCapacity_def capacity_read_def by (auto simp: wp_simps split: sum.splits)

lemma wp_readAllocatedCapacity:
  "wp (readAllocatedCapacity E exclude)
     (\<lambda>r t'. set t \<subseteq> set t' \<and> (\<forall>used. r = Inr used \<longrightarrow> allocated_read E exclude t' used)) t"
  unfolding readAllocatedCapacity_def allocated_read_def
  by (intro wp_steps wp_seq [OF wp_allocatedOf]) auto

lemma wp_readStorageCapacity:
  "wp (readStorageCapacity E path)
     (\<lambda>r t'. set t \<subseteq> set t' \<and> (\<forall>c. r = Inr c \<longrightarrow> storage_read path t' c)) t"
  unfolding readStorageCapacity_def storage_read_def by (auto simp: wp_simps split: sum.splits)

lemma wp_storageCheckPath: "wp (storageCheckPath E path) (\<lambda>r t'. set t \<subseteq> set t') t"
  unfolding storageCheckPath_def Let_def by (auto simp: wp_simps)

lemma wp_decided:
  "wp (checkAdmission E dir inp) (\<lambda>r t'. set t \<subseteq> set t' \<and> decided E inp r t') t"
  unfolding checkAdmission_def Let_def
proof (rule wp_seq [OF wp_readNodeCapacity], erule conjE, intro wp_cases, goal_cases)
  case (2 capr t1 cap)
  note cap = 2
  show ?case
  proof (rule wp_seq [OF wp_readAllocatedCapacity], erule conjE, intro wp_cases, goal_cases)
    case (2 usedr t2 us)
    note used = 2
    show ?case
    proof (rule wp_seq [OF wp_storageCheckPath], rule wp_seq [OF wp_readStorageCapacity], erule conjE,
        intro wp_cases, goal_cases)
      case (2 path t3 stor t4 storage)
      have sub: "set t \<subseteq> set t4" "set t1 \<subseteq> set t4" "set t2 \<subseteq> set t4"
        using cap used 2 by blast+
      have "capacity_read t4 cap" "allocated_read E (ai_excludeVMName inp) t4 us" "storage_read path t4 storage"
        using cap used 2 sub read_mono by blast+
      then have "honest E (ai_excludeVMName inp) (admissionReport inp cap us path storage) t4"
        by (simp add: honest_def admissionReport_def)
      moreover have "RequestedVCPU (admissionReport inp cap us path storage) = ai_requestVCPU inp"
        "RequestedRAMMB (admissionReport inp cap us path storage) = ai_requestRAMMB inp"
        "RequestedDiskB (admissionReport inp cap us path storage) = ai_requestDiskB inp"
        by (simp_all add: admissionReport_def)
      ultimately show ?case using sub by (simp add: wp_simps decided_def split_def)
    qed (use cap used in \<open>auto simp: wp_simps decided_def\<close>)
  qed (use cap in \<open>auto simp: wp_simps decided_def\<close>)
qed (auto simp: wp_simps decided_def)

lemma wp_checkAdmission:
  "wp (checkAdmission E dir inp)
     (\<lambda>r t'. effects t' = effects t \<and> set t \<subseteq> set t' \<and> decided E inp r t') t"
  by (rule wp_conj [OF wp_reads [OF reads_checkAdmission] wp_decided])

section \<open>Creating\<close>

text \<open>The steps of a creation, in order: the directory, the image, the definition, autostart, start.\<close>

definition create_steps :: "string \<Rightarrow> CreateVMSpec \<Rightarrow> string \<Rightarrow> domain \<Rightarrow> vmevent list" where
  "create_steps imageDir spec out vm =
     (let path = createDiskPath imageDir spec
      in [XMkdirAll (fpDir path) None,
          XExec ''qemu-img'' [''create'', ''-f'', ''qcow2'', path, formatUint (cs_DiskSizeGB spec) @ ''G'']
            None (None, out),
          XDefine (buildDomainXML (trimSpace (cs_Name spec)) (cs_VCPUCount spec) (cs_RAMMB spec) path
            (createNetwork spec)) (Inr vm)] @
         (if cs_Autostart spec then [XSetAutostart vm 1 None] else []) @
         (if cs_StartNow spec then [XCreate vm None] else []))"

lemma wp_ensureDiskImage:
  "wp (ensureDiskImage E path gb) (\<lambda>r t'. r = None \<longrightarrow>
     (\<exists>out. effects t' = effects t @ [XMkdirAll (fpDir path) None,
        XExec ''qemu-img'' [''create'', ''-f'', ''qcow2'', path, formatUint gb @ ''G''] None (None, out)])) t"
  unfolding ensureDiskImage_def
  by (simp add: wp_simps split: sum.splits option.splits prod.splits)

lemma kept_createAdmitted: "only (\<lambda>_. True) (createAdmitted E imageDir spec result)"
  unfolding createAdmitted_def ensureDiskImage_def actIf_def Let_def
  by (auto split: sum.splits option.splits)

lemma wp_createAdmitted:
  assumes "or_VMName result = trimSpace (cs_Name spec)" and "\<not> or_OK result"
  shows "wp (createAdmitted E imageDir spec result) (\<lambda>(r, e) t'.
    case e of Some _ \<Rightarrow> r = result
    | None \<Rightarrow> r = result\<lparr>or_OK := True, or_Message := ''vm created''\<rparr> \<and>
        (\<exists>out vm. effects t' = effects t @ create_steps imageDir spec out vm)) t"
  unfolding createAdmitted_def Let_def assms(1)
  by (rule wp_seq [OF wp_ensureDiskImage], intro wp_cases; cases "cs_Autostart spec"; cases "cs_StartNow spec")
    (auto simp: wp_simps actIf_def create_steps_def Let_def split: sum.splits option.splits)

definition create_post ::
    "venv \<Rightarrow> string \<Rightarrow> CreateVMSpec \<Rightarrow> vmevent list \<Rightarrow> answer \<Rightarrow> vmevent list \<Rightarrow> bool" where
  "create_post E imageDir spec t a t' \<longleftrightarrow>
     (snd a \<noteq> None \<longrightarrow> \<not> or_OK (fst a)) \<and>
     (or_OK (fst a) \<longrightarrow>
        (\<exists>out vm. effects t' = effects t @ create_steps imageDir spec out vm) \<and>
        (\<exists>report. or_Admission (fst a) = Some report \<and> fst (admissionDecision report) \<and>
           honest E [] report t' \<and> RequestedVCPU report = ucast (cs_VCPUCount spec) \<and> RequestedRAMMB report = cs_RAMMB spec \<and>
           RequestedDiskB report = cs_DiskSizeGB spec * 1024 * 1024 * 1024)) \<and>
     (\<not> or_OK (fst a) \<and> snd a = None \<longrightarrow> effects t' = effects t)"

lemma wp_CreateVM: "wp (CreateVM E imageDir spec) (create_post E imageDir spec t) t"
proof -
  let ?res = "newResult (cs_NodeID spec) (trimSpace (cs_Name spec))"
  let ?inp = "\<lparr>ai_excludeVMName = [], ai_requestVCPU = ucast (cs_VCPUCount spec),
     ai_requestRAMMB = cs_RAMMB spec, ai_requestDiskB = cs_DiskSizeGB spec * 1024 * 1024 * 1024,
     ai_diskPath = createDiskPath imageDir spec\<rparr>"
  have adm: "wp (case adm of
        Inl err \<Rightarrow> failWith ?res err
      | Inr (report, allow, rejectMsg) \<Rightarrow>
          if \<not> allow then answerWith (?res\<lparr>or_Admission := Some report\<rparr>\<lparr>or_Rejected := True\<rparr>) rejectMsg
          else createAdmitted E imageDir spec (?res\<lparr>or_Admission := Some report\<rparr>))
      (create_post E imageDir spec t) t1" if "effects t1 = effects t" "decided E ?inp adm t1" for adm t1
  proof (cases adm)
    case (Inl e)
    then show ?thesis by (simp add: wp_simps create_post_def newResult_def)
  next
    case (Inr x)
    obtain report allow msg where x: "x = (report, allow, msg)" by (cases x)
    show ?thesis
    proof (cases allow)
      case False
      with that Inr x show ?thesis by (simp add: wp_simps create_post_def newResult_def)
    next
      case True
      have "wp (createAdmitted E imageDir spec (?res\<lparr>or_Admission := Some report\<rparr>)) (create_post E imageDir spec t) t1"
        by (rule wp_mono [OF wp_conj [OF wp_createAdmitted wp_kept [OF kept_createAdmitted]]])
          (use that True Inr x in \<open>auto simp: newResult_def create_post_def decided_def
             split: option.splits intro: honest_mono\<close>)
      with True Inr x show ?thesis by simp
    qed
  qed
  show ?thesis
    unfolding CreateVM_def Let_def
    by (intro wp_mono [OF wp_checkAdmission] adm wp_steps) (auto simp: create_post_def newResult_def)
qed


text \<open>A host with 8 processors, 16 GiB of memory and 1 TiB of storage, without machines.\<close>

definition host_env :: venv where
  "host_env =
     \<lparr>ve_client = (\<lambda>_. None), ve_lookup = (\<lambda>_. Inl (Leaf ''Domain not found'')),
      ve_nodeInfo = (\<lambda>_. Inr (16777216, 8)), ve_listDomains = (\<lambda>_. Inr []),
      ve_getXML = (\<lambda>_ _. Inr []), ve_getInfo = (\<lambda>_. Inr 5),
      ve_define = (\<lambda>_. Inr \<lparr>dom_Name = ''web'', dom_UUID = ''u1''\<rparr>), ve_act = (\<lambda>_. None),
      ve_stat = (\<lambda>_. Inl os_ErrNotExist), ve_statfs = (\<lambda>_. Inr (268435456, 268435456, 4096)),
      ve_mkdir = (\<lambda>_. None), ve_lookPath = (\<lambda>_. True), ve_exec = (\<lambda>_. (None, [])),
      ve_remove = (\<lambda>_. None), ve_ticks = (\<lambda>_ _. 0), ve_notFound = (\<lambda>e. e = Leaf ''Domain not found''),
      ve_unmarshal = (\<lambda>_. Inl (Leaf ''EOF'')), ve_running = {1, 2, 3, 7}, ve_VCPULive = 1,
      ve_VCPUConfig = 2, ve_MemLive = 1, ve_MemConfig = 2, ve_undefineFlags = 19\<rparr>"

definition web_spec :: CreateVMSpec where
  "web_spec =
     \<lparr>cs_NodeID = ''n1'', cs_Name = ''web'', cs_VCPUCount = 2, cs_RAMMB = 2048, cs_DiskSizeGB = 20,
      cs_DiskPath = ''/images/web.qcow2'', cs_NetworkName = [], cs_Autostart = True, cs_StartNow = False\<rparr>"

text \<open>The text of the definition does not matter to the runs below.\<close>

lemmas create_eval =
  CreateVM_def validateCreateSpec_def trimSpace_def is_space_def newResult_def checkAdmission_def
  readNodeCapacity_def readAllocatedCapacity_def storageCheckPath_def readStorageCapacity_def
  createDiskPath_def admissionReport_def admissionDecision_def createAdmitted_def ensureDiskImage_def
  actIf_def host_env_def web_spec_def io_simps Let_def

lemma create_ok_run:
  "or_OK (fst (fst (run_state (CreateVM host_env ''/images'' web_spec) [])))"
  by (simp add: create_eval os_ErrNotExist_def)



lemma create_run:
  "\<exists>t. run_state (CreateVM host_env ''/images'' web_spec) [] =
     ((\<lparr>or_NodeID = ''n1'', or_VMName = ''web'', or_OK = True, or_Rejected = False, or_Message = ''vm created'',
        or_Admission = Some \<lparr>TotalVCPU = 8, UsedVCPU = 0, RemainingVCPU = 8, RequestedVCPU = 2,
          TotalRAMMB = 16384, UsedRAMMB = 0, RemainingRAMMB = 16384, RequestedRAMMB = 2048,
          StoragePath = fpDir ''/images/web.qcow2'', StorageFreeB = 1099511627776, StorageTotalB = 1099511627776,
          RequestedDiskB = 21474836480\<rparr>\<rparr>, None), t)"
  by (simp add: create_eval os_ErrNotExist_def)


section \<open>Updating\<close>

text \<open>A setting applied live, or after that failed for the configuration only.\<close>

definition applied :: "(u32 \<Rightarrow> goerr option \<Rightarrow> vmevent) \<Rightarrow> u32 \<Rightarrow> u32 \<Rightarrow> vmevent list \<Rightarrow> bool" where
  "applied mk flags configOnly es \<longleftrightarrow>
     es = [mk flags None] \<or> (\<exists>err. es = [mk flags (Some err), mk configOnly None])"

lemma wp_setWithFallback:
  assumes "\<And>f r. mutates (mk f r)"
  shows "wp (setWithFallback E mk flags configOnly)
    (\<lambda>r t'. r = None \<longrightarrow> (\<exists>es. effects t' = effects t @ es \<and> applied mk flags configOnly es)) t"
  unfolding setWithFallback_def
  by (intro wp_steps) (auto simp: assms applied_def split: option.splits)

text \<open>The changes of an update that succeeds: one group for each setting that differs.\<close>

definition update_steps ::
    "venv \<Rightarrow> UpdateVMSpec \<Rightarrow> domain \<Rightarrow> parsedDomainConfig \<Rightarrow> vmevent list \<Rightarrow> bool" where
  "update_steps E spec vm cfg es \<longleftrightarrow>
     (let vcpu = (if us_VCPUCount spec > 0 then ucast (us_VCPUCount spec) else pd_VCPU cfg);
          ram = (if us_RAMMB spec > 0 then us_RAMMB spec else pd_MemoryMB cfg)
      in \<exists>vs ms as. es = vs @ ms @ as \<and>
           (if vcpu = pd_VCPU cfg then vs = []
            else applied (XSetVcpus vm (ucast vcpu)) (ve_VCPUConfig E OR ve_VCPULive E) (ve_VCPUConfig E) vs) \<and>
           (if ram = pd_MemoryMB cfg then ms = []
            else applied (XSetMemory vm (ram * 1024)) (ve_MemConfig E OR ve_MemLive E) (ve_MemConfig E) ms) \<and>
           as = (case us_Autostart spec of None \<Rightarrow> [] | Some b \<Rightarrow> [XSetAutostart vm (if b then 1 else 0) None]))"

lemma wp_updateAdmitted:
  fixes spec cfg
  defines "vcpu \<equiv> (if us_VCPUCount spec > 0 then ucast (us_VCPUCount spec) else pd_VCPU cfg)"
    and "ram \<equiv> (if us_RAMMB spec > 0 then us_RAMMB spec else pd_MemoryMB cfg)"
  shows "wp (updateAdmitted E spec vm cfg vcpu ram result) (\<lambda>(r, e) t'.
    case e of Some _ \<Rightarrow> r = result
    | None \<Rightarrow> or_OK r \<and> or_Admission r = or_Admission result \<and> (\<exists>es. effects t' = effects t @ es \<and> update_steps E spec vm cfg es)) t"
proof -
  define V where "V vs \<longleftrightarrow> (if vcpu = pd_VCPU cfg then vs = []
    else applied (XSetVcpus vm (ucast vcpu)) (ve_VCPUConfig E OR ve_VCPULive E) (ve_VCPUConfig E) vs)" for vs
  define M where "M ms \<longleftrightarrow> (if ram = pd_MemoryMB cfg then ms = []
    else applied (XSetMemory vm (ram * 1024)) (ve_MemConfig E OR ve_MemLive E) (ve_MemConfig E) ms)" for ms
  have v: "wp (if vcpu \<noteq> pd_VCPU cfg
      then setWithFallback E (XSetVcpus vm (ucast vcpu)) (ve_VCPUConfig E OR ve_VCPULive E) (ve_VCPUConfig E)
      else ret None) (\<lambda>r t'. r = None \<longrightarrow> (\<exists>vs. effects t' = effects t @ vs \<and> V vs)) t"
    using wp_setWithFallback [of "XSetVcpus vm (ucast vcpu)"] by (simp add: V_def wp_simps)
  have m: "wp (if ram \<noteq> pd_MemoryMB cfg
      then setWithFallback E (XSetMemory vm (ram * 1024)) (ve_MemConfig E OR ve_MemLive E) (ve_MemConfig E)
      else ret None) (\<lambda>r t'. r = None \<longrightarrow> (\<exists>ms. effects t' = effects t1 @ ms \<and> M ms)) t1" for t1
    using wp_setWithFallback [of "XSetMemory vm (ram * 1024)"] by (simp add: M_def wp_simps)
  have steps: "update_steps E spec vm cfg (vs @ ms @
      (case us_Autostart spec of None \<Rightarrow> [] | Some b \<Rightarrow> [XSetAutostart vm (if b then 1 else 0) None]))"
    if "V vs" "M ms" for vs ms
    using that unfolding update_steps_def Let_def vcpu_def [symmetric] ram_def [symmetric] V_def M_def by blast
  have goal: "\<exists>es. effects t @ vs @ ms @ as = effects t @ es \<and> update_steps E spec vm cfg es"
    if "V vs" "M ms" "as = (case us_Autostart spec of None \<Rightarrow> [] | Some b \<Rightarrow> [XSetAutostart vm (if b then 1 else 0) None])"
    for vs ms as
    using steps [OF that(1,2)] that(3) by blast
  show ?thesis
    unfolding updateAdmitted_def Let_def
  proof (rule wp_seq [OF v], intro wp_option_case, goal_cases)
    case (1 a t1)
    show ?case
    proof (rule wp_seq [OF m], intro wp_steps, goal_cases)
      case (1 b t2)
      then show ?case using \<open>a = None \<longrightarrow> _\<close> \<open>a = None\<close> goal by (fastforce split: option.splits)
    qed (use 1 goal in \<open>fastforce split: option.splits\<close>)+
  qed (simp add: wp_simps)
qed

lemma kept_updateAdmitted: "only (\<lambda>_. True) (updateAdmitted E spec vm cfg vcpu ram result)"
  unfolding updateAdmitted_def setWithFallback_def Let_def
  by (auto split: sum.splits option.splits)

text \<open>The machine and its configuration as the run found them.\<close>

definition located :: "venv \<Rightarrow> string \<Rightarrow> domain \<Rightarrow> parsedDomainConfig \<Rightarrow> vmevent list \<Rightarrow> bool" where
  "located E name vm cfg t \<longleftrightarrow> XLookup name (Inr vm) \<in> set t \<and> domain_read E t vm (Some cfg)"

lemma located_mono: "located E name vm cfg t \<Longrightarrow> set t \<subseteq> set t' \<Longrightarrow> located E name vm cfg t'"
  unfolding located_def using domain_read_mono by blast

definition update_post :: "venv \<Rightarrow> UpdateVMSpec \<Rightarrow> vmevent list \<Rightarrow> answer \<Rightarrow> vmevent list \<Rightarrow> bool" where
  "update_post E spec t a t' \<longleftrightarrow>
     (snd a \<noteq> None \<longrightarrow> \<not> or_OK (fst a)) \<and>
     (or_OK (fst a) \<longrightarrow> (\<exists>es vm cfg. effects t' = effects t @ es \<and> update_steps E spec vm cfg es \<and>
        located E (trimSpace (us_Name spec)) vm cfg t' \<and>
        (\<exists>report. or_Admission (fst a) = Some report \<and> fst (admissionDecision report) \<and>
           honest E (trimSpace (us_Name spec)) report t' \<and>
           RequestedVCPU report = (if us_VCPUCount spec > 0 then ucast (us_VCPUCount spec) else pd_VCPU cfg) \<and>
           RequestedRAMMB report = (if us_RAMMB spec > 0 then us_RAMMB spec else pd_MemoryMB cfg)))) \<and>
     (\<not> or_OK (fst a) \<and> snd a = None \<longrightarrow> effects t' = effects t)"

lemma wp_UpdateVM: "wp (UpdateVM E imageDir spec) (update_post E spec t) t"
proof -
  let ?name = "trimSpace (us_Name spec)"
  let ?res = "newResult (us_NodeID spec) ?name"
  let ?vcpu = "\<lambda>cfg. if us_VCPUCount spec > 0 then ucast (us_VCPUCount spec) else pd_VCPU cfg"
  let ?ram = "\<lambda>cfg. if us_RAMMB spec > 0 then us_RAMMB spec else pd_MemoryMB cfg"
  let ?inp = "\<lambda>cfg. \<lparr>ai_excludeVMName = ?name, ai_requestVCPU = ?vcpu cfg, ai_requestRAMMB = ?ram cfg,
    ai_requestDiskB = 0, ai_diskPath = imageDir\<rparr>"
  have adm: "wp (case adm of
        Inl err \<Rightarrow> failWith ?res err
      | Inr (report, allow, rejectMsg) \<Rightarrow>
          if \<not> allow then answerWith (?res\<lparr>or_Admission := Some report\<rparr>\<lparr>or_Rejected := True\<rparr>) rejectMsg
          else updateAdmitted E spec vm cfg (?vcpu cfg) (?ram cfg) (?res\<lparr>or_Admission := Some report\<rparr>))
      (update_post E spec t) t1"
    if t1: "effects t1 = effects t" "located E ?name vm cfg t1" and dec: "decided E (?inp cfg) adm t1"
    for adm vm cfg t1
  proof (cases adm)
    case (Inl e)
    with t1 show ?thesis by (simp add: wp_simps update_post_def newResult_def)
  next
    case (Inr x)
    obtain report allow msg where x: "x = (report, allow, msg)" by (cases x)
    show ?thesis
    proof (cases allow)
      case False
      with t1 Inr x show ?thesis by (simp add: wp_simps update_post_def newResult_def)
    next
      case True
      have rep: "fst (admissionDecision report)" "honest E ?name report t1" "RequestedVCPU report = ?vcpu cfg"
        "RequestedRAMMB report = ?ram cfg"
        using dec Inr x True by (simp_all add: decided_def)
      have "wp (updateAdmitted E spec vm cfg (?vcpu cfg) (?ram cfg) (?res\<lparr>or_Admission := Some report\<rparr>))
          (update_post E spec t) t1"
      proof (rule wp_mono [OF wp_conj [OF wp_updateAdmitted wp_kept [OF kept_updateAdmitted]]], clarify, goal_cases)
        case (1 r e t2)
        show ?case
        proof (cases e)
          case None
          with 1 obtain es where r: "or_OK r" "or_Admission r = Some report"
            and es: "effects t2 = effects t1 @ es" "update_steps E spec vm cfg es"
            by auto
          moreover have "located E ?name vm cfg t2" "honest E ?name report t2"
            using 1 located_mono [OF t1(2)] honest_mono [OF rep(2)] by simp_all
          ultimately show ?thesis using None t1 rep unfolding update_post_def by auto
        next
          case (Some err)
          with 1 show ?thesis by (simp add: update_post_def newResult_def)
        qed
      qed
      with True Inr x show ?thesis by simp
    qed
  qed
  show ?thesis
    unfolding UpdateVM_def Let_def
    by (intro wp_mono [OF wp_checkAdmission] wp_mono [OF wp_readDomainConfig] adm wp_steps)
      (auto simp: update_post_def newResult_def located_def intro: domain_read_mono)
qed

text \<open>
  C8. What updating does: a successful update has applied exactly the settings that differ from the
  configuration libvirt reported for that machine (processors, then memory, each live or else for the
  configuration, then autostart if given) and nothing else, and the amounts it ends with passed
  admission beside the other machines; a refusal (no name, no such machine, insufficient capacity) has
  changed nothing; an error is never a success.
\<close>

theorem update_effects:
  "let ((r, e), t) = run_state (UpdateVM E imageDir spec) []
   in (or_OK r \<longrightarrow> e = None \<and>
         (\<exists>vm cfg report. located E (trimSpace (us_Name spec)) vm cfg t \<and> update_steps E spec vm cfg (effects t) \<and>
            or_Admission r = Some report \<and> honest E (trimSpace (us_Name spec)) report t \<and>
            fst (admissionDecision report) \<and>
            RequestedVCPU report = (if us_VCPUCount spec > 0 then ucast (us_VCPUCount spec) else pd_VCPU cfg) \<and>
            RequestedRAMMB report = (if us_RAMMB spec > 0 then us_RAMMB spec else pd_MemoryMB cfg))) \<and>
      (\<not> or_OK r \<and> e = None \<longrightarrow> effects t = [])"
proof -
  obtain r e t where run: "run_state (UpdateVM E imageDir spec) [] = ((r, e), t)"
    by (metis prod.exhaust)
  from wp_run [OF wp_UpdateVM run] run show ?thesis
    by (clarsimp simp: update_post_def split del: if_split) blast
qed

text \<open>A machine with two processors and one disk, whose state libvirt reports as \<open>st\<close>.\<close>

definition disk_env :: "goerr + u8 \<Rightarrow> venv" where
  "disk_env st = host_env\<lparr>
     ve_lookup := (\<lambda>_. Inr \<lparr>dom_Name = ''web'', dom_UUID = ''u1''\<rparr>), ve_getInfo := (\<lambda>_. st),
     ve_unmarshal := (\<lambda>_. Inr \<lparr>dc_Name = ''web'', dc_Memory = \<lparr>mv_Unit = [], mv_Value = []\<rparr>,
       dc_CurrentMemory = \<lparr>mv_Unit = [], mv_Value = []\<rparr>, dc_VCPU = ''2'', dc_DiskFiles = [''/images/web.qcow2'']\<rparr>)\<rparr>"

definition grow_spec :: UpdateVMSpec where
  "grow_spec = \<lparr>us_NodeID = ''n1'', us_Name = ''web'', us_VCPUCount = 4, us_RAMMB = 0, us_Autostart = Some True\<rparr>"

lemmas config_eval =
  readDomainConfig_def parseDomainConfig_def parseMemoryMB_def parseUintDefault_def parseUint_def
  is_digit_def digits_val_def digit_val_def

lemma update_ok_run: "or_OK (fst (fst (run_state (UpdateVM (disk_env (Inr 1)) ''/images'' grow_spec) [])))"
  by (simp add: UpdateVM_def updateAdmitted_def setWithFallback_def grow_spec_def disk_env_def create_eval
      config_eval)

theorem update_effects_witness:
  "\<exists>vm cfg. update_steps (disk_env (Inr 1)) grow_spec vm cfg
     (effects (snd (run_state (UpdateVM (disk_env (Inr 1)) ''/images'' grow_spec) [])))"
  using update_effects [of "disk_env (Inr 1)" "''/images''" grow_spec] update_ok_run
  by (simp add: split_def Let_def) blast

section \<open>Deleting\<close>

text \<open>The last state that libvirt reported before the end of a trace.\<close>

fun track_info :: "(goerr + u8) option \<Rightarrow> vmevent list \<Rightarrow> (goerr + u8) option" where
  "track_info s [] = s"
| "track_info s (e # t) = track_info (case e of XGetInfo _ r \<Rightarrow> Some r | _ \<Rightarrow> s) t"

definition last_info :: "vmevent list \<Rightarrow> (goerr + u8) option" where
  "last_info t = track_info None t"

lemma track_info_append: "track_info s (t @ t') = track_info (track_info s t) t'"
  by (induction t arbitrary: s) simp_all

lemma last_info_append [simp]: "last_info (t @ t') = track_info (last_info t) t'"
  by (simp add: last_info_def track_info_append)

definition seen_stopped :: "venv \<Rightarrow> vmevent list \<Rightarrow> bool" where
  "seen_stopped E t \<longleftrightarrow> (\<exists>v. last_info t = Some (Inr v) \<and> \<not> isDomainRunning E v)"

lemma wp_waitLoop:
  "wp (waitLoop E vm n) (\<lambda>r t'. effects t' = effects t \<and> (r \<longrightarrow> seen_stopped E t')) t"
proof (induction n arbitrary: t)
  case 0
  then show ?case
    by (subst waitLoop.simps, intro wp_steps) (auto simp: seen_stopped_def wp_simps split: sum.splits)
next
  case (Suc n)
  show ?case
    unfolding waitLoop.simps [of E vm "Suc n"] nat.case
    by (intro wp_mono [OF Suc.IH] wp_steps) (auto simp: seen_stopped_def split: sum.splits)
qed

lemma wp_waitDomainStopped:
  "wp (waitDomainStopped E vm secs) (\<lambda>r t'. effects t' = effects t \<and> (r \<longrightarrow> seen_stopped E t')) t"
  using wp_waitLoop [of E vm "ve_ticks E secs t" t] by (simp add: waitDomainStopped_def wp_def)

definition stop_steps :: "venv \<Rightarrow> bool \<Rightarrow> domain \<Rightarrow> vmevent list \<Rightarrow> vmevent list \<Rightarrow> bool" where
  "stop_steps E force vm t es \<longleftrightarrow>
     (\<exists>r. es = [XShutdown vm r] \<and> (r = None \<or> force) \<and> seen_stopped E t) \<or>
     (\<exists>r. es = [XShutdown vm r, XDestroy vm None] \<and> force)"

fun is_removal :: "vmevent \<Rightarrow> bool" where
  "is_removal (XRemove _ _) = True"
| "is_removal (XUndefineFlags _ _ _) = True"
| "is_removal (XUndefine _ _) = True"
| "is_removal _ = False"

lemma only_waitLoop: "only (\<lambda>_. True) (waitLoop E vm n)"
  by (induction n) (subst waitLoop.simps; auto split: sum.splits nat.splits)+

lemma only_waitDomainStopped: "only (\<lambda>_. True) (waitDomainStopped E vm secs)"
  unfolding waitDomainStopped_def only_def emits_def
  using only_waitLoop [unfolded only_def emits_def] by simp

lemma kept_stopDomain: "only (\<lambda>_. True) (stopDomain E force secs vm result)"
  unfolding stopDomain_def Let_def
  by (auto intro!: only_waitDomainStopped split: option.splits)

lemma wp_stopDomain:
  assumes "\<not> or_OK result"
  shows "wp (stopDomain E force secs vm result) (\<lambda>r t'.
    \<exists>es. effects t' = effects t @ es \<and> (\<forall>e \<in> set es. \<not> is_removal e) \<and>
      (case r of None \<Rightarrow> stop_steps E force vm t' es | Some a \<Rightarrow> \<not> or_OK (fst a))) t"
  unfolding stopDomain_def Let_def
  by (intro wp_mono [OF wp_waitDomainStopped] wp_steps)
    (use assms in \<open>auto simp: stop_steps_def seen_stopped_def split: option.splits if_splits\<close>)

text \<open>The removal of the disks: one call for each path that is not blank, in order.\<close>

definition removals :: "string list \<Rightarrow> vmevent list \<Rightarrow> bool" where
  "removals ps rs \<longleftrightarrow>
     list_all2 (\<lambda>p e. \<exists>r. e = XRemove p r) (filter (\<lambda>p. trimSpace p \<noteq> []) ps) rs"

lemma wp_removeDisks:
  "wp (removeDisks E ps) (\<lambda>_ t'. \<exists>rs. effects t' = effects t @ rs \<and> removals ps rs \<and> last_info t' = last_info t) t"
proof (induction ps arbitrary: t)
  case Nil
  then show ?case by (simp add: wp_simps removals_def)
next
  case (Cons p ps)
  show ?case
    by (simp only: removeDisks.simps, intro wp_mono [OF Cons.IH] wp_steps)
      (auto simp: removals_def)
qed

definition undefine_steps :: "venv \<Rightarrow> domain \<Rightarrow> vmevent list \<Rightarrow> bool" where
  "undefine_steps E vm es \<longleftrightarrow>
     es = [XUndefineFlags vm (ve_undefineFlags E) None] \<or>
     (\<exists>err. es = [XUndefineFlags vm (ve_undefineFlags E) (Some err), XUndefine vm None])"

lemma wp_undefineDomain:
  "wp (undefineDomain E vm) (\<lambda>r t'. last_info t' = last_info t \<and>
     (\<exists>es. effects t' = effects t @ es \<and> (\<forall>e \<in> set es. \<forall>p x. e \<noteq> XRemove p x) \<and>
        (r = None \<longrightarrow> undefine_steps E vm es))) t"
  unfolding undefineDomain_def
  by (intro wp_steps) (auto simp: undefine_steps_def split: option.splits)

definition delete_steps ::
    "venv \<Rightarrow> DeleteVMSpec \<Rightarrow> domain \<Rightarrow> parsedDomainConfig \<Rightarrow> vmevent list \<Rightarrow> vmevent list \<Rightarrow> bool" where
  "delete_steps E spec vm cfg t es \<longleftrightarrow>
     (\<exists>stop undef rs. es = stop @ undef @ rs \<and>
        (stop = [] \<and> (seen_stopped E t \<or> (\<exists>err. last_info t = Some (Inl err))) \<or>
         stop_steps E (ds_Force spec) vm t stop) \<and>
        undefine_steps E vm undef \<and>
        (if ds_RemoveDisk spec then removals (pd_DiskFiles cfg) rs else rs = []))"

lemma wp_deleteStopped:
  assumes "\<not> or_OK result"
  shows "wp (deleteStopped E spec vm cfg result) (\<lambda>(r, e) t'. last_info t' = last_info t \<and>
    (\<exists>undef rs. effects t' = effects t @ undef @ rs \<and> (e \<noteq> None \<longleftrightarrow> \<not> or_OK r) \<and>
       (case e of Some _ \<Rightarrow> rs = [] \<and> (\<forall>e \<in> set undef. \<forall>p x. e \<noteq> XRemove p x)
        | None \<Rightarrow> undefine_steps E vm undef \<and>
            (if ds_RemoveDisk spec then removals (pd_DiskFiles cfg) rs else rs = [])))) t"
proof -
  have rem: "wp (if ds_RemoveDisk spec then removeDisks E (pd_DiskFiles cfg) else ret ())
      (\<lambda>_ t'. \<exists>rs. effects t' = effects t1 @ rs \<and> last_info t' = last_info t1 \<and>
         (if ds_RemoveDisk spec then removals (pd_DiskFiles cfg) rs else rs = [])) t1" for t1
    by (cases "ds_RemoveDisk spec") (auto simp: wp_simps intro: wp_mono [OF wp_removeDisks])
  show ?thesis
    unfolding deleteStopped_def
  proof (rule wp_seq [OF wp_undefineDomain], intro wp_option_case, goal_cases)
    case (1 u t1)
    then obtain undef where u: "effects t1 = effects t @ undef" "undefine_steps E vm undef"
      "last_info t1 = last_info t"
      by auto
    show ?case
      by (rule wp_seq [OF rem], intro wp_steps) (use u in \<open>auto split: if_splits\<close>)
  next
    case (2 u t1 err)
    then obtain undef where "effects t1 = effects t @ undef" "\<forall>e \<in> set undef. \<forall>p x. e \<noteq> XRemove p x"
      "last_info t1 = last_info t"
      by auto
    with assms show ?case by (intro wp_steps) auto
  qed
qed

lemma only_removeDisks: "only (\<lambda>_. True) (removeDisks E ps)"
  by (induction ps) auto

lemma kept_deleteStopped: "only (\<lambda>_. True) (deleteStopped E spec vm cfg result)"
  unfolding deleteStopped_def undefineDomain_def
  by (auto intro!: only_removeDisks split: option.splits)

definition delete_post ::
    "venv \<Rightarrow> DeleteVMSpec \<Rightarrow> vmevent list \<Rightarrow> answer \<Rightarrow> vmevent list \<Rightarrow> bool" where
  "delete_post E spec t a t' \<longleftrightarrow>
     (snd a \<noteq> None \<longrightarrow> \<not> or_OK (fst a)) \<and>
     (or_OK (fst a) \<longrightarrow> effects t' = effects t \<or>
        (\<exists>es vm cfg. effects t' = effects t @ es \<and> delete_steps E spec vm cfg t' es \<and>
           located E (trimSpace (ds_Name spec)) vm cfg t')) \<and>
     (\<not> or_OK (fst a) \<longrightarrow> (\<exists>es. effects t' = effects t @ es \<and> (\<forall>e \<in> set es. \<forall>p x. e \<noteq> XRemove p x))) \<and>
     (\<not> or_OK (fst a) \<and> snd a = None \<longrightarrow> (\<exists>es. effects t' = effects t @ es \<and> (\<forall>e \<in> set es. \<not> is_removal e)))"

lemma wp_DeleteVM: "wp (DeleteVM E spec) (delete_post E spec t) t"
proof -
  let ?name = "trimSpace (ds_Name spec)"
  let ?res = "newResult (ds_NodeID spec) ?name"
  have res: "\<not> or_OK ?res" by (simp add: newResult_def)
  have del: "wp (deleteStopped E spec vm cfg ?res) (delete_post E spec t) t1"
    if "effects t1 = effects t @ stop" "\<forall>e \<in> set stop. \<not> is_removal e"
      "stop = [] \<and> (seen_stopped E t1 \<or> (\<exists>err. last_info t1 = Some (Inl err))) \<or>
       stop_steps E (ds_Force spec) vm t1 stop" "located E ?name vm cfg t1" for t1 stop vm cfg
  proof (rule wp_mono [OF wp_conj [OF wp_deleteStopped [OF res] wp_kept [OF kept_deleteStopped]]], clarify, goal_cases)
    case (1 r e t2 undef rs)
    have nr: "\<forall>e \<in> set stop. \<forall>p x. e \<noteq> XRemove p x" using that(2) by auto
    have seen: "seen_stopped E t2 = seen_stopped E t1" using 1 by (simp add: seen_stopped_def)
    show ?case
    proof (cases e)
      case None
      have "delete_steps E spec vm cfg t2 (stop @ undef @ rs)"
        unfolding delete_steps_def using None 1 that(3) seen by (intro exI [of _ stop] exI [of _ undef] exI [of _ rs])
          (auto simp: stop_steps_def)
      moreover have "located E ?name vm cfg t2" using located_mono [OF that(4)] 1 by blast
      ultimately show ?thesis using None 1 that(1) by (auto simp: delete_post_def)
    next
      case (Some x)
      with 1 that(1) nr show ?thesis by (auto simp: delete_post_def)
    qed
  qed
  have stop: "wp (case early of Some a \<Rightarrow> ret a | None \<Rightarrow> deleteStopped E spec vm cfg ?res) (delete_post E spec t) t1"
    if "effects t1 = effects t @ es" "\<forall>e \<in> set es. \<not> is_removal e"
      "case early of None \<Rightarrow> stop_steps E (ds_Force spec) vm t1 es | Some a \<Rightarrow> \<not> or_OK (fst a)"
      "located E ?name vm cfg t1" for early t1 es vm cfg
  proof (cases early)
    case None
    with that del [of t1 es vm cfg] show ?thesis by simp
  next
    case (Some a)
    have "\<forall>e \<in> set es. \<forall>p x. e \<noteq> XRemove p x" using that(2) by auto
    with Some that show ?thesis by (auto simp: wp_simps delete_post_def)
  qed
  have main: "wp ((case st of
        Inr v \<Rightarrow> if isDomainRunning E v
          then stopDomain E (ds_Force spec) (orDefault (ds_ShutdownTimeoutS spec) defaultShutdownWaitS) vm ?res
          else ret None
      | Inl _ \<Rightarrow> ret None) \<bind>
      (\<lambda>early. case early of Some a \<Rightarrow> ret a | None \<Rightarrow> deleteStopped E spec vm cfg ?res))
    (delete_post E spec t) t1"
    if "effects t1 = effects t" "last_info t1 = Some st" "located E ?name vm cfg t1" for st t1 vm cfg
  proof (cases "\<exists>v. st = Inr v \<and> isDomainRunning E v")
    case True
    then obtain v where v: "st = Inr v" "isDomainRunning E v" by blast
    show ?thesis
      unfolding v(1) sum.case if_P [OF v(2)]
    proof (rule wp_seq [OF wp_conj [OF wp_stopDomain [OF res] wp_kept [OF kept_stopDomain]]], goal_cases)
      case (1 early t2)
      then obtain es where es: "effects t2 = effects t1 @ es" "\<forall>e \<in> set es. \<not> is_removal e"
        "case early of None \<Rightarrow> stop_steps E (ds_Force spec) vm t2 es | Some a \<Rightarrow> \<not> or_OK (fst a)"
        by blast
      moreover have "located E ?name vm cfg t2" using 1 located_mono [OF that(3)] by blast
      ultimately show ?case using that(1) by (intro stop [of t2 es]) simp_all
    qed
  next
    case False
    have "wp (deleteStopped E spec vm cfg ?res) (delete_post E spec t) t1"
      by (rule del [of t1 "[]"]) (use that False in \<open>cases st; auto simp: seen_stopped_def\<close>)+
    with False show ?thesis by (cases st) (simp_all add: wp_simps)
  qed
  show ?thesis
    unfolding DeleteVM_def Let_def
    by (intro wp_mono [OF wp_readDomainConfig] main wp_steps)
      (auto simp: delete_post_def newResult_def located_def intro: domain_read_mono)
qed


definition remove_spec :: DeleteVMSpec where
  "remove_spec = \<lparr>ds_NodeID = ''n1'', ds_Name = ''web'', ds_Force = False, ds_RemoveDisk = True, ds_ShutdownTimeoutS = 0\<rparr>"

lemma delete_run:
  "\<exists>n u t. run_state (DeleteVM (disk_env (Inr 5)) remove_spec) [] =
     ((\<lparr>or_NodeID = n, or_VMName = u, or_OK = True, or_Rejected = False, or_Message = ''vm deleted'',
        or_Admission = None\<rparr>, None), t) \<and> effects t \<noteq> []"
  by (simp add: DeleteVM_def disk_env_def host_env_def remove_spec_def trimSpace_def is_space_def newResult_def
      config_eval deleteStopped_def undefineDomain_def isDomainRunning_def io_simps Let_def)


end
