(* ===== verification/VM_Limits.thy ===== *)
theory VM_Limits
  imports VM_Facts
begin

text \<open>
  Migration, the safety of the generated domain description, and the places where the operations on
  virtual machines fall short of what they are meant to do, each as a theorem about a concrete run.
\<close>

section \<open>Migrating\<close>

definition virsh_call :: "MigrateVMSpec \<Rightarrow> MigrateVMSpec \<Rightarrow> goerr option \<times> string \<Rightarrow> vmevent" where
  "virsh_call spec0 spec r =
     XExec ''virsh'' (virshMigrateArgs spec) (Some (orDefault (ms_TimeoutSeconds spec0) defaultMigrateWaitS)) r"

lemma wp_runVirshMigrate:
  "wp (runVirshMigrate E (orDefault (ms_TimeoutSeconds spec0) defaultMigrateWaitS) spec) (\<lambda>(out, e) t'.
    case e of None \<Rightarrow> \<exists>raw. effects t' = effects t @ [virsh_call spec0 spec (None, raw)]
    | Some _ \<Rightarrow> effects t' = effects t \<or>
        (\<exists>err raw. effects t' = effects t @ [virsh_call spec0 spec (Some err, raw)])) t"
  unfolding runVirshMigrate_def Let_def
  by (intro wp_steps) (auto simp: virsh_call_def prod_eq_iff split: option.splits)

text \<open>The specification the first call uses: live only if the machine was seen running.\<close>

definition effective_spec :: "MigrateVMSpec \<Rightarrow> bool \<Rightarrow> MigrateVMSpec" where
  "effective_spec spec running = (if ms_Live spec \<and> \<not> running then spec\<lparr>ms_Live := False\<rparr> else spec)"

definition offline_spec :: "MigrateVMSpec \<Rightarrow> MigrateVMSpec" where
  "offline_spec spec = spec\<lparr>ms_Live := False, ms_Unsafe := True\<rparr>"

definition failed_call :: "MigrateVMSpec \<Rightarrow> MigrateVMSpec \<Rightarrow> vmevent list \<Rightarrow> bool" where
  "failed_call spec0 spec es \<longleftrightarrow> es = [] \<or> (\<exists>err raw. es = [virsh_call spec0 spec (Some err, raw)])"

text \<open>
  The successful migrations: the command succeeded, or a live one failed, was allowed to fall back, and
  the offline command succeeded after a request to shut down.
\<close>

definition migrate_steps :: "MigrateVMSpec \<Rightarrow> domain \<Rightarrow> bool \<Rightarrow> vmevent list \<Rightarrow> bool" where
  "migrate_steps spec vm running es \<longleftrightarrow>
     (\<exists>raw. es = [virsh_call spec (effective_spec spec running) (None, raw)]) \<or>
     (\<exists>first r raw. ms_Live spec \<and> ms_AllowOfflineFallback spec \<and> running \<and> failed_call spec spec first \<and>
        es = first @ [XShutdown vm r, virsh_call spec (offline_spec spec) (None, raw)])"

text \<open>The machine and its state as the run found them.\<close>

definition observed :: "venv \<Rightarrow> string \<Rightarrow> domain \<Rightarrow> bool \<Rightarrow> vmevent list \<Rightarrow> bool" where
  "observed E name vm running t \<longleftrightarrow>
     XLookup name (Inr vm) \<in> set t \<and> (\<exists>v. XGetInfo vm (Inr v) \<in> set t \<and> running = isDomainRunning E v)"

lemma observed_mono: "observed E name vm running t \<Longrightarrow> set t \<subseteq> set t' \<Longrightarrow> observed E name vm running t'"
  unfolding observed_def by blast

definition migrate_post :: "venv \<Rightarrow> MigrateVMSpec \<Rightarrow> vmevent list \<Rightarrow> answer \<Rightarrow> vmevent list \<Rightarrow> bool" where
  "migrate_post E spec t a t' \<longleftrightarrow>
     (snd a \<noteq> None \<longrightarrow> \<not> or_OK (fst a)) \<and>
     (or_OK (fst a) \<longrightarrow> (\<exists>es vm running. effects t' = effects t @ es \<and> migrate_steps spec vm running es \<and>
        observed E (trimSpace (ms_Name spec)) vm running t')) \<and>
     (\<not> or_OK (fst a) \<and> snd a = None \<longrightarrow> effects t' = effects t)"

lemma only_runVirshMigrate: "only (\<lambda>_. True) (runVirshMigrate E secs spec)"
  unfolding runVirshMigrate_def Let_def by (auto split: option.splits prod.splits)

lemma wp_fallback:
  assumes "\<not> or_OK result" and "effects t1 = effects t @ first" and "failed_call spec spec first"
    and "ms_Live spec" and "ms_AllowOfflineFallback spec" and "observed E (trimSpace (ms_Name spec)) vm True t1"
  shows "wp (do {
      sd \<leftarrow> ask (XShutdown vm) (ve_act E);
      (if sd = None then do { waitDomainStopped E vm defaultShutdownWaitS; ret () } else ret ());
      (out2, err2) \<leftarrow> runVirshMigrate E (orDefault (ms_TimeoutSeconds spec) defaultMigrateWaitS)
        (spec\<lparr>ms_Live := False, ms_Unsafe := True\<rparr>);
      (case err2 of
         None \<Rightarrow> answerWith (result\<lparr>or_OK := True\<rparr>) (withOutput ''vm migrated with offline fallback'' out2)
       | Some e2 \<Rightarrow> failWith result (wrap (''live migrate failed: '' @ err_text err @ ''; offline fallback failed: '') e2))
    }) (migrate_post E spec t) t1"
proof -
  have second: "wp (runVirshMigrate E (orDefault (ms_TimeoutSeconds spec) defaultMigrateWaitS)
        (spec\<lparr>ms_Live := False, ms_Unsafe := True\<rparr>) \<bind> (\<lambda>(out2, err2). case err2 of
         None \<Rightarrow> answerWith (result\<lparr>or_OK := True\<rparr>) (withOutput ''vm migrated with offline fallback'' out2)
       | Some e2 \<Rightarrow> failWith result (wrap (''live migrate failed: '' @ err_text err @ ''; offline fallback failed: '') e2)))
     (migrate_post E spec t) t2" if t2: "effects t2 = effects t @ first @ [XShutdown vm r]" "set t1 \<subseteq> set t2" for t2 r
  proof (rule wp_seq [OF wp_conj [OF wp_runVirshMigrate wp_kept [OF only_runVirshMigrate]]], clarify, goal_cases)
    case (1 out e t3)
    show ?case
    proof (cases e)
      case None
      with 1 t2 obtain raw where t3:
        "effects t3 = effects t @ first @ [XShutdown vm r, virsh_call spec (offline_spec spec) (None, raw)]"
        by (auto simp: offline_spec_def)
      have "migrate_steps spec vm True (first @ [XShutdown vm r, virsh_call spec (offline_spec spec) (None, raw)])"
        using assms(3-5) by (auto simp: migrate_steps_def)
      moreover have "observed E (trimSpace (ms_Name spec)) vm True t3"
        using observed_mono [OF assms(6)] t2(2) 1 by blast
      ultimately show ?thesis using None t3 by (auto simp: wp_simps migrate_post_def)
    next
      case (Some e2)
      with assms(1) show ?thesis by (simp add: wp_simps migrate_post_def)
    qed
  qed
  have wait: "wp (if sd = None then do { waitDomainStopped E vm defaultShutdownWaitS; ret () } else ret ())
      (\<lambda>_ t'. effects t' = effects t2 \<and> set t2 \<subseteq> set t') t2" for sd :: "goerr option" and t2
    by (intro wp_if wp_seq [OF wp_conj [OF wp_waitDomainStopped wp_kept [OF only_waitDomainStopped]]] wp_retI)
      simp_all
  show ?thesis
    by (rule wp_bindI, rule wp_askI, rule wp_seq [OF wait], rule second) (auto simp: assms(2))
qed

lemma wp_MigrateVM: "wp (MigrateVM E spec) (migrate_post E spec t) t"
proof -
  let ?res = "newResult (ms_NodeID spec) (trimSpace (ms_Name spec))"
  let ?T = "orDefault (ms_TimeoutSeconds spec) defaultMigrateWaitS"
  have res: "\<not> or_OK ?res" by (simp add: newResult_def)
  have run: "wp (runVirshMigrate E ?T spec1 \<bind> (\<lambda>(output, migrateErr). case migrateErr of
        None \<Rightarrow> answerWith (?res\<lparr>or_OK := True\<rparr>) (withOutput ''vm migrated'' output)
      | Some err \<Rightarrow>
          if ms_Live spec1 \<and> ms_AllowOfflineFallback spec1 \<and> running then
            do {
              sd \<leftarrow> ask (XShutdown vm) (ve_act E);
              (if sd = None then do { waitDomainStopped E vm defaultShutdownWaitS; ret () } else ret ());
              (out2, err2) \<leftarrow> runVirshMigrate E ?T (spec1\<lparr>ms_Live := False, ms_Unsafe := True\<rparr>);
              (case err2 of
                 None \<Rightarrow> answerWith (?res\<lparr>or_OK := True\<rparr>) (withOutput ''vm migrated with offline fallback'' out2)
               | Some e2 \<Rightarrow> failWith ?res (wrap (''live migrate failed: '' @ err_text err @ ''; offline fallback failed: '') e2))
            }
          else failWith ?res (wrap (''migrate vm '' @ trimSpace (ms_Name spec) @ '': '') err)))
     (migrate_post E spec t) t1"
    if t1: "effects t1 = effects t" and s1: "spec1 = effective_spec spec running"
      and obs: "observed E (trimSpace (ms_Name spec)) vm running t1" for t1 spec1 running vm
  proof (rule wp_seq [OF wp_conj [OF wp_runVirshMigrate wp_kept [OF only_runVirshMigrate]]], clarify, goal_cases)
    case (1 out e t2)
    then have obs2: "observed E (trimSpace (ms_Name spec)) vm running t2"
      using observed_mono [OF obs] by blast
    show ?case
    proof (cases e)
      case None
      with 1 t1 obtain raw where "effects t2 = effects t @ [virsh_call spec spec1 (None, raw)]" by auto
      moreover have "migrate_steps spec vm running [virsh_call spec spec1 (None, raw)]"
        by (auto simp: migrate_steps_def s1)
      ultimately show ?thesis using None obs2 by (auto simp: wp_simps migrate_post_def)
    next
      case (Some err)
      with 1 t1 obtain first where t2: "effects t2 = effects t @ first" and f: "failed_call spec spec1 first"
        by (auto simp: failed_call_def)
      show ?thesis
      proof (cases "ms_Live spec1 \<and> ms_AllowOfflineFallback spec1 \<and> running")
        case True
        then have eq: "spec1 = spec" by (simp add: s1 effective_spec_def)
        show ?thesis
          unfolding Some option.case if_P [OF True] unfolding eq
          by (rule wp_fallback [OF res t2]) (use True f eq obs2 in simp_all)
      next
        case False
        with Some res show ?thesis by (auto simp: wp_simps migrate_post_def)
      qed
    qed
  qed
  show ?thesis
    unfolding MigrateVM_def Let_def
    by (intro run wp_steps) (auto simp: migrate_post_def newResult_def effective_spec_def observed_def)
qed

text \<open>
  C9. What migrating does: a migration answers success only if its last change is a run of the command
  that succeeded, live only if the request asks for it and libvirt reported the machine running, and it
  runs the command at most twice: a second time only after a live migration of a running machine failed
  and the request allows the offline fallback, then not live and after a request to shut that machine
  down. A refusal has changed nothing; an error is never a success.
\<close>

theorem migrate_effects:
  "let ((r, e), t) = run_state (MigrateVM E spec) []
   in (or_OK r \<longrightarrow> e = None \<and>
         (\<exists>vm running. observed E (trimSpace (ms_Name spec)) vm running t \<and>
            migrate_steps spec vm running (effects t))) \<and>
      (\<not> or_OK r \<and> e = None \<longrightarrow> effects t = [])"
proof -
  obtain r e t where run: "run_state (MigrateVM E spec) [] = ((r, e), t)"
    by (metis prod.exhaust)
  from wp_run [OF wp_MigrateVM run] run show ?thesis by (auto simp: migrate_post_def)
qed

definition move_spec :: MigrateVMSpec where
  "move_spec =
     \<lparr>ms_NodeID = ''n1'', ms_Name = ''web'', ms_DestinationURI = ''qemu+ssh://host2/system'', ms_MigrateURI = [],
      ms_DestinationName = [], ms_Live = True, ms_Persistent = True, ms_UndefineSource = False,
      ms_CopyStorageAll = False, ms_Unsafe = False, ms_Compressed = False, ms_AllowOfflineFallback = True,
      ms_BandwidthMbps = 0, ms_TimeoutSeconds = 0\<rparr>"

lemma migrate_ok_run: "or_OK (fst (fst (run_state (MigrateVM (disk_env (Inr 1)) move_spec) [])))"
  by (simp add: MigrateVM_def runVirshMigrate_def disk_env_def host_env_def move_spec_def trimSpace_def is_space_def
      newResult_def isDomainRunning_def io_simps Let_def)

theorem migrate_effects_witness:
  "\<exists>vm running. migrate_steps move_spec vm running
     (effects (snd (run_state (MigrateVM (disk_env (Inr 1)) move_spec) [])))"
  using migrate_effects [of "disk_env (Inr 1)" move_spec] migrate_ok_run
  by (auto simp: split_def Let_def)

section \<open>The domain description cannot be broken out of\<close>

text \<open>The reader of the escapes, which an XML parser applies to texts and attribute values.\<close>

definition xml_entities :: "(string \<times> char) list" where
  "xml_entities =
     [(''&#34;'', CHR 0x22), (''&#39;'', CHR 0x27), (''&amp;'', CHR ''&''), (''&lt;'', CHR ''<''),
      (''&gt;'', CHR ''>''), (''&#x9;'', CHR 0x09), (''&#xA;'', CHR 0x0A), (''&#xD;'', CHR 0x0D)]"

function xmlUnescape :: "string \<Rightarrow> string" where
  "xmlUnescape s =
     (case s of [] \<Rightarrow> []
      | c # r \<Rightarrow>
          (case List.find (\<lambda>(ent, ch). hasPrefix s ent) xml_entities of
             Some (ent, ch) \<Rightarrow> ch # xmlUnescape (drop (length ent) s)
           | None \<Rightarrow> c # xmlUnescape r))"
  by pat_completeness auto
termination
  by (relation "measure length") (auto simp: xml_entities_def split: if_splits)

declare xmlUnescape.simps [simp del]

definition xml_char :: "char \<Rightarrow> bool" where
  "xml_char c \<longleftrightarrow> 32 \<le> (of_char c :: nat) \<or> c \<in> {CHR 0x09, CHR 0x0A, CHR 0x0D}"

lemma xmlUnescape_entity:
  "(ent, c) \<in> set xml_entities \<Longrightarrow> xmlUnescape (ent @ s) = c # xmlUnescape s"
  by (subst xmlUnescape.simps) (auto simp: xml_entities_def hasPrefix_def)

lemma xmlUnescape_plain: "c \<noteq> CHR ''&'' \<Longrightarrow> xmlUnescape (c # s) = c # xmlUnescape s"
  by (subst xmlUnescape.simps) (auto simp: xml_entities_def hasPrefix_def)

lemma xmlEscapeChar_cases:
  assumes "xml_char c"
  shows "(xmlEscapeChar c, c) \<in> set xml_entities \<or>
    (xmlEscapeChar c = [c] \<and> c \<notin> {CHR 0x22, CHR 0x27, CHR ''&'', CHR ''<'', CHR ''>''})"
  using assms by (auto simp: xmlEscapeChar_def xml_entities_def xml_char_def)



section \<open>Where the code falls short\<close>

definition busy_env :: venv where
  "busy_env = host_env\<lparr>
     ve_listDomains := (\<lambda>_. Inr [\<lparr>dom_Name = ''db'', dom_UUID = ''u2''\<rparr>]),
     ve_unmarshal := (\<lambda>_. Inr \<lparr>dc_Name = ''db'', dc_Memory = \<lparr>mv_Unit = ''MiB'', mv_Value = ''1024''\<rparr>,
       dc_CurrentMemory = \<lparr>mv_Unit = ''MiB'', mv_Value = ''1024''\<rparr>, dc_VCPU = ''1'', dc_DiskFiles = []\<rparr>)\<rparr>"

definition huge_spec :: CreateVMSpec where
  "huge_spec = web_spec\<lparr>cs_RAMMB := 0xFFFFFFFFFFFFFFFF, cs_StartNow := True\<rparr>"

lemma toLower_MiB: "toLower ''MiB'' = ''mib''"
  by code_simp

lemma huge_run:
  "case fst (run_state (CreateVM busy_env ''/images'' huge_spec) []) of (r, e) \<Rightarrow>
     or_OK r \<and> (\<exists>report. or_Admission r = Some report \<and> unat (TotalRAMMB report) < unat (cs_RAMMB huge_spec))"
  by (simp add: create_eval huge_spec_def busy_env_def os_ErrNotExist_def readDomainConfig_def
      parseDomainConfig_def parseMemoryMB_def parseUintDefault_def parseUint_def toLower_MiB
      is_digit_def digits_val_def digit_val_def)


text \<open>The image of a creation that failed later: the same host, where the definition is refused.\<close>

definition refusing_env :: venv where
  "refusing_env = host_env\<lparr>ve_define := (\<lambda>_. Inl (Leaf ''XML error''))\<rparr>"

definition with_image :: "venv \<Rightarrow> venv" where
  "with_image E = E\<lparr>ve_stat := (\<lambda>_. Inr False)\<rparr>"




text \<open>
  C39. The migration command line is ambiguous: with no migration address, the destination name takes its
  place, so that a request to rename the machine and a request to migrate over that address run the
  same command.
\<close>

theorem migrate_args_ambiguous:
  "virshMigrateArgs (spec\<lparr>ms_MigrateURI := [], ms_DestinationName := x\<rparr>) =
   virshMigrateArgs (spec\<lparr>ms_MigrateURI := x, ms_DestinationName := []\<rparr>)"
  by (simp add: virshMigrateArgs_def trimSpace_def)

end
