(* ===== verification/RPC_Facts.thy ===== *)
theory RPC_Facts
  imports Agent_RPC VM_Limits
begin

text \<open>
  What a call of the RPC means, from the bytes of the request to the changes on the host: the reply of
  each method promises what the operation behind it promises, for the request that the codec decoded.
\<close>

section \<open>The promise of a reply\<close>

definition undecodable :: "'b json_codec \<Rightarrow> string \<Rightarrow> 'b \<Rightarrow> bool" where
  "undecodable J method b \<longleftrightarrow>
     method = ''GetVersion'' \<and> isl (jc_version J b) \<or> method = ''CreateVM'' \<and> isl (jc_create J b) \<or>
     method = ''UpdateVM'' \<and> isl (jc_update J b) \<or> method = ''DeleteVM'' \<and> isl (jc_delete J b) \<or>
     method = ''MigrateVM'' \<and> isl (jc_migrate J b)"

text \<open>The changes between two traces, if the second extends the first's changes.\<close>

definition changed_by :: "vmevent list \<Rightarrow> vmevent list \<Rightarrow> (vmevent list \<Rightarrow> bool) \<Rightarrow> bool" where
  "changed_by t t' P \<longleftrightarrow> (\<exists>es. effects t' = effects t @ es \<and> P es)"

text \<open>The specification that a request stands for, field by field.\<close>

definition stands_for_create :: "CreateVMRequest \<Rightarrow> CreateVMSpec \<Rightarrow> bool" where
  "stands_for_create req spec \<longleftrightarrow>
    cs_NodeID spec = cr_NodeID req \<and> cs_Name spec = cr_VMName req \<and>
    cs_VCPUCount spec = cr_VCPUCount req \<and> cs_RAMMB spec = cr_RAMMB req \<and>
    cs_DiskSizeGB spec = cr_DiskSizeGB req \<and> cs_DiskPath spec = cr_DiskPath req \<and>
    cs_NetworkName spec = cr_NetworkName req \<and> cs_Autostart spec = cr_Autostart req \<and>
    cs_StartNow spec = cr_StartNow req"

definition stands_for_update :: "UpdateVMRequest \<Rightarrow> UpdateVMSpec \<Rightarrow> bool" where
  "stands_for_update req spec \<longleftrightarrow>
    us_NodeID spec = ur_NodeID req \<and> us_Name spec = ur_VMName req \<and>
    us_VCPUCount spec = ur_VCPUCount req \<and> us_RAMMB spec = ur_RAMMB req \<and>
    us_Autostart spec = ur_Autostart req"

definition stands_for_delete :: "DeleteVMRequest \<Rightarrow> DeleteVMSpec \<Rightarrow> bool" where
  "stands_for_delete req spec \<longleftrightarrow>
    ds_NodeID spec = dr_NodeID req \<and> ds_Name spec = dr_VMName req \<and>
    ds_Force spec = dr_Force req \<and> ds_RemoveDisk spec = dr_RemoveDisk req \<and>
    ds_ShutdownTimeoutS spec = dr_ShutdownTimeoutS req"

definition stands_for_migrate :: "MigrateVMRequest \<Rightarrow> MigrateVMSpec \<Rightarrow> bool" where
  "stands_for_migrate req spec \<longleftrightarrow>
    ms_NodeID spec = mr_NodeID req \<and> ms_Name spec = mr_VMName req \<and>
    ms_DestinationURI spec = mr_DestinationURI req \<and> ms_MigrateURI spec = mr_MigrateURI req \<and>
    ms_DestinationName spec = mr_DestinationName req \<and> ms_Live spec = mr_Live req \<and>
    ms_Persistent spec = mr_Persistent req \<and> ms_UndefineSource spec = mr_UndefineSource req \<and>
    ms_CopyStorageAll spec = mr_CopyStorageAll req \<and> ms_Unsafe spec = mr_Unsafe req \<and>
    ms_Compressed spec = mr_Compressed req \<and>
    ms_AllowOfflineFallback spec = mr_AllowOfflineFallback req \<and>
    ms_BandwidthMbps spec = mr_BandwidthMbps req \<and> ms_TimeoutSeconds spec = mr_TimeoutSeconds req"

lemma stands_for_specs:
  "stands_for_create req0 (createSpec req0)"
  "stands_for_update req1 (updateSpec req1)"
  "stands_for_delete req2 (deleteSpec req2)"
  "stands_for_migrate req3 (migrateSpec req3)"
  by (simp_all add: stands_for_create_def stands_for_update_def stands_for_delete_def stands_for_migrate_def
      createSpec_def updateSpec_def deleteSpec_def migrateSpec_def)

definition create_done :: "CreateVMRequest \<Rightarrow> VMOperationResponse \<Rightarrow> vmevent list \<Rightarrow> vmevent list \<Rightarrow> bool" where
  "create_done req r t t' \<longleftrightarrow>
     (if vo_OK r then changed_by t t' (\<lambda>es. \<exists>spec out vm. stands_for_create req spec \<and>
             es = create_steps defaultImageDir spec out vm)
      else effects t' = effects t)"

definition update_done :: "venv \<Rightarrow> UpdateVMRequest \<Rightarrow> VMOperationResponse \<Rightarrow> vmevent list \<Rightarrow> vmevent list \<Rightarrow> bool" where
  "update_done E req r t t' \<longleftrightarrow>
     (if vo_OK r
      then changed_by t t' (\<lambda>es. \<exists>spec vm cfg. stands_for_update req spec \<and> update_steps E spec vm cfg es \<and>
             located E (trimSpace (ur_VMName req)) vm cfg t')
      else effects t' = effects t)"

definition delete_done :: "venv \<Rightarrow> DeleteVMRequest \<Rightarrow> VMOperationResponse \<Rightarrow> vmevent list \<Rightarrow> vmevent list \<Rightarrow> bool" where
  "delete_done E req r t t' \<longleftrightarrow>
     (if vo_OK r
      then effects t' = effects t \<or>
           changed_by t t' (\<lambda>es. \<exists>spec vm cfg. stands_for_delete req spec \<and> delete_steps E spec vm cfg t' es \<and>
             located E (trimSpace (dr_VMName req)) vm cfg t')
      else changed_by t t' (\<lambda>es. \<forall>e \<in> set es. \<not> is_removal e))"

definition migrate_done :: "venv \<Rightarrow> MigrateVMRequest \<Rightarrow> VMOperationResponse \<Rightarrow> vmevent list \<Rightarrow> vmevent list \<Rightarrow> bool" where
  "migrate_done E req r t t' \<longleftrightarrow>
     (if vo_OK r
      then changed_by t t' (\<lambda>es. \<exists>spec vm running. stands_for_migrate req spec \<and> migrate_steps spec vm running es \<and>
             observed E (trimSpace (mr_VMName req)) vm running t')
      else effects t' = effects t)"

definition reply_kept ::
    "'b json_codec \<Rightarrow> venv \<Rightarrow> config \<Rightarrow> string \<Rightarrow> 'b \<Rightarrow> rpc_reply \<Rightarrow> vmevent list \<Rightarrow> vmevent list \<Rightarrow> bool" where
  "reply_kept J E cfg method b reply t t' \<longleftrightarrow>
     (case reply of
        ReplyVersion v \<Rightarrow> method = ''GetVersion'' \<and> t' = t \<and> gv_NodeID v = NodeID cfg \<and> gv_AgentVersion v = AgentVersion cfg
      | ReplyOperation r \<Rightarrow>
          method = ''CreateVM'' \<and> create_done (projr (jc_create J b)) r t t' \<or>
          method = ''UpdateVM'' \<and> update_done E (projr (jc_update J b)) r t t' \<or>
          method = ''DeleteVM'' \<and> delete_done E (projr (jc_delete J b)) r t t' \<or>
          method = ''MigrateVM'' \<and> migrate_done E (projr (jc_migrate J b)) r t t')"

definition removes_disk :: "vmevent \<Rightarrow> bool" where
  "removes_disk e \<longleftrightarrow> (\<exists>p x. e = XRemove p x)"

definition rpc_post ::
    "'b json_codec \<Rightarrow> venv \<Rightarrow> config \<Rightarrow> string \<Rightarrow> 'b \<Rightarrow> vmevent list \<Rightarrow> goerr + rpc_reply \<Rightarrow> vmevent list \<Rightarrow> bool" where
  "rpc_post J E cfg method b t reply t' \<longleftrightarrow>
     (if undecodable J method b then isl reply \<and> t' = t
      else case reply of
             Inl err \<Rightarrow> method = ''DeleteVM'' \<longrightarrow> changed_by t t' (\<lambda>es. \<forall>e \<in> set es. \<not> removes_disk e)
           | Inr r \<Rightarrow> reply_kept J E cfg method b r t t')"

section \<open>The five methods\<close>

text \<open>An answer without an error keeps what the reply promises.\<close>

lemma create_kept:
  "create_post E defaultImageDir (createSpec req) t (r, None) t' \<Longrightarrow> create_done req (responseOf r) t t'"
proof -
  assume post: "create_post E defaultImageDir (createSpec req) t (r, None) t'"
  show ?thesis
    using post stands_for_specs(1) [of req]
    unfolding create_post_def create_done_def changed_by_def by (cases "or_OK r") (simp_all split del: if_split, (blast | metis)+)
qed

lemma update_kept:
  "update_post E (updateSpec req) t (r, None) t' \<Longrightarrow> update_done E req (responseOf r) t t'"
proof -
  assume post: "update_post E (updateSpec req) t (r, None) t'"
  have name: "us_Name (updateSpec req) = ur_VMName req" by (simp add: updateSpec_def)
  show ?thesis
    using post name stands_for_specs(2) [of req]
    unfolding update_post_def update_done_def changed_by_def by (cases "or_OK r") (simp_all split del: if_split, (blast | metis)+)
qed

lemma delete_kept:
  "delete_post E (deleteSpec req) t (r, None) t' \<Longrightarrow> delete_done E req (responseOf r) t t'"
proof -
  assume post: "delete_post E (deleteSpec req) t (r, None) t'"
  have name: "ds_Name (deleteSpec req) = dr_VMName req" by (simp add: deleteSpec_def)
  show ?thesis
    using post name stands_for_specs(3) [of req]
    unfolding delete_post_def delete_done_def changed_by_def by (cases "or_OK r") (simp_all split del: if_split, (blast | metis)+)
qed

lemma delete_failed:
  "delete_post E spec t (r, Some err) t' \<Longrightarrow> changed_by t t' (\<lambda>es. \<forall>e \<in> set es. \<not> removes_disk e)"
  unfolding delete_post_def changed_by_def removes_disk_def by auto

lemma migrate_kept:
  "migrate_post E (migrateSpec req) t (r, None) t' \<Longrightarrow> migrate_done E req (responseOf r) t t'"
proof -
  assume post: "migrate_post E (migrateSpec req) t (r, None) t'"
  have name: "ms_Name (migrateSpec req) = mr_VMName req" by (simp add: migrateSpec_def)
  show ?thesis
    using post name stands_for_specs(4) [of req]
    unfolding migrate_post_def migrate_done_def changed_by_def by (cases "or_OK r") (simp_all split del: if_split, (blast | metis)+)
qed

lemmas rpc_defs = rpc_post_def undecodable_def reply_kept_def

lemma NewController_default [simp]: "NewController [] = defaultImageDir"
  by (simp add: NewController_def trimSpace_def)

lemma wp_version:
  "wp (replying ReplyVersion (agentServiceGetVersionHandler cfg now (jc_version J b) None))
     (rpc_post J E cfg ''GetVersion'' b t) t"
  by (cases "jc_version J b")
    (simp_all add: agentServiceGetVersionHandler_def agentServiceGetVersion_def wp_replying wp_ret rpc_defs GetVersion_def)

lemma wp_create:
  "wp (replying ReplyOperation (agentServiceCreateVMHandler E (NewController []) (jc_create J b) None))
     (rpc_post J E cfg ''CreateVM'' b t) t"
proof (cases "jc_create J b")
  case (Inr req)
  show ?thesis
    unfolding Inr agentServiceCreateVMHandler_def serviceCreate_def unaryHandler_simps wp_replying wp_serve
    by (rule wp_mono [OF wp_CreateVM])
      (auto simp: Inr rpc_defs split: option.splits intro: create_kept)
qed (simp add: agentServiceCreateVMHandler_def wp_replying wp_ret rpc_defs)

lemma wp_update:
  "wp (replying ReplyOperation (agentServiceUpdateVMHandler E (NewController []) (jc_update J b) None))
     (rpc_post J E cfg ''UpdateVM'' b t) t"
proof (cases "jc_update J b")
  case (Inr req)
  show ?thesis
    unfolding Inr agentServiceUpdateVMHandler_def serviceUpdate_def unaryHandler_simps wp_replying wp_serve
    by (rule wp_mono [OF wp_UpdateVM])
      (auto simp: Inr rpc_defs split: option.splits intro: update_kept)
qed (simp add: agentServiceUpdateVMHandler_def wp_replying wp_ret rpc_defs)

lemma wp_delete:
  "wp (replying ReplyOperation (agentServiceDeleteVMHandler E (jc_delete J b) None))
     (rpc_post J E cfg ''DeleteVM'' b t) t"
proof (cases "jc_delete J b")
  case (Inr req)
  show ?thesis
    unfolding Inr agentServiceDeleteVMHandler_def serviceDelete_def unaryHandler_simps wp_replying wp_serve
    by (rule wp_mono [OF wp_DeleteVM])
      (auto simp: Inr rpc_defs split: option.splits intro: delete_kept delete_failed)
qed (simp add: agentServiceDeleteVMHandler_def wp_replying wp_ret rpc_defs)

lemma wp_migrate:
  "wp (replying ReplyOperation (agentServiceMigrateVMHandler E (jc_migrate J b) None))
     (rpc_post J E cfg ''MigrateVM'' b t) t"
proof (cases "jc_migrate J b")
  case (Inr req)
  show ?thesis
    unfolding Inr agentServiceMigrateVMHandler_def serviceMigrate_def unaryHandler_simps wp_replying wp_serve
    by (rule wp_mono [OF wp_MigrateVM])
      (auto simp: Inr rpc_defs split: option.splits intro: migrate_kept)
qed (simp add: agentServiceMigrateVMHandler_def wp_replying wp_ret rpc_defs)

text \<open>
  C40. What a call of the RPC means, end to end, for every sequence of bytes, every answer of the JSON
  codec and every behaviour of libvirt and the host: the name selects the one method that runs. A request
  that the codec rejects has no effect at all. A version reply touches nothing and names this agent. A
  reply that reports success has made exactly the changes of the operation for the decoded request, and
  one that reports a refusal has changed nothing (a deletion may have asked the machine to stop, but has
  removed neither its definition nor a disk). A deletion that ends in an error has removed no disk.
\<close>

theorem rpc_effects:
  assumes "map_of (agentServiceDesc J E cfg now) method = Some handler"
    and "run_state (handler b) t = (reply, t')"
  shows "if undecodable J method b then isl reply \<and> t' = t
    else case reply of
      Inl err \<Rightarrow> method = ''DeleteVM'' \<longrightarrow> changed_by t t' (\<lambda>es. \<forall>e \<in> set es. \<not> removes_disk e)
    | Inr r \<Rightarrow> reply_kept J E cfg method b r t t'"
proof -
  have "wp (handler b) (rpc_post J E cfg method b t) t"
    using assms(1) wp_version wp_create wp_update wp_delete wp_migrate
    by (auto simp: agentServiceDesc_def split: if_splits)
  from wp_run [OF this assms(2)] show ?thesis by (simp only: rpc_post_def)
qed

text \<open>A codec that reads the request to create the machine \<open>web\<close>, or nothing.\<close>

definition web_request :: CreateVMRequest where
  "web_request =
     \<lparr>cr_NodeID = ''n1'', cr_VMName = ''web'', cr_VCPUCount = 2, cr_RAMMB = 2048, cr_DiskSizeGB = 20,
      cr_DiskPath = ''/images/web.qcow2'', cr_NetworkName = [], cr_Autostart = True, cr_StartNow = False\<rparr>"

definition web_codec :: "bool json_codec" where
  "web_codec =
     \<lparr>jc_version = (\<lambda>_. Inl (Leaf ''EOF'')),
      jc_create = (\<lambda>ok. if ok then Inr web_request else Inl (Leaf ''EOF'')),
      jc_update = (\<lambda>_. Inl (Leaf ''EOF'')), jc_delete = (\<lambda>_. Inl (Leaf ''EOF'')),
      jc_migrate = (\<lambda>_. Inl (Leaf ''EOF''))\<rparr>"

lemma web_spec_of: "createSpec web_request = web_spec"
  by (simp add: createSpec_def web_request_def web_spec_def)

definition probe_config :: config where
  "probe_config =
     \<lparr>NodeID = ''n1'', Hostname = ''n1'', LibvirtURI = ''qemu:///system'', ProbeListenAddr = '':7443'',
      HealthInterval = 1, ReconnectInterval = 1, ShutdownTimeout = 1,
      BackendGRPCAddr = ''a:1'', BackendToken = [], AgentVersion = HardcodedVersion, TLSEnabled = False,
      TLSSkipVerify = False, TLSCAPath = [], TLSCertPath = [], TLSKeyPath = [], LogLevel = ''info'',
      StreamBufferSize = 0, CollectorErrorBackoff = 1, MaxReconnectJitter = 0\<rparr>"

lemma create_ok_default:
  "snd (fst (run_state (CreateVM host_env defaultImageDir web_spec) [])) = None \<and>
   or_OK (fst (fst (run_state (CreateVM host_env defaultImageDir web_spec) [])))"
  by (simp add: create_eval os_ErrNotExist_def)

lemma stands_for_web: "stands_for_create web_request spec \<Longrightarrow> spec = web_spec"
  by (cases spec) (simp add: stands_for_create_def web_request_def web_spec_def)

lemma web_handler:
  "\<exists>h. map_of (agentServiceDesc web_codec host_env cfg now) ''CreateVM'' = Some h \<and>
     (\<exists>r t'. run_state (h True) [] = (Inr (ReplyOperation r), t') \<and> vo_OK r)"
proof -
  obtain a t' where run: "run_state (CreateVM host_env defaultImageDir web_spec) [] = (a, t')" by fastforce
  moreover from this have "or_OK (fst a)" "snd a = None"
    using create_ok_default by (cases a; simp)+
  ultimately show ?thesis
    by (cases a)
      (simp add: agentServiceDesc_def agentServiceCreateVMHandler_def serviceCreate_def serve_def replying_def
        web_codec_def web_spec_of io_simps)
qed

theorem rpc_effects_witness:
  "\<exists>h r t' out vm. map_of (agentServiceDesc web_codec host_env probe_config 0) ''CreateVM'' = Some h \<and>
     run_state (h True) [] = (Inr (ReplyOperation r), t') \<and>
     effects t' = create_steps defaultImageDir web_spec out vm"
proof -
  obtain h r t' where h: "map_of (agentServiceDesc web_codec host_env probe_config 0) ''CreateVM'' = Some h"
    and run: "run_state (h True) [] = (Inr (ReplyOperation r), t')" and ok: "vo_OK r"
    using web_handler by blast
  from rpc_effects [OF h run] ok show ?thesis
    using h run
    by (auto simp: undecodable_def web_codec_def reply_kept_def create_done_def changed_by_def dest!: stands_for_web)
qed

end
