(* ===== verification/GRPC_Client.thy ===== *)
theory GRPC_Client
  imports Sink Go_Strings
begin

text \<open>
  The gRPC transport (\<^verbatim>\<open>internal/stream/grpc_client.go\<close> and \<^verbatim>\<open>factory.go\<close>): one connection, three
  client streams opened on demand, and five send operations that retry, dropping the connection and
  every stream after a failed attempt. Every call of the gRPC library is an event of the trace, with
  its answer; the environment \<open>genv\<close> answers them, and the theorems hold for any environment. A
  connection or a stream is named by the position in the trace of the call that opened it.
\<close>

section \<open>The library's side\<close>

datatype conn_state = Idle | Connecting | Ready | TransientFailure | Shutdown

datatype cevent =
  EGetState nat conn_state
| EDial string bool int "goerr + nat"
| ENewStream nat string "(string \<times> string) list" "goerr + nat"
| ESendMsg nat frame "goerr option"
| EInvoke nat string "(string \<times> string) list" frame "goerr option"
| ECloseSend nat "goerr option"
| ECloseConn nat "goerr option"
| EWait int bool

text \<open>
  The environment of one operation: the outgoing headers of the caller's context (\<open>None\<close> when it is
  not a \<^verbatim>\<open>context.Context\<close>), the current time, and what each call answers. \<open>ge_timer\<close> is true when
  the timer of a wait fires before the context is done.
\<close>

record genv =
  ge_headers :: "(string \<times> string) list option"
  ge_now :: int
  ge_getState :: "cevent list \<Rightarrow> conn_state"
  ge_dial :: "cevent list \<Rightarrow> goerr option"
  ge_newStream :: "cevent list \<Rightarrow> goerr option"
  ge_sendMsg :: "cevent list \<Rightarrow> goerr option"
  ge_invoke :: "cevent list \<Rightarrow> goerr option"
  ge_closeSend :: "cevent list \<Rightarrow> goerr option"
  ge_closeConn :: "cevent list \<Rightarrow> goerr option"
  ge_timer :: "cevent list \<Rightarrow> bool"

definition opened :: "(cevent list \<Rightarrow> goerr option) \<Rightarrow> cevent list \<Rightarrow> goerr + nat" where
  "opened reply t = (case reply t of Some e \<Rightarrow> Inl e | None \<Rightarrow> Inr (length t))"

section \<open>The client\<close>

record grpc_client =
  gc_addr :: string
  gc_tlsConfig :: bool \<comment> \<open>\<^verbatim>\<open>tlsConfig != nil\<close>\<close>
  gc_token :: string
  nodeMethod :: string
  nodeHardwareInfoMethod :: string
  vmInfoMethod :: string
  vmMethod :: string
  vmRuntimeMethod :: string
  gc_conn :: "nat option"
  nodeStream :: "nat option"
  vmStream :: "nat option"
  vmRuntimeStream :: "nat option"
  dialTimeout :: int
  maxRetries :: int
  retryBackoff :: int

definition time_Second :: int where
  "time_Second = 1000000000"

definition NewGRPCClient ::
    "string \<Rightarrow> bool \<Rightarrow> string \<Rightarrow> string \<Rightarrow> string \<Rightarrow> string \<Rightarrow> string \<Rightarrow> string \<Rightarrow> grpc_client" where
  "NewGRPCClient addr tlsCfg token nodeM nodeHardwareM vmInfoM vmM vmRuntimeM =
     \<lparr>gc_addr = addr, gc_tlsConfig = tlsCfg, gc_token = token, nodeMethod = nodeM,
      nodeHardwareInfoMethod = nodeHardwareM, vmInfoMethod = vmInfoM, vmMethod = vmM,
      vmRuntimeMethod = vmRuntimeM, gc_conn = None, nodeStream = None, vmStream = None,
      vmRuntimeStream = None, dialTimeout = 8 * time_Second, maxRetries = 5,
      retryBackoff = time_Second\<rparr>"

definition defaultNodeStreamMethod :: string where
  "defaultNodeStreamMethod = ''/aurora.metrics.v1.MetricsService/StreamNodeMetrics''"

definition defaultNodeHardwareInfoMethod :: string where
  "defaultNodeHardwareInfoMethod = ''/aurora.metrics.v1.MetricsService/ReportNodeHardwareInfo''"

definition defaultVMInfoSyncMethod :: string where
  "defaultVMInfoSyncMethod = ''/aurora.metrics.v1.MetricsService/SyncVMInfo''"

definition defaultVMStreamMethod :: string where
  "defaultVMStreamMethod = ''/aurora.metrics.v1.MetricsService/StreamVMMetrics''"

definition defaultVMRuntimeStreamMethod :: string where
  "defaultVMRuntimeStreamMethod = ''/aurora.metrics.v1.MetricsService/StreamVMRuntimeMetrics''"

text \<open>The configuration's address and token, and whether a TLS configuration was built.\<close>

definition NewSinkFromConfig :: "string \<Rightarrow> string \<Rightarrow> bool \<Rightarrow> grpc_client" where
  "NewSinkFromConfig backendGRPCAddr backendToken tlsCfg =
     NewGRPCClient backendGRPCAddr tlsCfg backendToken defaultNodeStreamMethod
       defaultNodeHardwareInfoMethod defaultVMInfoSyncMethod defaultVMStreamMethod
       defaultVMRuntimeStreamMethod"

type_synonym 'a cio = "(cevent, 'a) io"

definition decorateContext :: "genv \<Rightarrow> grpc_client \<Rightarrow> (string \<times> string) list" where
  "decorateContext E c =
     (case ge_headers E of None \<Rightarrow> [] | Some h \<Rightarrow> h) @
     (if gc_token c \<noteq> [] then [(''authorization'', ''Bearer '' @ gc_token c)] else [])"

definition closeSend :: "genv \<Rightarrow> nat option \<Rightarrow> unit cio" where
  "closeSend E s =
     (case s of None \<Rightarrow> ret () | Some h \<Rightarrow> do { ask (ECloseSend h) (ge_closeSend E); ret () })"

definition resetConnLocked :: "genv \<Rightarrow> grpc_client \<Rightarrow> grpc_client cio" where
  "resetConnLocked E c =
     do {
       closeSend E (nodeStream c);
       let c1 = c\<lparr>nodeStream := None\<rparr>;
       closeSend E (vmStream c1);
       let c2 = c1\<lparr>vmStream := None\<rparr>;
       closeSend E (vmRuntimeStream c2);
       let c3 = c2\<lparr>vmRuntimeStream := None\<rparr>;
       (case gc_conn c3 of
          None \<Rightarrow> ret c3
        | Some h \<Rightarrow> do { ask (ECloseConn h) (ge_closeConn E); ret (c3\<lparr>gc_conn := None\<rparr>) })
     }"

definition CloseClient :: "genv \<Rightarrow> grpc_client \<Rightarrow> (goerr option \<times> grpc_client) cio" where
  "CloseClient E c =
     do {
       closeSend E (nodeStream c);
       let c1 = c\<lparr>nodeStream := None\<rparr>;
       closeSend E (vmStream c1);
       let c2 = c1\<lparr>vmStream := None\<rparr>;
       closeSend E (vmRuntimeStream c2);
       let c3 = c2\<lparr>vmRuntimeStream := None\<rparr>;
       (case gc_conn c3 of
          None \<Rightarrow> ret (None, c3)
        | Some h \<Rightarrow> do { err \<leftarrow> ask (ECloseConn h) (ge_closeConn E);
                         ret (err, c3\<lparr>gc_conn := None\<rparr>) })
     }"

definition dialLocked :: "genv \<Rightarrow> grpc_client \<Rightarrow> (goerr option \<times> grpc_client) cio" where
  "dialLocked E c =
     do {
       r \<leftarrow> ask (EDial (gc_addr c) (gc_tlsConfig c) (dialTimeout c)) (opened (ge_dial E));
       (case r of
          Inl err \<Rightarrow> ret (Some (wrap (''grpc dial '' @ gc_addr c @ '': '') err), c)
        | Inr h \<Rightarrow> ret (None, c\<lparr>gc_conn := Some h\<rparr>))
     }"

definition ensureConnLocked :: "genv \<Rightarrow> grpc_client \<Rightarrow> (goerr option \<times> grpc_client) cio" where
  "ensureConnLocked E c =
     (case gc_conn c of
        None \<Rightarrow> dialLocked E c
      | Some h \<Rightarrow>
          do {
            st \<leftarrow> ask (EGetState h) (ge_getState E);
            (if st \<noteq> Shutdown then ret (None, c)
             else do { c1 \<leftarrow> resetConnLocked E c; dialLocked E c1 })
          })"

definition waitRetryLocked :: "genv \<Rightarrow> grpc_client \<Rightarrow> int \<Rightarrow> int \<Rightarrow> bool cio" where
  "waitRetryLocked E c attempt maxR =
     (if attempt \<ge> maxR then ret False
      else let backoff = retryBackoff c * attempt
           in ask (EWait (if backoff \<le> 0 then time_Second else backoff)) (ge_timer E))"

definition newStream ::
    "genv \<Rightarrow> string \<Rightarrow> string \<Rightarrow> (nat \<Rightarrow> grpc_client \<Rightarrow> grpc_client) \<Rightarrow> grpc_client
     \<Rightarrow> (goerr option \<times> grpc_client) cio" where
  "newStream E failure method store c =
     (case gc_conn c of
        None \<Rightarrow> ret (Some (Leaf ''grpc conn is nil''), c)
      | Some h \<Rightarrow>
          do {
            r \<leftarrow> ask (ENewStream h method (decorateContext E c)) (opened (ge_newStream E));
            (case r of
               Inl err \<Rightarrow> ret (Some (wrap failure err), c)
             | Inr s \<Rightarrow> ret (None, store s c))
          })"

definition openNodeStreamLocked :: "genv \<Rightarrow> grpc_client \<Rightarrow> (goerr option \<times> grpc_client) cio" where
  "openNodeStreamLocked E c =
     newStream E ''open node stream: '' (nodeMethod c) (\<lambda>s. nodeStream_update (\<lambda>_. Some s)) c"

definition openVMStreamLocked :: "genv \<Rightarrow> grpc_client \<Rightarrow> (goerr option \<times> grpc_client) cio" where
  "openVMStreamLocked E c =
     newStream E ''open vm stream: '' (vmMethod c) (\<lambda>s. vmStream_update (\<lambda>_. Some s)) c"

definition openVMRuntimeStreamLocked :: "genv \<Rightarrow> grpc_client \<Rightarrow> (goerr option \<times> grpc_client) cio" where
  "openVMRuntimeStreamLocked E c =
     (if gc_conn c \<noteq> None \<and> vmRuntimeMethod c = []
      then ret (Some (Leaf ''grpc vm runtime stream method is empty''), c)
      else newStream E ''open vm runtime stream: '' (vmRuntimeMethod c)
             (\<lambda>s. vmRuntimeStream_update (\<lambda>_. Some s)) c)"

section \<open>The retry loops\<close>

text \<open>
  The five loops of the code differ in what one attempt does; they share what follows it. An attempt
  delivers, fails (the connection is reset and the loop waits for the next one), or ends the
  operation at once.
\<close>

datatype attempt = Delivered | Failed goerr | Fatal goerr

definition lastErrOf :: "goerr option \<Rightarrow> goerr" where
  "lastErrOf lastErr = (case lastErr of None \<Rightarrow> Leaf ''unknown stream error'' | Some e \<Rightarrow> e)"

definition exhausted :: "string \<Rightarrow> int \<Rightarrow> goerr option \<Rightarrow> goerr" where
  "exhausted what maxR lastErr =
     wrap (what @ '' failed after '' @ show_nat (nat maxR) @ '' attempts: '') (lastErrOf lastErr)"

function (sequential) retryLoop ::
    "genv \<Rightarrow> string \<Rightarrow> (grpc_client \<Rightarrow> (attempt \<times> grpc_client) cio) \<Rightarrow> int \<Rightarrow> int \<Rightarrow> goerr option
     \<Rightarrow> grpc_client \<Rightarrow> (goerr option \<times> grpc_client) cio" where
  "retryLoop E what step maxR attempt lastErr c =
     (if attempt > maxR then ret (Some (exhausted what maxR lastErr), c)
      else do {
        (r, c1) \<leftarrow> step c;
        (case r of
           Delivered \<Rightarrow> ret (None, c1)
         | Fatal e \<Rightarrow> ret (Some e, c1)
         | Failed e \<Rightarrow>
             do {
               c2 \<leftarrow> resetConnLocked E c1;
               again \<leftarrow> waitRetryLocked E c2 attempt maxR;
               (if again then retryLoop E what step maxR (attempt + 1) (Some e) c2
                else ret (Some (exhausted what maxR (Some e)), c2))
             })
      })"
  by pat_completeness auto
termination
  by (relation "measure (\<lambda>(E, what, step, maxR, attempt, lastErr, c). nat (maxR + 1 - attempt))") auto

declare retryLoop.simps [simp del]

definition effectiveRetries :: "grpc_client \<Rightarrow> int" where
  "effectiveRetries c = (if maxRetries c \<le> 0 then 1 else maxRetries c)"

definition withRetry ::
    "genv \<Rightarrow> string \<Rightarrow> (grpc_client \<Rightarrow> (attempt \<times> grpc_client) cio) \<Rightarrow> grpc_client
     \<Rightarrow> (goerr option \<times> grpc_client) cio" where
  "withRetry E what step c = retryLoop E what step (effectiveRetries c) 1 None c"

definition streamAttempt ::
    "genv \<Rightarrow> string \<Rightarrow> (grpc_client \<Rightarrow> nat option) \<Rightarrow> (grpc_client \<Rightarrow> (goerr option \<times> grpc_client) cio)
     \<Rightarrow> frame \<Rightarrow> grpc_client \<Rightarrow> (attempt \<times> grpc_client) cio" where
  "streamAttempt E what streamOf openStream f c =
     do {
       (err, c1) \<leftarrow> ensureConnLocked E c;
       (case err of
          Some e \<Rightarrow> ret (Failed e, c1)
        | None \<Rightarrow>
            do {
              (err2, c2) \<leftarrow> (if streamOf c1 = None then openStream c1 else ret (None, c1));
              (case err2 of
                 Some e \<Rightarrow> ret (Failed e, c2)
               | None \<Rightarrow>
                   (case streamOf c2 of
                      None \<Rightarrow> ret (Fatal (Leaf ''nil pointer dereference''), c2)
                    | Some s \<Rightarrow>
                        do {
                          err3 \<leftarrow> ask (ESendMsg s f) (ge_sendMsg E);
                          ret ((case err3 of None \<Rightarrow> Delivered | Some e \<Rightarrow> Failed (wrap (what @ '': '') e)), c2)
                        }))
            })
     }"

definition sendNodeFrameWithRetryLocked :: "genv \<Rightarrow> NodeFrame \<Rightarrow> grpc_client \<Rightarrow> (goerr option \<times> grpc_client) cio" where
  "sendNodeFrameWithRetryLocked E f =
     withRetry E ''send node frame''
       (streamAttempt E ''send node frame'' nodeStream (openNodeStreamLocked E) (FNode f))"

definition sendVMFrameWithRetryLocked :: "genv \<Rightarrow> VMFrame \<Rightarrow> grpc_client \<Rightarrow> (goerr option \<times> grpc_client) cio" where
  "sendVMFrameWithRetryLocked E f =
     withRetry E ''send vm frame''
       (streamAttempt E ''send vm frame'' vmStream (openVMStreamLocked E) (FVM f))"

definition sendVMRuntimeFrameWithRetryLocked ::
    "genv \<Rightarrow> VMRuntimeFrame \<Rightarrow> grpc_client \<Rightarrow> (goerr option \<times> grpc_client) cio" where
  "sendVMRuntimeFrameWithRetryLocked E f =
     withRetry E ''send vm runtime frame''
       (streamAttempt E ''send vm runtime frame'' vmRuntimeStream (openVMRuntimeStreamLocked E) (FRuntime f))"

definition unaryAttempt ::
    "genv \<Rightarrow> string \<Rightarrow> string \<Rightarrow> (grpc_client \<Rightarrow> string) \<Rightarrow> frame \<Rightarrow> grpc_client
     \<Rightarrow> (attempt \<times> grpc_client) cio" where
  "unaryAttempt E what emptyMsg methodOf f c =
     do {
       (err, c1) \<leftarrow> ensureConnLocked E c;
       (case err of
          Some e \<Rightarrow> ret (Failed e, c1)
        | None \<Rightarrow>
            (if methodOf c1 = [] then ret (Fatal (Leaf emptyMsg), c1)
             else case gc_conn c1 of
                    None \<Rightarrow> ret (Fatal (Leaf ''nil pointer dereference''), c1)
                  | Some h \<Rightarrow>
                      do {
                        err2 \<leftarrow> ask (EInvoke h (methodOf c1) (decorateContext E c1) f) (ge_invoke E);
                        ret ((case err2 of None \<Rightarrow> Delivered | Some e \<Rightarrow> Failed (wrap (what @ '': '') e)), c1)
                      }))
     }"

definition sendVMInfoWithRetryLocked ::
    "genv \<Rightarrow> VMInfoSyncFrame \<Rightarrow> grpc_client \<Rightarrow> (goerr option \<times> grpc_client) cio" where
  "sendVMInfoWithRetryLocked E f =
     withRetry E ''send vm info sync frame''
       (unaryAttempt E ''send vm info sync frame'' ''grpc vm info sync method is empty'' vmInfoMethod (FSync f))"

definition sendNodeHardwareInfoWithRetryLocked ::
    "genv \<Rightarrow> NodeHardwareInfoFrame \<Rightarrow> grpc_client \<Rightarrow> (goerr option \<times> grpc_client) cio" where
  "sendNodeHardwareInfoWithRetryLocked E f =
     withRetry E ''send node hardware info frame''
       (unaryAttempt E ''send node hardware info frame'' ''grpc node hardware info method is empty''
          nodeHardwareInfoMethod (FHardware f))"

section \<open>The methods of the sink\<close>

text \<open>The state of the sink: the client and the trace of the library calls it made.\<close>

type_synonym grpc_state = "grpc_client \<times> cevent list"

definition locked ::
    "(grpc_client \<Rightarrow> (goerr option \<times> grpc_client) cio) \<Rightarrow> grpc_state \<Rightarrow> goerr option \<times> grpc_state" where
  "locked m st = (case st of (c, t) \<Rightarrow> (case run_state (m c) t of ((r, c'), t') \<Rightarrow> (r, c', t')))"

definition gSendNodeMetrics :: "genv \<Rightarrow> NodeMetrics \<Rightarrow> grpc_state \<Rightarrow> goerr option \<times> grpc_state" where
  "gSendNodeMetrics E m st = locked (sendNodeFrameWithRetryLocked E (NewNodeFrame m)) st"

definition gSendNodeHardwareInfo ::
    "genv \<Rightarrow> NodeHardwareInfo \<Rightarrow> grpc_state \<Rightarrow> goerr option \<times> grpc_state" where
  "gSendNodeHardwareInfo E info st =
     locked (sendNodeHardwareInfoWithRetryLocked E (NewNodeHardwareInfoFrame info)) st"

definition gSendVMMetrics :: "genv \<Rightarrow> VMMetrics list \<Rightarrow> grpc_state \<Rightarrow> goerr option \<times> grpc_state" where
  "gSendVMMetrics E metrics st =
     (if metrics = [] then (None, st)
      else locked (sendVMFrameWithRetryLocked E (NewVMFrame (ge_now E) metrics)) st)"

definition gSendVMRuntimeMetrics ::
    "genv \<Rightarrow> VMRuntimeMetrics list \<Rightarrow> grpc_state \<Rightarrow> goerr option \<times> grpc_state" where
  "gSendVMRuntimeMetrics E metrics st =
     (if metrics = [] then (None, st)
      else if vmRuntimeMethod (fst st) = [] then (None, st)
      else locked (sendVMRuntimeFrameWithRetryLocked E (NewVMRuntimeFrame (ge_now E) metrics)) st)"

definition gSendVMInfoSync :: "genv \<Rightarrow> VMInfoSync \<Rightarrow> grpc_state \<Rightarrow> goerr option \<times> grpc_state" where
  "gSendVMInfoSync E info st =
     locked (sendVMInfoWithRetryLocked E (NewVMInfoSyncFrame info)) st"

definition gClose :: "genv \<Rightarrow> grpc_state \<Rightarrow> goerr option \<times> grpc_state" where
  "gClose E st = locked (CloseClient E) st"

definition grpc_sink :: "genv \<Rightarrow> grpc_state sink_ops" where
  "grpc_sink E =
     \<lparr>SendNodeMetrics = gSendNodeMetrics E, SendNodeHardwareInfo = gSendNodeHardwareInfo E,
      SendVMMetrics = gSendVMMetrics E, SendVMRuntimeMetrics = gSendVMRuntimeMetrics E,
      SendVMInfoSync = gSendVMInfoSync E, CloseSink = gClose E\<rparr>"

end
