(* ===== verification/GRPC_Facts.thy ===== *)
theory GRPC_Facts
  imports GRPC_Client
begin

text \<open>
  What the gRPC client guarantees for every behaviour of the library: it uses the connection and the
  streams correctly and leaks none, an operation that answers without an error has delivered its
  frame exactly once and one that fails has delivered nothing, and an operation gives up only after
  the configured number of failures or when its context ends. It follows that the client is a \<open>sink\<close>.
\<close>

section \<open>Reading a trace\<close>

fun ev_frames :: "cevent \<Rightarrow> frame list" where
  "ev_frames (ESendMsg _ f None) = [f]"
| "ev_frames (EInvoke _ _ _ f None) = [f]"
| "ev_frames _ = []"

definition delivered :: "cevent list \<Rightarrow> frame list" where
  "delivered t = concat (map ev_frames t)"

fun is_failure :: "cevent \<Rightarrow> bool" where
  "is_failure (EDial _ _ _ (Inl _)) = True"
| "is_failure (ENewStream _ _ _ (Inl _)) = True"
| "is_failure (ESendMsg _ _ (Some _)) = True"
| "is_failure (EInvoke _ _ _ _ (Some _)) = True"
| "is_failure _ = False"

fun is_send :: "cevent \<Rightarrow> bool" where
  "is_send (ESendMsg _ _ _) = True"
| "is_send (EInvoke _ _ _ _ _) = True"
| "is_send _ = False"

fun is_cancel :: "cevent \<Rightarrow> bool" where
  "is_cancel (EWait _ False) = True"
| "is_cancel _ = False"

definition count_ev :: "(cevent \<Rightarrow> bool) \<Rightarrow> cevent list \<Rightarrow> nat" where
  "count_ev P t = length (filter P t)"

lemma delivered_simps [simp]:
  "delivered [] = []" "delivered (t @ t') = delivered t @ delivered t'"
  "delivered (e # t) = ev_frames e @ delivered t"
  by (simp_all add: delivered_def)

lemma count_ev_simps [simp]:
  "count_ev P [] = 0" "count_ev P (t @ t') = count_ev P t + count_ev P t'"
  "count_ev P (e # t) = (if P e then Suc (count_ev P t) else count_ev P t)"
  by (simp_all add: count_ev_def)

text \<open>
  The protocol of the library, as a monitor over the trace: the open connection and the streams open
  on it. A call on a connection or a stream that is not open, a dial while a connection is open,
  closing a connection under an open stream, and waiting with a connection open are violations.
\<close>

type_synonym usage = "nat option \<times> nat set"

fun use :: "usage \<Rightarrow> cevent \<Rightarrow> usage option" where
  "use (conn, ss) (EGetState h _) = (if conn = Some h then Some (conn, ss) else None)"
| "use (conn, ss) (EDial _ _ _ (Inr h)) = (if conn = None then Some (Some h, {}) else None)"
| "use (conn, ss) (EDial _ _ _ (Inl _)) = (if conn = None then Some (conn, ss) else None)"
| "use (conn, ss) (ENewStream h _ _ (Inr s)) = (if conn = Some h then Some (conn, insert s ss) else None)"
| "use (conn, ss) (ENewStream h _ _ (Inl _)) = (if conn = Some h then Some (conn, ss) else None)"
| "use (conn, ss) (ESendMsg s _ _) = (if s \<in> ss then Some (conn, ss) else None)"
| "use (conn, ss) (EInvoke h _ _ _ _) = (if conn = Some h then Some (conn, ss) else None)"
| "use (conn, ss) (ECloseSend s _) = (if s \<in> ss then Some (conn, ss - {s}) else None)"
| "use (conn, ss) (ECloseConn h _) = (if conn = Some h \<and> ss = {} then Some (None, {}) else None)"
| "use (conn, ss) (EWait _ _) = (if conn = None then Some (conn, ss) else None)"

fun uses :: "usage option \<Rightarrow> cevent list \<Rightarrow> usage option" where
  "uses u [] = u"
| "uses u (e # t) = uses (Option.bind u (\<lambda>v. use v e)) t"

definition usage :: "cevent list \<Rightarrow> usage option" where
  "usage t = uses (Some (None, {})) t"

lemma uses_append: "uses u (t @ t') = uses (uses u t) t'"
  by (induction t arbitrary: u) simp_all

lemma usage_simps [simp]:
  "usage [] = Some (None, {})" "usage (t @ t') = uses (usage t) t'"
  by (simp_all add: usage_def uses_append)

fun opt_list :: "'a option \<Rightarrow> 'a list" where
  "opt_list None = []"
| "opt_list (Some x) = [x]"

definition streams :: "grpc_client \<Rightarrow> nat list" where
  "streams c = opt_list (nodeStream c) @ opt_list (vmStream c) @ opt_list (vmRuntimeStream c)"

text \<open>
  \<open>held c t\<close>: the trace keeps the protocol, and what it left open is exactly what the client holds.
\<close>

definition held :: "grpc_client \<Rightarrow> cevent list \<Rightarrow> bool" where
  "held c t \<longleftrightarrow>
     usage t = Some (gc_conn c, set (streams c)) \<and>
     distinct (streams c) \<and> (\<forall>s \<in> set (streams c). s < length t) \<and>
     (gc_conn c = None \<longrightarrow> streams c = [])"

definition dropped :: "grpc_client \<Rightarrow> grpc_client" where
  "dropped c = c\<lparr>gc_conn := None, nodeStream := None, vmStream := None, vmRuntimeStream := None\<rparr>"

lemma dropped_simps [simp]:
  "gc_conn (dropped c) = None" "streams (dropped c) = []" "dropped (dropped c) = dropped c"
  "maxRetries (dropped c) = maxRetries c" "retryBackoff (dropped c) = retryBackoff c"
  "nodeStream (dropped c) = None" "vmStream (dropped c) = None" "vmRuntimeStream (dropped c) = None"
  by (simp_all add: dropped_def streams_def)

lemma held_length: "held c t \<Longrightarrow> usage t' = usage t \<Longrightarrow> length t \<le> length t' \<Longrightarrow> held c t'"
  by (force simp: held_def)

section \<open>The parts of an attempt\<close>

lemmas client_defs = closeSend_def Let_def wp_simps split_def

lemma reset_same: "gc_conn c = None \<Longrightarrow> streams c = [] \<Longrightarrow> dropped c = c"
  by (cases c; cases "nodeStream c"; cases "vmStream c"; cases "vmRuntimeStream c")
    (simp_all add: dropped_def streams_def)

lemma wp_resetConnLocked:
  assumes "held c t"
  shows "wp (resetConnLocked E c) (\<lambda>c' t'. c' = dropped c \<and> held c' t' \<and> delivered t' = delivered t \<and>
           (\<forall>P \<in> {is_failure, is_send, is_cancel}. count_ev P t' = count_ev P t)) t"
  using assms
  by (cases "gc_conn c"; cases "nodeStream c"; cases "vmStream c"; cases "vmRuntimeStream c")
    (auto simp: resetConnLocked_def client_defs dropped_def held_def streams_def)

text \<open>
  What the parts keep: the configuration, the protocol, what was delivered and the counts.
\<close>

definition keeps :: "grpc_client \<Rightarrow> cevent list \<Rightarrow> grpc_client \<Rightarrow> cevent list \<Rightarrow> bool" where
  "keeps c t c' t' \<longleftrightarrow> dropped c' = dropped c \<and> held c' t' \<and> delivered t' = delivered t \<and>
     count_ev is_send t' = count_ev is_send t \<and> count_ev is_cancel t' = count_ev is_cancel t"

definition answers :: "goerr option \<Rightarrow> cevent list \<Rightarrow> cevent list \<Rightarrow> bool" where
  "answers r t t' \<longleftrightarrow>
     count_ev is_failure t' = count_ev is_failure t + (case r of None \<Rightarrow> 0 | Some _ \<Rightarrow> 1)"

lemma wp_dialLocked:
  assumes "held c t" and "gc_conn c = None"
  shows "wp (dialLocked E c) (\<lambda>(r, c') t'. keeps c t c' t' \<and> answers r t t' \<and>
           (r = None \<longrightarrow> gc_conn c' \<noteq> None)) t"
  using assms
  by (cases "ge_dial E t")
    (auto simp: dialLocked_def opened_def wp_simps keeps_def answers_def held_def streams_def dropped_def)

lemma wp_ensureConnLocked:
  assumes h: "held c t"
  shows "wp (ensureConnLocked E c) (\<lambda>(r, c') t'. keeps c t c' t' \<and> answers r t t' \<and>
           (r = None \<longrightarrow> gc_conn c' \<noteq> None)) t"
proof (cases "gc_conn c")
  case None
  with wp_dialLocked [OF h] show ?thesis by (simp add: ensureConnLocked_def)
next
  case (Some k)
  let ?t = "t @ [EGetState k (ge_getState E t)]"
  have h1: "held c ?t" using h Some by (auto simp: held_def)
  show ?thesis
  proof (cases "ge_getState E t = Shutdown")
    case False
    with Some h1 show ?thesis
      by (simp add: ensureConnLocked_def wp_simps keeps_def answers_def)
  next
    case True
    have "wp (resetConnLocked E c \<bind> dialLocked E) (\<lambda>(r, c') t'. keeps c t c' t' \<and>
            answers r t t' \<and> (r = None \<longrightarrow> gc_conn c' \<noteq> None)) ?t"
    proof (rule wp_seq [OF wp_resetConnLocked [OF h1]])
      fix c1 t1
      assume r: "c1 = dropped c \<and> held c1 t1 \<and> delivered t1 = delivered ?t \<and>
          (\<forall>P \<in> {is_failure, is_send, is_cancel}. count_ev P t1 = count_ev P ?t)"
      then have "held c1 t1" "gc_conn c1 = None" by auto
      from wp_dialLocked [OF this, of E] r
      show "wp (dialLocked E c1) (\<lambda>(r, c') t'. keeps c t c' t' \<and> answers r t t' \<and>
            (r = None \<longrightarrow> gc_conn c' \<noteq> None)) t1"
        by - (erule wp_mono, auto simp: keeps_def answers_def)
    qed
    with Some True show ?thesis by (simp add: ensureConnLocked_def wp_simps)
  qed
qed

text \<open>Opening a stream stores it in a free slot.\<close>

lemmas open_defs = newStream_def opened_def wp_simps keeps_def answers_def held_def streams_def dropped_def

lemma wp_openNodeStreamLocked:
  assumes "held c t" and "gc_conn c \<noteq> None" and "nodeStream c = None"
  shows "wp (openNodeStreamLocked E c)
           (\<lambda>(r, c') t'. keeps c t c' t' \<and> answers r t t' \<and> (r = None \<longrightarrow> nodeStream c' \<noteq> None)) t"
  using assms
  by (cases "gc_conn c"; cases "ge_newStream E t") (auto simp: openNodeStreamLocked_def open_defs intro: less_SucI)

lemma wp_openVMStreamLocked:
  assumes "held c t" and "gc_conn c \<noteq> None" and "vmStream c = None"
  shows "wp (openVMStreamLocked E c)
           (\<lambda>(r, c') t'. keeps c t c' t' \<and> answers r t t' \<and> (r = None \<longrightarrow> vmStream c' \<noteq> None)) t"
  using assms
  by (cases "gc_conn c"; cases "ge_newStream E t") (auto simp: openVMStreamLocked_def open_defs intro: less_SucI)

lemma wp_openVMRuntimeStreamLocked:
  assumes "held c t" and "gc_conn c \<noteq> None" and "vmRuntimeStream c = None" and "vmRuntimeMethod c \<noteq> []"
  shows "wp (openVMRuntimeStreamLocked E c)
           (\<lambda>(r, c') t'. keeps c t c' t' \<and> answers r t t' \<and> (r = None \<longrightarrow> vmRuntimeStream c' \<noteq> None)) t"
  using assms
  by (cases "gc_conn c"; cases "ge_newStream E t") (auto simp: openVMRuntimeStreamLocked_def open_defs intro: less_SucI)

section \<open>One attempt\<close>

text \<open>
  The contract of an attempt to deliver the frame \<open>f\<close>, from which the retry loop is proved once.
  \<open>usable\<close> says that the method the attempt calls is configured.
\<close>

definition attempt_ok ::
    "frame \<Rightarrow> grpc_client \<Rightarrow> cevent list \<Rightarrow> attempt \<Rightarrow> grpc_client \<Rightarrow> cevent list \<Rightarrow> bool" where
  "attempt_ok f c t r c' t' \<longleftrightarrow> dropped c' = dropped c \<and> held c' t' \<and>
     count_ev is_cancel t' = count_ev is_cancel t \<and>
     count_ev is_send t' \<le> count_ev is_send t + 1 \<and>
     (case r of
        Delivered \<Rightarrow> delivered t' = delivered t @ [f] \<and> count_ev is_failure t' = count_ev is_failure t
      | Failed _ \<Rightarrow> delivered t' = delivered t \<and> count_ev is_failure t' = count_ev is_failure t + 1
      | Fatal _ \<Rightarrow> delivered t' = delivered t \<and> count_ev is_failure t' = count_ev is_failure t)"

locale attempts =
  fixes step :: "grpc_client \<Rightarrow> (attempt \<times> grpc_client) cio"
    and f :: frame
    and usable :: "grpc_client \<Rightarrow> bool"
    and admits :: "grpc_client \<Rightarrow> bool"
  assumes step_law: "\<And>c t. held c t \<Longrightarrow> admits c \<Longrightarrow>
      wp (step c) (\<lambda>(r, c') t'. attempt_ok f c t r c' t' \<and> (usable c \<longrightarrow> (\<forall>e. r \<noteq> Fatal e))) t"
    and config_law: "\<And>c c'. dropped c = dropped c' \<Longrightarrow> usable c = usable c' \<and> admits c = admits c'"
begin

definition loop_post :: "int \<Rightarrow> grpc_client \<Rightarrow> cevent list \<Rightarrow> goerr option \<Rightarrow> grpc_client \<Rightarrow> cevent list \<Rightarrow> bool" where
  "loop_post n c t r c' t' \<longleftrightarrow> dropped c' = dropped c \<and> held c' t' \<and>
     count_ev is_send t' \<le> count_ev is_send t + nat n \<and>
     (case r of
        None \<Rightarrow> delivered t' = delivered t @ [f] \<and> count_ev is_cancel t' = count_ev is_cancel t \<and>
                count_ev is_failure t' < count_ev is_failure t + nat n
      | Some _ \<Rightarrow> delivered t' = delivered t \<and>
          (usable c \<longrightarrow> gc_conn c' = None \<and>
             (count_ev is_cancel t' > count_ev is_cancel t \<or>
              count_ev is_failure t' = count_ev is_failure t + nat n)))"

lemma wp_after_failure:
  assumes c: "held c t" "admits c" and le: "attempt \<le> maxR"
    and ok: "attempt_ok f c t (Failed e) c1 t1"
    and rec: "\<And>c2 t2. attempt < maxR \<Longrightarrow> held c2 t2 \<Longrightarrow> admits c2 \<Longrightarrow>
      wp (retryLoop E what step maxR (attempt + 1) (Some e) c2)
         (\<lambda>(r, c') t'. loop_post (maxR - attempt) c2 t2 r c' t') t2"
  shows "wp (resetConnLocked E c1 \<bind> (\<lambda>c2. waitRetryLocked E c2 attempt maxR \<bind> (\<lambda>again.
            if again then retryLoop E what step maxR (attempt + 1) (Some e) c2
            else ret (Some (exhausted what maxR (Some e)), c2))))
          (\<lambda>(r, c') t'. loop_post (maxR - attempt + 1) c t r c' t') t1"
proof (rule wp_seq [OF wp_resetConnLocked])
  show "held c1 t1" using ok by (simp add: attempt_ok_def)
next
  fix c2 t2
  assume "c2 = dropped c1 \<and> held c2 t2 \<and> delivered t2 = delivered t1 \<and>
      (\<forall>P \<in> {is_failure, is_send, is_cancel}. count_ev P t2 = count_ev P t1)"
  then have c2: "dropped c2 = dropped c" "gc_conn c2 = None" "held c2 t2" "delivered t2 = delivered t"
    and counts: "count_ev is_failure t2 = count_ev is_failure t + 1"
      "count_ev is_send t2 \<le> count_ev is_send t + 1" "count_ev is_cancel t2 = count_ev is_cancel t"
    using ok by (auto simp: attempt_ok_def)
  have cfg: "admits c2" "usable c2 = usable c" using config_law [OF c2(1)] c(2) by simp_all
  let ?ev = "EWait (if retryBackoff c2 * attempt \<le> 0 then time_Second else retryBackoff c2 * attempt)"
  let ?t3 = "t2 @ [?ev (ge_timer E t2)]"
  have h3: "held c2 ?t3"
  proof -
    have "streams c2 = []" using c2(2,3) by (simp add: held_def)
    with c2(2,3) show ?thesis by (simp add: held_def)
  qed
  have again: "wp (retryLoop E what step maxR (attempt + 1) (Some e) c2)
      (\<lambda>(r, c') t'. loop_post (maxR - attempt + 1) c t r c' t') ?t3" if "attempt < maxR" "ge_timer E t2"
    using rec [OF that(1) h3 cfg(1)]
  proof (rule wp_mono, clarify)
    fix r c' t' assume "loop_post (maxR - attempt) c2 ?t3 r c' t'"
    with c2 counts cfg that show "loop_post (maxR - attempt + 1) c t r c' t'"
      by (auto simp: loop_post_def split: option.splits)
  qed
  show "wp (waitRetryLocked E c2 attempt maxR \<bind> (\<lambda>again.
            if again then retryLoop E what step maxR (attempt + 1) (Some e) c2
            else ret (Some (exhausted what maxR (Some e)), c2)))
          (\<lambda>(r, c') t'. loop_post (maxR - attempt + 1) c t r c' t') t2"
  proof (cases "attempt < maxR")
    case False
    with le have "attempt = maxR" by simp
    with c2 counts cfg show ?thesis
      by (simp add: waitRetryLocked_def wp_simps loop_post_def)
  next
    case True
    show ?thesis
    proof (cases "ge_timer E t2")
      case True
      with again \<open>attempt < maxR\<close> show ?thesis by (simp add: waitRetryLocked_def wp_simps Let_def)
    next
      case False
      with c2 counts cfg \<open>attempt < maxR\<close> h3 show ?thesis
        by (simp add: waitRetryLocked_def wp_simps loop_post_def Let_def)
    qed
  qed
qed

lemma wp_retryLoop:
  assumes "held c t" and "admits c" and "maxR - attempt = int n"
  shows "wp (retryLoop E what step maxR attempt lastErr c)
           (\<lambda>(r, c') t'. loop_post (maxR - attempt + 1) c t r c' t') t"
  using assms
proof (induction n arbitrary: attempt lastErr c t rule: less_induct)
  case (less n)
  note c = less.prems(1,2)
  have le: "attempt \<le> maxR" using less.prems(3) by simp
  have rec: "wp (retryLoop E what step maxR (attempt + 1) (Some e) c2)
      (\<lambda>(r, c') t'. loop_post (maxR - attempt) c2 t2 r c' t') t2"
    if "attempt < maxR" "held c2 t2" "admits c2" for e c2 t2
    using less.IH [of "n - 1" c2 t2 "attempt + 1" "Some e"] that less.prems(3) by simp
  have nl: "(maxR < attempt) = False" using le by simp
  obtain m where m: "nat (maxR - attempt + 1) = Suc m"
    using le by (metis Suc_nat_eq_nat_zadd1 add.commute diff_ge_0_iff_ge)
  show ?case
    unfolding retryLoop.simps [of E what step maxR attempt lastErr c] nl if_False
  proof (rule wp_seq [OF step_law [OF c]], clarify)
    fix r c1 t1
    assume ok: "attempt_ok f c t r c1 t1" and fatal: "usable c \<longrightarrow> (\<forall>e. r \<noteq> Fatal e)"
    show "wp (case r of
              Delivered \<Rightarrow> ret (None, c1)
            | Failed e \<Rightarrow> resetConnLocked E c1 \<bind> (\<lambda>c2. waitRetryLocked E c2 attempt maxR \<bind> (\<lambda>again.
                if again then retryLoop E what step maxR (attempt + 1) (Some e) c2
                else ret (Some (exhausted what maxR (Some e)), c2)))
            | Fatal e \<Rightarrow> ret (Some e, c1))
          (\<lambda>(r, c') t'. loop_post (maxR - attempt + 1) c t r c' t') t1"
    proof (cases r)
      case (Failed e)
      with wp_after_failure [OF c le ok [unfolded Failed] rec] show ?thesis by simp
    qed (use ok fatal m in \<open>simp_all add: wp_simps attempt_ok_def loop_post_def\<close>)
  qed
qed

lemma wp_withRetry:
  assumes "held c t" and "admits c"
  shows "wp (withRetry E what step c)
           (\<lambda>(r, c') t'. loop_post (effectiveRetries c) c t r c' t') t"
  using wp_retryLoop [OF assms, of "effectiveRetries c" 1 "nat (effectiveRetries c - 1)" E what None]
  by (simp add: withRetry_def effectiveRetries_def)

text \<open>The same over the sink's state: what an operation does to a client and its trace.\<close>

lemma locked_law:
  assumes "held (fst st) (snd st)" and "admits (fst st)"
    and "locked (withRetry E what step) st = (r, st')"
  shows "loop_post (effectiveRetries (fst st)) (fst st) (snd st) r (fst st') (snd st')"
  using wp_run [OF wp_withRetry [OF assms(1,2), of E what]] assms(3)
  by (auto simp: locked_def split_def prod_eq_iff)

end

section \<open>The five operations\<close>

lemma dropped_config:
  assumes "dropped c = dropped c'"
  shows "vmRuntimeMethod c = vmRuntimeMethod c'" "vmInfoMethod c = vmInfoMethod c'"
    "nodeHardwareInfoMethod c = nodeHardwareInfoMethod c'" "maxRetries c = maxRetries c'"
  using arg_cong [OF assms, of vmRuntimeMethod] arg_cong [OF assms, of vmInfoMethod]
    arg_cong [OF assms, of nodeHardwareInfoMethod] arg_cong [OF assms, of maxRetries]
  by (simp_all add: dropped_def)

lemma wp_send_on_stream:
  assumes "keeps c t c2 t2" and "answers None t t2" and "s \<in> set (streams c2)"
  shows "wp (ask (ESendMsg s f) (ge_sendMsg E) \<bind> (\<lambda>err3.
           ret ((case err3 of None \<Rightarrow> Delivered | Some e \<Rightarrow> Failed (wrap w e)), c2)))
         (\<lambda>(r, c') t'. attempt_ok f c t r c' t' \<and> (\<forall>e. r \<noteq> Fatal e)) t2"
  using assms
  by (cases "ge_sendMsg E t2")
    (auto simp: wp_simps attempt_ok_def keeps_def answers_def held_def intro: less_SucI)

lemma wp_streamAttempt:
  assumes h: "held c t" and adm: "admits c"
    and open_law: "\<And>c t. held c t \<Longrightarrow> gc_conn c \<noteq> None \<Longrightarrow> streamOf c = None \<Longrightarrow> admits c \<Longrightarrow>
      wp (openStream c) (\<lambda>(r, c') t'. keeps c t c' t' \<and> answers r t t' \<and>
        (r = None \<longrightarrow> streamOf c' \<noteq> None)) t"
    and stream: "\<And>c s. streamOf c = Some s \<Longrightarrow> s \<in> set (streams c)"
    and cfg: "\<And>c c'. dropped c = dropped c' \<Longrightarrow> admits c = admits c'"
  shows "wp (streamAttempt E what streamOf openStream f c)
           (\<lambda>(r, c') t'. attempt_ok f c t r c' t' \<and> (\<forall>e. r \<noteq> Fatal e)) t"
  unfolding streamAttempt_def
proof (rule wp_seq [OF wp_ensureConnLocked [OF h]], clarify)
  fix err c1 t1
  assume k1: "keeps c t c1 t1" and a1: "answers err t t1" and conn: "err = None \<longrightarrow> gc_conn c1 \<noteq> None"
  show "wp (case err of
          None \<Rightarrow> (if streamOf c1 = None then openStream c1 else ret (None, c1)) \<bind>
            (\<lambda>(err2, c2). case err2 of
               None \<Rightarrow> (case streamOf c2 of
                   None \<Rightarrow> ret (Fatal (Leaf ''nil pointer dereference''), c2)
                 | Some s \<Rightarrow> ask (ESendMsg s f) (ge_sendMsg E) \<bind> (\<lambda>err3.
                     ret ((case err3 of None \<Rightarrow> Delivered | Some e \<Rightarrow> Failed (wrap (what @ '': '') e)), c2)))
             | Some e \<Rightarrow> ret (Failed e, c2))
        | Some e \<Rightarrow> ret (Failed e, c1))
      (\<lambda>(r, c') t'. attempt_ok f c t r c' t' \<and> (\<forall>e. r \<noteq> Fatal e)) t1"
  proof (cases err)
    case (Some e)
    with k1 a1 show ?thesis by (simp add: wp_simps attempt_ok_def keeps_def answers_def)
  next
    case None
    have adm1: "admits c1" using adm cfg k1 by (metis keeps_def)
    have h1: "held c1 t1" using k1 by (simp add: keeps_def)
    have "wp (if streamOf c1 = None then openStream c1 else ret (None, c1))
        (\<lambda>(r, c') t'. keeps c1 t1 c' t' \<and> answers r t1 t' \<and> (r = None \<longrightarrow> streamOf c' \<noteq> None)) t1"
      using open_law [OF h1 _ _ adm1] conn None h1 by (simp add: wp_simps keeps_def answers_def)
    then show ?thesis unfolding None option.case(1)
    proof (rule wp_seq, clarify)
      fix err2 c2 t2
      assume k2: "keeps c1 t1 c2 t2" and a2: "answers err2 t1 t2"
        and some: "err2 = None \<longrightarrow> streamOf c2 \<noteq> None"
      have k: "keeps c t c2 t2" using k1 k2 by (simp add: keeps_def)
      have a: "answers err2 t t2" using a1 a2 None by (simp add: answers_def)
      show "wp (case err2 of
               None \<Rightarrow> (case streamOf c2 of
                   None \<Rightarrow> ret (Fatal (Leaf ''nil pointer dereference''), c2)
                 | Some s \<Rightarrow> ask (ESendMsg s f) (ge_sendMsg E) \<bind> (\<lambda>err3.
                     ret ((case err3 of None \<Rightarrow> Delivered | Some e \<Rightarrow> Failed (wrap (what @ '': '') e)), c2)))
             | Some e \<Rightarrow> ret (Failed e, c2))
          (\<lambda>(r, c') t'. attempt_ok f c t r c' t' \<and> (\<forall>e. r \<noteq> Fatal e)) t2"
      proof (cases err2)
        case (Some e)
        with k a show ?thesis by (simp add: wp_simps attempt_ok_def keeps_def answers_def)
      next
        case None
        with some obtain s where s: "streamOf c2 = Some s" by auto
        with wp_send_on_stream [OF k a [unfolded None] stream [OF s]] None show ?thesis by simp
      qed
    qed
  qed
qed

lemma wp_unaryAttempt:
  assumes h: "held c t" and cfg: "\<And>c c'. dropped c = dropped c' \<Longrightarrow> methodOf c = methodOf c'"
  shows "wp (unaryAttempt E what msg methodOf f c)
           (\<lambda>(r, c') t'. attempt_ok f c t r c' t' \<and> (methodOf c \<noteq> [] \<longrightarrow> (\<forall>e. r \<noteq> Fatal e))) t"
  unfolding unaryAttempt_def
proof (rule wp_seq [OF wp_ensureConnLocked [OF h]], clarify)
  fix err c1 t1
  assume k1: "keeps c t c1 t1" and a1: "answers err t t1" and conn: "err = None \<longrightarrow> gc_conn c1 \<noteq> None"
  have m: "methodOf c1 = methodOf c" using cfg [of c1 c] k1 by (simp add: keeps_def)
  show "wp (case err of
          None \<Rightarrow> (if methodOf c1 = [] then ret (Fatal (Leaf msg), c1)
             else case gc_conn c1 of
                    None \<Rightarrow> ret (Fatal (Leaf ''nil pointer dereference''), c1)
                  | Some h \<Rightarrow> ask (EInvoke h (methodOf c1) (decorateContext E c1) f) (ge_invoke E) \<bind> (\<lambda>err2.
                      ret ((case err2 of None \<Rightarrow> Delivered | Some e \<Rightarrow> Failed (wrap (what @ '': '') e)), c1)))
        | Some e \<Rightarrow> ret (Failed e, c1))
      (\<lambda>(r, c') t'. attempt_ok f c t r c' t' \<and> (methodOf c \<noteq> [] \<longrightarrow> (\<forall>e. r \<noteq> Fatal e))) t1"
  proof (cases err)
    case (Some e)
    with k1 a1 show ?thesis by (simp add: wp_simps attempt_ok_def keeps_def answers_def)
  next
    case None
    with conn obtain h where h: "gc_conn c1 = Some h" by auto
    show ?thesis
    proof (cases "methodOf c1 = []")
      case True
      with None k1 a1 m show ?thesis by (simp add: wp_simps attempt_ok_def keeps_def answers_def)
    next
      case False
      have "held c1 (t1 @ [EInvoke h (methodOf c1) (decorateContext E c1) f r])" for r
        using k1 h by (auto simp: held_def keeps_def intro: less_SucI)
      with None False h k1 a1 show ?thesis
        by (cases "ge_invoke E t1") (simp_all add: wp_simps attempt_ok_def keeps_def answers_def)
    qed
  qed
qed

text \<open>Each operation of the client runs an attempt that keeps the contract.\<close>

interpretation node_send: attempts
    "streamAttempt E what nodeStream (openNodeStreamLocked E) f" f "\<lambda>_. True" "\<lambda>_. True" for E what f
proof (rule attempts.intro)
  fix c t assume h: "held c t" and adm: "True"
  have "wp (streamAttempt E what nodeStream (openNodeStreamLocked E) f c)
      (\<lambda>(r, c') t'. attempt_ok f c t r c' t' \<and> (\<forall>e. r \<noteq> Fatal e)) t"
  proof (rule wp_streamAttempt [OF h, where admits = "\<lambda>_. True"])
    show "s \<in> set (streams c)" if "nodeStream c = Some s" for c s using that by (simp add: streams_def)
    show "wp (openNodeStreamLocked E c1) (\<lambda>(r, c') t'. keeps c1 t1 c' t' \<and> answers r t1 t' \<and>
        (r = None \<longrightarrow> nodeStream c' \<noteq> None)) t1"
      if "held c1 t1" "gc_conn c1 \<noteq> None" "nodeStream c1 = None" "True" for c1 t1
      by (rule wp_openNodeStreamLocked [OF that(1,2,3)])
  qed simp_all
  then show "wp (streamAttempt E what nodeStream (openNodeStreamLocked E) f c)
      (\<lambda>(r, c') t'. attempt_ok f c t r c' t' \<and> (True \<longrightarrow> (\<forall>e. r \<noteq> Fatal e))) t" by simp
qed (metis dropped_config(1))

interpretation vm_send: attempts
    "streamAttempt E what vmStream (openVMStreamLocked E) f" f "\<lambda>_. True" "\<lambda>_. True" for E what f
proof (rule attempts.intro)
  fix c t assume h: "held c t" and adm: "True"
  have "wp (streamAttempt E what vmStream (openVMStreamLocked E) f c)
      (\<lambda>(r, c') t'. attempt_ok f c t r c' t' \<and> (\<forall>e. r \<noteq> Fatal e)) t"
  proof (rule wp_streamAttempt [OF h, where admits = "\<lambda>_. True"])
    show "s \<in> set (streams c)" if "vmStream c = Some s" for c s using that by (simp add: streams_def)
    show "wp (openVMStreamLocked E c1) (\<lambda>(r, c') t'. keeps c1 t1 c' t' \<and> answers r t1 t' \<and>
        (r = None \<longrightarrow> vmStream c' \<noteq> None)) t1"
      if "held c1 t1" "gc_conn c1 \<noteq> None" "vmStream c1 = None" "True" for c1 t1
      by (rule wp_openVMStreamLocked [OF that(1,2,3)])
  qed simp_all
  then show "wp (streamAttempt E what vmStream (openVMStreamLocked E) f c)
      (\<lambda>(r, c') t'. attempt_ok f c t r c' t' \<and> (True \<longrightarrow> (\<forall>e. r \<noteq> Fatal e))) t" by simp
qed (metis dropped_config(1))

interpretation runtime_send: attempts
    "streamAttempt E what vmRuntimeStream (openVMRuntimeStreamLocked E) f" f "\<lambda>_. True" "\<lambda>c. vmRuntimeMethod c \<noteq> []" for E what f
proof (rule attempts.intro)
  fix c t assume h: "held c t" and adm: "vmRuntimeMethod c \<noteq> []"
  have "wp (streamAttempt E what vmRuntimeStream (openVMRuntimeStreamLocked E) f c)
      (\<lambda>(r, c') t'. attempt_ok f c t r c' t' \<and> (\<forall>e. r \<noteq> Fatal e)) t"
  proof (rule wp_streamAttempt [OF h, where admits = "\<lambda>c. vmRuntimeMethod c \<noteq> []"])
    show "s \<in> set (streams c)" if "vmRuntimeStream c = Some s" for c s using that by (simp add: streams_def)
    show "wp (openVMRuntimeStreamLocked E c1) (\<lambda>(r, c') t'. keeps c1 t1 c' t' \<and> answers r t1 t' \<and>
        (r = None \<longrightarrow> vmRuntimeStream c' \<noteq> None)) t1"
      if "held c1 t1" "gc_conn c1 \<noteq> None" "vmRuntimeStream c1 = None" "vmRuntimeMethod c1 \<noteq> []" for c1 t1
      by (rule wp_openVMRuntimeStreamLocked [OF that])
  qed (use adm dropped_config(1) in \<open>blast, metis\<close>)
  then show "wp (streamAttempt E what vmRuntimeStream (openVMRuntimeStreamLocked E) f c)
      (\<lambda>(r, c') t'. attempt_ok f c t r c' t' \<and> (True \<longrightarrow> (\<forall>e. r \<noteq> Fatal e))) t" by simp
qed (metis dropped_config(1))

interpretation sync_send: attempts
    "unaryAttempt E what msg vmInfoMethod f" f "\<lambda>c. vmInfoMethod c \<noteq> []" "\<lambda>_. True" for E what msg f
proof (rule attempts.intro)
  show "wp (unaryAttempt E what msg vmInfoMethod f c)
      (\<lambda>(r, c') t'. attempt_ok f c t r c' t' \<and> (vmInfoMethod c \<noteq> [] \<longrightarrow> (\<forall>e. r \<noteq> Fatal e))) t"
    if "held c t" for c t
    by (rule wp_unaryAttempt [OF that dropped_config(2)])
qed (metis dropped_config(2))

interpretation hardware_send: attempts
    "unaryAttempt E what msg nodeHardwareInfoMethod f" f "\<lambda>c. nodeHardwareInfoMethod c \<noteq> []" "\<lambda>_. True" for E what msg f
proof (rule attempts.intro)
  show "wp (unaryAttempt E what msg nodeHardwareInfoMethod f c)
      (\<lambda>(r, c') t'. attempt_ok f c t r c' t' \<and> (nodeHardwareInfoMethod c \<noteq> [] \<longrightarrow> (\<forall>e. r \<noteq> Fatal e))) t"
    if "held c t" for c t
    by (rule wp_unaryAttempt [OF that dropped_config(3)])
qed (metis dropped_config(3))

section \<open>The client is a sink\<close>

definition client_ok :: "grpc_state \<Rightarrow> bool" where
  "client_ok st \<longleftrightarrow> held (fst st) (snd st) \<and> vmRuntimeMethod (fst st) \<noteq> []"

definition client_sent :: "grpc_state \<Rightarrow> frame list" where
  "client_sent st = delivered (snd st)"

lemma client_ok_step:
  "client_ok st \<Longrightarrow> dropped (fst st') = dropped (fst st) \<Longrightarrow> held (fst st') (snd st') \<Longrightarrow> client_ok st'"
  using dropped_config(1) [of "fst st'" "fst st"] by (simp add: client_ok_def)

lemma loop_post_sends:
  assumes "client_ok st" and "attempts.loop_post f usable n (fst st) (snd st) r (fst st') (snd st')"
    and "attempts step f usable admits"
  shows "client_ok st'" and "sends client_sent r st st' [f]"
  using assms(2) client_ok_step [OF assms(1)]
  unfolding attempts.loop_post_def [OF assms(3)]
  by (auto simp: sends_def client_sent_def split: option.splits)

lemma wp_CloseClient:
  assumes "held c t"
  shows "wp (CloseClient E c) (\<lambda>(r, c') t'. c' = dropped c \<and> held c' t' \<and> delivered t' = delivered t) t"
  using assms
  by (cases "gc_conn c"; cases "nodeStream c"; cases "vmStream c"; cases "vmRuntimeStream c")
    (auto simp: CloseClient_def client_defs dropped_def held_def streams_def)

lemma gClose_law:
  assumes "client_ok st" and "gClose E st = (r, st')"
  shows "client_ok st'" and "client_sent st' = client_sent st" and "fst st' = dropped (fst st)"
proof -
  have h: "held (fst st) (snd st)" using assms(1) by (simp add: client_ok_def)
  have "fst st' = dropped (fst st) \<and> held (fst st') (snd st') \<and> delivered (snd st') = delivered (snd st)"
    using wp_run [OF wp_CloseClient [OF h, of E]] assms(2)
    by (auto simp: gClose_def locked_def split_def prod_eq_iff)
  then show "client_ok st'" "client_sent st' = client_sent st" "fst st' = dropped (fst st)"
    using client_ok_step [OF assms(1), of st'] by (auto simp: client_sent_def)
qed

lemma gSend_laws:
  assumes "client_ok st"
  shows "gSendNodeMetrics E m st = (r, st') \<Longrightarrow>
      client_ok st' \<and> sends client_sent r st st' [FNode (NewNodeFrame m)]"
    and "gSendNodeHardwareInfo E h st = (r, st') \<Longrightarrow>
      client_ok st' \<and> sends client_sent r st st' [FHardware (NewNodeHardwareInfoFrame h)]"
    and "gSendVMMetrics E ms st = (r, st') \<Longrightarrow>
      client_ok st' \<and> sends client_sent r st st' (if ms = [] then [] else [FVM (NewVMFrame 0 ms)])"
    and "gSendVMRuntimeMetrics E rs st = (r, st') \<Longrightarrow>
      client_ok st' \<and> sends client_sent r st st' (if rs = [] then [] else [FRuntime (NewVMRuntimeFrame 0 rs)])"
    and "gSendVMInfoSync E info st = (r, st') \<Longrightarrow>
      client_ok st' \<and> sends client_sent r st st' [FSync (NewVMInfoSyncFrame info)]"
proof -
  have h: "held (fst st) (snd st)" and m: "vmRuntimeMethod (fst st) \<noteq> []"
    using assms by (simp_all add: client_ok_def)
  have idle: "client_ok st' \<and> sends client_sent None st st' []" if "st' = st"
    using that assms by (simp add: sends_def)
  show "client_ok st' \<and> sends client_sent r st st' [FNode (NewNodeFrame m)]"
    if "gSendNodeMetrics E m st = (r, st')"
    using that loop_post_sends [OF assms node_send.locked_law [OF h] node_send.attempts_axioms]
    by (auto simp: gSendNodeMetrics_def sendNodeFrameWithRetryLocked_def)
  show "client_ok st' \<and> sends client_sent r st st' [FHardware (NewNodeHardwareInfoFrame h)]"
    if "gSendNodeHardwareInfo E h st = (r, st')"
    using that loop_post_sends [OF assms hardware_send.locked_law [OF h] hardware_send.attempts_axioms]
    by (auto simp: gSendNodeHardwareInfo_def sendNodeHardwareInfoWithRetryLocked_def)
  show "client_ok st' \<and> sends client_sent r st st' (if ms = [] then [] else [FVM (NewVMFrame 0 ms)])"
    if "gSendVMMetrics E ms st = (r, st')"
    using that idle loop_post_sends [OF assms vm_send.locked_law [OF h] vm_send.attempts_axioms]
      NewVMFrame_nonempty [of ms "ge_now E"]
    by (auto simp: gSendVMMetrics_def sendVMFrameWithRetryLocked_def split: if_splits)
  show "client_ok st' \<and> sends client_sent r st st' (if rs = [] then [] else [FRuntime (NewVMRuntimeFrame 0 rs)])"
    if "gSendVMRuntimeMetrics E rs st = (r, st')"
    using that idle m loop_post_sends [OF assms runtime_send.locked_law [OF h m] runtime_send.attempts_axioms]
      NewVMRuntimeFrame_nonempty [of rs "ge_now E"]
    by (auto simp: gSendVMRuntimeMetrics_def sendVMRuntimeFrameWithRetryLocked_def split: if_splits)
  show "client_ok st' \<and> sends client_sent r st st' [FSync (NewVMInfoSyncFrame info)]"
    if "gSendVMInfoSync E info st = (r, st')"
    using that loop_post_sends [OF assms sync_send.locked_law [OF h] sync_send.attempts_axioms]
    by (auto simp: gSendVMInfoSync_def sendVMInfoWithRetryLocked_def)
qed

interpretation grpc: sink "grpc_sink E" client_sent client_ok for E
proof (rule sink.intro)
  fix s assume ok: "client_ok s"
  note laws = gSend_laws [OF ok, where E = E] and close = gClose_law [OF ok, where E = E]
  show "client_ok (snd (SendNodeMetrics (grpc_sink E) m s)) \<and>
      sends client_sent (fst (SendNodeMetrics (grpc_sink E) m s)) s (snd (SendNodeMetrics (grpc_sink E) m s))
        [FNode (NewNodeFrame m)]" for m
    using laws(1) [OF prod.collapse [symmetric]] by (simp add: grpc_sink_def)
  show "client_ok (snd (SendNodeHardwareInfo (grpc_sink E) h s)) \<and>
      sends client_sent (fst (SendNodeHardwareInfo (grpc_sink E) h s)) s
        (snd (SendNodeHardwareInfo (grpc_sink E) h s)) [FHardware (NewNodeHardwareInfoFrame h)]" for h
    using laws(2) [OF prod.collapse [symmetric]] by (simp add: grpc_sink_def)
  show "client_ok (snd (SendVMMetrics (grpc_sink E) ms s)) \<and>
      sends client_sent (fst (SendVMMetrics (grpc_sink E) ms s)) s (snd (SendVMMetrics (grpc_sink E) ms s))
        (if ms = [] then [] else [FVM (NewVMFrame 0 ms)])" for ms
    using laws(3) [OF prod.collapse [symmetric]] by (simp add: grpc_sink_def)
  show "client_ok (snd (SendVMRuntimeMetrics (grpc_sink E) ms s)) \<and>
      sends client_sent (fst (SendVMRuntimeMetrics (grpc_sink E) ms s)) s
        (snd (SendVMRuntimeMetrics (grpc_sink E) ms s))
        (if ms = [] then [] else [FRuntime (NewVMRuntimeFrame 0 ms)])" for ms
    using laws(4) [OF prod.collapse [symmetric]] by (simp add: grpc_sink_def)
  show "client_ok (snd (SendVMInfoSync (grpc_sink E) info s)) \<and>
      sends client_sent (fst (SendVMInfoSync (grpc_sink E) info s)) s (snd (SendVMInfoSync (grpc_sink E) info s))
        [FSync (NewVMInfoSyncFrame info)]" for info
    using laws(5) [OF prod.collapse [symmetric]] by (simp add: grpc_sink_def)
  show "client_ok (snd (CloseSink (grpc_sink E) s)) \<and> client_sent (snd (CloseSink (grpc_sink E) s)) = client_sent s"
    using close(1,2) [OF prod.collapse [symmetric]] by (simp add: grpc_sink_def)
qed

end
