(* ===== verification/GRPC_Runs.thy ===== *)
theory GRPC_Runs
  imports GRPC_Facts
begin

text \<open>
  Whole runs of the gRPC client: a sequence of operations, each with an environment of its own (the
  library may behave differently in each), from a client just built from the configuration.
\<close>

datatype gop =
  OpNode NodeMetrics
| OpHardware NodeHardwareInfo
| OpVM "VMMetrics list"
| OpRuntime "VMRuntimeMetrics list"
| OpSync VMInfoSync
| OpClose

fun run_op :: "genv \<Rightarrow> gop \<Rightarrow> grpc_state \<Rightarrow> goerr option \<times> grpc_state" where
  "run_op E (OpNode m) st = SendNodeMetrics (grpc_sink E) m st"
| "run_op E (OpHardware h) st = SendNodeHardwareInfo (grpc_sink E) h st"
| "run_op E (OpVM ms) st = SendVMMetrics (grpc_sink E) ms st"
| "run_op E (OpRuntime ms) st = SendVMRuntimeMetrics (grpc_sink E) ms st"
| "run_op E (OpSync info) st = SendVMInfoSync (grpc_sink E) info st"
| "run_op E OpClose st = CloseSink (grpc_sink E) st"

text \<open>The frames an operation is to deliver.\<close>

fun op_frames :: "gop \<Rightarrow> frame list" where
  "op_frames (OpNode m) = [FNode (NewNodeFrame m)]"
| "op_frames (OpHardware h) = [FHardware (NewNodeHardwareInfoFrame h)]"
| "op_frames (OpVM ms) = (if ms = [] then [] else [FVM (NewVMFrame 0 ms)])"
| "op_frames (OpRuntime ms) = (if ms = [] then [] else [FRuntime (NewVMRuntimeFrame 0 ms)])"
| "op_frames (OpSync info) = [FSync (NewVMInfoSyncFrame info)]"
| "op_frames OpClose = []"

fun run_ops :: "(genv \<times> gop) list \<Rightarrow> grpc_state \<Rightarrow> (gop \<times> goerr option) list \<times> grpc_state" where
  "run_ops [] st = ([], st)"
| "run_ops ((E, op) # rest) st =
     (let (r, st1) = run_op E op st; (rs, st2) = run_ops rest st1 in ((op, r) # rs, st2))"

definition fresh_client :: "string \<Rightarrow> string \<Rightarrow> bool \<Rightarrow> grpc_state" where
  "fresh_client addr token tls = (NewSinkFromConfig addr token tls, [])"

text \<open>The frames of the operations that answered without an error.\<close>

definition accepted :: "(gop \<times> goerr option) list \<Rightarrow> frame list" where
  "accepted rs = concat (map (\<lambda>(op, r). if r = None then op_frames op else []) rs)"

lemma client_ok_fresh: "client_ok (fresh_client addr token tls)"
  by (simp add: client_ok_def fresh_client_def NewSinkFromConfig_def NewGRPCClient_def held_def streams_def
      defaultVMRuntimeStreamMethod_def)

lemma run_op_law:
  assumes "client_ok st" and "run_op E op st = (r, st')"
  shows "client_ok st' \<and>
    client_sent st' = client_sent st @ (if r = None then op_frames op else [])"
proof -
  have eqs: "r = fst (run_op E op st)" "st' = snd (run_op E op st)" using assms(2) by simp_all
  show ?thesis
    using grpc.node_law [OF assms(1), where E = E] grpc.hardware_law [OF assms(1), where E = E]
      grpc.vm_law [OF assms(1), where E = E] grpc.runtime_law [OF assms(1), where E = E]
      grpc.sync_law [OF assms(1), where E = E] grpc.close_law [OF assms(1), where E = E]
    unfolding eqs by (cases op) (simp_all add: sends_def)
qed

lemma run_ops_law:
  assumes "client_ok st" and "run_ops ops st = (rs, st')"
  shows "client_ok st' \<and> client_sent st' = client_sent st @ accepted rs"
  using assms
proof (induction ops arbitrary: st rs)
  case Nil
  then show ?case by (simp add: accepted_def)
next
  case (Cons x ops)
  obtain E op where x: "x = (E, op)" by (cases x)
  obtain r st1 where one: "run_op E op st = (r, st1)" by (cases "run_op E op st")
  obtain rs1 where rest: "run_ops ops st1 = (rs1, st')" and rs: "rs = (op, r) # rs1"
    using Cons.prems(2) by (auto simp: x one split: prod.splits)
  from run_op_law [OF Cons.prems(1) one] Cons.IH [OF _ rest] show ?case
    by (simp add: rs accepted_def)
qed

text \<open>
  C5. The gRPC client uses the library correctly and leaks nothing: after any sequence of sends and
  closes, whatever dials, streams, sends and waits answer, the monitor has accepted every library call
  (no call on a closed connection or stream, no dial over an open connection, no wait that holds one)
  and what is left open is exactly the connection and the streams the client still holds.
\<close>

theorem grpc_no_leak:
  "let (c, t) = snd (run_ops ops (fresh_client addr token tls))
   in usage t = Some (gc_conn c, set (streams c)) \<and> distinct (streams c)"
proof -
  obtain rs c t where run: "run_ops ops (fresh_client addr token tls) = (rs, c, t)"
    by (cases "run_ops ops (fresh_client addr token tls)") auto
  from run_ops_law [OF client_ok_fresh run] show ?thesis
    by (simp add: run client_ok_def held_def)
qed

text \<open>
  C6. Exactly-once per answered send: over any sequence of operations the frames that the library took
  without an error are exactly the frames of the operations that answered without an error, in order,
  each once; retries never duplicate a frame the library took, and a failed operation leaves none.
\<close>

theorem grpc_exactly_once:
  "let (rs, c, t) = run_ops ops (fresh_client addr token tls) in delivered t = accepted rs"
proof -
  obtain rs c t where run: "run_ops ops (fresh_client addr token tls) = (rs, c, t)"
    by (cases "run_ops ops (fresh_client addr token tls)") auto
  from run_ops_law [OF client_ok_fresh run] show ?thesis
    unfolding run by (simp add: client_sent_def fresh_client_def)
qed

section \<open>Giving up\<close>

text \<open>The method an operation calls is configured, and the operation has something to send.\<close>

fun op_configured :: "grpc_client \<Rightarrow> gop \<Rightarrow> bool" where
  "op_configured c (OpNode m) = True"
| "op_configured c (OpHardware h) = (nodeHardwareInfoMethod c \<noteq> [])"
| "op_configured c (OpVM ms) = True"
| "op_configured c (OpRuntime ms) = (vmRuntimeMethod c \<noteq> [])"
| "op_configured c (OpSync info) = (vmInfoMethod c \<noteq> [])"
| "op_configured c OpClose = False"

lemma loop_post_gives_up:
  assumes "attempts step f usable admits"
    and "attempts.loop_post f usable n c t (Some e) c' t'" and "usable c"
  shows "gc_conn c' = None \<and> count_ev is_send t' \<le> count_ev is_send t + nat n \<and>
    (count_ev is_cancel t < count_ev is_cancel t' \<or>
     count_ev is_failure t' = count_ev is_failure t + nat n)"
  using assms(2,3) unfolding attempts.loop_post_def [OF assms(1)] by simp

text \<open>
  C27. An operation gives up only for cause: when a send of a configured client fails, the context
  ended during a wait, or exactly the configured number of dials, stream openings or sends failed; it
  sent at most that often, and it leaves the client without a connection, so that the next operation
  dials afresh. Conversely a send succeeds whenever fewer calls than that fail and no wait is cut.
\<close>

theorem grpc_gives_up_for_cause:
  assumes "held c t" and "op_configured c op" and "run_op E op (c, t) = (Some e, c', t')"
  shows "gc_conn c' = None \<and> count_ev is_send t' \<le> count_ev is_send t + nat (effectiveRetries c) \<and>
    (count_ev is_cancel t < count_ev is_cancel t' \<or>
     count_ev is_failure t' = count_ev is_failure t + nat (effectiveRetries c))"
proof -
  have h: "held (fst (c, t)) (snd (c, t))" using assms(1) by simp
  note gives = loop_post_gives_up [where c = c and t = t and c' = c' and t' = t']
  show ?thesis
  proof (cases op)
    case (OpNode m)
    with assms(3) show ?thesis
      using node_send.locked_law [OF h]
      by (intro gives [OF node_send.attempts_axioms])
        (fastforce simp: grpc_sink_def gSendNodeMetrics_def sendNodeFrameWithRetryLocked_def)+
  next
    case (OpHardware i)
    with assms(2,3) show ?thesis
      using hardware_send.locked_law [OF h]
      by (intro gives [OF hardware_send.attempts_axioms])
        (fastforce simp: grpc_sink_def gSendNodeHardwareInfo_def sendNodeHardwareInfoWithRetryLocked_def)+
  next
    case (OpVM ms)
    with assms(3) show ?thesis
      using vm_send.locked_law [OF h]
      by (intro gives [OF vm_send.attempts_axioms])
        (fastforce simp: grpc_sink_def gSendVMMetrics_def sendVMFrameWithRetryLocked_def split: if_splits)+
  next
    case (OpRuntime ms)
    with assms(2,3) show ?thesis
      using runtime_send.locked_law [OF h]
      by (intro gives [OF runtime_send.attempts_axioms])
        (fastforce simp: grpc_sink_def gSendVMRuntimeMetrics_def sendVMRuntimeFrameWithRetryLocked_def
          split: if_splits)+
  next
    case (OpSync info)
    with assms(2,3) show ?thesis
      using sync_send.locked_law [OF h]
      by (intro gives [OF sync_send.attempts_axioms])
        (fastforce simp: grpc_sink_def gSendVMInfoSync_def sendVMInfoWithRetryLocked_def)+
  qed (use assms(2) in simp)
qed

text \<open>A concrete environment: the first dial fails, everything else answers, and timers fire.\<close>

definition flaky_env :: genv where
  "flaky_env =
     \<lparr>ge_headers = Some [], ge_now = 0, ge_getState = (\<lambda>_. Ready),
      ge_dial = (\<lambda>t. if length t < 2 then Some (Leaf ''refused'') else None),
      ge_newStream = (\<lambda>_. None), ge_sendMsg = (\<lambda>_. None), ge_invoke = (\<lambda>_. None),
      ge_closeSend = (\<lambda>_. None), ge_closeConn = (\<lambda>_. None), ge_timer = (\<lambda>_. True)\<rparr>"

definition down_env :: genv where
  "down_env = flaky_env\<lparr>ge_dial := (\<lambda>_. Some (Leaf ''refused''))\<rparr>"

definition one_try_client :: grpc_client where
  "one_try_client = (NewSinkFromConfig ''a'' [] False)\<lparr>maxRetries := 0\<rparr>"

definition empty_sync :: VMInfoSync where
  "empty_sync = \<lparr>vs_NodeID = [], vs_TimestampUnix = 0, vs_SyncMode = SyncModeFull, vs_Reason = [],
     vs_Upserts = [], vs_RemovedVMIDs = []\<rparr>"

lemmas client_eval = one_try_client_def NewSinkFromConfig_def NewGRPCClient_def flaky_env_def down_env_def
  held_def streams_def grpc_sink_def gSendVMInfoSync_def locked_def sendVMInfoWithRetryLocked_def
  withRetry_def effectiveRetries_def retryLoop.simps unaryAttempt_def ensureConnLocked_def
  dialLocked_def opened_def resetConnLocked_def closeSend_def waitRetryLocked_def io_simps

lemma one_try_run:
  "run_op down_env (OpSync empty_sync) (one_try_client, []) =
     (Some (exhausted ''send vm info sync frame'' 1 (Some (wrap ''grpc dial a: '' (Leaf ''refused'')))),
      one_try_client, [EDial ''a'' False (8 * time_Second) (Inl (Leaf ''refused''))])"
  by (simp add: client_eval)

theorem grpc_gives_up_for_cause_witness:
  "count_ev is_failure [EDial ''a'' False (8 * time_Second) (Inl (Leaf ''refused''))] =
     nat (effectiveRetries one_try_client)"
  using grpc_gives_up_for_cause [OF _ _ one_try_run]
  by (simp add: held_def streams_def one_try_client_def NewSinkFromConfig_def NewGRPCClient_def
      defaultVMInfoSyncMethod_def)

text \<open>Against the flaky environment the second attempt delivers the message.\<close>

lemma flaky_delivers:
  "delivered (snd (snd (run_ops [(flaky_env, OpSync empty_sync)] (fresh_client ''a'' [] False)))) =
     [FSync (NewVMInfoSyncFrame empty_sync)]"
  by (simp add: client_eval fresh_client_def defaultVMInfoSyncMethod_def time_Second_def)

section \<open>Closing\<close>

text \<open>
  Close releases everything: after any sequence of operations it leaves nothing open at the
  library, and closing again answers no error and makes no library call.
\<close>

theorem grpc_close_releases:
  "let st = snd (run_ops ops (fresh_client addr token tls));
       (r1, st1) = CloseSink (grpc_sink E) st;
       (r2, st2) = CloseSink (grpc_sink E') st1
   in usage (snd st1) = Some (None, {}) \<and> r2 = None \<and> st2 = st1"
proof -
  obtain rs st where run: "run_ops ops (fresh_client addr token tls) = (rs, st)"
    by (cases "run_ops ops (fresh_client addr token tls)")
  obtain r1 st1 where c1: "gClose E st = (r1, st1)" by (cases "gClose E st")
  from run_ops_law [OF client_ok_fresh run] have "client_ok st" by simp
  from gClose_law [OF this c1] have ok: "client_ok st1" and d: "fst st1 = dropped (fst st)" by simp_all
  have u: "usage (snd st1) = Some (None, {})" using ok d by (simp add: client_ok_def held_def)
  have "CloseClient E' (dropped (fst st)) = ret (None, dropped (fst st))"
    by (simp add: CloseClient_def dropped_def closeSend_def Let_def)
  then have "gClose E' st1 = (None, st1)"
    using d by (cases st1) (simp add: gClose_def locked_def io_simps)
  with u c1 run show ?thesis by (simp add: grpc_sink_def)
qed

end
