(* ===== verification/Conn.thy ===== *)
theory Conn
  imports Go_Strings
begin

text \<open>
  The libvirt connection manager (\<^verbatim>\<open>internal/libvirt/metric/conn.go\<close>): one client, dialled in a loop
  that ends only when a dial succeeds or the context is done. An operation answers \<open>None\<close> when it
  never returns. The calls of the libvirt library are events of a trace, a client is named by the
  position of the dial that made it, and an environment answers the calls.
\<close>

datatype lvevent =
  VDial string "goerr option"
| VVersion nat "goerr option"
| VDisconnect nat "goerr option"
| VWait int "goerr option" \<comment> \<open>the pause, and the context's error when it ended first\<close>

record cenv =
  ce_ctx :: "lvevent list \<Rightarrow> goerr option" \<comment> \<open>\<^verbatim>\<open>ctx.Err()\<close> once the context is done\<close>
  ce_dial :: "lvevent list \<Rightarrow> goerr option"
  ce_version :: "lvevent list \<Rightarrow> goerr option"
  ce_disconnect :: "lvevent list \<Rightarrow> goerr option"
  ce_wait :: "lvevent list \<Rightarrow> goerr option"
  ce_rand :: "lvevent list \<Rightarrow> int"
  ce_restErr :: "string \<Rightarrow> goerr option" \<comment> \<open>what \<^verbatim>\<open>url.Parse\<close> finds wrong after the scheme\<close>

record conn_manager =
  cm_client :: "nat option"
  cm_uri :: string
  retryWait :: int
  maxJitter :: int

definition NewConnManager :: "string \<Rightarrow> int \<Rightarrow> int \<Rightarrow> conn_manager" where
  "NewConnManager uri retryW maxJ =
     \<lparr>cm_client = None, cm_uri = uri,
      retryWait = (if retryW \<le> 0 then 3 * 1000000000 else retryW),
      maxJitter = (if maxJ < 0 then 0 else maxJ)\<rparr>"

section \<open>The address\<close>

definition is_letter :: "char \<Rightarrow> bool" where
  "is_letter c \<longleftrightarrow> (CHR ''a'' \<le> c \<and> c \<le> CHR ''z'') \<or> (CHR ''A'' \<le> c \<and> c \<le> CHR ''Z'')"

text \<open>
  The scheme of a URL as \<^verbatim>\<open>net/url\<close> reads it: the text before the first colon if it is made of
  letters, digits, \<^verbatim>\<open>+\<close>, \<^verbatim>\<open>-\<close> and \<^verbatim>\<open>.\<close> and starts with a letter; an error when the colon comes first.
\<close>

fun scheme_go :: "bool \<Rightarrow> string \<Rightarrow> string \<Rightarrow> goerr + string" where
  "scheme_go first acc [] = Inr []"
| "scheme_go first acc (c # s) =
     (if is_letter c then scheme_go False (acc @ [c]) s
      else if is_digit c \<or> c \<in> set ''+-.'' then
        (if first then Inr [] else scheme_go False (acc @ [c]) s)
      else if c = CHR '':'' then
        (if first then Inl (Leaf ''missing protocol scheme'') else Inr acc)
      else Inr [])"

definition has_control :: "string \<Rightarrow> bool" where
  "has_control s \<longleftrightarrow> (\<exists>c \<in> set s. of_char c < (32::nat) \<or> of_char c = (127::nat))"

definition urlScheme :: "(string \<Rightarrow> goerr option) \<Rightarrow> string \<Rightarrow> goerr + string" where
  "urlScheme restErr raw =
     (if has_control raw then Inl (Leaf ''net/url: invalid control character in URL'')
      else case scheme_go True [] raw of
             Inl e \<Rightarrow> Inl e
           | Inr s \<Rightarrow> (case restErr raw of Some e \<Rightarrow> Inl e | None \<Rightarrow> Inr (toLower s)))"

definition QEMUSystem :: string where
  "QEMUSystem = ''qemu:///system''"

text \<open>The address to dial, or an error.\<close>

definition parseURI :: "cenv \<Rightarrow> conn_manager \<Rightarrow> goerr + string" where
  "parseURI E m =
     (let raw = (if cm_uri m = [] then QEMUSystem else cm_uri m)
      in case urlScheme (ce_restErr E) raw of
           Inl err \<Rightarrow> Inl (wrap (''parse libvirt uri '' @ raw @ '': '') err)
         | Inr scheme \<Rightarrow>
             if scheme = [] then
               (case urlScheme (ce_restErr E) QEMUSystem of
                  Inl err \<Rightarrow> Inl (wrap ''parse fallback uri: '' err)
                | Inr _ \<Rightarrow> Inr QEMUSystem)
             else Inr raw)"

definition jitter :: "cenv \<Rightarrow> conn_manager \<Rightarrow> lvevent list \<Rightarrow> int" where
  "jitter E m t = (if maxJitter m = 0 then 0 else ce_rand E t mod maxJitter m)"

section \<open>Connecting\<close>

type_synonym 'a conn_out = "('a \<times> conn_manager \<times> lvevent list) option"

partial_function (option) connectLoop ::
    "cenv \<Rightarrow> string \<Rightarrow> conn_manager \<Rightarrow> lvevent list \<Rightarrow> goerr option conn_out" where
  "connectLoop E uri m t =
     (case ce_ctx E t of
        Some e \<Rightarrow> Some (Some e, m, t)
      | None \<Rightarrow>
          (case ce_dial E t of
             None \<Rightarrow> Some (None, m\<lparr>cm_client := Some (length t)\<rparr>, t @ [VDial uri None])
           | Some dialErr \<Rightarrow>
               let t1 = t @ [VDial uri (Some dialErr)];
                   pause = retryWait m + jitter E m t1
               in case ce_wait E t1 of
                    Some e \<Rightarrow> Some (Some e, m, t1 @ [VWait pause (Some e)])
                  | None \<Rightarrow> connectLoop E uri m (t1 @ [VWait pause None])))"

definition connectLocked :: "cenv \<Rightarrow> conn_manager \<Rightarrow> lvevent list \<Rightarrow> goerr option conn_out" where
  "connectLocked E m t =
     (let dial = (\<lambda>m t. case parseURI E m of
                          Inl err \<Rightarrow> Some (Some err, m, t)
                        | Inr uri \<Rightarrow> connectLoop E uri m t)
      in case cm_client m of
           None \<Rightarrow> dial m t
         | Some h \<Rightarrow>
             let t1 = t @ [VVersion h (ce_version E t)]
             in if ce_version E t = None then Some (None, m, t1)
                else dial (m\<lparr>cm_client := None\<rparr>) (t1 @ [VDisconnect h (ce_disconnect E t1)]))"

definition Connect :: "cenv \<Rightarrow> conn_manager \<Rightarrow> lvevent list \<Rightarrow> goerr option conn_out" where
  "Connect E m t = connectLocked E m t"

definition ConnClient :: "cenv \<Rightarrow> conn_manager \<Rightarrow> lvevent list \<Rightarrow> (goerr + nat) conn_out" where
  "ConnClient E m t =
     (case cm_client m of
        Some h \<Rightarrow> Some (Inr h, m, t)
      | None \<Rightarrow>
          (case Connect E m t of
             None \<Rightarrow> None
           | Some (Some err, m1, t1) \<Rightarrow> Some (Inl err, m1, t1)
           | Some (None, m1, t1) \<Rightarrow>
               Some ((case cm_client m1 of
                        None \<Rightarrow> Inl (Leaf ''libvirt client is nil after connect'')
                      | Some h \<Rightarrow> Inr h), m1, t1)))"

definition Reconnect :: "cenv \<Rightarrow> conn_manager \<Rightarrow> lvevent list \<Rightarrow> goerr option conn_out" where
  "Reconnect E m t =
     (case cm_client m of
        None \<Rightarrow> connectLocked E m t
      | Some h \<Rightarrow> connectLocked E (m\<lparr>cm_client := None\<rparr>) (t @ [VDisconnect h (ce_disconnect E t)]))"

definition Healthy :: "cenv \<Rightarrow> conn_manager \<Rightarrow> lvevent list \<Rightarrow> goerr option conn_out" where
  "Healthy E m t =
     (case ConnClient E m t of
        None \<Rightarrow> None
      | Some (Inl err, m1, t1) \<Rightarrow> Some (Some err, m1, t1)
      | Some (Inr h, m1, t1) \<Rightarrow>
          Some (map_option (wrap ''libvirt version check failed: '') (ce_version E t1), m1,
                t1 @ [VVersion h (ce_version E t1)]))"

definition CloseConn :: "cenv \<Rightarrow> conn_manager \<Rightarrow> lvevent list \<Rightarrow> goerr option \<times> conn_manager \<times> lvevent list" where
  "CloseConn E m t =
     (case cm_client m of
        None \<Rightarrow> (None, m, t)
      | Some h \<Rightarrow> (ce_disconnect E t, m\<lparr>cm_client := None\<rparr>, t @ [VDisconnect h (ce_disconnect E t)]))"

section \<open>When connecting returns\<close>

text \<open>
  The trace after \<open>k\<close> rounds of failed dials, and the test that a round is the last.
\<close>

definition failed_round :: "cenv \<Rightarrow> string \<Rightarrow> conn_manager \<Rightarrow> lvevent list \<Rightarrow> lvevent list" where
  "failed_round E uri m t =
     (let t1 = t @ [VDial uri (ce_dial E t)] in t1 @ [VWait (retryWait m + jitter E m t1) None])"

definition last_round :: "cenv \<Rightarrow> string \<Rightarrow> lvevent list \<Rightarrow> bool" where
  "last_round E uri t \<longleftrightarrow>
     ce_ctx E t \<noteq> None \<or> ce_dial E t = None \<or> ce_wait E (t @ [VDial uri (ce_dial E t)]) \<noteq> None"

fun rounds :: "cenv \<Rightarrow> string \<Rightarrow> conn_manager \<Rightarrow> nat \<Rightarrow> lvevent list \<Rightarrow> lvevent list" where
  "rounds E uri m 0 t = t"
| "rounds E uri m (Suc k) t = rounds E uri m k (failed_round E uri m t)"

lemma connectLoop_last: "last_round E uri t \<Longrightarrow> connectLoop E uri m t \<noteq> None"
  by (subst connectLoop.simps) (auto simp: last_round_def Let_def split: option.splits)

lemma connectLoop_round:
  "\<not> last_round E uri t \<Longrightarrow> connectLoop E uri m t = connectLoop E uri m (failed_round E uri m t)"
  by (subst connectLoop.simps) (auto simp: last_round_def failed_round_def Let_def split: option.splits)

lemma connectLoop_returns:
  "last_round E uri (rounds E uri m k t) \<Longrightarrow> connectLoop E uri m t \<noteq> None"
proof (induction k arbitrary: t)
  case 0
  then show ?case using connectLoop_last by simp
next
  case (Suc k)
  then show ?case
    using connectLoop_last connectLoop_round [of E uri t m] by (cases "last_round E uri t") auto
qed

lemma connectLoop_stops:
  assumes "connectLoop E uri m t = Some r"
  shows "\<exists>k. last_round E uri (rounds E uri m k t)"
proof (rule connectLoop.raw_induct
    [where P = "\<lambda>E uri m t r. \<exists>k. last_round E uri (rounds E uri m k t)", OF _ assms])
  fix loop and E :: cenv and uri m t r
  assume IH: "\<And>E uri m t r. loop E uri m t = Some r \<Longrightarrow> \<exists>k. last_round E uri (rounds E uri m k t)"
    and body: "(case ce_ctx E t of
        Some e \<Rightarrow> Some (Some e, m, t)
      | None \<Rightarrow>
          (case ce_dial E t of
             None \<Rightarrow> Some (None, m\<lparr>cm_client := Some (length t)\<rparr>, t @ [VDial uri None])
           | Some dialErr \<Rightarrow>
               let t1 = t @ [VDial uri (Some dialErr)];
                   pause = retryWait m + jitter E m t1
               in case ce_wait E t1 of
                    Some e \<Rightarrow> Some (Some e, m, t1 @ [VWait pause (Some e)])
                  | None \<Rightarrow> loop E uri m (t1 @ [VWait pause None]))) = Some r"
  show "\<exists>k. last_round E uri (rounds E uri m k t)"
  proof (cases "last_round E uri t")
    case True
    then have "last_round E uri (rounds E uri m 0 t)" by simp
    then show ?thesis ..
  next
    case False
    with body have "loop E uri m (failed_round E uri m t) = Some r"
      by (auto simp: last_round_def failed_round_def Let_def split: option.splits)
    from IH [OF this] obtain k where "last_round E uri (rounds E uri m (Suc k) t)" by auto
    then show ?thesis ..
  qed
qed

text \<open>A property of a finished loop needs only its last round and one failed round.\<close>

lemma connectLoop_induct:
  assumes "connectLoop E uri m t = Some r"
    and last: "\<And>t r. last_round E uri t \<Longrightarrow> connectLoop E uri m t = Some r \<Longrightarrow> I t \<Longrightarrow> P r"
    and step: "\<And>t. \<not> last_round E uri t \<Longrightarrow> I t \<Longrightarrow> I (failed_round E uri m t)"
    and "I t"
  shows "P r"
proof -
  obtain k where "last_round E uri (rounds E uri m k t)"
    using connectLoop_stops [OF assms(1)] by blast
  with assms(1,4) show ?thesis
  proof (induction k arbitrary: t)
    case 0
    then show ?case using last by simp
  next
    case (Suc k)
    show ?case
    proof (cases "last_round E uri t")
      case True
      with Suc.prems show ?thesis by (intro last)
    next
      case False
      with Suc.prems connectLoop_round [OF False, of m] step [OF False] Suc.IH show ?thesis by simp
    qed
  qed
qed

section \<open>One client at a time\<close>

text \<open>The clients alive after a trace; \<open>None\<close> when a call was made on a client that was not.\<close>

fun lv_use :: "nat set \<times> nat \<Rightarrow> lvevent \<Rightarrow> (nat set \<times> nat) option" where
  "lv_use (live, n) (VDial _ None) = (if live = {} then Some ({n}, n + 1) else None)"
| "lv_use (live, n) (VDial _ (Some _)) = (if live = {} then Some (live, n + 1) else None)"
| "lv_use (live, n) (VVersion h _) = (if h \<in> live then Some (live, n + 1) else None)"
| "lv_use (live, n) (VDisconnect h _) = (if h \<in> live then Some (live - {h}, n + 1) else None)"
| "lv_use (live, n) (VWait _ _) = (if live = {} then Some (live, n + 1) else None)"

fun lv_uses :: "(nat set \<times> nat) option \<Rightarrow> lvevent list \<Rightarrow> (nat set \<times> nat) option" where
  "lv_uses u [] = u"
| "lv_uses u (e # t) = lv_uses (Option.bind u (\<lambda>v. lv_use v e)) t"

definition lv_usage :: "lvevent list \<Rightarrow> (nat set \<times> nat) option" where
  "lv_usage t = lv_uses (Some ({}, 0)) t"

lemma lv_uses_append: "lv_uses u (t @ t') = lv_uses (lv_uses u t) t'"
  by (induction t arbitrary: u) simp_all

lemma lv_usage_simps [simp]:
  "lv_usage [] = Some ({}, 0)" "lv_usage (t @ t') = lv_uses (lv_usage t) t'"
  by (simp_all add: lv_usage_def lv_uses_append)

definition conn_ok :: "conn_manager \<Rightarrow> lvevent list \<Rightarrow> bool" where
  "conn_ok m t \<longleftrightarrow> lv_usage t = Some (set_option (cm_client m), length t)"

lemma connectLoop_ok:
  assumes "connectLoop E uri m t = Some (r, m', t')" and "conn_ok m t" and "cm_client m = None"
  shows "conn_ok m' t' \<and> (r = None \<longleftrightarrow> cm_client m' \<noteq> None)"
proof -
  have "case (r, m', t') of (r, m', t') \<Rightarrow> conn_ok m' t' \<and> (r = None \<longleftrightarrow> cm_client m' \<noteq> None)"
  proof (rule connectLoop_induct [OF assms(1), where I = "conn_ok m"])
    fix t x assume l: "last_round E uri t" and c: "connectLoop E uri m t = Some x" and ok: "conn_ok m t"
    from c l ok assms(3)
    show "case x of (r, m', t') \<Rightarrow> conn_ok m' t' \<and> (r = None \<longleftrightarrow> cm_client m' \<noteq> None)"
      by (subst (asm) connectLoop.simps)
        (auto simp: last_round_def conn_ok_def Let_def split: option.splits)
  next
    fix t assume "\<not> last_round E uri t" "conn_ok m t"
    with assms(3) show "conn_ok m (failed_round E uri m t)"
      by (auto simp: last_round_def conn_ok_def failed_round_def Let_def)
  qed (rule assms(2))
  then show ?thesis by simp
qed

lemma connectLocked_ok:
  assumes "connectLocked E m t = Some (r, m', t')" and "conn_ok m t"
  shows "conn_ok m' t' \<and> (r = None \<longleftrightarrow> cm_client m' \<noteq> None)"
proof -
  have dial: "conn_ok m' t' \<and> (r = None \<longleftrightarrow> cm_client m' \<noteq> None)"
    if "(case parseURI E m1 of Inl err \<Rightarrow> Some (Some err, m1, t1) | Inr uri \<Rightarrow> connectLoop E uri m1 t1) =
          Some (r, m', t')" "conn_ok m1 t1" "cm_client m1 = None" for m1 t1
    using that connectLoop_ok by (auto split: sum.splits)
  show ?thesis
  proof (cases "cm_client m")
    case None
    with assms dial [of m t] show ?thesis by (simp add: connectLocked_def)
  next
    case (Some h)
    let ?t1 = "t @ [VVersion h (ce_version E t)]"
    let ?t2 = "?t1 @ [VDisconnect h (ce_disconnect E ?t1)]"
    show ?thesis
    proof (cases "ce_version E t = None")
      case True
      with Some assms show ?thesis by (auto simp: connectLocked_def conn_ok_def)
    next
      case False
      have ok: "conn_ok (m\<lparr>cm_client := None\<rparr>) ?t2"
        using Some assms(2) by (simp add: conn_ok_def)
      have eq: "(case parseURI E (m\<lparr>cm_client := None\<rparr>) of
            Inl err \<Rightarrow> Some (Some err, m\<lparr>cm_client := None\<rparr>, ?t2)
          | Inr uri \<Rightarrow> connectLoop E uri (m\<lparr>cm_client := None\<rparr>) ?t2) = Some (r, m', t')"
        using assms(1) unfolding connectLocked_def Let_def Some option.case(2) if_not_P [OF False] .
      show ?thesis by (rule dial [OF eq ok]) simp
    qed
  qed
qed

lemma Reconnect_ok:
  assumes "Reconnect E m t = Some (r, m', t')" and "conn_ok m t"
  shows "conn_ok m' t' \<and> (r = None \<longleftrightarrow> cm_client m' \<noteq> None)"
proof (cases "cm_client m")
  case None
  with assms show ?thesis by (intro connectLocked_ok) (auto simp: Reconnect_def)
next
  case (Some h)
  with assms(2) have "conn_ok (m\<lparr>cm_client := None\<rparr>) (t @ [VDisconnect h (ce_disconnect E t)])"
    by (simp add: conn_ok_def)
  with Some assms(1) show ?thesis by (intro connectLocked_ok) (auto simp: Reconnect_def)
qed

lemma ConnClient_ok:
  assumes "ConnClient E m t = Some (r, m', t')" and "conn_ok m t"
  shows "conn_ok m' t' \<and> (case r of Inr h \<Rightarrow> cm_client m' = Some h | Inl _ \<Rightarrow> cm_client m' = None)"
proof (cases "cm_client m")
  case None
  with assms(1) obtain r1 m1 t1 where c: "Connect E m t = Some (r1, m1, t1)"
    by (auto simp: ConnClient_def split: option.splits)
  from connectLocked_ok [OF this [unfolded Connect_def] assms(2)] None c assms(1) show ?thesis
    by (auto simp: ConnClient_def split: option.splits)
qed (use assms in \<open>auto simp: ConnClient_def\<close>)

lemma Healthy_ok:
  assumes "Healthy E m t = Some (r, m', t')" and "conn_ok m t"
  shows "conn_ok m' t'"
proof -
  obtain r1 m1 t1 where c: "ConnClient E m t = Some (r1, m1, t1)"
    using assms(1) by (auto simp: Healthy_def split: option.splits)
  from ConnClient_ok [OF c assms(2)] c assms(1) show ?thesis
    by (auto simp: Healthy_def conn_ok_def split: sum.splits)
qed

lemma CloseConn_ok:
  assumes "CloseConn E m t = (r, m', t')" and "conn_ok m t"
  shows "conn_ok m' t' \<and> cm_client m' = None"
  using assms by (cases "cm_client m") (auto simp: CloseConn_def conn_ok_def)

section \<open>Guarantees\<close>

datatype conn_op = DoConnect | DoClient | DoReconnect | DoHealthy | DoClose

text \<open>What is left after an operation; \<open>None\<close> when it never returns.\<close>

fun run_conn_op :: "cenv \<Rightarrow> conn_op \<Rightarrow> conn_manager \<times> lvevent list \<Rightarrow> (conn_manager \<times> lvevent list) option" where
  "run_conn_op E DoConnect (m, t) = map_option snd (Connect E m t)"
| "run_conn_op E DoClient (m, t) = map_option snd (ConnClient E m t)"
| "run_conn_op E DoReconnect (m, t) = map_option snd (Reconnect E m t)"
| "run_conn_op E DoHealthy (m, t) = map_option snd (Healthy E m t)"
| "run_conn_op E DoClose (m, t) = Some (snd (CloseConn E m t))"

fun run_conn_ops :: "(cenv \<times> conn_op) list \<Rightarrow> conn_manager \<times> lvevent list \<Rightarrow> (conn_manager \<times> lvevent list) option" where
  "run_conn_ops [] st = Some st"
| "run_conn_ops ((E, op) # rest) st = Option.bind (run_conn_op E op st) (run_conn_ops rest)"

lemma run_conn_op_ok:
  assumes "run_conn_op E op (m, t) = Some (m', t')" and "conn_ok m t"
  shows "conn_ok m' t'"
proof (cases op)
  case DoConnect
  with assms show ?thesis using connectLocked_ok by (auto simp: Connect_def)
next
  case DoClient
  with assms show ?thesis using ConnClient_ok by auto
next
  case DoReconnect
  with assms show ?thesis using Reconnect_ok by auto
next
  case DoHealthy
  with assms show ?thesis using Healthy_ok by auto
next
  case DoClose
  with assms(1) have "CloseConn E m t = (fst (CloseConn E m t), m', t')"
    by (cases "CloseConn E m t") simp
  from CloseConn_ok [OF this assms(2)] show ?thesis ..
qed

lemma run_conn_ops_ok:
  "run_conn_ops ops (m, t) = Some (m', t') \<Longrightarrow> conn_ok m t \<Longrightarrow> conn_ok m' t'"
proof (induction ops arbitrary: m t)
  case (Cons x ops)
  obtain E op where x: "x = (E, op)" by (cases x)
  with Cons.prems(1) obtain m1 t1 where s: "run_conn_op E op (m, t) = Some (m1, t1)"
    "run_conn_ops ops (m1, t1) = Some (m', t')"
    by (cases "run_conn_op E op (m, t)") auto
  from Cons.IH [OF s(2) run_conn_op_ok [OF s(1) Cons.prems(2)]] show ?case .
qed simp

text \<open>
  C10. One libvirt client at a time: after any sequence of connects, client lookups, health checks,
  reconnects and closes that return, whatever libvirt answered, every client dialled earlier has been
  disconnected exactly once, no call went to a client that was not connected, and the client still
  connected is the one the manager holds.
\<close>

theorem libvirt_one_client:
  assumes "run_conn_ops ops (NewConnManager uri rw mj, []) = Some (m, t)"
  shows "lv_usage t = Some (set_option (cm_client m), length t)"
  using run_conn_ops_ok [OF assms] by (simp add: conn_ok_def NewConnManager_def)

definition calm_env :: cenv where
  "calm_env = \<lparr>ce_ctx = (\<lambda>_. None), ce_dial = (\<lambda>_. None), ce_version = (\<lambda>_. None),
     ce_disconnect = (\<lambda>_. None), ce_wait = (\<lambda>_. None), ce_rand = (\<lambda>_. 0), ce_restErr = (\<lambda>_. None)\<rparr>"

definition lost_env :: cenv where
  "lost_env = calm_env\<lparr>ce_version := (\<lambda>_. Some (Leaf ''gone''))\<rparr>"

lemma env_simps [simp]:
  "ce_ctx calm_env t = None" "ce_dial calm_env t = None" "ce_version calm_env t = None"
  "ce_disconnect calm_env t = None" "ce_restErr calm_env u = None"
  "ce_ctx lost_env t = None" "ce_dial lost_env t = None" "ce_version lost_env t = Some (Leaf ''gone'')"
  "ce_disconnect lost_env t = None" "ce_restErr lost_env u = None"
  by (simp_all add: calm_env_def lost_env_def)

lemma connectLoop_dial:
  "ce_ctx E t = None \<Longrightarrow> ce_dial E t = None \<Longrightarrow>
   connectLoop E uri m t = Some (None, m\<lparr>cm_client := Some (length t)\<rparr>, t @ [VDial uri None])"
  by (subst connectLoop.simps) simp

lemma calm_run:
  "run_conn_ops [(calm_env, DoConnect), (lost_env, DoConnect), (calm_env, DoClose)]
     (NewConnManager [] 0 0, []) =
   Some (NewConnManager [] 0 0,
     [VDial QEMUSystem None, VVersion 0 (Some (Leaf ''gone'')), VDisconnect 0 None,
      VDial QEMUSystem None, VDisconnect 3 None])"
  by (simp add: Connect_def connectLocked_def parseURI_def urlScheme_def has_control_def QEMUSystem_def
      toLower_def lower_char_def NewConnManager_def CloseConn_def is_letter_def connectLoop_dial Let_def)

theorem libvirt_one_client_witness:
  "lv_usage [VDial QEMUSystem None, VVersion 0 (Some (Leaf ''gone'')), VDisconnect 0 None,
      VDial QEMUSystem None, VDisconnect 3 None] = Some ({}, 5)"
  using libvirt_one_client [OF calm_run] by (simp add: NewConnManager_def)

text \<open>
  C11. Connecting returns exactly when it can: the dial loop returns if and only if after some number
  of failed rounds the context is done (before a dial or during the pause) or a dial succeeds; while
  dials fail and the context lives it keeps trying, and never gives up on its own.
\<close>

theorem connect_returns_iff:
  "connectLoop E uri m t \<noteq> None \<longleftrightarrow> (\<exists>k. last_round E uri (rounds E uri m k t))"
  using connectLoop_returns connectLoop_stops by fastforce

text \<open>
  The pause before another dial is at least the configured wait and less than the wait plus the
  configured jitter (exactly the wait when there is no jitter), whatever the random source gives; the
  configured wait is positive.
\<close>

theorem connect_pause_bounds:
  "let m = NewConnManager uri rw mj; pause = retryWait m + jitter E m t
   in 0 < retryWait m \<and> retryWait m \<le> pause \<and> (pause = retryWait m \<or> pause < retryWait m + maxJitter m)"
  by (simp add: NewConnManager_def jitter_def Let_def)

end
