(* ===== verification/Agent.thy ===== *)
theory Agent
  imports GRPC_Runs Scheduler_Facts Conn Config
begin

text \<open>
  The agent process (\<^verbatim>\<open>internal/agent/agent.go\<close>, \<^verbatim>\<open>health.go\<close>, \<^verbatim>\<open>lifecycle.go\<close>, \<^verbatim>\<open>cmd/agent/main.go\<close>
  and the event monitor of \<^verbatim>\<open>internal/libvirt/metric/events.go\<close>): its health flags, the sink that keeps
  them, the health loop, the reaction to signals, and shutdown.
\<close>

section \<open>Health flags\<close>

record health =
  libvirtConnected :: bool
  streamConnected :: bool
  lastNodeSampleAt :: "64 word" \<comment> \<open>an \<^verbatim>\<open>int64\<close> of nanoseconds\<close>
  lastVMSampleAt :: "64 word"

definition NewHealthStatus :: health where
  "NewHealthStatus =
     \<lparr>libvirtConnected = False, streamConnected = False, lastNodeSampleAt = 0, lastVMSampleAt = 0\<rparr>"

definition SetLibvirtConnected :: "bool \<Rightarrow> health \<Rightarrow> health" where
  "SetLibvirtConnected ok h = h\<lparr>libvirtConnected := ok\<rparr>"

definition SetStreamConnected :: "bool \<Rightarrow> health \<Rightarrow> health" where
  "SetStreamConnected ok h = h\<lparr>streamConnected := ok\<rparr>"

text \<open>\<^verbatim>\<open>time.Unix(sec, 0).UnixNano()\<close>, which wraps.\<close>

definition unixNano :: "int \<Rightarrow> 64 word" where
  "unixNano sec = word_of_int (sec * 1000000000)"

definition MarkNodeSample :: "int \<Rightarrow> health \<Rightarrow> health" where
  "MarkNodeSample sec h = h\<lparr>lastNodeSampleAt := unixNano sec\<rparr>"

definition MarkVMSample :: "int \<Rightarrow> health \<Rightarrow> health" where
  "MarkVMSample sec h = h\<lparr>lastVMSampleAt := unixNano sec\<rparr>"

datatype snapshot_value = SBool bool | STime int \<comment> \<open>nanoseconds\<close>

definition Snapshot :: "health \<Rightarrow> (string \<times> snapshot_value) list" where
  "Snapshot h =
     [(''libvirt_connected'', SBool (libvirtConnected h)), (''stream_connected'', SBool (streamConnected h))] @
     (if 0 < sint (lastNodeSampleAt h) then [(''last_node_sample_at'', STime (sint (lastNodeSampleAt h)))] else []) @
     (if 0 < sint (lastVMSampleAt h) then [(''last_vm_sample_at'', STime (sint (lastVMSampleAt h)))] else [])"

section \<open>The sink that keeps the health flags\<close>

type_synonym 's health_state = "'s \<times> health"

definition withHealth ::
    "('s \<Rightarrow> goerr option \<times> 's) \<Rightarrow> (health \<Rightarrow> health) \<Rightarrow> 's health_state \<Rightarrow> goerr option \<times> 's health_state" where
  "withHealth send mark st =
     (let (err, s') = send (fst st)
      in case err of
           Some e \<Rightarrow> (Some e, s', SetStreamConnected False (snd st))
         | None \<Rightarrow> (None, s', mark (SetStreamConnected True (snd st))))"

definition hSendNodeMetrics :: "'s sink_ops \<Rightarrow> NodeMetrics \<Rightarrow> 's health_state \<Rightarrow> goerr option \<times> 's health_state" where
  "hSendNodeMetrics S m =
     withHealth (SendNodeMetrics S m)
       (\<lambda>h. if nm_TimestampUnix m > 0 then MarkNodeSample (nm_TimestampUnix m) h else h)"

definition hSendNodeHardwareInfo ::
    "'s sink_ops \<Rightarrow> NodeHardwareInfo \<Rightarrow> 's health_state \<Rightarrow> goerr option \<times> 's health_state" where
  "hSendNodeHardwareInfo S info = withHealth (SendNodeHardwareInfo S info) (\<lambda>h. h)"

definition hSendVMMetrics :: "'s sink_ops \<Rightarrow> VMMetrics list \<Rightarrow> 's health_state \<Rightarrow> goerr option \<times> 's health_state" where
  "hSendVMMetrics S metrics =
     withHealth (SendVMMetrics S metrics)
       (\<lambda>h. case metrics of
              m # _ \<Rightarrow> if vl_TimestampUnix m > 0 then MarkVMSample (vl_TimestampUnix m) h else h
            | [] \<Rightarrow> h)"

definition hSendVMRuntimeMetrics ::
    "'s sink_ops \<Rightarrow> VMRuntimeMetrics list \<Rightarrow> 's health_state \<Rightarrow> goerr option \<times> 's health_state" where
  "hSendVMRuntimeMetrics S metrics =
     withHealth (SendVMRuntimeMetrics S metrics)
       (\<lambda>h. case metrics of
              m # _ \<Rightarrow> if vr_TimestampUnix m > 0 then MarkVMSample (vr_TimestampUnix m) h else h
            | [] \<Rightarrow> h)"

definition hSendVMInfoSync :: "'s sink_ops \<Rightarrow> VMInfoSync \<Rightarrow> 's health_state \<Rightarrow> goerr option \<times> 's health_state" where
  "hSendVMInfoSync S info = withHealth (SendVMInfoSync S info) (\<lambda>h. h)"

definition hClose :: "'s sink_ops \<Rightarrow> 's health_state \<Rightarrow> goerr option \<times> 's health_state" where
  "hClose S st = (let (err, s') = CloseSink S (fst st) in (err, s', snd st))"

definition health_sink :: "'s sink_ops \<Rightarrow> 's health_state sink_ops" where
  "health_sink S =
     \<lparr>SendNodeMetrics = hSendNodeMetrics S, SendNodeHardwareInfo = hSendNodeHardwareInfo S,
      SendVMMetrics = hSendVMMetrics S, SendVMRuntimeMetrics = hSendVMRuntimeMetrics S,
      SendVMInfoSync = hSendVMInfoSync S, CloseSink = hClose S\<rparr>"

lemma withHealth_simps:
  "fst (withHealth send mark st) = fst (send (fst st))"
  "fst (snd (withHealth send mark st)) = snd (send (fst st))"
  by (simp_all add: withHealth_def split_def Let_def split: option.splits)

text \<open>Wrapping keeps the contract, over any sink.\<close>

context sink
begin

lemma health_sink: "sink (health_sink S) (\<lambda>st. sent (fst st)) (\<lambda>st. inv (fst st))"
  by (rule sink.intro)
    (simp_all add: health_sink_def hSendNodeMetrics_def hSendNodeHardwareInfo_def hSendVMMetrics_def
      hSendVMRuntimeMetrics_def hSendVMInfoSync_def hClose_def withHealth_simps sends_def split_def Let_def
      node_law [unfolded sends_def] hardware_law [unfolded sends_def] vm_law [unfolded sends_def]
      runtime_law [unfolded sends_def] sync_law [unfolded sends_def] close_law)

end

text \<open>The agent's own sink: the gRPC client behind the health flags.\<close>

definition agent_sink :: "genv \<Rightarrow> grpc_state health_state sink_ops" where
  "agent_sink E = health_sink (grpc_sink E)"

interpretation agent: sink "agent_sink E" "\<lambda>st. client_sent (fst st)" "\<lambda>st. client_ok (fst st)" for E
  unfolding agent_sink_def by (rule grpc.health_sink)

section \<open>The health loop\<close>

type_synonym link_state = "health \<times> conn_manager \<times> lvevent list"

text \<open>One tick; \<open>None\<close> when the reconnection never returns.\<close>

definition healthTick :: "cenv \<Rightarrow> link_state \<Rightarrow> link_state option" where
  "healthTick E st =
     (case st of (h, m, t) \<Rightarrow>
        (case Healthy E m t of
           None \<Rightarrow> None
         | Some (None, m1, t1) \<Rightarrow> Some (SetLibvirtConnected True h, m1, t1)
         | Some (Some err, m1, t1) \<Rightarrow>
             (let h1 = SetLibvirtConnected False h
              in case Reconnect E m1 t1 of
                   None \<Rightarrow> None
                 | Some (Some recErr, m2, t2) \<Rightarrow> Some (h1, m2, t2)
                 | Some (None, m2, t2) \<Rightarrow> Some (SetLibvirtConnected True h1, m2, t2))))"

text \<open>
  The loop over what its select sees: \<open>Some E\<close> is a tick, \<open>None\<close> the end of the context.
  \<^verbatim>\<open>time.NewTicker\<close> panics when its interval is not positive.
\<close>

datatype health_outcome = Panicked string | Looping link_state | Stuck

fun healthTicks :: "cenv option list \<Rightarrow> link_state \<Rightarrow> health_outcome" where
  "healthTicks [] st = Looping st"
| "healthTicks (None # _) st = Looping st"
| "healthTicks (Some E # rest) st =
     (case healthTick E st of None \<Rightarrow> Stuck | Some st' \<Rightarrow> healthTicks rest st')"

definition runHealthLoop :: "config \<Rightarrow> cenv option list \<Rightarrow> link_state \<Rightarrow> health_outcome" where
  "runHealthLoop cfg sels st =
     (if HealthInterval cfg \<le> 0 then Panicked ''non-positive interval for NewTicker''
      else healthTicks sels st)"

text \<open>The agent's start: connect, and mark both links as up.\<close>

definition startAgent :: "cenv \<Rightarrow> link_state \<Rightarrow> (goerr option \<times> link_state) option" where
  "startAgent E st =
     (case st of (h, m, t) \<Rightarrow>
        (case Connect E m t of
           None \<Rightarrow> None
         | Some (Some err, m1, t1) \<Rightarrow> Some (Some (wrap ''initial libvirt connect: '' err), h, m1, t1)
         | Some (None, m1, t1) \<Rightarrow>
             Some (None, SetStreamConnected True (SetLibvirtConnected True h), m1, t1)))"

text \<open>
  \<^verbatim>\<open>errgroup.Wait\<close> answers the first error among what the four loops returned, in the order they
  returned; the end of the context is not an error.
\<close>

definition groupWait :: "goerr option list \<Rightarrow> goerr option" where
  "groupWait rs = (case List.find (\<lambda>r. r \<noteq> None) rs of Some r \<Rightarrow> r | None \<Rightarrow> None)"

definition runResult :: "goerr option list \<Rightarrow> goerr option" where
  "runResult loops =
     (case groupWait loops of
        Some err \<Rightarrow> if err_is err canceled then None else Some err
      | None \<Rightarrow> None)"

definition shutdown :: "'s sink_ops \<Rightarrow> cenv \<Rightarrow> 's health_state \<Rightarrow> conn_manager \<times> lvevent list
    \<Rightarrow> 's health_state \<times> conn_manager \<times> lvevent list" where
  "shutdown S E st cm =
     (let (err, st1) = hClose S st;
          st2 = (fst st1, SetStreamConnected False (snd st1));
          (err2, m', t') = CloseConn E (fst cm) (snd cm)
      in ((fst st2, SetLibvirtConnected False (snd st2)), m', t'))"

section \<open>Signals\<close>

text \<open>
  \<^verbatim>\<open>Agent.Run\<close> as a machine over what arrives: the run ends with an answer, a signal comes, or the
  grace timer fires. \<open>Ended e c\<close>: it has its run error, and whether it had cancelled the run.
\<close>

datatype arrival = RunReturned "goerr option" | Signal string | GraceTimer

datatype phase = Running | Stopping | Ended "goerr option" bool

fun arrive :: "phase \<Rightarrow> arrival \<Rightarrow> phase" where
  "arrive Running (RunReturned e) = Ended e False"
| "arrive Running (Signal sig) = Stopping"
| "arrive Running GraceTimer = Running" \<comment> \<open>the timer is not set yet\<close>
| "arrive Stopping (RunReturned e) = Ended e True"
| "arrive Stopping (Signal sig) = Ended (Some canceled) True"
| "arrive Stopping GraceTimer = Ended (Some deadlineExceeded) True"
| "arrive (Ended e c) a = Ended e c"

definition awaitEnd :: "arrival list \<Rightarrow> phase" where
  "awaitEnd as = foldl arrive Running as"

definition runAnswer :: "goerr option \<Rightarrow> goerr option" where
  "runAnswer runErr =
     (case runErr of
        Some e \<Rightarrow> if \<not> err_is e canceled \<and> \<not> err_is e deadlineExceeded then Some e else None
      | None \<Rightarrow> None)"

text \<open>What \<^verbatim>\<open>Run\<close> answers; the outer \<open>None\<close> while it is still waiting.\<close>

definition AgentRun :: "arrival list \<Rightarrow> goerr option option" where
  "AgentRun as = (case awaitEnd as of Ended e c \<Rightarrow> Some (runAnswer e) | _ \<Rightarrow> None)"

section \<open>Assembly\<close>

definition nodeLiteStreamInterval :: int where
  "nodeLiteStreamInterval = 2 * second"

definition vmLiteStreamInterval :: int where
  "vmLiteStreamInterval = 2 * second"

definition vmDetailStreamInterval :: int where
  "vmDetailStreamInterval = 5 * second"

definition vmInfoSyncInterval :: int where
  "vmInfoSyncInterval = 10 * 60 * second"

record agent =
  ag_cfg :: config
  ag_conn :: conn_manager
  ag_scheduler :: scheduler
  ag_sink :: "grpc_state health_state"

definition NewAgent :: "('p, 'c) tls_env \<Rightarrow> config \<Rightarrow> goerr + agent" where
  "NewAgent T cfg =
     (case TLSConfig T cfg of
        Inl err \<Rightarrow> Inl (wrap ''tls config: '' err)
      | Inr tlsCfg \<Rightarrow>
          Inr \<lparr>ag_cfg = cfg,
               ag_conn = NewConnManager (LibvirtURI cfg) (ReconnectInterval cfg) (MaxReconnectJitter cfg),
               ag_scheduler = NewScheduler True True nodeLiteStreamInterval vmInfoSyncInterval
                 vmLiteStreamInterval vmDetailStreamInterval (CollectorErrorBackoff cfg) (AgentVersion cfg),
               ag_sink = ((NewSinkFromConfig (BackendGRPCAddr cfg) (BackendToken cfg) (tlsCfg \<noteq> None), []),
                 NewHealthStatus)\<rparr>)"

datatype log_level = LevelDebug | LevelInfo | LevelWarn | LevelError

definition BuildLogger :: "config \<Rightarrow> log_level" where
  "BuildLogger cfg =
     (if LogLevel cfg = ''debug'' then LevelDebug
      else if LogLevel cfg = ''warn'' then LevelWarn
      else if LogLevel cfg = ''error'' then LevelError else LevelInfo)"

section \<open>The entry point\<close>

text \<open>
  \<^verbatim>\<open>main\<close>: what it prints as an error, if anything, and the status the process ends with. Only a
  configuration that cannot be loaded ends it with a failure (\<^verbatim>\<open>log.Fatalf\<close>); \<open>None\<close> while the agent runs.
\<close>

definition agentMain ::
    "(string \<Rightarrow> string) \<Rightarrow> goerr + string \<Rightarrow> ('p, 'c) tls_env \<Rightarrow> arrival list \<Rightarrow> (goerr option \<times> nat) option" where
  "agentMain env hostname T as =
     (case Load env hostname of
        Inl err \<Rightarrow> Some (Some (wrap ''load config: '' err), 1)
      | Inr cfg \<Rightarrow>
          (case NewAgent T cfg of
             Inl err \<Rightarrow> Some (Some err, 0)
           | Inr ag \<Rightarrow> map_option (\<lambda>runErr. (runErr, 0)) (AgentRun as)))"

section \<open>The event monitor\<close>

text \<open>
  The monitor offers a heartbeat on every tick to a channel of 32 events and drops it when the
  channel is full; the event loop takes from the channel. \<open>MEnd\<close> is the end of the context, which
  both see.
\<close>

datatype monitor_step = MTick int | MTake | MEnd

definition event_capacity :: nat where
  "event_capacity = 32"

record event_state =
  ev_channel :: "int list" \<comment> \<open>the times of the queued heartbeats\<close>
  ev_taken :: "int list"
  ev_dropped :: nat
  ev_done :: bool

definition monitorStep :: "event_state \<Rightarrow> monitor_step \<Rightarrow> event_state" where
  "monitorStep s a =
     (if ev_done s then s
      else case a of
        MEnd \<Rightarrow> s\<lparr>ev_done := True\<rparr>
      | MTick now \<Rightarrow>
          if length (ev_channel s) < event_capacity then s\<lparr>ev_channel := ev_channel s @ [now]\<rparr>
          else s\<lparr>ev_dropped := ev_dropped s + 1\<rparr>
      | MTake \<Rightarrow>
          (case ev_channel s of
             [] \<Rightarrow> s
           | ev # rest \<Rightarrow> s\<lparr>ev_channel := rest, ev_taken := ev_taken s @ [ev]\<rparr>))"

definition monitorInit :: event_state where
  "monitorInit = \<lparr>ev_channel = [], ev_taken = [], ev_dropped = 0, ev_done = False\<rparr>"

end
