(* ===== verification/Sampler.thy ===== *)
theory Sampler
  imports Prelude
begin

text \<open>
  The pattern behind every rate the agent reports: keep the last sample of each key, and answer from
  that sample and the new one. The interface \<open>sampler\<close> states the pattern; inside it the answers
  for one key are shown to depend on the samples of that key alone, in their order, whatever was
  observed for other keys in between. The readers of the counters interpret it.
\<close>

text \<open>The observations of a run, with their keys, and the answers of one key's samples in a row.\<close>

fun observe_all :: "('k \<Rightarrow> 's \<Rightarrow> 'st \<Rightarrow> 'out \<times> 'st) \<Rightarrow> ('k \<times> 's) list \<Rightarrow> 'st \<Rightarrow> ('k \<times> 'out) list \<times> 'st" where
  "observe_all observe [] st = ([], st)"
| "observe_all observe ((k, s) # xs) st =
     (let (out, st1) = observe k s st; (outs, st2) = observe_all observe xs st1
      in ((k, out) # outs, st2))"

fun series :: "('s option \<Rightarrow> 's \<Rightarrow> 'out) \<Rightarrow> 's option \<Rightarrow> 's list \<Rightarrow> 'out list" where
  "series rate prev [] = []"
| "series rate prev (s # ss) = rate prev s # series rate (Some s) ss"

definition of_key :: "'k \<Rightarrow> ('k \<times> 'a) list \<Rightarrow> 'a list" where
  "of_key k xs = map snd (filter (\<lambda>x. fst x = k) xs)"

lemma of_key_simps [simp]:
  "of_key k [] = []" "of_key k ((k', a) # xs) = (if k' = k then a # of_key k xs else of_key k xs)"
  by (simp_all add: of_key_def)

lemma length_series [simp]: "length (series rate prev ss) = length ss"
  by (induction ss arbitrary: prev) simp_all

lemma series_nth:
  "i < length ss \<Longrightarrow> series rate prev ss ! i = rate (if i = 0 then prev else Some (ss ! (i - 1))) (ss ! i)"
proof (induction ss arbitrary: prev i)
  case (Cons s ss)
  then show ?case by (cases i) auto
qed simp

lemma series_list_all: "(\<And>prev s. P (rate prev s)) \<Longrightarrow> list_all P (series rate prev ss)"
  by (induction ss arbitrary: prev) simp_all

locale sampler =
  fixes observe :: "'k \<Rightarrow> 's \<Rightarrow> 'st \<Rightarrow> 'out \<times> 'st"
    and stored :: "'st \<Rightarrow> 'k \<Rightarrow> 's option"
    and rate :: "'s option \<Rightarrow> 's \<Rightarrow> 'out"
  assumes out_law: "fst (observe k s st) = rate (stored st k) s"
    and store_law: "stored (snd (observe k s st)) = (stored st)(k \<mapsto> s)"
begin

lemma key_series:
  "of_key k (fst (observe_all observe xs st)) = series rate (stored st k) (of_key k xs)"
proof (induction xs arbitrary: st)
  case (Cons x xs)
  obtain k' s where x: "x = (k', s)" by (cases x)
  show ?case
    using Cons [of "snd (observe k' s st)"] out_law [of k' s st] store_law [of k' s st]
    by (cases "k' = k") (simp_all add: x split_def Let_def)
qed simp

lemma stored_after:
  "stored (snd (observe_all observe xs st)) k =
     (if of_key k xs = [] then stored st k else Some (last (of_key k xs)))"
proof (induction xs arbitrary: st)
  case (Cons x xs)
  obtain k' s where x: "x = (k', s)" by (cases x)
  show ?case
    using Cons [of "snd (observe k' s st)"] store_law [of k' s st]
    by (simp add: x split_def Let_def)
qed simp

lemma length_answers: "length (fst (observe_all observe xs st)) = length xs"
  by (induction xs arbitrary: st) (auto simp: split_def Let_def)

text \<open>Other keys do not matter.\<close>

lemma isolated:
  "of_key k (fst (observe_all observe xs st)) =
   of_key k (fst (observe_all observe (filter (\<lambda>x. fst x = k) xs) st))"
proof -
  have "of_key k (filter (\<lambda>x. fst x = k) xs) = of_key k xs" by (simp add: of_key_def)
  then show ?thesis by (simp add: key_series)
qed

text \<open>A property that every answer of \<open>rate\<close> has holds of all answers of a run.\<close>

lemma answers_all:
  assumes "\<And>prev s. P (rate prev s)"
  shows "\<forall>(k, out) \<in> set (fst (observe_all observe xs st)). P out"
proof (induction xs arbitrary: st)
  case (Cons x xs)
  obtain k s where x: "x = (k, s)" by (cases x)
  have "P (fst (observe k s st))" by (simp add: out_law assms)
  with Cons [of "snd (observe k s st)"] show ?case by (simp add: x split_def Let_def)
qed simp

end

section \<open>Several kinds of samples in one state\<close>

text \<open>The observations (or answers) of one kind, which \<open>p\<close> picks out.\<close>

definition picked :: "('a \<Rightarrow> 'b option) \<Rightarrow> ('k \<times> 'a) list \<Rightarrow> ('k \<times> 'b) list" where
  "picked p xs = List.map_filter (\<lambda>(k, a). map_option (Pair k) (p a)) xs"

lemma picked_simps [simp]:
  "picked p [] = []"
  "picked p ((k, a) # xs) = (case p a of None \<Rightarrow> picked p xs | Some b \<Rightarrow> (k, b) # picked p xs)"
  by (simp_all add: picked_def map_filter_simps split: option.splits)

text \<open>
  When the observations of one kind see and change a part of the state that the others leave alone
  (\<open>R\<close> relates a state to that part), their answers in a mixed run are those of the run of that kind
  alone.
\<close>

lemma observe_all_picked:
  assumes step: "\<And>k a st m. (k, a) \<in> set xs \<Longrightarrow> R st m \<Longrightarrow> case p a of
        None \<Rightarrow> q (fst (mixed k a st)) = None \<and> R (snd (mixed k a st)) m
      | Some s \<Rightarrow> q (fst (mixed k a st)) = Some (fst (alone k s m)) \<and> R (snd (mixed k a st)) (snd (alone k s m))"
    and "R st m"
  shows "picked q (fst (observe_all mixed xs st)) = fst (observe_all alone (picked p xs) m)"
  using assms
proof (induction xs arbitrary: st m)
  case (Cons x xs)
  obtain k a where x: "x = (k, a)" by (cases x)
  show ?case
    using Cons.prems(1) [of k a, OF _ Cons.prems(2)] Cons.IH [OF Cons.prems(1)]
    by (cases "p a") (simp_all add: x split_def Let_def)
qed simp

section \<open>Loops that thread a state\<close>

text \<open>A Go loop that appends one result per element, each step seeing the state the last one left.\<close>

fun mapReader :: "('a \<Rightarrow> 'r \<Rightarrow> 'b \<times> 'r) \<Rightarrow> 'a list \<Rightarrow> 'r \<Rightarrow> 'b list \<times> 'r" where
  "mapReader f [] r = ([], r)"
| "mapReader f (x # xs) r = (let (y, r1) = f x r; (ys, r2) = mapReader f xs r1 in (y # ys, r2))"

lemma mapReader_all2:
  assumes "\<And>x r. I r \<Longrightarrow> P x (fst (f x r)) \<and> I (snd (f x r))" and "I r"
  shows "list_all2 P xs (fst (mapReader f xs r)) \<and> I (snd (mapReader f xs r))"
  using assms(2)
proof (induction xs arbitrary: r)
  case (Cons x xs)
  show ?case using assms(1) [OF Cons.prems, of x] Cons.IH [of "snd (f x r)"] by (simp add: split_def Let_def)
qed simp

text \<open>A loop that stops at the first error.\<close>

fun foldErr :: "('a \<Rightarrow> 'b \<Rightarrow> 'e + 'b) \<Rightarrow> 'a list \<Rightarrow> 'b \<Rightarrow> 'e + 'b" where
  "foldErr f [] acc = Inr acc"
| "foldErr f (x # xs) acc = (case f x acc of Inl err \<Rightarrow> Inl err | Inr acc' \<Rightarrow> foldErr f xs acc')"

end
