(* ===== verification/Go_Time.thy ===== *)
theory Go_Time
  imports Go_Float
begin

text \<open>
  Go's package \<^verbatim>\<open>time\<close> as the agent uses it, and the arithmetic of shares in percent. The agent's
  times come from \<^verbatim>\<open>time.Now().UTC()\<close>, which drops the monotonic clock reading: a time is a number of
  nanoseconds since 1970 on the wall clock, which may be set back.
\<close>

type_synonym time = int

definition unixSeconds :: "time \<Rightarrow> int" where
  "unixSeconds t = t div 1000000000"

text \<open>\<^verbatim>\<open>t.Sub(u)\<close> saturates at the bounds of an \<^verbatim>\<open>int64\<close>.\<close>

definition timeSub :: "time \<Rightarrow> time \<Rightarrow> int" where
  "timeSub t u = max (- (2 ^ 63)) (min (2 ^ 63 - 1) (t - u))"

text \<open>\<^verbatim>\<open>Duration.Seconds\<close>: the whole seconds and the rest, each as a float.\<close>

definition seconds :: "int \<Rightarrow> f64" where
  "seconds d =
     (let sec = (if d < 0 then - ((- d) div 1000000000) else d div 1000000000);
          nsec = d - sec * 1000000000
      in f64_of_int sec + f64_of_int nsec / Fin 1000000000)"

section \<open>Facts\<close>

lemma rnd_minus: "rnd (- x) = - rnd x"
  by (simp add: rnd_def)

lemma f64_of_int_minus: "f64_of_int (- i) = - f64_of_int i"
  by (simp add: f64_of_int_def rnd_minus)

lemma fin_divide_minus: "c \<noteq> 0 \<Longrightarrow> - x / Fin c = - (x / Fin c)"
  by (cases x) (auto simp: rnd_minus signed_inf_def)

lemma plus_minus: "- x + - y = - (x + y :: f64)"
proof (cases x; cases y)
  fix a b assume "x = Fin a" "y = Fin b"
  moreover have "- a + - b = - (a + b)" by simp
  ultimately show ?thesis by (simp only: uminus_f64.simps plus_f64.simps rnd_minus)
qed simp_all

lemma seconds_minus: "seconds (- d) = - seconds d"
proof -
  have pos: "seconds (- e) = - seconds e" if "0 < e" for e
  proof -
    have "seconds (- e) = f64_of_int (- (e div 1000000000)) + f64_of_int (- (e - e div 1000000000 * 1000000000)) / Fin 1000000000"
      using that by (simp add: seconds_def Let_def)
    also have "\<dots> = - seconds e"
      using that by (simp only: f64_of_int_minus) (simp add: fin_divide_minus plus_minus seconds_def Let_def)
    finally show ?thesis .
  qed
  have neg: "- (- seconds (- d)) = seconds (- d)" by (cases "seconds (- d)") simp_all
  show ?thesis
  proof (cases "0 < d \<or> d = 0")
    case True
    then show ?thesis using pos [of d] by (auto simp: seconds_def f64_of_int_def)
  next
    case False
    then have "seconds d = - seconds (- d)" using pos [of "- d"] by simp
    then show ?thesis using neg by simp
  qed
qed

lemma rnd_nonneg_finite: "0 \<le> x \<Longrightarrow> x \<le> 2 ^ k \<Longrightarrow> k < 1024 \<Longrightarrow> \<exists>r. rnd x = Fin r \<and> 0 \<le> r \<and> r \<le> 2 ^ k"
  by (rule rnd_between) simp_all

text \<open>A positive duration has a positive and finite number of seconds.\<close>

lemma seconds_pos:
  assumes "0 < d" and "d \<le> 2 ^ 63"
  shows "\<exists>r. seconds d = Fin r \<and> 0 < r"
proof -
  define s where "s = d div 1000000000"
  define m where "m = d mod 1000000000"
  have d: "d = s * 1000000000 + m" by (simp add: s_def m_def)
  have s0: "0 \<le> s" using assms(1) by (simp add: s_def pos_imp_zdiv_nonneg_iff)
  have m0: "0 \<le> m" "m < 1000000000" by (simp_all add: m_def)
  have s1: "s < 2 ^ 53" using assms(2) m0 d by simp
  have fs: "f64_of_int s = Fin (of_int s)"
    using rnd_of_nat [of "nat s"] s0 s1 by (simp add: f64_of_int_def)
  have fm: "f64_of_int m = Fin (of_int m)"
    using rnd_of_nat [of "nat m"] m0 by (simp add: f64_of_int_def)
  obtain q where q: "rnd (of_int m / 1000000000) = Fin q" "0 \<le> q" "q \<le> 2 ^ 0"
    using rnd_nonneg_finite [of "of_int m / 1000000000" 0] m0 by auto
  have sec: "seconds d = rnd (of_int s + q)"
  proof -
    have "d - s * 1000000000 = m" using d by simp
    with assms(1) show ?thesis by (simp add: seconds_def Let_def s_def [symmetric] fs fm q(1))
  qed
  have ub: "of_int s + q \<le> 2 ^ 54"
  proof -
    have "(of_int s :: rat) \<le> of_int (2 ^ 53)" using s1 by (simp only: of_int_le_iff)
    with q show ?thesis by simp
  qed
  have pos: "fpos (rnd (of_int s + q))"
  proof (cases "s = 0")
    case True
    with d assms have "1 \<le> m" by simp
    then have le: "2 powi (- 30) \<le> (of_int m / 1000000000 :: rat)"
    proof -
      have "(2 :: rat) powi (- 30) \<le> 1 / 1000000000" by (simp add: power_int_minus)
      also have "\<dots> \<le> of_int m / 1000000000"
        using \<open>1 \<le> m\<close> by (intro divide_right_mono) simp_all
      finally show ?thesis .
    qed
    have "fpos (rnd (of_int m / 1000000000))" by (rule rnd_fpos [OF le]) simp
    then have "0 < q" using q by simp
    have "2 powi (- 30) \<le> q"
      using rnd_pos_ge_pow [OF le] q \<open>0 < q\<close> \<open>1 \<le> m\<close> by (simp add: rnd_def split: if_splits)
    then show ?thesis using True by (intro rnd_fpos [of "- 30"]) simp_all
  next
    case False
    with s0 have "1 \<le> s" by simp
    then have "(1 :: rat) \<le> of_int s" by simp
    with q have "1 \<le> of_int s + q" by linarith
    then show ?thesis by (rule fpos_rnd_ge_1)
  qed
  have "0 \<le> of_int s + q" using s0 q by simp
  then obtain r where "rnd (of_int s + q) = Fin r" using rnd_nonneg_finite [OF _ ub] by auto
  with pos sec show ?thesis by simp
qed

lemma seconds_nonpos: "d \<le> 0 \<Longrightarrow> - (2 ^ 63) \<le> d \<Longrightarrow> seconds d \<le> 0"
proof -
  assume d: "d \<le> 0" "- (2 ^ 63) \<le> d"
  show ?thesis
  proof (cases "d = 0")
    case True
    then show ?thesis by (simp add: seconds_def f64_of_int_def less_eq_f64_def zero_f64_def)
  next
    case False
    with d obtain r where "seconds (- d) = Fin r" "0 < r" using seconds_pos [of "- d"] by auto
    then have "seconds d = Fin (- r)" using seconds_minus [of "- d"] by simp
    with \<open>0 < r\<close> show ?thesis by (simp add: less_eq_f64_def zero_f64_def)
  qed
qed

lemma seconds_positive_iff: "- (2 ^ 63) \<le> d \<Longrightarrow> d \<le> 2 ^ 63 \<Longrightarrow> \<not> seconds d \<le> 0 \<longleftrightarrow> 0 < d"
  using seconds_pos [of d] seconds_nonpos [of d] by (cases "0 < d") (auto simp: less_eq_f64_def zero_f64_def)

lemma timeSub_bounds: "- (2 ^ 63) \<le> timeSub t u" "timeSub t u \<le> 2 ^ 63"
  by (simp_all add: timeSub_def)

lemma timeSub_pos_iff: "0 < timeSub t u \<longleftrightarrow> u < t"
  by (auto simp: timeSub_def)

lemma elapsed_iff: "\<not> seconds (timeSub t u) \<le> 0 \<longleftrightarrow> u < t"
  using seconds_positive_iff [OF timeSub_bounds] by (simp add: timeSub_pos_iff)

lemma elapsed_pos: "u < t \<Longrightarrow> \<exists>r. seconds (timeSub t u) = Fin r \<and> 0 < r"
  using seconds_pos [of "timeSub t u"] timeSub_bounds [of t u] by (simp add: timeSub_pos_iff)

text \<open>A float that is a share in percent: finite and between 0 and 100.\<close>

definition percent :: "f64 \<Rightarrow> bool" where
  "percent f \<longleftrightarrow> (\<exists>r. f = Fin r \<and> 0 \<le> r \<and> r \<le> 100)"

lemma percent_0 [simp]: "percent 0" "percent (Fin 0)" "percent (Fin 100)"
  by (simp_all add: percent_def zero_f64_def)

text \<open>A rate: zero or positive, never a NaN.\<close>

lemma fnonneg_0 [simp]: "fnonneg 0"
  by (simp add: zero_f64_def)

lemma rate_nonneg: "u < t \<Longrightarrow> fnonneg x \<Longrightarrow> fnonneg (x / seconds (timeSub t u))"
  using elapsed_pos [of u t] by (auto intro: fnonneg_divide)

text \<open>A part of a whole is between zero and one.\<close>

lemma share_le_1:
  assumes "v \<le> w" and "w \<noteq> 0"
  shows "\<exists>r. f64_of_u64 v / f64_of_u64 w = Fin r \<and> 0 \<le> r \<and> r \<le> 1"
proof -
  obtain a b where ab: "f64_of_u64 v = Fin a" "f64_of_u64 w = Fin b" "0 \<le> a" "a \<le> b"
    using f64_of_u64_mono [OF assms(1)] by blast
  with fpos_of_u64 [OF assms(2)] have b: "0 < b" by simp
  have "0 \<le> a / b" "a / b \<le> 1" using ab b by simp_all
  then obtain r where "rnd (a / b) = Fin r" "0 \<le> r" "r \<le> 1" using rnd_between [of "a / b" 1] by auto
  with ab b show ?thesis by simp
qed

lemma times_100_percent: "0 \<le> r \<Longrightarrow> r \<le> 1 \<Longrightarrow> percent (Fin r * Fin 100)"
  using rnd_between [of "r * 100" 100] by (simp add: percent_def)

end
