(* ===== verification/Host.thy ===== *)
theory Host
  imports Go_Time Go_Maps
begin

text \<open>
  The machine the agent runs on, as the node reader sees it: what the operating system answers when
  asked for files, directories, links, file system statistics and the output of commands. A record
  stands for one collection; the next one may get another record. The operating system is not part of
  the repository, and a theorem that quantifies over the record holds for whatever it answers.
\<close>

record statfs =
  sf_Blocks :: u64
  sf_Bavail :: u64
  sf_Bsize :: u64 \<comment> \<open>\<^verbatim>\<open>uint64(stat.Bsize)\<close>\<close>
  sf_Files :: u64
  sf_Ffree :: u64

record host =
  h_readFile :: "string \<Rightarrow> goerr + string"
  h_scanErr :: "string \<Rightarrow> goerr option" \<comment> \<open>a read that fails once the file is open\<close>
  h_readDir :: "string \<Rightarrow> goerr + (string \<times> bool) list" \<comment> \<open>name and whether it is a directory\<close>
  h_glob :: "string \<Rightarrow> string list"
  h_readlink :: "string \<Rightarrow> goerr + string"
  h_exists :: "string \<Rightarrow> bool" \<comment> \<open>\<^verbatim>\<open>os.Stat\<close> answers without an error\<close>
  h_statfs :: "string \<Rightarrow> statfs option"
  h_lookPath :: "string \<Rightarrow> bool"
  h_exec :: "string \<Rightarrow> string list \<Rightarrow> goerr + string" \<comment> \<open>\<^verbatim>\<open>exec.Command(...).Output()\<close>\<close>
  h_getenv :: "string \<Rightarrow> string"
  h_platform :: platform

section \<open>Reading a file line by line\<close>

text \<open>
  \<^verbatim>\<open>bufio.Scanner\<close>: the lines it hands out and the error it ends with. A line of 64 KiB or more does not
  fit its buffer and ends the scan.
\<close>

definition max_token :: nat where
  "max_token = 65536"

definition scanLines :: "host \<Rightarrow> string \<Rightarrow> string \<Rightarrow> string list \<times> goerr option" where
  "scanLines H path raw =
     (if list_all (\<lambda>l. length l < max_token) (lines raw) then (lines raw, h_scanErr H path)
      else (takeWhile (\<lambda>l. length l < max_token) (lines raw), Some (Leaf ''bufio.Scanner: token too long'')))"

end
