(* ===== verification/Delta.thy ===== *)
theory Delta
  imports Sampler Host
begin

text \<open>
  The counter engine of the node reader and its number readers
  (\<^verbatim>\<open>internal/libvirt/metric/node/delta_engine.go\<close>).
\<close>

section \<open>Counters\<close>

record deltaSample =
  sm_value :: u64
  sm_at :: time

type_synonym delta_engine = "(string, deltaSample) gomap"

definition newDeltaEngine :: delta_engine where
  "newDeltaEngine = []"

text \<open>The answer is the delta, the seconds since the last sample, and whether the delta counts.\<close>

definition ObserveCounter :: "string \<Rightarrow> time \<Rightarrow> u64 \<Rightarrow> delta_engine \<Rightarrow> (u64 \<times> f64 \<times> bool) \<times> delta_engine" where
  "ObserveCounter key now cur e =
     (let e' = mput key \<lparr>sm_value = cur, sm_at = now\<rparr> e
      in case map_of e key of
           None \<Rightarrow> ((0, 0, False), e')
         | Some prev \<Rightarrow>
             let secs = seconds (timeSub now (sm_at prev))
             in if secs \<le> 0 then ((0, 0, False), e')
                else if cur < sm_value prev then ((0, secs, False), e')
                else ((cur - sm_value prev, secs, True), e'))"

text \<open>
  The caller's side: \<^verbatim>\<open>if delta, sec, ok := e.ObserveCounter(...); ok && sec > 0\<close>, with what is computed of
  the delta and the seconds then, and zero otherwise.
\<close>

definition whenObserved :: "(u64 \<Rightarrow> f64 \<Rightarrow> f64) \<Rightarrow> string \<Rightarrow> time \<Rightarrow> u64 \<Rightarrow> delta_engine \<Rightarrow> f64 \<times> delta_engine" where
  "whenObserved f key now cur e =
     (let ((delta, sec, ok), e') = ObserveCounter key now cur e
      in (if ok \<and> sec > 0 then f delta sec else 0, e'))"

definition deltaCounter :: "u64 \<Rightarrow> u64 \<Rightarrow> u64" where
  "deltaCounter cur prev = (if cur < prev then 0 else cur - prev)"

definition clampPercent :: "f64 \<Rightarrow> f64" where
  "clampPercent value = (if value < 0 then 0 else if value > Fin 100 then Fin 100 else value)"

definition percentDelta :: "u64 \<Rightarrow> u64 \<Rightarrow> u64 \<Rightarrow> f64" where
  "percentDelta cur prev totalDelta =
     (if totalDelta = 0 then 0
      else clampPercent (f64_of_u64 (deltaCounter cur prev) / f64_of_u64 totalDelta * Fin 100))"

definition percentOf :: "u64 \<Rightarrow> u64 \<Rightarrow> f64" where
  "percentOf value whole =
     (if whole = 0 then 0 else clampPercent (f64_of_u64 value / f64_of_u64 whole * Fin 100))"

section \<open>Reading numbers\<close>

definition parseUintFlexible :: "platform \<Rightarrow> string \<Rightarrow> u64" where
  "parseUintFlexible pf raw0 =
     (let raw = trimSpace raw0
      in if raw = [] then 0
         else let w = hd (strFields raw)
              in case parseUint w of
                   Some value \<Rightarrow> value
                 | None \<Rightarrow> (let (v, ok) = parseFloat w in if \<not> ok \<or> v < 0 then 0 else u64_of_f64 pf v))"

definition parseMHzFlexible :: "platform \<Rightarrow> string \<Rightarrow> u64" where
  "parseMHzFlexible pf raw0 =
     (let raw = trimSpace raw0
      in if raw = [] then 0
         else case strFields raw of
                [] \<Rightarrow> 0
              | w # _ \<Rightarrow> (let (v, ok) = parseFloat w in if \<not> ok \<or> v \<le> 0 then 0 else u64_of_f64 pf v))"

fun firstNonEmpty :: "string list \<Rightarrow> string" where
  "firstNonEmpty [] = []"
| "firstNonEmpty (v # vs) = (if trimSpace v \<noteq> [] then trimSpace v else firstNonEmpty vs)"

section \<open>Reading files\<close>

definition readTextFile :: "host \<Rightarrow> string \<Rightarrow> string" where
  "readTextFile H path = (case h_readFile H path of Inl _ \<Rightarrow> [] | Inr raw \<Rightarrow> trimSpace raw)"

definition readUintFile :: "host \<Rightarrow> string \<Rightarrow> u64" where
  "readUintFile H path =
     (case h_readFile H path of Inl _ \<Rightarrow> 0 | Inr raw \<Rightarrow> parseUintFlexible (h_platform H) raw)"

definition readUintSignedFile :: "host \<Rightarrow> string \<Rightarrow> u64" where
  "readUintSignedFile H path =
     (case h_readFile H path of
        Inl _ \<Rightarrow> 0
      | Inr raw \<Rightarrow>
          (let txt = trimSpace raw
           in if txt = [] then 0 else if hasPrefix txt ''-'' then 0
              else parseUintFlexible (h_platform H) txt))"

section \<open>Processes and threads\<close>

definition isPID :: "string \<Rightarrow> bool" where
  "isPID name \<longleftrightarrow> list_all is_digit name"

definition threadsOf :: "string \<Rightarrow> u64" where
  "threadsOf statusRaw =
     (case List.find (\<lambda>l. hasPrefix l ''Threads:'') (lines statusRaw) of
        None \<Rightarrow> 0
      | Some line \<Rightarrow>
          (let fs = strFields line
           in if length fs < 2 then 0
              else case parseUint (fs ! 1) of Some v \<Rightarrow> v | None \<Rightarrow> 0))"

definition countProcess :: "host \<Rightarrow> string \<times> bool \<Rightarrow> u64 \<times> u64 \<Rightarrow> u64 \<times> u64" where
  "countProcess H entry acc =
     (let (name, isDir) = entry; (procs, threads) = acc
      in if \<not> isDir then acc
         else if name = [] then acc
         else if \<not> isPID name then acc
         else case h_readFile H (''/proc/'' @ name @ ''/status'') of
                Inl _ \<Rightarrow> (procs + 1, threads)
              | Inr statusRaw \<Rightarrow> (procs + 1, threads + threadsOf statusRaw))"

definition readProcessThreadCounts :: "host \<Rightarrow> u64 \<times> u64" where
  "readProcessThreadCounts H =
     (case h_readDir H ''/proc'' of
        Inl _ \<Rightarrow> (0, 0)
      | Inr entries \<Rightarrow> fold (countProcess H) entries (0, 0))"

end
