(* ===== verification/Delta_Facts.thy ===== *)
theory Delta_Facts
  imports Delta
begin

text \<open>
  What the counter engine and the percentages guarantee: deltas are attributed to the right counter and
  add up to what the counter grew by, rates are never negative and never a NaN, and a percentage is a
  number between 0 and 100.
\<close>

section \<open>Percentages\<close>

named_theorems percents \<open>what makes a value a percentage, or a rate\<close>

lemma clampPercent_percent [percents]: "fnonneg x \<Longrightarrow> percent (clampPercent x)"
  by (cases x) (auto simp: clampPercent_def percent_def zero_f64_def)

lemma clampPercent_id: "percent x \<Longrightarrow> clampPercent x = x"
  by (auto simp: clampPercent_def percent_def zero_f64_def)

lemma fnonneg_100 [percents]: "fnonneg x \<Longrightarrow> fnonneg (x * Fin 100)"
  by (rule fnonneg_times) simp_all

lemma fnonneg_share [percents]: "w \<noteq> 0 \<Longrightarrow> fnonneg (f64_of_u64 v / f64_of_u64 w)"
  using f64_of_u64_finite [of w] by (intro fnonneg_divide fnonneg_of_u64 fpos_of_u64) auto

lemma percentOf_percent [percents]: "percent (percentOf v w)"
  by (auto simp: percentOf_def intro!: percents)

lemma percentDelta_percent [percents]: "percent (percentDelta cur prev whole)"
  by (auto simp: percentDelta_def intro!: percents)

text \<open>Without the clamp: a part of a whole is at most 100 percent already.\<close>

lemma percentOf_no_clamp:
  assumes "v \<le> w" and "w \<noteq> 0"
  shows "percentOf v w = f64_of_u64 v / f64_of_u64 w * Fin 100"
proof -
  obtain r where r: "f64_of_u64 v / f64_of_u64 w = Fin r" "0 \<le> r" "r \<le> 1"
    using share_le_1 [OF assms] by blast
  show ?thesis
    using assms(2) clampPercent_id [OF times_100_percent [OF r(2,3)]] by (simp add: percentOf_def r(1))
qed

section \<open>Counters\<close>

text \<open>The engine's answer as a function of the last sample of the same counter and the new one.\<close>

definition counter_rate :: "deltaSample option \<Rightarrow> deltaSample \<Rightarrow> u64 \<times> f64 \<times> bool" where
  "counter_rate last_sample s =
     (case last_sample of
        None \<Rightarrow> (0, 0, False)
      | Some p \<Rightarrow>
          if sm_at s \<le> sm_at p then (0, 0, False)
          else if sm_value s < sm_value p then (0, seconds (timeSub (sm_at s) (sm_at p)), False)
          else (sm_value s - sm_value p, seconds (timeSub (sm_at s) (sm_at p)), True))"

definition observe_counter :: "string \<Rightarrow> deltaSample \<Rightarrow> delta_engine \<Rightarrow> (u64 \<times> f64 \<times> bool) \<times> delta_engine" where
  "observe_counter k s = ObserveCounter k (sm_at s) (sm_value s)"

lemma secs_le_0: "seconds (timeSub t u) \<le> 0 \<longleftrightarrow> t \<le> u"
  using elapsed_iff [of t u] by auto

interpretation counters: sampler observe_counter map_of counter_rate
  by unfold_locales
    (auto simp: observe_counter_def ObserveCounter_def counter_rate_def secs_le_0 Let_def split: option.splits)

lemma ObserveCounter_answer:
  "fst (ObserveCounter key now cur e) = counter_rate (map_of e key) \<lparr>sm_value = cur, sm_at = now\<rparr>"
  using counters.out_law [of key "\<lparr>sm_value = cur, sm_at = now\<rparr>" e] by (simp add: observe_counter_def)

text \<open>A delta that counts comes with a positive time, so that the quotient is a rate.\<close>

lemma counter_rate_ok:
  "counter_rate p s = (d, secs, True) \<Longrightarrow> \<exists>r. secs = Fin r \<and> 0 < r"
  using elapsed_pos by (auto simp: counter_rate_def split: option.splits if_splits)

lemma ObserveCounter_rate [percents]:
  "fst (ObserveCounter key now cur e) = (d, secs, True) \<Longrightarrow> fnonneg (f64_of_u64 d / secs)"
  using counter_rate_ok [of "map_of e key" "\<lparr>sm_value = cur, sm_at = now\<rparr>" d secs]
  by (auto simp: ObserveCounter_answer intro!: fnonneg_divide fnonneg_of_u64)

lemma ObserveCounter_not_ok: "fst (ObserveCounter key now cur e) = (d, secs, False) \<Longrightarrow> d = 0"
  by (auto simp: ObserveCounter_answer counter_rate_def split: option.splits if_splits)

text \<open>
  What is computed of a counted delta: the seconds are positive, finite and not smaller than the
  smallest float, so that no product or quotient of them vanishes.
\<close>

definition tiny :: rat where
  "tiny = 2 powi (- 1074)"

lemma tiny_pos [simp]: "0 < tiny"
  by (simp add: tiny_def)

lemma rnd_tiny: "rnd x = Fin r \<Longrightarrow> 0 < r \<Longrightarrow> tiny \<le> r"
proof -
  assume r: "rnd x = Fin r" "0 < r"
  have ge: "tiny \<le> rnd_pos y" if "0 < y" "0 < rnd_pos y" for y
  proof -
    have y: "rnd_pos y = of_int (round_half_even (y / ulp y)) * ulp y" by (simp add: rnd_pos_def)
    with that(2) have "0 < round_half_even (y / ulp y)" using ulp_pos [of y] by (auto simp: zero_less_mult_iff)
    then have "1 \<le> (of_int (round_half_even (y / ulp y)) :: rat)" by simp
    then have "ulp y \<le> rnd_pos y" unfolding y by simp
    moreover have "tiny \<le> ulp y" unfolding tiny_def ulp_def powi_le_iff by simp
    ultimately show ?thesis by simp
  qed
  show ?thesis
  proof (cases "0 < x")
    case True
    then have "r = rnd_pos x" using r(1) by (auto simp: rnd_def split: if_splits)
    with ge [OF True] r(2) show ?thesis by simp
  next
    case False
    with r rnd_pos_nonneg [of "- x"] show ?thesis by (auto simp: rnd_def split: if_splits)
  qed
qed

lemma sum_tiny: "x + y = Fin r \<Longrightarrow> 0 < r \<Longrightarrow> tiny \<le> r" for x y :: f64
  by (cases x; cases y) (auto dest: rnd_tiny)

lemma seconds_tiny: "seconds d = Fin r \<Longrightarrow> 0 < r \<Longrightarrow> tiny \<le> r"
  unfolding seconds_def Let_def by (rule sum_tiny)

lemma whenObserved_cases:
  assumes "P 0" and "\<And>delta r. 0 < r \<Longrightarrow> tiny \<le> r \<Longrightarrow> P (f delta (Fin r))"
  shows "P (fst (whenObserved f key now cur e))"
proof -
  obtain d secs ok e' where run: "ObserveCounter key now cur e = ((d, secs, ok), e')" by (metis prod_cases4 prod.collapse)
  then have rate: "counter_rate (map_of e key) \<lparr>sm_value = cur, sm_at = now\<rparr> = (d, secs, ok)"
    using ObserveCounter_answer [of key now cur e] by simp
  show ?thesis
  proof (cases ok)
    case True
    with rate obtain r where r: "secs = Fin r" "0 < r" by (auto dest: counter_rate_ok)
    from rate True have "\<exists>p. secs = seconds (timeSub now p)"
      by (auto simp: counter_rate_def split: option.splits if_splits)
    with r have "tiny \<le> r" using seconds_tiny by metis
    with assms r run show ?thesis by (simp add: whenObserved_def)
  qed (simp add: whenObserved_def run assms(1))
qed

lemma fnonneg_perSec [percents]: "0 < r \<Longrightarrow> fnonneg (f64_of_u64 d / Fin r)"
  by (rule fnonneg_divide [OF fnonneg_of_u64]) simp_all

lemma fnonneg_divide_Fin [percents]: "fnonneg x \<Longrightarrow> 0 < r \<Longrightarrow> fnonneg (x / Fin r)"
  by (rule fnonneg_divide) simp_all

lemmas [percents] = fnonneg_add fnonneg_of_u64

text \<open>Over a counter that grows and a clock that advances, the deltas telescope.\<close>

definition growing :: "deltaSample list \<Rightarrow> bool" where
  "growing ss \<longleftrightarrow> sorted_wrt (\<lambda>p s. sm_at p < sm_at s \<and> sm_value p \<le> sm_value s) ss"

lemma series_telescopes:
  assumes "growing (p # ss)"
  shows "(\<Sum>(d, secs, ok) \<leftarrow> series counter_rate (Some p) ss. unat d) =
      unat (sm_value (last (p # ss))) - unat (sm_value p)
    \<and> (\<forall>(d, secs, ok) \<in> set (series counter_rate (Some p) ss). ok)
    \<and> unat (sm_value p) \<le> unat (sm_value (last (p # ss)))"
  using assms
proof (induction ss arbitrary: p)
  case (Cons s ss)
  from Cons.prems have g: "growing (s # ss)" "sm_at p < sm_at s" "sm_value p \<le> sm_value s"
    by (auto simp: growing_def)
  have le: "unat (sm_value p) \<le> unat (sm_value s)" using g(3) by (simp add: word_le_nat_alt)
  have head: "counter_rate (Some p) s = (sm_value s - sm_value p, seconds (timeSub (sm_at s) (sm_at p)), True)"
    using g by (simp add: counter_rate_def)
  show ?case using Cons.IH [OF g(1)] le g(3) by (simp add: head unat_sub_le)
qed simp

text \<open>
  C19. The counter engine neither loses nor invents traffic, and never mixes counters up: over any
  interleaving of observations of any number of counters, the deltas it answers for one counter that
  grows under an advancing clock add up to exactly what that counter grew by between its first and its
  last observation; the first observation counts nothing and all the others count.
\<close>

theorem counter_deltas_conserve:
  assumes "of_key k xs = s # ss" and "growing (s # ss)"
  shows "\<exists>answers. of_key k (fst (observe_all observe_counter xs newDeltaEngine)) = (0, 0, False) # answers \<and>
    (\<forall>(d, secs, ok) \<in> set answers. ok) \<and>
    (\<Sum>(d, secs, ok) \<leftarrow> answers. unat d) = unat (sm_value (last (s # ss))) - unat (sm_value s)"
proof -
  have "of_key k (fst (observe_all observe_counter xs newDeltaEngine)) =
      counter_rate None s # series counter_rate (Some s) ss"
    using counters.key_series [of k xs newDeltaEngine] assms(1) by (simp add: newDeltaEngine_def)
  moreover have "counter_rate None s = (0, 0, False)" by (simp add: counter_rate_def)
  ultimately show ?thesis using series_telescopes [OF assms(2)] by auto
qed

theorem counter_deltas_conserve_witness:
  "\<exists>answers. (\<Sum>(d, secs, ok) \<leftarrow> answers. unat d) = (500 :: nat) \<and>
     of_key ''rx'' (fst (observe_all observe_counter
       [(''rx'', \<lparr>sm_value = 1000, sm_at = 0\<rparr>), (''tx'', \<lparr>sm_value = 7, sm_at = 1\<rparr>),
        (''rx'', \<lparr>sm_value = 1500, sm_at = 2000000000\<rparr>)] newDeltaEngine)) = (0, 0, False) # answers"
  using counter_deltas_conserve [of "''rx''"
      "[(''rx'', \<lparr>sm_value = 1000, sm_at = 0\<rparr>), (''tx'', \<lparr>sm_value = 7, sm_at = 1\<rparr>),
        (''rx'', \<lparr>sm_value = 1500, sm_at = 2000000000\<rparr>)]"
      "\<lparr>sm_value = 1000, sm_at = 0\<rparr>" "[\<lparr>sm_value = 1500, sm_at = 2000000000\<rparr>]"]
  by (auto simp: growing_def simp del: observe_all.simps)

end
