(* ===== verification/VM_Metrics.thy ===== *)
theory VM_Metrics
  imports Delta_Facts Model_Types
begin

text \<open>
  The reader of virtual machine metrics (\<^verbatim>\<open>internal/libvirt/metric/vm/vm_metrics.go\<close>): the conversion of
  libvirt's typed parameters, the rates it computes from the samples it keeps per machine, and the two
  collections. The names of libvirt's statistics are constants of the libvirt package and are a
  parameter here; so is the order in which Go ranges over a map it just built.
\<close>

section \<open>Typed parameters\<close>

text \<open>The Go value of a typed parameter, by its dynamic type.\<close>

datatype param_value =
  PU64 u64 | PU32 u32 | PU16 u16 | PU8 u8 | PI64 "64 word" | PI32 "32 word" | PInt "64 word"
| PF64 f64 | PF32 f64 | PStr string | POther

definition asUint64 :: "platform \<Rightarrow> param_value \<Rightarrow> u64" where
  "asUint64 pf v =
     (case v of
        PU64 t \<Rightarrow> t
      | PU32 t \<Rightarrow> ucast t
      | PU16 t \<Rightarrow> ucast t
      | PU8 t \<Rightarrow> ucast t
      | PI64 t \<Rightarrow> if sint t < 0 then 0 else t
      | PI32 t \<Rightarrow> if sint t < 0 then 0 else ucast t
      | PInt t \<Rightarrow> if sint t < 0 then 0 else t
      | PF64 t \<Rightarrow> if t < 0 then 0 else u64_of_f64 pf t
      | PF32 t \<Rightarrow> if t < 0 then 0 else u64_of_f64 pf t
      | _ \<Rightarrow> 0)"

definition domainStateString :: "u64 \<Rightarrow> string" where
  "domainStateString v =
     (if v = 0 then ''nostate'' else if v = 1 then ''running'' else if v = 2 then ''blocked''
      else if v = 3 then ''paused'' else if v = 4 then ''shutdown'' else if v = 5 then ''shutoff''
      else if v = 6 then ''crashed'' else if v = 7 then ''pmsuspended'' else ''unknown'')"

text \<open>\<^verbatim>\<open>%0nx\<close>: lower-case hexadecimal digits of a number, at least \<open>n\<close> of them.\<close>

text \<open>The bytes of a number, the first one highest, as the shifts and ors of the code put them.\<close>

definition bytes_val :: "u8 list \<Rightarrow> nat" where
  "bytes_val bs = foldl (\<lambda>v b. 256 * v + unat b) 0 bs"

definition uuidToString :: "u8 list \<Rightarrow> string" where
  "uuidToString u =
     (if length u \<noteq> 16 then []
      else hex_fixed 8 (bytes_val (take 4 u)) @ ''-'' @
           hex_fixed 4 (bytes_val (take 2 (drop 4 u))) @ ''-'' @
           hex_fixed 4 (bytes_val (take 2 (drop 6 u))) @ ''-'' @
           hex_fixed 4 (bytes_val (take 2 (drop 8 u))) @ ''-'' @
           hex_fixed 12 (bytes_val (drop 10 u)))"

section \<open>Rates\<close>

record vmSample =
  smp_cpuNs :: u64
  smp_at :: time

record vmLiteSample =
  sml_netRXBytes :: u64
  sml_netTXBytes :: u64
  sml_at :: time

record vmRuntimeSample =
  smr_diskReadBytes :: u64
  smr_diskWriteBytes :: u64
  smr_diskReadReqs :: u64
  smr_diskWriteReqs :: u64
  smr_netRXBytes :: u64
  smr_netTXBytes :: u64
  smr_netRXPkts :: u64
  smr_netTXPkts :: u64
  smr_at :: time

record vm_reader =
  vmr_prev :: "(string, vmSample) gomap"
  vmr_prevLite :: "(string, vmLiteSample) gomap"
  vmr_prevRuntime :: "(string, vmRuntimeSample) gomap"
  vmr_cores :: f64

definition NewVMMetricsReader :: "platform \<Rightarrow> vm_reader" where
  "NewVMMetricsReader pf =
     \<lparr>vmr_prev = [], vmr_prevLite = [], vmr_prevRuntime = [], vmr_cores = f64_of_int (num_cpu pf)\<rparr>"

definition deltaPerSec :: "u64 \<Rightarrow> u64 \<Rightarrow> f64 \<Rightarrow> f64" where
  "deltaPerSec current previous dt =
     (if current \<le> previous \<or> dt \<le> 0 then 0 else f64_of_u64 (current - previous) / dt)"

definition vmPercentOf :: "u64 \<Rightarrow> u64 \<Rightarrow> f64" where
  "vmPercentOf used whole =
     (if whole = 0 then 0
      else let p = f64_of_u64 used / f64_of_u64 whole * Fin 100
           in if p < 0 then 0 else if p > Fin 100 then Fin 100 else p)"

definition computeCPU :: "string \<Rightarrow> u64 \<Rightarrow> time \<Rightarrow> vm_reader \<Rightarrow> f64 \<times> vm_reader" where
  "computeCPU vmID cpuNs ts r =
     (let r' = r\<lparr>vmr_prev := mput vmID \<lparr>smp_cpuNs = cpuNs, smp_at = ts\<rparr> (vmr_prev r)\<rparr>
      in case map_of (vmr_prev r) vmID of
           None \<Rightarrow> (0, r')
         | Some prev \<Rightarrow>
             if cpuNs \<le> smp_cpuNs prev then (0, r')
             else let dt = seconds (timeSub ts (smp_at prev))
                  in if dt \<le> 0 then (0, r')
                     else let cpuDeltaSeconds = f64_of_u64 (cpuNs - smp_cpuNs prev) / Fin 1000000000;
                              usage = (cpuDeltaSeconds / dt) * (Fin 100 / vmr_cores r)
                          in if usage < 0 then (0, r') else if usage > Fin 100 then (Fin 100, r')
                             else (usage, r'))"

definition computeLiteNetRates :: "string \<Rightarrow> u64 \<Rightarrow> u64 \<Rightarrow> time \<Rightarrow> vm_reader \<Rightarrow> (f64 \<times> f64) \<times> vm_reader" where
  "computeLiteNetRates vmID netRXBytes netTXBytes ts r =
     (let r' = r\<lparr>vmr_prevLite := mput vmID
                  \<lparr>sml_netRXBytes = netRXBytes, sml_netTXBytes = netTXBytes, sml_at = ts\<rparr> (vmr_prevLite r)\<rparr>
      in case map_of (vmr_prevLite r) vmID of
           None \<Rightarrow> ((0, 0), r')
         | Some prev \<Rightarrow>
             let dt = seconds (timeSub ts (sml_at prev))
             in if dt \<le> 0 then ((0, 0), r')
                else ((deltaPerSec netRXBytes (sml_netRXBytes prev) dt,
                       deltaPerSec netTXBytes (sml_netTXBytes prev) dt), r'))"

text \<open>The eight rates of a runtime sample, in the order the code answers them.\<close>

type_synonym runtime_rates = "f64 \<times> f64 \<times> f64 \<times> f64 \<times> f64 \<times> f64 \<times> f64 \<times> f64"

definition computeRuntimeRates :: "string \<Rightarrow> vmRuntimeSample \<Rightarrow> vm_reader \<Rightarrow> runtime_rates \<times> vm_reader" where
  "computeRuntimeRates vmID current r =
     (let r' = r\<lparr>vmr_prevRuntime := mput vmID current (vmr_prevRuntime r)\<rparr>;
          zeros = (0, 0, 0, 0, 0, 0, 0, 0)
      in case map_of (vmr_prevRuntime r) vmID of
           None \<Rightarrow> (zeros, r')
         | Some prev \<Rightarrow>
             let dt = seconds (timeSub (smr_at current) (smr_at prev));
                 rate = (\<lambda>f. deltaPerSec (f current) (f prev) dt)
             in if dt \<le> 0 then (zeros, r')
                else ((rate smr_diskReadBytes, rate smr_diskWriteBytes, rate smr_diskReadReqs,
                       rate smr_diskWriteReqs, rate smr_netRXBytes, rate smr_netTXBytes,
                       rate smr_netRXPkts, rate smr_netTXPkts), r'))"

section \<open>Sums and disks\<close>

definition sumStep :: "string \<Rightarrow> string \<Rightarrow> string \<times> u64 \<Rightarrow> u64 \<times> u64 \<Rightarrow> u64 \<times> u64" where
  "sumStep readSuffix writeSuffix kv acc =
     (let (k, v) = kv; (read, write) = acc
      in if hasSuffix k readSuffix then (read + v, write)
         else if hasSuffix k writeSuffix then (read, write + v) else acc)"

definition sumBySuffix :: "(string, u64) gomap \<Rightarrow> string \<Rightarrow> string \<Rightarrow> u64 \<times> u64" where
  "sumBySuffix flds readSuffix writeSuffix = fold (sumStep readSuffix writeSuffix) flds (0, 0)"

text \<open>The names of libvirt's statistics.\<close>

record stat_names =
  sn_State :: string
  sn_CPUTime :: string
  sn_BalloonCurrent :: string
  sn_BalloonMaximum :: string
  sn_VCPUCurrent :: string
  sn_RxBytes :: string
  sn_TxBytes :: string
  sn_RxPkts :: string
  sn_TxPkts :: string
  sn_RxErrs :: string
  sn_TxErrs :: string
  sn_RdBytes :: string
  sn_WrBytes :: string
  sn_RdReqs :: string
  sn_WrReqs :: string
  sn_BlockName :: string
  sn_Capacity :: string
  sn_Allocation :: string

definition nameEntry :: "string \<Rightarrow> string \<Rightarrow> string \<times> string \<Rightarrow> (string, string) gomap \<Rightarrow> (string, string) gomap" where
  "nameEntry suffix prefix kv m =
     (let (key, val) = kv
      in if hasPrefix key prefix \<and> hasSuffix key suffix
         then let idx = trimSuffix (trimPrefix key prefix) suffix
              in if idx \<noteq> [] then mput idx (trimSpace val) m else m
         else m)"

definition nameByIndex :: "string \<Rightarrow> (string, string) gomap \<Rightarrow> (string, string) gomap" where
  "nameByIndex suffix strs =
     fold (\<lambda>kv m. nameEntry suffix ''block.count.'' kv (nameEntry suffix ''block.'' kv m)) strs []"

definition diskMetric :: "stat_names \<Rightarrow> (string, u64) gomap \<Rightarrow> string \<times> string \<Rightarrow> VMRuntimeDiskMetric" where
  "diskMetric N uints entry =
     (let (idx, name) = entry;
          get = (\<lambda>suffix. mget 0 uints (''block.'' @ idx @ suffix) + mget 0 uints (''block.count.'' @ idx @ suffix))
      in \<lparr>vrd_Name = (if name = [] then ''disk'' @ idx else name), vrd_ReadBytesPerSec = 0,
          vrd_WriteBytesPerSec = 0, vrd_UtilPercent = 0,
          vrd_FSUsagePercent = vmPercentOf (get (sn_Allocation N)) (get (sn_Capacity N))\<rparr>)"

definition buildPerDiskMetrics ::
    "stat_names \<Rightarrow> ((string, string) gomap \<Rightarrow> (string, string) gomap) \<Rightarrow> (string, u64) gomap \<Rightarrow>
     (string, string) gomap \<Rightarrow> VMRuntimeDiskMetric list" where
  "buildPerDiskMetrics N order uints strs =
     (let names = nameByIndex (sn_BlockName N) strs
      in if names = [] then [] else map (diskMetric N uints) (order names))"

section \<open>Collections\<close>

record stats_record =
  sr_Name :: string
  sr_UUID :: "u8 list" \<comment> \<open>a Go array of 16 bytes\<close>
  sr_Params :: "(string \<times> param_value) list"

text \<open>What one collection reads: libvirt's answers, the time, the load file, and Go's map order.\<close>

record 'd collect_env =
  ce_client :: "goerr option"
  ce_domains :: "goerr + 'd list"
  ce_stats :: "'d list \<Rightarrow> goerr + stats_record list"
  ce_now :: time
  ce_loadavg :: "goerr + string"
  ce_order :: "(string, string) gomap \<Rightarrow> (string, string) gomap"
  ce_names :: stat_names
  ce_platform :: platform

definition readLoadAvgVM :: "goerr + string \<Rightarrow> f64 \<times> f64 \<times> f64" where
  "readLoadAvgVM file =
     (case file of
        Inl _ \<Rightarrow> (0, 0, 0)
      | Inr raw \<Rightarrow>
          (let parts = strFields raw
           in if length parts < 3 then (0, 0, 0)
              else (fst (parseFloat (parts ! 0)), fst (parseFloat (parts ! 1)), fst (parseFloat (parts ! 2)))))"

definition liteParam :: "'d collect_env \<Rightarrow> string \<times> param_value \<Rightarrow> string \<times> (string, u64) gomap \<Rightarrow>
    string \<times> (string, u64) gomap" where
  "liteParam E p acc =
     (let (f, v) = p; (st, flds) = acc
      in if equalFold f (sn_State (ce_names E)) then (domainStateString (asUint64 (ce_platform E) v), flds)
         else (st, mput f (asUint64 (ce_platform E) v) flds))"

definition liteMetric :: "'d collect_env \<Rightarrow> string \<Rightarrow> stats_record \<Rightarrow> vm_reader \<Rightarrow> VMMetrics \<times> vm_reader" where
  "liteMetric E nodeID rec r =
     (let N = ce_names E; now = ce_now E;
          vmID = uuidToString (sr_UUID rec);
          (st, flds) = fold (liteParam E) (sr_Params rec) (''unknown'', []);
          (cpuPct, r1) = computeCPU vmID (mget 0 flds (sn_CPUTime N)) now r;
          ramUsed = mget 0 flds (sn_BalloonCurrent N) * 1024;
          ramMax = mget 0 flds (sn_BalloonMaximum N) * 1024;
          ramTotal = (if ramMax = 0 then ramUsed else ramMax);
          (netRx, netTx) = sumBySuffix flds (sn_RxBytes N) (sn_TxBytes N);
          ((netRxPS, netTxPS), r2) = computeLiteNetRates vmID netRx netTx now r1
      in (\<lparr>vl_NodeID = nodeID, vl_VMID = vmID, vl_VMName = sr_Name rec, vl_State = st,
           vl_TimestampUnix = unixSeconds now, vl_CPUUsagePct = cpuPct,
           vl_VCPUCount = mget 0 flds (sn_VCPUCurrent N), vl_RAMUsedBytes = ramUsed,
           vl_RAMTotalBytes = ramTotal, vl_NetRxBytesPerSec = netRxPS, vl_NetTxBytesPerSec = netTxPS\<rparr>, r2))"

definition readRecords :: "'d collect_env \<Rightarrow> goerr + stats_record list" where
  "readRecords E =
     (case ce_client E of
        Some err \<Rightarrow> Inl err
      | None \<Rightarrow>
          (case ce_domains E of
             Inl err \<Rightarrow> Inl (wrap ''ConnectListAllDomains: '' err)
           | Inr doms \<Rightarrow>
               if doms = [] then Inr []
               else case ce_stats E doms of
                      Inl err \<Rightarrow> Inl (wrap ''ConnectGetAllDomainStats: '' err)
                    | Inr records \<Rightarrow> Inr records))"

definition CollectVM :: "'d collect_env \<Rightarrow> string \<Rightarrow> vm_reader \<Rightarrow> (goerr + VMMetrics list) \<times> vm_reader" where
  "CollectVM E nodeID r =
     (case readRecords E of
        Inl err \<Rightarrow> (Inl err, r)
      | Inr records \<Rightarrow> (let (out, r') = mapReader (liteMetric E nodeID) records r in (Inr out, r')))"

definition runtimeParam :: "'d collect_env \<Rightarrow> string \<times> param_value \<Rightarrow>
    string \<times> (string, u64) gomap \<times> (string, string) gomap \<Rightarrow>
    string \<times> (string, u64) gomap \<times> (string, string) gomap" where
  "runtimeParam E p acc =
     (let (f, v) = p; (st, uints, strs) = acc; u = asUint64 (ce_platform E) v;
          st' = (if equalFold f (sn_State (ce_names E)) then domainStateString u else st)
      in case v of PStr s \<Rightarrow> (st', uints, mput f s strs) | _ \<Rightarrow> (st', mput f u uints, strs))"

definition runtimeMetric ::
    "'d collect_env \<Rightarrow> string \<Rightarrow> stats_record \<Rightarrow> vm_reader \<Rightarrow> VMRuntimeMetrics \<times> vm_reader" where
  "runtimeMetric E nodeID rec r =
     (let N = ce_names E; now = ce_now E;
          (load1, load5, load15) = readLoadAvgVM (ce_loadavg E);
          vmID = uuidToString (sr_UUID rec);
          (st, uints, strs) = fold (runtimeParam E) (sr_Params rec) (''unknown'', [], []);
          (cpuPct, r1) = computeCPU vmID (mget 0 uints (sn_CPUTime N)) now r;
          ramUsed = mget 0 uints (sn_BalloonCurrent N) * 1024;
          ramMax = mget 0 uints (sn_BalloonMaximum N) * 1024;
          ramTotal = (if ramMax = 0 then ramUsed else ramMax);
          (diskReadTotal, diskWriteTotal) = sumBySuffix uints (sn_RdBytes N) (sn_WrBytes N);
          (diskReadReqsTotal, diskWriteReqsTotal) = sumBySuffix uints (sn_RdReqs N) (sn_WrReqs N);
          (netRXTotal, netTXTotal) = sumBySuffix uints (sn_RxBytes N) (sn_TxBytes N);
          (netRXPktsTotal, netTXPktsTotal) = sumBySuffix uints (sn_RxPkts N) (sn_TxPkts N);
          (netRXErrTotal, netTXErrTotal) = sumBySuffix uints (sn_RxErrs N) (sn_TxErrs N);
          ((dReadPS, dWritePS, dReadIOPS, dWriteIOPS, nRXPS, nTXPS, nRXPktPS, nTXPktPS), r2) =
            computeRuntimeRates vmID
              \<lparr>smr_diskReadBytes = diskReadTotal, smr_diskWriteBytes = diskWriteTotal,
               smr_diskReadReqs = diskReadReqsTotal, smr_diskWriteReqs = diskWriteReqsTotal,
               smr_netRXBytes = netRXTotal, smr_netTXBytes = netTXTotal,
               smr_netRXPkts = netRXPktsTotal, smr_netTXPkts = netTXPktsTotal, smr_at = now\<rparr> r1
      in (\<lparr>vr_NodeID = nodeID, vr_VMID = vmID, vr_VMName = sr_Name rec, vr_TimestampUnix = unixSeconds now,
           vr_CPUUsagePercent = cpuPct, vr_CPUStealPercent = 0,
           vr_VCPUCount = mget 0 uints (sn_VCPUCurrent N),
           vr_Load1 = load1, vr_Load5 = load5, vr_Load15 = load15,
           vr_RAMTotalBytes = ramTotal, vr_RAMUsedBytes = ramUsed,
           vr_RAMUsagePercent = vmPercentOf ramUsed ramTotal,
           vr_SwapUsedBytes = 0, vr_SwapUsagePercent = 0,
           vr_DiskReadBytesPerSec = dReadPS, vr_DiskWriteBytesPerSec = dWritePS,
           vr_DiskReadIOPS = dReadIOPS, vr_DiskWriteIOPS = dWriteIOPS, vr_DiskUtilPercent = 0,
           vr_DiskReadBytesTotal = diskReadTotal, vr_DiskWriteBytesTotal = diskWriteTotal,
           vr_Disks = buildPerDiskMetrics N (ce_order E) uints strs,
           vr_NetRxBytesPerSec = nRXPS, vr_NetTxBytesPerSec = nTXPS,
           vr_NetRxPacketsPerSec = nRXPktPS, vr_NetTxPacketsPerSec = nTXPktPS,
           vr_NetRxErrors = netRXErrTotal, vr_NetTxErrors = netTXErrTotal,
           vr_NetRxBytesTotal = netRXTotal, vr_NetTxBytesTotal = netTXTotal,
           vr_GPUCount = 0, vr_GPUUtilPercent = 0, vr_GPUMemoryUsedBytes = 0,
           vr_GPUMemoryTotalBytes = 0, vr_GPUMemoryUtilPercent = 0, vr_GPUProcessCount = 0, vr_GPUs = [],
           vr_VMState = st, vr_UptimeSeconds = mget 0 uints ''state.state_time''\<rparr>, r2))"

definition CollectRuntime ::
    "'d collect_env \<Rightarrow> string \<Rightarrow> vm_reader \<Rightarrow> (goerr + VMRuntimeMetrics list) \<times> vm_reader" where
  "CollectRuntime E nodeID r =
     (case readRecords E of
        Inl err \<Rightarrow> (Inl err, r)
      | Inr records \<Rightarrow> (let (out, r') = mapReader (runtimeMetric E nodeID) records r in (Inr out, r')))"

end
