(* ===== verification/Node_State.thy ===== *)
theory Node_State
  imports Delta
begin

text \<open>
  The state of the node reader and the data its parts hand to each other
  (\<^verbatim>\<open>internal/libvirt/metric/node/reader_state.go\<close>, and \<^verbatim>\<open>CPUCounters\<close> of \<^verbatim>\<open>internal/system/cpu.go\<close>),
  with Go's zero value of each record that the code creates empty.
\<close>

text \<open>Go's zero \<^verbatim>\<open>time.Time\<close>: January 1 of the year 1.\<close>

definition zero_time :: time where
  "zero_time = - 62135596800000000000"

record CPUCounters =
  cc_User :: u64
  cc_Nice :: u64
  cc_System :: u64
  cc_Idle :: u64
  cc_IOWait :: u64
  cc_IRQ :: u64
  cc_SoftIRQ :: u64
  cc_Steal :: u64
  cc_Total :: u64

definition zero_CPUCounters :: CPUCounters where
  "zero_CPUCounters =
   \<lparr>cc_User = 0, cc_Nice = 0, cc_System = 0, cc_Idle = 0, cc_IOWait = 0, cc_IRQ = 0,
    cc_SoftIRQ = 0, cc_Steal = 0, cc_Total = 0\<rparr>"

record cpuStaticInfo =
  csi_ModelName :: string
  csi_Vendor :: string
  csi_Architecture :: string
  csi_VirtualizationSupport :: string
  csi_CacheL1 :: string
  csi_CacheL2 :: string
  csi_CacheL3 :: string
  csi_FreqMinMhz :: u64
  csi_FreqMaxMhz :: u64
  csi_CoreCountPhysical :: u64
  csi_ThreadCountLogical :: u64
  csi_SocketCount :: u64

definition zero_cpuStaticInfo :: cpuStaticInfo where
  "zero_cpuStaticInfo =
   \<lparr>csi_ModelName = [], csi_Vendor = [], csi_Architecture = [],
    csi_VirtualizationSupport = [], csi_CacheL1 = [], csi_CacheL2 = [], csi_CacheL3 = [],
    csi_FreqMinMhz = 0, csi_FreqMaxMhz = 0, csi_CoreCountPhysical = 0, csi_ThreadCountLogical = 0,
    csi_SocketCount = 0\<rparr>"

record procCPUSnapshot =
  pcs_CapturedAt :: time
  pcs_Aggregate :: CPUCounters
  pcs_PerCore :: "CPUCounters list"
  pcs_ContextSwitches :: u64
  pcs_Interrupts :: u64
  pcs_ProcsRunning :: u64

definition zero_procCPUSnapshot :: procCPUSnapshot where
  "zero_procCPUSnapshot =
   \<lparr>pcs_CapturedAt = zero_time, pcs_Aggregate = zero_CPUCounters, pcs_PerCore = [],
    pcs_ContextSwitches = 0, pcs_Interrupts = 0, pcs_ProcsRunning = 0\<rparr>"

record cpuRealtimeMetrics =
  crm_TotalPercent :: f64
  crm_UserPercent :: f64
  crm_SystemPercent :: f64
  crm_IdlePercent :: f64
  crm_IOWaitPercent :: f64
  crm_StealPercent :: f64
  crm_IRQPercent :: f64
  crm_SoftIRQPercent :: f64
  crm_NicePercent :: f64
  crm_PerCoreUsagePct :: "f64 list"
  crm_ContextSwitchesSec :: f64
  crm_InterruptsSec :: f64

definition zero_cpuRealtimeMetrics :: cpuRealtimeMetrics where
  "zero_cpuRealtimeMetrics =
   \<lparr>crm_TotalPercent = 0, crm_UserPercent = 0, crm_SystemPercent = 0, crm_IdlePercent = 0,
    crm_IOWaitPercent = 0, crm_StealPercent = 0, crm_IRQPercent = 0, crm_SoftIRQPercent = 0,
    crm_NicePercent = 0, crm_PerCoreUsagePct = [], crm_ContextSwitchesSec = 0, crm_InterruptsSec = 0\<rparr>"

record loadAverage =
  la_Load1 :: f64
  la_Load5 :: f64
  la_Load15 :: f64
  la_RunQueueDepth :: u64

definition zero_loadAverage :: loadAverage where
  "zero_loadAverage =
   \<lparr>la_Load1 = 0, la_Load5 = 0, la_Load15 = 0, la_RunQueueDepth = 0\<rparr>"

record memoryInfoProc =
  mip_TotalBytes :: u64
  mip_UsedBytes :: u64
  mip_FreeBytes :: u64
  mip_AvailableBytes :: u64
  mip_CachedBytes :: u64
  mip_BufferBytes :: u64
  mip_SharedBytes :: u64
  mip_SlabBytes :: u64
  mip_ActiveBytes :: u64
  mip_InactiveBytes :: u64
  mip_DirtyBytes :: u64
  mip_WritebackBytes :: u64
  mip_SwapTotalBytes :: u64
  mip_SwapUsedBytes :: u64
  mip_SwapFreeBytes :: u64
  mip_HugePagesTotal :: u64
  mip_HugePagesUsed :: u64
  mip_HugePagesFree :: u64
  mip_HugePageSizeByte :: u64

definition zero_memoryInfoProc :: memoryInfoProc where
  "zero_memoryInfoProc =
   \<lparr>mip_TotalBytes = 0, mip_UsedBytes = 0, mip_FreeBytes = 0, mip_AvailableBytes = 0,
    mip_CachedBytes = 0, mip_BufferBytes = 0, mip_SharedBytes = 0, mip_SlabBytes = 0,
    mip_ActiveBytes = 0, mip_InactiveBytes = 0, mip_DirtyBytes = 0, mip_WritebackBytes = 0,
    mip_SwapTotalBytes = 0, mip_SwapUsedBytes = 0, mip_SwapFreeBytes = 0, mip_HugePagesTotal = 0,
    mip_HugePagesUsed = 0, mip_HugePagesFree = 0, mip_HugePageSizeByte = 0\<rparr>"

record vmStatSnapshot =
  vss_CollectedAt :: time
  vss_PageFaults :: u64
  vss_MajorPageFaults :: u64
  vss_SwapInPages :: u64
  vss_SwapOutPages :: u64
  vss_OOMKillCount :: u64

definition zero_vmStatSnapshot :: vmStatSnapshot where
  "zero_vmStatSnapshot =
   \<lparr>vss_CollectedAt = zero_time, vss_PageFaults = 0, vss_MajorPageFaults = 0, vss_SwapInPages = 0,
    vss_SwapOutPages = 0, vss_OOMKillCount = 0\<rparr>"

record memoryRateMetrics =
  mrm_SwapInBytesPerSec :: f64
  mrm_SwapOutBytesPerSec :: f64
  mrm_PageFaultsPerSec :: f64
  mrm_MajorPageFaultsPerSec :: f64
  mrm_OOMKillCount :: u64

definition zero_memoryRateMetrics :: memoryRateMetrics where
  "zero_memoryRateMetrics =
   \<lparr>mrm_SwapInBytesPerSec = 0, mrm_SwapOutBytesPerSec = 0, mrm_PageFaultsPerSec = 0,
    mrm_MajorPageFaultsPerSec = 0, mrm_OOMKillCount = 0\<rparr>"

record memoryModuleInfo =
  mmi_Slot :: string
  mmi_SizeBytes :: u64
  mmi_SpeedMhz :: u64
  mmi_Type :: string
  mmi_Model :: string
  mmi_Manufacturer :: string
  mmi_PartNumber :: string
  mmi_Serial :: string

definition zero_memoryModuleInfo :: memoryModuleInfo where
  "zero_memoryModuleInfo =
   \<lparr>mmi_Slot = [], mmi_SizeBytes = 0, mmi_SpeedMhz = 0, mmi_Type = [], mmi_Model = [],
    mmi_Manufacturer = [], mmi_PartNumber = [], mmi_Serial = []\<rparr>"

record memoryHardwareInfo =
  mhi_StickCount :: u64
  mhi_StickSlot :: "string list"
  mhi_StickSizeBytes :: "u64 list"
  mhi_StickSpeedMhz :: "u64 list"
  mhi_StickType :: "string list"
  mhi_StickModel :: "string list"
  mhi_StickManufacturer :: "string list"
  mhi_StickPartNumber :: "string list"
  mhi_StickSerial :: "string list"
  mhi_TotalPhysicalBytes :: u64
  mhi_ECCEnabled :: bool

definition zero_memoryHardwareInfo :: memoryHardwareInfo where
  "zero_memoryHardwareInfo =
   \<lparr>mhi_StickCount = 0, mhi_StickSlot = [], mhi_StickSizeBytes = [], mhi_StickSpeedMhz = [],
    mhi_StickType = [], mhi_StickModel = [], mhi_StickManufacturer = [], mhi_StickPartNumber = [],
    mhi_StickSerial = [], mhi_TotalPhysicalBytes = 0, mhi_ECCEnabled = False\<rparr>"

record diskAggregateLite =
  dal_ReadMBS :: f64
  dal_WriteMBS :: f64
  dal_TotalMBS :: f64
  dal_UtilPercent :: f64
  dal_IOPS :: f64

definition zero_diskAggregateLite :: diskAggregateLite where
  "zero_diskAggregateLite =
   \<lparr>dal_ReadMBS = 0, dal_WriteMBS = 0, dal_TotalMBS = 0, dal_UtilPercent = 0, dal_IOPS = 0\<rparr>"

record netAggregateLite =
  nal_RxMBS :: f64
  nal_TxMBS :: f64
  nal_TotalMBS :: f64
  nal_PacketRate :: f64

definition zero_netAggregateLite :: netAggregateLite where
  "zero_netAggregateLite =
   \<lparr>nal_RxMBS = 0, nal_TxMBS = 0, nal_TotalMBS = 0, nal_PacketRate = 0\<rparr>"

record gpuAggregateLite =
  gal_Count :: u64
  gal_TotalUtil :: f64
  gal_MemoryUsedBytes :: u64
  gal_MemoryTotalByte :: u64

definition zero_gpuAggregateLite :: gpuAggregateLite where
  "zero_gpuAggregateLite =
   \<lparr>gal_Count = 0, gal_TotalUtil = 0, gal_MemoryUsedBytes = 0, gal_MemoryTotalByte = 0\<rparr>"

text \<open>The reader. Its connection is part of what \<^verbatim>\<open>Collect\<close> asks of libvirt, its logger writes nothing back.\<close>

record node_reader =
  nr_delta :: delta_engine
  nr_prevSnapshot :: procCPUSnapshot
  nr_hasPrevSnapshot :: bool
  nr_prevVMStatSnapshot :: vmStatSnapshot
  nr_hasPrevVMStat :: bool
  nr_cpuInfoLoaded :: bool
  nr_cpuStatic :: cpuStaticInfo
  nr_memInfoLoaded :: bool
  nr_memHardware :: memoryHardwareInfo

end
