(* ===== verification/Node_CPU.thy ===== *)
theory Node_CPU
  imports Node_State Delta_Facts
begin

text \<open>
  CPU metrics of the node (\<^verbatim>\<open>internal/libvirt/metric/node/cpu_linux.go\<close>) and the counters of
  \<^verbatim>\<open>internal/system/cpu.go\<close>: reading \<^verbatim>\<open>/proc/stat\<close>, the shares of the time between two readings, the load,
  frequency, temperature, and the description of the processor.
\<close>

section \<open>Reading the counters\<close>

definition orZero :: "u64 list \<Rightarrow> nat \<Rightarrow> u64" where
  "orZero vals i = (if i < length vals then vals ! i else 0)"

definition countersOf :: "u64 list \<Rightarrow> CPUCounters" where
  "countersOf vals =
     \<lparr>cc_User = orZero vals 0, cc_Nice = orZero vals 1, cc_System = orZero vals 2, cc_Idle = orZero vals 3,
      cc_IOWait = orZero vals 4, cc_IRQ = orZero vals 5, cc_SoftIRQ = orZero vals 6, cc_Steal = orZero vals 7,
      cc_Total = fold (\<lambda>v total. total + v) vals 0\<rparr>"

fun parseStatVals :: "string list \<Rightarrow> goerr + u64 list" where
  "parseStatVals [] = Inr []"
| "parseStatVals (f # fs) =
     (case parseUint f of
        None \<Rightarrow> Inl (wrap (''parse cpu stat '' @ quoteGo f @ '': '') (parseUintErr f))
      | Some v \<Rightarrow> (case parseStatVals fs of Inl err \<Rightarrow> Inl err | Inr vs \<Rightarrow> Inr (v # vs)))"

definition parseCPUCounters :: "string list \<Rightarrow> goerr + CPUCounters" where
  "parseCPUCounters fs =
     (if length fs < 8 then Inl (Leaf (''unexpected cpu fields: ['' @ joinStr fs '' '' @ '']''))
      else case parseStatVals fs of Inl err \<Rightarrow> Inl err | Inr vals \<Rightarrow> Inr (countersOf vals))"

text \<open>One line of \<^verbatim>\<open>/proc/stat\<close>, and the whole file.\<close>

definition procStatLine :: "platform \<Rightarrow> string \<Rightarrow> procCPUSnapshot \<times> (int \<times> CPUCounters) list \<Rightarrow>
    goerr + procCPUSnapshot \<times> (int \<times> CPUCounters) list" where
  "procStatLine pf line acc =
     (let (snapshot, cores) = acc; parts = strFields (trimSpace line)
      in if trimSpace line = [] then Inr acc
         else if length parts < 2 then Inr acc
         else let key = parts ! 0
              in if key = ''cpu'' then
                   (case parseCPUCounters (tl parts) of
                      Inl err \<Rightarrow> Inl err
                    | Inr counters \<Rightarrow> Inr (snapshot\<lparr>pcs_Aggregate := counters\<rparr>, cores))
                 else if hasPrefix key ''cpu'' \<and> 3 < length key then
                   (case atoi (drop 3 key) of
                      None \<Rightarrow> Inr acc
                    | Some coreIndex \<Rightarrow>
                        (case parseCPUCounters (tl parts) of
                           Inl _ \<Rightarrow> Inr acc
                         | Inr counters \<Rightarrow> Inr (snapshot, cores @ [(coreIndex, counters)])))
                 else if key = ''ctxt'' then
                   Inr (snapshot\<lparr>pcs_ContextSwitches := parseUintFlexible pf (parts ! 1)\<rparr>, cores)
                 else if key = ''intr'' then
                   Inr (snapshot\<lparr>pcs_Interrupts := parseUintFlexible pf (parts ! 1)\<rparr>, cores)
                 else if key = ''procs_running'' then
                   Inr (snapshot\<lparr>pcs_ProcsRunning := parseUintFlexible pf (parts ! 1)\<rparr>, cores)
                 else Inr acc)"

definition readProcCPUSnapshot :: "host \<Rightarrow> time \<Rightarrow> goerr + procCPUSnapshot" where
  "readProcCPUSnapshot H now =
     (case h_readFile H ''/proc/stat'' of
        Inl err \<Rightarrow> Inl (wrap ''read /proc/stat: '' err)
      | Inr raw \<Rightarrow>
          (case foldErr (procStatLine (h_platform H)) (lines raw) (zero_procCPUSnapshot\<lparr>pcs_CapturedAt := now\<rparr>, []) of
             Inl err \<Rightarrow> Inl err
           | Inr (snapshot, cores) \<Rightarrow> Inr (snapshot\<lparr>pcs_PerCore := map snd (sort_key fst cores)\<rparr>)))"

section \<open>Shares between two readings\<close>

definition busyShares :: "CPUCounters \<Rightarrow> CPUCounters \<Rightarrow> u64 \<Rightarrow> f64" where
  "busyShares cur prev totalDelta =
     (let share = (\<lambda>f. percentDelta (f cur) (f prev) totalDelta)
      in share cc_User + share cc_System + share cc_IOWait + share cc_Steal + share cc_IRQ + share cc_SoftIRQ + share cc_Nice)"

definition coreUsage :: "CPUCounters \<Rightarrow> CPUCounters \<Rightarrow> f64" where
  "coreUsage curCore prevCore =
     (let coreTotalDelta = deltaCounter (cc_Total curCore) (cc_Total prevCore)
      in if coreTotalDelta = 0 then 0 else clampPercent (busyShares curCore prevCore coreTotalDelta))"

definition cpuShares :: "procCPUSnapshot \<Rightarrow> procCPUSnapshot \<Rightarrow> cpuRealtimeMetrics" where
  "cpuShares cur prev =
     (let c = pcs_Aggregate cur; p = pcs_Aggregate prev;
          totalDelta = deltaCounter (cc_Total c) (cc_Total p);
          share = (\<lambda>f. percentDelta (f c) (f p) totalDelta);
          secs = seconds (timeSub (pcs_CapturedAt cur) (pcs_CapturedAt prev));
          rate = (\<lambda>f. if secs > 0 then f64_of_u64 (deltaCounter (f cur) (f prev)) / secs else 0)
      in if totalDelta = 0 then zero_cpuRealtimeMetrics\<lparr>crm_PerCoreUsagePct := map (\<lambda>_. 0) (pcs_PerCore cur)\<rparr>
         else \<lparr>crm_TotalPercent = clampPercent (busyShares c p totalDelta),
               crm_UserPercent = share cc_User, crm_SystemPercent = share cc_System, crm_IdlePercent = share cc_Idle,
               crm_IOWaitPercent = share cc_IOWait, crm_StealPercent = share cc_Steal, crm_IRQPercent = share cc_IRQ,
               crm_SoftIRQPercent = share cc_SoftIRQ, crm_NicePercent = share cc_Nice,
               crm_PerCoreUsagePct = map2 coreUsage (pcs_PerCore cur) (pcs_PerCore prev),
               crm_ContextSwitchesSec = rate pcs_ContextSwitches, crm_InterruptsSec = rate pcs_Interrupts\<rparr>)"

definition computeCPURealtime :: "procCPUSnapshot \<Rightarrow> bool \<Rightarrow> node_reader \<Rightarrow> cpuRealtimeMetrics \<times> node_reader" where
  "computeCPURealtime cur snapshotReady r =
     (if \<not> snapshotReady then (zero_cpuRealtimeMetrics, r)
      else let r' = r\<lparr>nr_prevSnapshot := cur, nr_hasPrevSnapshot := True\<rparr>
           in if \<not> nr_hasPrevSnapshot r
              then (zero_cpuRealtimeMetrics\<lparr>crm_PerCoreUsagePct := map (\<lambda>_. 0) (pcs_PerCore cur)\<rparr>, r')
              else (cpuShares cur (nr_prevSnapshot r), r'))"

section \<open>Load, frequency and temperature\<close>

definition readLoadAvg :: "host \<Rightarrow> loadAverage" where
  "readLoadAvg H =
     (case h_readFile H ''/proc/loadavg'' of
        Inl _ \<Rightarrow> zero_loadAverage
      | Inr raw \<Rightarrow>
          (let fs = strFields (trimSpace raw)
           in if length fs < 4 then zero_loadAverage
              else let queueParts = splitN2 (CHR ''/'') (fs ! 3)
                   in \<lparr>la_Load1 = fst (parseFloat (fs ! 0)), la_Load5 = fst (parseFloat (fs ! 1)),
                       la_Load15 = fst (parseFloat (fs ! 2)),
                       la_RunQueueDepth =
                         (if length queueParts = 2 then parseUintFlexible (h_platform H) (queueParts ! 0) else 0)\<rparr>))"

definition cpufreqStep :: "host \<Rightarrow> string \<Rightarrow> u64 \<times> u64 \<Rightarrow> u64 \<times> u64" where
  "cpufreqStep H path acc =
     (case h_readFile H path of
        Inl _ \<Rightarrow> acc
      | Inr raw \<Rightarrow>
          (case parseUint (trimSpace raw) of
             None \<Rightarrow> acc
           | Some khz \<Rightarrow> if khz = 0 then acc else (fst acc + khz div 1000, snd acc + 1)))"

definition readFirstMHz :: "host \<Rightarrow> string \<Rightarrow> u64" where
  "readFirstMHz H globPattern =
     (let (total_mhz, cnt) = fold (cpufreqStep H) (h_glob H globPattern) (0, 0)
      in if cnt = 0 then 0 else total_mhz div cnt)"

definition keyValue :: "string \<Rightarrow> (string \<times> string) option" where
  "keyValue line = (case splitN2 (CHR '':'') line of [k, v] \<Rightarrow> Some (k, v) | _ \<Rightarrow> None)"

definition cpuinfoMHzStep :: "string \<Rightarrow> f64 \<times> f64 \<Rightarrow> f64 \<times> f64" where
  "cpuinfoMHzStep line acc =
     (case keyValue line of
        None \<Rightarrow> acc
      | Some (k, v) \<Rightarrow>
          if toLower (trimSpace k) \<noteq> ''cpu mhz'' then acc
          else let (freq, ok) = parseFloat (trimSpace v)
               in if \<not> ok \<or> freq \<le> 0 then acc else (fst acc + freq, snd acc + 1))"

definition readCPUCurrentMHz :: "host \<Rightarrow> u64 \<Rightarrow> u64" where
  "readCPUCurrentMHz H defaultMHz =
     (let c1 = readFirstMHz H ''/sys/devices/system/cpu/cpu[0-9]*/cpufreq/scaling_cur_freq'';
          current = (if c1 = 0 then readFirstMHz H ''/sys/devices/system/cpu/cpu[0-9]*/cpufreq/cpuinfo_cur_freq'' else c1)
      in if current \<noteq> 0 then current
         else case h_readFile H ''/proc/cpuinfo'' of
                Inl _ \<Rightarrow> defaultMHz
              | Inr raw \<Rightarrow>
                  (let (total_mhz, cnt) = fold cpuinfoMHzStep (lines raw) (0, 0)
                   in if cnt > 0 then u64_of_f64 (h_platform H) (total_mhz / cnt) else defaultMHz))"

definition readTemp :: "host \<Rightarrow> string \<Rightarrow> f64" where
  "readTemp H path =
     (case h_readFile H path of
        Inl _ \<Rightarrow> 0
      | Inr raw \<Rightarrow>
          if trimSpace raw = [] then 0
          else let (temp, ok) = parseFloat (trimSpace raw)
               in if \<not> ok \<or> temp \<le> 0 then 0
                  else let temp' = (if temp > Fin 1000 then temp / Fin 1000 else temp)
                       in if temp' > Fin 200 then 0 else temp')"

definition isCPUZone :: "string \<Rightarrow> bool" where
  "isCPUZone typeRaw =
     (let typeValue = toLower (trimSpace typeRaw)
      in contains typeValue ''cpu'' \<or> contains typeValue ''x86_pkg_temp'' \<or> contains typeValue ''package'')"

definition tempStep :: "host \<Rightarrow> string \<Rightarrow> f64 list \<times> f64 list \<Rightarrow> f64 list \<times> f64 list" where
  "tempStep H tempPath acc =
     (let (cpuTemps, fallbackTemps) = acc; temp = readTemp H tempPath
      in if feq temp 0 then acc
         else case h_readFile H (trimSuffix tempPath ''/temp'' @ ''/type'') of
                Inl _ \<Rightarrow> (cpuTemps, fallbackTemps @ [temp])
              | Inr typeRaw \<Rightarrow>
                  (if isCPUZone typeRaw then cpuTemps @ [temp] else cpuTemps, fallbackTemps @ [temp]))"

definition readCPUTemperatureCelsius :: "host \<Rightarrow> f64" where
  "readCPUTemperatureCelsius H =
     (let paths = h_glob H ''/sys/class/thermal/thermal_zone*/temp'';
          (cpuTemps, fallbackTemps) = fold (tempStep H) paths ([], []);
          candidates = (if cpuTemps = [] then fallbackTemps else cpuTemps)
      in if candidates = [] then 0
         else fold (\<lambda>v s. s + v) candidates 0 / f64_of_int (int (length candidates)))"

section \<open>The processor\<close>

definition lscpuStep :: "string \<Rightarrow> (string, string) gomap \<Rightarrow> (string, string) gomap" where
  "lscpuStep line m =
     (case keyValue line of
        None \<Rightarrow> m
      | Some (k, v) \<Rightarrow> if trimSpace k = [] \<or> trimSpace v = [] then m else mput (trimSpace k) (trimSpace v) m)"

definition readLscpuInfo :: "host \<Rightarrow> (string, string) gomap" where
  "readLscpuInfo H =
     (case h_exec H ''lscpu'' [] of Inl _ \<Rightarrow> [] | Inr out \<Rightarrow> fold lscpuStep (lines out) [])"

fun cpuInfoScan :: "string list \<Rightarrow> string \<times> string \<Rightarrow> string \<times> string" where
  "cpuInfoScan [] acc = acc"
| "cpuInfoScan (line # ls) (model, vendor) =
     (case keyValue line of
        None \<Rightarrow> cpuInfoScan ls (model, vendor)
      | Some (k, v) \<Rightarrow>
          (let key = toLower (trimSpace k); val = trimSpace v
           in if val = [] then cpuInfoScan ls (model, vendor)
              else let model' = (if (key = ''model name'' \<or> key = ''hardware'') \<and> model = [] then val else model);
                       vendor' = (if (key = ''vendor_id'' \<or> key = ''vendor'') \<and> vendor = [] then val else vendor)
                   in if model' \<noteq> [] \<and> vendor' \<noteq> [] then (model', vendor')
                      else cpuInfoScan ls (model', vendor')))"

definition readCPUInfoFromProc :: "host \<Rightarrow> string \<times> string" where
  "readCPUInfoFromProc H =
     (case h_readFile H ''/proc/cpuinfo'' of Inl _ \<Rightarrow> ([], []) | Inr raw \<Rightarrow> cpuInfoScan (lines raw) ([], []))"

definition virtFlag :: "string \<Rightarrow> string option" where
  "virtFlag line =
     (case keyValue line of
        None \<Rightarrow> None
      | Some (k, v) \<Rightarrow>
          (let key = toLower (trimSpace k)
           in if key \<noteq> ''flags'' \<and> key \<noteq> ''features'' then None
              else List.find (\<lambda>flag. flag = ''vmx'' \<or> flag = ''svm'') (strFields (toLower v))))"

definition readVirtualizationSupportFromProc :: "host \<Rightarrow> string" where
  "readVirtualizationSupportFromProc H =
     (case h_readFile H ''/proc/cpuinfo'' of
        Inl _ \<Rightarrow> []
      | Inr raw \<Rightarrow> (case List.map_filter virtFlag (lines raw) of [] \<Rightarrow> [] | flag # _ \<Rightarrow> flag))"

definition joinCacheL1 :: "(string, string) gomap \<Rightarrow> string" where
  "joinCacheL1 info =
     (let get = mget [] info;
          l1d = firstNonEmpty [get ''L1d cache'', get ''L1d Cache''];
          l1i = firstNonEmpty [get ''L1i cache'', get ''L1i Cache'']
      in if l1d \<noteq> [] \<and> l1i \<noteq> [] then (if l1d = l1i then l1d else l1d @ '' / '' @ l1i)
         else if l1d \<noteq> [] then l1d
         else if l1i \<noteq> [] then l1i
         else firstNonEmpty [get ''L1 cache'', get ''L1 Cache''])"

definition normalizeVirtualizationSupport :: "string \<Rightarrow> string" where
  "normalizeVirtualizationSupport val =
     (let v = toLower (trimSpace val)
      in if v = [] then []
         else if contains v ''vmx'' \<or> contains v ''vt-x'' \<or> contains v ''intel'' then ''vmx''
         else if contains v ''svm'' \<or> contains v ''amd'' \<or> contains v ''amd-v'' then ''svm''
         else v)"

definition cpuStaticOf :: "host \<Rightarrow> u64 \<Rightarrow> u64 \<Rightarrow> cpuStaticInfo" where
  "cpuStaticOf H defaultMHz defaultLogical =
     (let lscpu = readLscpuInfo H; get = mget [] lscpu; pf = h_platform H;
          (modelFromProc, vendorFromProc) = readCPUInfoFromProc H;
          threads0 = parseUintFlexible pf (get ''CPU(s)'');
          threads = (if threads0 = 0 then defaultLogical else threads0);
          sockets = parseUintFlexible pf (get ''Socket(s)'');
          coresPerSocket = parseUintFlexible pf (get ''Core(s) per socket'');
          cores0 = (if sockets > 0 \<and> coresPerSocket > 0 then sockets * coresPerSocket else 0);
          min0 = parseMHzFlexible pf (firstNonEmpty [get ''CPU min MHz'', get ''CPU Min MHz'']);
          max0 = parseMHzFlexible pf (firstNonEmpty [get ''CPU max MHz'', get ''CPU Max MHz'']);
          freqMin = (if min0 = 0 then defaultMHz else min0);
          freqMax = (if max0 = 0 then defaultMHz else max0)
      in \<lparr>csi_ModelName = firstNonEmpty [get ''Model name'', modelFromProc],
          csi_Vendor = firstNonEmpty [get ''Vendor ID'', vendorFromProc],
          csi_Architecture = get ''Architecture'',
          csi_VirtualizationSupport = normalizeVirtualizationSupport
            (firstNonEmpty [readVirtualizationSupportFromProc H, get ''Virtualization'']),
          csi_CacheL1 = joinCacheL1 lscpu,
          csi_CacheL2 = firstNonEmpty [get ''L2 cache'', get ''L2 Cache''],
          csi_CacheL3 = firstNonEmpty [get ''L3 cache'', get ''L3 Cache''],
          csi_FreqMinMhz = freqMin, csi_FreqMaxMhz = (if freqMax < freqMin then freqMin else freqMax),
          csi_CoreCountPhysical = (if cores0 = 0 then threads else cores0),
          csi_ThreadCountLogical = threads, csi_SocketCount = sockets\<rparr>)"

text \<open>The description is read once and kept.\<close>

definition loadCPUStaticInfo :: "host \<Rightarrow> u64 \<Rightarrow> u64 \<Rightarrow> node_reader \<Rightarrow> cpuStaticInfo \<times> node_reader" where
  "loadCPUStaticInfo H defaultMHz defaultLogical r =
     (if nr_cpuInfoLoaded r then (nr_cpuStatic r, r)
      else let info = cpuStaticOf H defaultMHz defaultLogical
           in (info, r\<lparr>nr_cpuStatic := info, nr_cpuInfoLoaded := True\<rparr>))"

section \<open>Package system\<close>

definition ReadCPUCounters :: "host \<Rightarrow> goerr + CPUCounters" where
  "ReadCPUCounters H =
     (case h_readFile H ''/proc/stat'' of
        Inl err \<Rightarrow> Inl (wrap ''open /proc/stat: '' err)
      | Inr raw \<Rightarrow>
          (let (ls, scanErr) = scanLines H ''/proc/stat'' raw
           in case List.find (\<lambda>l. hasPrefix l ''cpu '') (map trimSpace ls) of
                Some line \<Rightarrow>
                  (let parts = strFields line
                   in if length parts < 8 then Inl (Leaf (''unexpected cpu line: '' @ quoteGo line))
                      else case parseStatVals (tl parts) of Inl err \<Rightarrow> Inl err | Inr vals \<Rightarrow> Inr (countersOf vals))
              | None \<Rightarrow>
                  (case scanErr of
                     Some err \<Rightarrow> Inl (wrap ''scan /proc/stat: '' err)
                   | None \<Rightarrow> Inl (Leaf ''cpu aggregate line not found''))))"

definition CPUUsage :: "CPUCounters \<Rightarrow> CPUCounters \<Rightarrow> f64" where
  "CPUUsage prev cur =
     (if cc_Total cur \<le> cc_Total prev then 0
      else let totalDelta = f64_of_u64 (cc_Total cur - cc_Total prev);
               idledPrev = cc_Idle prev + cc_IOWait prev;
               idledCur = cc_Idle cur + cc_IOWait cur;
               idleDelta0 = f64_of_u64 (idledCur - idledPrev);
               idleDelta = (if idleDelta0 < 0 then 0 else idleDelta0);
               usage = (totalDelta - idleDelta) / totalDelta * Fin 100
           in if usage < 0 then 0 else if usage > Fin 100 then Fin 100 else usage)"

end
