(* ===== verification/Node_Memory.thy ===== *)
theory Node_Memory
  imports Node_State Delta_Facts
begin

text \<open>
  Memory of the node (\<^verbatim>\<open>internal/libvirt/metric/node/ram_linux.go\<close>) and \<^verbatim>\<open>internal/system/mem.go\<close>:
  \<^verbatim>\<open>/proc/meminfo\<close>, the paging rates, memory pressure, libvirt's memory statistics, and the memory
  modules that \<^verbatim>\<open>dmidecode\<close> describes.
\<close>

section \<open>Usage\<close>

definition parseMeminfoValue :: "platform \<Rightarrow> string list \<Rightarrow> u64" where
  "parseMeminfoValue pf tokens =
     (if tokens = [] then 0
      else let (number, ok) = parseFloat (trimSpace (tokens ! 0))
           in if \<not> ok \<or> number < 0 then 0
              else let unt = (if 2 \<le> length tokens then toLower (trimSpace (tokens ! 1)) else []);
                       multiplier =
                         (if unt = ''kb'' \<or> unt = ''kib'' then Fin 1024
                          else if unt = ''mb'' \<or> unt = ''mib'' then Fin 1048576
                          else if unt = ''gb'' \<or> unt = ''gib'' then Fin 1073741824
                          else 1)
                   in u64_of_f64 pf (number * multiplier))"

definition meminfoStep :: "platform \<Rightarrow> string \<Rightarrow> (string, u64) gomap \<Rightarrow> (string, u64) gomap" where
  "meminfoStep pf line vals =
     (let parts = strFields (trimSpace line)
      in if length parts < 2 then vals
         else mput (trimSuffix (parts ! 0) '':'') (parseMeminfoValue pf (tl parts)) vals)"

definition usedMemory :: "u64 \<Rightarrow> u64 \<Rightarrow> u64 \<Rightarrow> u64 \<Rightarrow> u64 \<Rightarrow> u64" where
  "usedMemory totalB freeB availableB bufferB cachedB =
     (if totalB > 0
      then if availableB > 0 \<and> availableB \<le> totalB then totalB - availableB
           else if freeB + bufferB + cachedB \<le> totalB then totalB - freeB - bufferB - cachedB else 0
      else 0)"

definition memoryInfoOf :: "(string, u64) gomap \<Rightarrow> memoryInfoProc" where
  "memoryInfoOf vals =
     (let v = mget 0 vals;
          totalB = v ''MemTotal''; freeB = v ''MemFree''; availableB = v ''MemAvailable'';
          cachedB = v ''Cached''; bufferB = v ''Buffers'';
          swapTotal = v ''SwapTotal''; swapFree = v ''SwapFree'';
          hugeTotal = v ''HugePages_Total''; hugeFree = v ''HugePages_Free''
      in \<lparr>mip_TotalBytes = totalB, mip_UsedBytes = usedMemory totalB freeB availableB bufferB cachedB,
          mip_FreeBytes = freeB, mip_AvailableBytes = availableB, mip_CachedBytes = cachedB,
          mip_BufferBytes = bufferB, mip_SharedBytes = v ''Shmem'', mip_SlabBytes = v ''Slab'',
          mip_ActiveBytes = v ''Active'', mip_InactiveBytes = v ''Inactive'', mip_DirtyBytes = v ''Dirty'',
          mip_WritebackBytes = v ''Writeback'', mip_SwapTotalBytes = swapTotal,
          mip_SwapUsedBytes = (if swapFree \<le> swapTotal then swapTotal - swapFree else 0),
          mip_SwapFreeBytes = swapFree, mip_HugePagesTotal = hugeTotal,
          mip_HugePagesUsed = (if hugeFree \<le> hugeTotal then hugeTotal - hugeFree else 0),
          mip_HugePagesFree = hugeFree, mip_HugePageSizeByte = v ''Hugepagesize''\<rparr>)"

definition readMemoryInfoFromProc :: "host \<Rightarrow> goerr + memoryInfoProc" where
  "readMemoryInfoFromProc H =
     (case h_readFile H ''/proc/meminfo'' of
        Inl err \<Rightarrow> Inl (wrap ''read /proc/meminfo: '' err)
      | Inr raw \<Rightarrow> Inr (memoryInfoOf (fold (meminfoStep (h_platform H)) (lines raw) [])))"

text \<open>libvirt's statistics, in KiB: the answer of \<^verbatim>\<open>NodeGetMemoryStats\<close> is an argument.\<close>

definition memoryUsageFromLibvirt :: "goerr + (string \<times> u64) list \<Rightarrow> goerr + u64 \<times> u64" where
  "memoryUsageFromLibvirt answer =
     (case answer of
        Inl err \<Rightarrow> Inl err
      | Inr stats \<Rightarrow>
          if stats = [] then Inl (Leaf ''empty node memory stats'')
          else let vals = fold (\<lambda>(f, v). mput (toLower f) v) stats [];
                   totalB = mget 0 vals ''total'' * 1024; freeB = mget 0 vals ''free'' * 1024;
                   buffersB = mget 0 vals ''buffers'' * 1024; cachedB = mget 0 vals ''cached'' * 1024
               in if totalB = 0 then Inl (Leaf ''total memory is zero'')
                  else Inr (if freeB + buffersB + cachedB \<le> totalB then totalB - freeB - buffersB - cachedB
                            else totalB, totalB))"

text \<open>The fallback of package \<^verbatim>\<open>system\<close>.\<close>

record MemoryInfo =
  smi_TotalBytes :: u64
  smi_UsedBytes :: u64
  smi_FreeBytes :: u64

definition systemMeminfoStep :: "string \<Rightarrow> (string, u64) gomap \<Rightarrow> (string, u64) gomap" where
  "systemMeminfoStep line vals =
     (let parts = strFields (trimSpace line)
      in if length parts < 2 then vals
         else case parseUint (parts ! 1) of
                None \<Rightarrow> vals
              | Some v \<Rightarrow> mput (trimSuffix (parts ! 0) '':'') (v * 1024) vals)"

definition ReadMemoryInfo :: "host \<Rightarrow> goerr + MemoryInfo" where
  "ReadMemoryInfo H =
     (case h_readFile H ''/proc/meminfo'' of
        Inl err \<Rightarrow> Inl (wrap ''open /proc/meminfo: '' err)
      | Inr raw \<Rightarrow>
          (let (ls, scanErr) = scanLines H ''/proc/meminfo'' raw;
               vals = fold systemMeminfoStep ls [];
               totalB = mget 0 vals ''MemTotal''; avail = mget 0 vals ''MemAvailable''
           in case scanErr of
                Some err \<Rightarrow> Inl (wrap ''scan /proc/meminfo: '' err)
              | None \<Rightarrow>
                  if totalB = 0 then Inl (Leaf ''MemTotal missing'')
                  else Inr \<lparr>smi_TotalBytes = totalB, smi_UsedBytes = totalB - avail, smi_FreeBytes = avail\<rparr>))"

section \<open>Paging and pressure\<close>

definition vmstatStep :: "platform \<Rightarrow> string \<Rightarrow> vmStatSnapshot \<Rightarrow> vmStatSnapshot" where
  "vmstatStep pf line out =
     (let fs = strFields (trimSpace line)
      in if length fs < 2 then out
         else let key = fs ! 0; val = parseUintFlexible pf (fs ! 1)
              in if key = ''pswpin'' then out\<lparr>vss_SwapInPages := val\<rparr>
                 else if key = ''pswpout'' then out\<lparr>vss_SwapOutPages := val\<rparr>
                 else if key = ''pgfault'' then out\<lparr>vss_PageFaults := val\<rparr>
                 else if key = ''pgmajfault'' then out\<lparr>vss_MajorPageFaults := val\<rparr>
                 else if key = ''oom_kill'' then out\<lparr>vss_OOMKillCount := val\<rparr>
                 else out)"

definition readVMStatSnapshot :: "host \<Rightarrow> time \<Rightarrow> vmStatSnapshot" where
  "readVMStatSnapshot H now =
     (case h_readFile H ''/proc/vmstat'' of
        Inl _ \<Rightarrow> zero_vmStatSnapshot\<lparr>vss_CollectedAt := now\<rparr>
      | Inr raw \<Rightarrow> fold (vmstatStep (h_platform H)) (lines raw) (zero_vmStatSnapshot\<lparr>vss_CollectedAt := now\<rparr>))"

definition memoryRates :: "platform \<Rightarrow> vmStatSnapshot \<Rightarrow> vmStatSnapshot \<Rightarrow> memoryRateMetrics" where
  "memoryRates pf cur prev =
     (let out = zero_memoryRateMetrics\<lparr>mrm_OOMKillCount := vss_OOMKillCount cur\<rparr>;
          secs = seconds (timeSub (vss_CollectedAt cur) (vss_CollectedAt prev));
          pageSize = f64_of_int (page_size pf);
          delta = (\<lambda>f. f64_of_u64 (deltaCounter (f cur) (f prev)))
      in if secs \<le> 0 then out
         else out\<lparr>mrm_SwapInBytesPerSec := delta vss_SwapInPages * pageSize / secs,
                  mrm_SwapOutBytesPerSec := delta vss_SwapOutPages * pageSize / secs,
                  mrm_PageFaultsPerSec := delta vss_PageFaults / secs,
                  mrm_MajorPageFaultsPerSec := delta vss_MajorPageFaults / secs\<rparr>)"

definition computeMemoryRates :: "platform \<Rightarrow> vmStatSnapshot \<Rightarrow> node_reader \<Rightarrow> memoryRateMetrics \<times> node_reader" where
  "computeMemoryRates pf cur r =
     (let r' = r\<lparr>nr_prevVMStatSnapshot := cur, nr_hasPrevVMStat := True\<rparr>
      in if \<not> nr_hasPrevVMStat r then (zero_memoryRateMetrics\<lparr>mrm_OOMKillCount := vss_OOMKillCount cur\<rparr>, r')
         else (memoryRates pf cur (nr_prevVMStatSnapshot r), r'))"

definition pressureField :: "string \<Rightarrow> f64 \<Rightarrow> f64" where
  "pressureField f maxValue =
     (if \<not> hasPrefix f ''avg10='' then maxValue
      else let (val, ok) = parseFloat (trimPrefix f ''avg10='')
           in if \<not> ok \<or> val < 0 then maxValue else if val > maxValue then val else maxValue)"

definition readMemoryPressurePercent :: "host \<Rightarrow> f64" where
  "readMemoryPressurePercent H =
     (case h_readFile H ''/proc/pressure/memory'' of
        Inl _ \<Rightarrow> 0
      | Inr raw \<Rightarrow>
          fold (\<lambda>line maxValue.
              let parts = strFields (trimSpace line)
              in if length parts < 2 then maxValue else fold pressureField (tl parts) maxValue)
            (lines raw) 0)"

section \<open>Memory modules\<close>

definition parseMemorySizeToBytes :: "platform \<Rightarrow> string \<Rightarrow> u64" where
  "parseMemorySizeToBytes pf raw =
     (let val = toLower (trimSpace raw); parts = strFields val
      in if val = [] \<or> contains val ''no module installed'' \<or> contains val ''not installed'' \<or> contains val ''unknown''
         then 0
         else if length parts < 2 then 0
         else let (number, ok) = parseFloat (parts ! 0); unt = parts ! 1; k = Fin 1024
              in if \<not> ok \<or> number \<le> 0 then 0
                 else if unt = ''kb'' \<or> unt = ''kib'' then u64_of_f64 pf (number * k)
                 else if unt = ''mb'' \<or> unt = ''mib'' then u64_of_f64 pf (number * k * k)
                 else if unt = ''gb'' \<or> unt = ''gib'' then u64_of_f64 pf (number * k * k * k)
                 else if unt = ''tb'' \<or> unt = ''tib'' then u64_of_f64 pf (number * k * k * k * k)
                 else 0)"

definition parseSpeedToMHz :: "platform \<Rightarrow> string \<Rightarrow> u64" where
  "parseSpeedToMHz pf raw =
     (let val = toLower (trimSpace raw); parts = strFields val
      in if val = [] \<or> contains val ''unknown'' then 0
         else if parts = [] then 0
         else let (number, ok) = parseFloat (parts ! 0)
              in if \<not> ok \<or> number \<le> 0 then 0 else u64_of_f64 pf number)"

text \<open>The state of the scan: the report so far, whether a device is open, and its fields so far.\<close>

type_synonym dmi_state = "memoryHardwareInfo \<times> bool \<times> memoryModuleInfo"

definition commitModule :: "dmi_state \<Rightarrow> dmi_state" where
  "commitModule st =
     (let (info, inDevice, cur) = st
      in if \<not> inDevice then st
         else if mmi_SizeBytes cur = 0 then (info, inDevice, zero_memoryModuleInfo)
         else (info\<lparr>
             mhi_StickSlot := mhi_StickSlot info @
               [firstNonEmpty [mmi_Slot cur, ''slot-'' @ show_nat (length (mhi_StickSlot info))]],
             mhi_StickSizeBytes := mhi_StickSizeBytes info @ [mmi_SizeBytes cur],
             mhi_StickSpeedMhz := mhi_StickSpeedMhz info @ [mmi_SpeedMhz cur],
             mhi_StickType := mhi_StickType info @ [firstNonEmpty [mmi_Type cur, ''unknown'']],
             mhi_StickModel := mhi_StickModel info @
               [firstNonEmpty [mmi_Model cur, mmi_PartNumber cur, ''unknown'']],
             mhi_StickManufacturer := mhi_StickManufacturer info @ [firstNonEmpty [mmi_Manufacturer cur, ''unknown'']],
             mhi_StickPartNumber := mhi_StickPartNumber info @ [firstNonEmpty [mmi_PartNumber cur, ''unknown'']],
             mhi_StickSerial := mhi_StickSerial info @ [firstNonEmpty [mmi_Serial cur, ''unknown'']],
             mhi_TotalPhysicalBytes := mhi_TotalPhysicalBytes info + mmi_SizeBytes cur\<rparr>,
           inDevice, zero_memoryModuleInfo))"

definition moduleField :: "platform \<Rightarrow> string \<Rightarrow> string \<Rightarrow> memoryModuleInfo \<Rightarrow> memoryModuleInfo" where
  "moduleField pf key val cur =
     (if key = ''Size'' then cur\<lparr>mmi_SizeBytes := parseMemorySizeToBytes pf val\<rparr>
      else if key = ''Locator'' then cur\<lparr>mmi_Slot := val\<rparr>
      else if key = ''Bank Locator'' then (if mmi_Slot cur = [] then cur\<lparr>mmi_Slot := val\<rparr> else cur)
      else if key = ''Speed'' then cur\<lparr>mmi_SpeedMhz := parseSpeedToMHz pf val\<rparr>
      else if key = ''Configured Memory Speed''
        then (if mmi_SpeedMhz cur = 0 then cur\<lparr>mmi_SpeedMhz := parseSpeedToMHz pf val\<rparr> else cur)
      else if key = ''Type'' then cur\<lparr>mmi_Type := val\<rparr>
      else if key = ''Part Number''
        then (let cur' = cur\<lparr>mmi_PartNumber := val\<rparr> in if mmi_Model cur' = [] then cur'\<lparr>mmi_Model := val\<rparr> else cur')
      else if key = ''Manufacturer'' then cur\<lparr>mmi_Manufacturer := val\<rparr>
      else if key = ''Serial Number'' then cur\<lparr>mmi_Serial := val\<rparr>
      else cur)"

definition dmiLine :: "platform \<Rightarrow> string \<Rightarrow> dmi_state \<Rightarrow> dmi_state" where
  "dmiLine pf line st =
     (let trimmed = trimSpace line; (info, inDevice, cur) = st
      in if trimmed = [] then st
         else if hasPrefix trimmed ''Physical Memory Array'' then (info, False, cur)
         else if hasPrefix trimmed ''Memory Device'' then
           (let (info', _, _) = commitModule st in (info', True, zero_memoryModuleInfo))
         else if hasPrefix trimmed ''Error Correction Type:'' then
           (let val = toLower (trimSpace (trimPrefix trimmed ''Error Correction Type:''))
            in if val \<noteq> [] \<and> val \<noteq> ''none'' \<and> val \<noteq> ''unknown''
               then (info\<lparr>mhi_ECCEnabled := True\<rparr>, inDevice, cur) else st)
         else if \<not> inDevice then st
         else (case splitN2 (CHR '':'') trimmed of
                 [k, v] \<Rightarrow> (info, inDevice, moduleField pf (trimSpace k) (trimSpace v) cur)
               | _ \<Rightarrow> st))"

definition parseDmidecodeMemoryInfo :: "platform \<Rightarrow> string \<Rightarrow> memoryHardwareInfo" where
  "parseDmidecodeMemoryInfo pf raw =
     (let (info, _, _) =
            commitModule (fold (dmiLine pf) (lines raw) (zero_memoryHardwareInfo, False, zero_memoryModuleInfo))
      in info\<lparr>mhi_StickCount := of_nat (length (mhi_StickSizeBytes info))\<rparr>)"

text \<open>The report is read once and kept.\<close>

definition loadMemoryHardwareInfo :: "host \<Rightarrow> u64 \<Rightarrow> node_reader \<Rightarrow> memoryHardwareInfo \<times> node_reader" where
  "loadMemoryHardwareInfo H defaultTotalBytes r =
     (if nr_memInfoLoaded r then (nr_memHardware r, r)
      else let info = (case h_exec H ''dmidecode'' [''-t'', ''memory''] of
                         Inl _ \<Rightarrow> zero_memoryHardwareInfo
                       | Inr raw \<Rightarrow> parseDmidecodeMemoryInfo (h_platform H) raw);
               info' = (if mhi_TotalPhysicalBytes info = 0
                        then info\<lparr>mhi_TotalPhysicalBytes := defaultTotalBytes\<rparr> else info)
           in (info', r\<lparr>nr_memHardware := info', nr_memInfoLoaded := True\<rparr>))"

end
