(* ===== verification/Node_Disk.thy ===== *)
theory Node_Disk
  imports Node_State Delta_Facts Model_Types
begin

text \<open>
  Disks of the node (\<^verbatim>\<open>internal/libvirt/metric/node/disk_linux.go\<close>) and the disk and network totals of
  \<^verbatim>\<open>internal/system\<close>: which devices count, their counters, the file systems mounted from them, and the
  rates, latencies and utilisation of each.
\<close>

section \<open>Devices\<close>

definition isWholeBlockDevice :: "host \<Rightarrow> string \<Rightarrow> bool" where
  "isWholeBlockDevice H name =
     (if name = [] then False
      else if hasPrefix name ''loop'' \<or> hasPrefix name ''ram'' \<or> hasPrefix name ''fd'' then False
      else if hasPrefix name ''sr'' then False
      else if hasPrefix name ''nvme'' \<or> hasPrefix name ''sd'' \<or> hasPrefix name ''vd'' \<or> hasPrefix name ''xvd'' \<or>
              hasPrefix name ''dm-'' \<or> hasPrefix name ''mmcblk''
        then \<not> h_exists H (''/sys/class/block/'' @ name @ ''/partition'')
      else False)"

definition beforeLastP :: "string \<Rightarrow> string option" where
  "beforeLastP name =
     (case last_index_char name (CHR ''p'') of
        Some idx \<Rightarrow> if 0 < idx then Some (take idx name) else None | None \<Rightarrow> None)"

definition guessParentFromPartitionName :: "string \<Rightarrow> string" where
  "guessParentFromPartitionName name =
     (let trimmed = trimRight name ''0123456789'';
          rest = (if trimmed \<noteq> [] \<and> trimmed \<noteq> name then trimmed else name);
          parent = (if hasPrefix name ''nvme'' \<or> hasPrefix name ''mmcblk'' then beforeLastP name else None)
      in case parent of Some p \<Rightarrow> p | None \<Rightarrow> rest)"

definition filepathDir :: "string \<Rightarrow> string" where
  "filepathDir path =
     (case last_index_char path (CHR ''/'') of
        None \<Rightarrow> [] | Some lastSlash \<Rightarrow> if lastSlash = 0 then [] else take lastSlash path)"

definition filepathBase :: "string \<Rightarrow> string" where
  "filepathBase path =
     (if path = [] then []
      else case last_index_char path (CHR ''/'') of
             None \<Rightarrow> path
           | Some lastSlash \<Rightarrow> if lastSlash = length path - 1 then path else drop (Suc lastSlash) path)"

definition deviceOf :: "string \<Rightarrow> string" where
  "deviceOf dev0 = trimSpace (trimPrefix dev0 ''/dev/'')"

definition stripDeviceDirs :: "string \<Rightarrow> string" where
  "stripDeviceDirs dev =
     fold (\<lambda>p d. trimPrefix d p)
       [''mapper/'', ''disk/by-id/'', ''disk/by-path/'', ''disk/by-uuid/'', ''disk/by-partuuid/''] dev"

definition resolveParentBlockDevice :: "host \<Rightarrow> string \<Rightarrow> string" where
  "resolveParentBlockDevice H dev0 =
     (if deviceOf dev0 = [] then []
      else let dev = stripDeviceDirs (deviceOf dev0); sysPath = ''/sys/class/block/'' @ dev
           in if \<not> h_exists H sysPath then []
              else if h_exists H (sysPath @ ''/partition'') then
                (case h_readlink H sysPath of
                   Inl _ \<Rightarrow> guessParentFromPartitionName dev
                 | Inr target \<Rightarrow>
                     (let realPath = (if \<not> hasPrefix target ''/'' then ''/sys/class/block/'' @ target else target);
                          parent = filepathBase (filepathDir realPath)
                      in if parent \<noteq> [] then parent else guessParentFromPartitionName dev))
              else dev)"

section \<open>Counters\<close>

record diskStatSnapshot =
  dss_Name :: string
  dss_ReadsCompleted :: u64
  dss_SectorsRead :: u64
  dss_TimeReadingMs :: u64
  dss_WritesCompleted :: u64
  dss_SectorsWritten :: u64
  dss_TimeWritingMs :: u64
  dss_IOInProgress :: u64
  dss_TimeDoingIOms :: u64

definition diskstatsLine :: "host \<Rightarrow> string \<Rightarrow> (string, diskStatSnapshot) gomap \<Rightarrow> (string, diskStatSnapshot) gomap" where
  "diskstatsLine H line out =
     (let fs = strFields (trimSpace line)
      in if trimSpace line = [] then out
         else if length fs < 14 then out
         else let name = fs ! 2; v = (\<lambda>i. parseUintFlexible (h_platform H) (fs ! i))
              in if \<not> isWholeBlockDevice H name then out
                 else mput name
                   \<lparr>dss_Name = name, dss_ReadsCompleted = v 3, dss_SectorsRead = v 5, dss_TimeReadingMs = v 6,
                    dss_WritesCompleted = v 7, dss_SectorsWritten = v 9, dss_TimeWritingMs = v 10,
                    dss_IOInProgress = v 11, dss_TimeDoingIOms = v 12\<rparr> out)"

definition readDiskStatSnapshots :: "host \<Rightarrow> goerr + (string, diskStatSnapshot) gomap" where
  "readDiskStatSnapshots H =
     (case h_readFile H ''/proc/diskstats'' of
        Inl err \<Rightarrow> Inl (wrap ''open /proc/diskstats: '' err)
      | Inr raw \<Rightarrow>
          (let (ls, scanErr) = scanLines H ''/proc/diskstats'' raw
           in case scanErr of
                Some err \<Rightarrow> Inl (wrap ''scan /proc/diskstats: '' err)
              | None \<Rightarrow> Inr (fold (diskstatsLine H) ls [])))"

section \<open>Mounted file systems\<close>

record diskMountUsage =
  dmu_Mountpoints :: "string list"
  dmu_Filesystems :: "string list"
  dmu_FSTotal :: u64
  dmu_FSUsed :: u64
  dmu_FSFree :: u64
  dmu_InodeTotal :: u64
  dmu_InodeUsed :: u64
  dmu_InodeFree :: u64

definition zero_diskMountUsage :: diskMountUsage where
  "zero_diskMountUsage =
   \<lparr>dmu_Mountpoints = [], dmu_Filesystems = [], dmu_FSTotal = 0, dmu_FSUsed = 0, dmu_FSFree = 0,
    dmu_InodeTotal = 0, dmu_InodeUsed = 0, dmu_InodeFree = 0\<rparr>"

text \<open>
  The code keeps the mount points and file systems it has seen of a disk in two sets; they are the
  members of the two lists, which it extends exactly when it extends the sets.
\<close>

definition addMount :: "string \<Rightarrow> statfs \<Rightarrow> diskMountUsage \<Rightarrow> diskMountUsage" where
  "addMount mountpoint st u =
     (if mountpoint \<in> set (dmu_Mountpoints u) then u
      else let totalBytes = sf_Blocks st * sf_Bsize st; freeBytes = sf_Bavail st * sf_Bsize st;
               usedBytes = (if freeBytes \<le> totalBytes then totalBytes - freeBytes else 0);
               inodeTotal = sf_Files st; inodeFree = sf_Ffree st;
               inodeUsed = (if inodeFree \<le> inodeTotal then inodeTotal - inodeFree else 0)
           in u\<lparr>dmu_Mountpoints := dmu_Mountpoints u @ [mountpoint],
                dmu_FSTotal := dmu_FSTotal u + totalBytes, dmu_FSFree := dmu_FSFree u + freeBytes,
                dmu_FSUsed := dmu_FSUsed u + usedBytes, dmu_InodeTotal := dmu_InodeTotal u + inodeTotal,
                dmu_InodeFree := dmu_InodeFree u + inodeFree, dmu_InodeUsed := dmu_InodeUsed u + inodeUsed\<rparr>)"

definition addFilesystem :: "string \<Rightarrow> diskMountUsage \<Rightarrow> diskMountUsage" where
  "addFilesystem filesystem u =
     (if filesystem \<noteq> [] \<and> filesystem \<notin> set (dmu_Filesystems u)
      then u\<lparr>dmu_Filesystems := dmu_Filesystems u @ [filesystem]\<rparr> else u)"

definition mountLine :: "host \<Rightarrow> string \<Rightarrow> (string, diskMountUsage) gomap \<Rightarrow> (string, diskMountUsage) gomap" where
  "mountLine H line out =
     (let fs = strFields (trimSpace line)
      in if length fs < 3 then out
         else let source = fs ! 0; mountpoint = fs ! 1; filesystem = fs ! 2
              in if \<not> hasPrefix source ''/dev/'' then out
                 else let parentDisk = resolveParentBlockDevice H (trimPrefix source ''/dev/'')
                      in if parentDisk = [] \<or> \<not> isWholeBlockDevice H parentDisk then out
                         else (case h_statfs H mountpoint of
                                 None \<Rightarrow> out
                               | Some st \<Rightarrow>
                                   mput parentDisk
                                     (addFilesystem filesystem (addMount mountpoint st (mget zero_diskMountUsage out parentDisk)))
                                     out))"

definition sortUsage :: "diskMountUsage \<Rightarrow> diskMountUsage" where
  "sortUsage u = u\<lparr>dmu_Mountpoints := sort (dmu_Mountpoints u), dmu_Filesystems := sort (dmu_Filesystems u)\<rparr>"

definition readDiskMountUsages :: "host \<Rightarrow> (string, diskMountUsage) gomap" where
  "readDiskMountUsages H =
     (case h_readFile H ''/proc/self/mounts'' of
        Inl _ \<Rightarrow> []
      | Inr raw \<Rightarrow> map (\<lambda>(name, u). (name, sortUsage u)) (fold (mountLine H) (lines raw) []))"

record diskSysInfo =
  dsi_SizeBytes :: u64
  dsi_Model :: string
  dsi_Serial :: string
  dsi_Type :: string

definition readDiskSysInfo :: "host \<Rightarrow> string \<Rightarrow> diskSysInfo" where
  "readDiskSysInfo H name =
     (let basePath = ''/sys/class/block/'' @ name;
          num = (\<lambda>f. parseUintFlexible (h_platform H) (readTextFile H (basePath @ f)));
          sizeSectors = num ''/size''; rotational = num ''/queue/rotational''
      in \<lparr>dsi_SizeBytes = sizeSectors * 512,
          dsi_Model = trimSpace (readTextFile H (basePath @ ''/device/model'')),
          dsi_Serial = trimSpace (readTextFile H (basePath @ ''/device/serial'')),
          dsi_Type = (if hasPrefix name ''nvme'' then ''nvme'' else if rotational = 1 then ''hdd''
                      else if rotational = 0 then ''ssd'' else ''disk'')\<rparr>)"

section \<open>Metrics\<close>

definition diskKey :: "string \<Rightarrow> string \<Rightarrow> string" where
  "diskKey name counter = ''disk:'' @ name @ '':'' @ counter"

definition sectorsMibPerSec :: "u64 \<Rightarrow> f64 \<Rightarrow> f64" where
  "sectorsMibPerSec delta sec = (let bps = f64_of_u64 (delta * 512) / sec in bps / Fin 1048576)"

definition opsPerSec :: "u64 \<Rightarrow> f64 \<Rightarrow> f64" where
  "opsPerSec delta sec = f64_of_u64 delta / sec"

definition busyShare :: "u64 \<Rightarrow> f64 \<Rightarrow> f64" where
  "busyShare busyMsDelta sec = clampPercent (f64_of_u64 busyMsDelta / (sec * Fin 10))"

definition latencyMs :: "u64 \<times> f64 \<times> bool \<Rightarrow> u64 \<times> f64 \<times> bool \<Rightarrow> f64" where
  "latencyMs ops dur =
     (let (opsDelta, _, opsOK) = ops; (timeDelta, _, timeOK) = dur
      in if opsOK \<and> timeOK \<and> opsDelta > 0 then f64_of_u64 timeDelta / f64_of_u64 opsDelta else 0)"

definition nodeDiskMetric :: "host \<Rightarrow> time \<Rightarrow> string \<Rightarrow> (string, diskMountUsage) gomap \<Rightarrow>
    string \<times> diskStatSnapshot \<Rightarrow> delta_engine \<Rightarrow> NodeDiskMetricLite \<times> delta_engine" where
  "nodeDiskMetric H now nodeID mountUsages entry e =
     (let (name, cur) = entry; key = diskKey name;
          (mountpoint, fsUsage) =
            (case map_of mountUsages name of
               None \<Rightarrow> ([], 0)
             | Some u \<Rightarrow> (joinStr (dmu_Mountpoints u) '','', percentOf (dmu_FSUsed u) (dmu_FSTotal u)));
          (readMBS, e1) = whenObserved sectorsMibPerSec (key ''sectors_read'') now (dss_SectorsRead cur) e;
          (writeMBS, e2) = whenObserved sectorsMibPerSec (key ''sectors_written'') now (dss_SectorsWritten cur) e1;
          (readIOPS, e3) = whenObserved opsPerSec (key ''reads_completed'') now (dss_ReadsCompleted cur) e2;
          (writeIOPS, e4) = whenObserved opsPerSec (key ''writes_completed'') now (dss_WritesCompleted cur) e3;
          (readOps, e5) = ObserveCounter (key ''reads_for_latency'') now (dss_ReadsCompleted cur) e4;
          (writeOps, e6) = ObserveCounter (key ''writes_for_latency'') now (dss_WritesCompleted cur) e5;
          (readTime, e7) = ObserveCounter (key ''read_time_ms'') now (dss_TimeReadingMs cur) e6;
          (writeTime, e8) = ObserveCounter (key ''write_time_ms'') now (dss_TimeWritingMs cur) e7;
          (utilPct, e9) = whenObserved busyShare (key ''busy_ms'') now (dss_TimeDoingIOms cur) e8
      in (\<lparr>ndm_NodeID = nodeID, ndm_DiskName = name, ndm_TimestampUnix = unixSeconds now,
           ndm_ReadMBS = readMBS, ndm_WriteMBS = writeMBS, ndm_TotalMBS = readMBS + writeMBS,
           ndm_ReadIOPS = readIOPS, ndm_WriteIOPS = writeIOPS, ndm_TotalIOPS = readIOPS + writeIOPS,
           ndm_UtilPercent = utilPct, ndm_ReadLatencyMs = latencyMs readOps readTime,
           ndm_WriteLatencyMs = latencyMs writeOps writeTime, ndm_FSUsagePercent = fsUsage,
           ndm_SizeBytes = dsi_SizeBytes (readDiskSysInfo H name), ndm_Mountpoint = mountpoint\<rparr>, e9))"

definition diskAggStep :: "NodeDiskMetricLite \<Rightarrow> diskAggregateLite \<times> nat \<Rightarrow> diskAggregateLite \<times> nat" where
  "diskAggStep d acc =
     (let (agg, utilCount) = acc;
          agg' = agg\<lparr>dal_ReadMBS := dal_ReadMBS agg + ndm_ReadMBS d, dal_WriteMBS := dal_WriteMBS agg + ndm_WriteMBS d,
                     dal_IOPS := dal_IOPS agg + ndm_TotalIOPS d\<rparr>
      in if ndm_UtilPercent d > 0
         then (agg'\<lparr>dal_UtilPercent := dal_UtilPercent agg' + ndm_UtilPercent d\<rparr>, Suc utilCount)
         else (agg', utilCount))"

definition diskAggregate :: "NodeDiskMetricLite list \<Rightarrow> diskAggregateLite" where
  "diskAggregate disks =
     (let (agg, utilCount) = fold diskAggStep disks (zero_diskAggregateLite, 0);
          agg' = agg\<lparr>dal_TotalMBS := dal_ReadMBS agg + dal_WriteMBS agg\<rparr>
      in if 0 < utilCount then agg'\<lparr>dal_UtilPercent := dal_UtilPercent agg' / f64_of_int (int utilCount)\<rparr> else agg')"

definition collectNodeDiskMetrics ::
    "host \<Rightarrow> time \<Rightarrow> string \<Rightarrow> node_reader \<Rightarrow> (NodeDiskMetricLite list \<times> diskAggregateLite) \<times> node_reader" where
  "collectNodeDiskMetrics H now nodeID r =
     (case readDiskStatSnapshots H of
        Inl _ \<Rightarrow> (([], zero_diskAggregateLite), r)
      | Inr current \<Rightarrow>
          (let (disks, e') =
                 mapReader (nodeDiskMetric H now nodeID (readDiskMountUsages H)) (sort_key fst current) (nr_delta r)
           in ((disks, diskAggregate disks), r\<lparr>nr_delta := e'\<rparr>)))"

section \<open>Totals of package system\<close>

definition isBlockDevice :: "string \<Rightarrow> bool" where
  "isBlockDevice name =
     (if hasPrefix name ''loop'' \<or> hasPrefix name ''ram'' \<or> hasPrefix name ''fd'' then False
      else hasPrefix name ''dm-'' \<or> hasPrefix name ''nvme'' \<or> hasPrefix name ''sd'' \<or> hasPrefix name ''vd'' \<or>
           hasPrefix name ''xvd'')"

record DiskCounters =
  dct_ReadBytes :: u64
  dct_WriteBytes :: u64

definition diskCountersLine :: "string \<Rightarrow> DiskCounters \<Rightarrow> DiskCounters" where
  "diskCountersLine line out =
     (let parts = strFields (trimSpace line)
      in if length parts < 14 then out
         else if \<not> isBlockDevice (parts ! 2) then out
         else (case (parseUint (parts ! 5), parseUint (parts ! 9)) of
                 (Some sectorsRead, Some sectorsWritten) \<Rightarrow>
                   out\<lparr>dct_ReadBytes := dct_ReadBytes out + sectorsRead * 512,
                       dct_WriteBytes := dct_WriteBytes out + sectorsWritten * 512\<rparr>
               | _ \<Rightarrow> out))"

definition ReadDiskCounters :: "host \<Rightarrow> goerr + DiskCounters" where
  "ReadDiskCounters H =
     (case h_readFile H ''/proc/diskstats'' of
        Inl err \<Rightarrow> Inl (wrap ''open /proc/diskstats: '' err)
      | Inr raw \<Rightarrow>
          (let (ls, scanErr) = scanLines H ''/proc/diskstats'' raw
           in case scanErr of
                Some err \<Rightarrow> Inl (wrap ''scan /proc/diskstats: '' err)
              | None \<Rightarrow> Inr (fold diskCountersLine ls \<lparr>dct_ReadBytes = 0, dct_WriteBytes = 0\<rparr>)))"

record NetCounters =
  nct_RxBytes :: u64
  nct_TxBytes :: u64

definition netCountersLine :: "string \<Rightarrow> NetCounters \<Rightarrow> NetCounters" where
  "netCountersLine line out =
     (case splitN2 (CHR '':'') (trimSpace line) of
        [dev, rest] \<Rightarrow>
          (let iface = trimSpace dev; metrics = strFields (trimSpace rest)
           in if iface = ''lo'' \<or> iface = [] then out
              else if length metrics < 16 then out
              else (case (parseUint (metrics ! 0), parseUint (metrics ! 8)) of
                      (Some rx, Some tx) \<Rightarrow>
                        out\<lparr>nct_RxBytes := nct_RxBytes out + rx, nct_TxBytes := nct_TxBytes out + tx\<rparr>
                    | _ \<Rightarrow> out))
      | _ \<Rightarrow> out)"

definition ReadNetCounters :: "host \<Rightarrow> goerr + NetCounters" where
  "ReadNetCounters H =
     (case h_readFile H ''/proc/net/dev'' of
        Inl err \<Rightarrow> Inl (wrap ''open /proc/net/dev: '' err)
      | Inr raw \<Rightarrow>
          (let (ls, scanErr) = scanLines H ''/proc/net/dev'' raw
           in case scanErr of
                Some err \<Rightarrow> Inl (wrap ''scan /proc/net/dev: '' err)
              | None \<Rightarrow> Inr (fold netCountersLine (drop 2 ls) \<lparr>nct_RxBytes = 0, nct_TxBytes = 0\<rparr>)))"

end
