(* ===== verification/Node_Network.thy ===== *)
theory Node_Network
  imports Node_State Delta_Facts Model_Types
begin

text \<open>
  Network interfaces of the node (\<^verbatim>\<open>internal/libvirt/metric/node/network_linux.go\<close>): which interfaces
  are read, their counters, the rates per interface and the node's totals.
\<close>

record netIfSample =
  ns_Name :: string
  ns_SpeedMbps :: u64
  ns_LinkUp :: bool
  ns_RxBytesTotal :: u64
  ns_TxBytesTotal :: u64
  ns_RxPacketsTotal :: u64
  ns_TxPacketsTotal :: u64
  ns_RxErrors :: u64
  ns_TxErrors :: u64
  ns_RxDropped :: u64
  ns_TxDropped :: u64

definition shouldSkipNetworkInterface :: "string \<Rightarrow> bool" where
  "shouldSkipNetworkInterface name0 =
     (let name = trimSpace name0
      in if name = [] then True
         else if name = ''lo'' then True
         else hasPrefix name ''docker'' \<or> hasPrefix name ''veth'')"

definition netIfSampleOf :: "host \<Rightarrow> string \<Rightarrow> netIfSample" where
  "netIfSampleOf H name =
     (let base = fpJoin [''/sys/class/net'', name]; statsBase = fpJoin [base, ''statistics''];
          stat = (\<lambda>f. readUintFile H (fpJoin [statsBase, f]))
      in \<lparr>ns_Name = name, ns_SpeedMbps = readUintSignedFile H (fpJoin [base, ''speed'']),
          ns_LinkUp = (readTextFile H (fpJoin [base, ''carrier'']) = ''1'' \<or>
                       equalFold (readTextFile H (fpJoin [base, ''operstate''])) ''up''),
          ns_RxBytesTotal = stat ''rx_bytes'', ns_TxBytesTotal = stat ''tx_bytes'',
          ns_RxPacketsTotal = stat ''rx_packets'', ns_TxPacketsTotal = stat ''tx_packets'',
          ns_RxErrors = stat ''rx_errors'', ns_TxErrors = stat ''tx_errors'',
          ns_RxDropped = stat ''rx_dropped'', ns_TxDropped = stat ''tx_dropped''\<rparr>)"

definition readNetworkInterfaceSamples :: "host \<Rightarrow> netIfSample list" where
  "readNetworkInterfaceSamples H =
     (case h_readDir H ''/sys/class/net'' of
        Inl _ \<Rightarrow> []
      | Inr entries \<Rightarrow>
          map (netIfSampleOf H)
            (filter (\<lambda>name. \<not> shouldSkipNetworkInterface name) (map (\<lambda>(name, _). trimSpace name) entries)))"

definition computeBandwidthUtilPercent :: "u64 \<Rightarrow> f64 \<Rightarrow> f64 \<Rightarrow> f64" where
  "computeBandwidthUtilPercent speedMbps rxMBS txMBS =
     (if speedMbps = 0 then 0
      else let capacityMBS = f64_of_u64 speedMbps / Fin 8
           in if capacityMBS \<le> 0 then 0
              else clampPercent ((rxMBS + txMBS) / capacityMBS * Fin 100))"

text \<open>The counters of an interface in the engine, and the rates computed of their deltas.\<close>

definition netKey :: "string \<Rightarrow> string \<Rightarrow> string" where
  "netKey name counter = ''net:'' @ name @ '':'' @ counter"

definition perSec :: "u64 \<Rightarrow> f64 \<Rightarrow> f64" where
  "perSec delta sec = f64_of_u64 delta / sec"

definition mibPerSec :: "u64 \<Rightarrow> f64 \<Rightarrow> f64" where
  "mibPerSec delta sec = (let bps = f64_of_u64 delta / sec in bps / Fin 1048576)"

definition netIfMetric :: "time \<Rightarrow> string \<Rightarrow> netIfSample \<Rightarrow> delta_engine \<Rightarrow> NodeNetIfMetricLite \<times> delta_engine" where
  "netIfMetric now nodeID sample e =
     (let key = netKey (ns_Name sample);
          (rx, e1) = whenObserved mibPerSec (key ''rx_bytes'') now (ns_RxBytesTotal sample) e;
          (tx, e2) = whenObserved mibPerSec (key ''tx_bytes'') now (ns_TxBytesTotal sample) e1;
          (rxPkts, e3) = whenObserved perSec (key ''rx_packets'') now (ns_RxPacketsTotal sample) e2;
          (txPkts, e4) = whenObserved perSec (key ''tx_packets'') now (ns_TxPacketsTotal sample) e3
      in (\<lparr>nnm_NodeID = nodeID, nnm_InterfaceName = ns_Name sample, nnm_TimestampUnix = unixSeconds now,
           nnm_RxMBS = rx, nnm_TxMBS = tx, nnm_TotalMBS = rx + tx,
           nnm_RxPacketsPerSec = rxPkts, nnm_TxPacketsPerSec = txPkts,
           nnm_RxErrors = ns_RxErrors sample, nnm_TxErrors = ns_TxErrors sample,
           nnm_RxDropped = ns_RxDropped sample, nnm_TxDropped = ns_TxDropped sample,
           nnm_BandwidthUtilPercent = computeBandwidthUtilPercent (ns_SpeedMbps sample) rx tx,
           nnm_SpeedMbps = ns_SpeedMbps sample, nnm_LinkUp = ns_LinkUp sample\<rparr>, e4))"

definition netAggStep :: "NodeNetIfMetricLite \<Rightarrow> netAggregateLite \<Rightarrow> netAggregateLite" where
  "netAggStep m agg =
     agg\<lparr>nal_RxMBS := nal_RxMBS agg + nnm_RxMBS m, nal_TxMBS := nal_TxMBS agg + nnm_TxMBS m,
         nal_PacketRate := nal_PacketRate agg + (nnm_RxPacketsPerSec m + nnm_TxPacketsPerSec m)\<rparr>"

definition collectNodeNetworkMetrics ::
    "host \<Rightarrow> time \<Rightarrow> string \<Rightarrow> node_reader \<Rightarrow> (NodeNetIfMetricLite list \<times> netAggregateLite) \<times> node_reader" where
  "collectNodeNetworkMetrics H now nodeID r =
     (let samples = readNetworkInterfaceSamples H
      in if samples = [] then (([], zero_netAggregateLite), r)
         else let (metrics, e') = mapReader (netIfMetric now nodeID) samples (nr_delta r);
                  agg = fold netAggStep metrics zero_netAggregateLite;
                  agg' = agg\<lparr>nal_TotalMBS := nal_RxMBS agg + nal_TxMBS agg\<rparr>
              in ((sort_key nnm_InterfaceName metrics, agg'), r\<lparr>nr_delta := e'\<rparr>))"

end
