(* ===== verification/Node_GPU.thy ===== *)
theory Node_GPU
  imports Node_State Delta_Facts Model_Types "HOL-Library.Monad_Syntax"
begin

text \<open>
  GPUs of the node (\<^verbatim>\<open>internal/libvirt/metric/node/gpu_linux.go\<close>): the queries to \<^verbatim>\<open>nvidia-smi\<close> and the
  reading of its CSV answers, \<^verbatim>\<open>rocm-smi\<close>'s JSON answer, and the node's GPU totals.

  \<^verbatim>\<open>parseFloatFlexible\<close> takes the first word of a text that may have none left, and then panics. Nothing
  in the repository recovers from a panic, so that the whole agent ends. What may panic is modelled as
  an option, \<open>None\<close> for the panic.
\<close>

section \<open>Package encoding/csv\<close>

text \<open>
  \<^verbatim>\<open>csv.Reader.ReadAll\<close> with its defaults and any number of fields per record: the records, or \<open>None\<close>
  for an error. First the line ends are normalised (\<^verbatim>\<open>\r\n\<close> is a line end, a \<^verbatim>\<open>\r\<close> before the end of the
  text is dropped); empty lines are skipped; a quote may stand only at the start of a field, which then
  ends at the next single quote.
\<close>

fun normalizeNL :: "string \<Rightarrow> string" where
  "normalizeNL [] = []"
| "normalizeNL [c] = (if c = CHR 0x0D then [] else [c])"
| "normalizeNL (c # d # cs) =
     (if c = CHR 0x0D \<and> d = CHR 0x0A then d # normalizeNL cs else c # normalizeNL (d # cs))"

datatype csv_mode = LineStart | FieldStart | Plain | Quoted | QuoteSeen

text \<open>The arguments are the mode, the field, the record and the records so far, each reversed.\<close>

fun csv_scan :: "csv_mode \<Rightarrow> string \<Rightarrow> string list \<Rightarrow> string list list \<Rightarrow> string \<Rightarrow> string list list option" where
  "csv_scan LineStart fld row rows [] = Some (rev rows)"
| "csv_scan FieldStart fld row rows [] = Some (rev (rev ([] # row) # rows))"
| "csv_scan Plain fld row rows [] = Some (rev (rev (rev fld # row) # rows))"
| "csv_scan Quoted fld row rows [] = None"
| "csv_scan QuoteSeen fld row rows [] = Some (rev (rev (rev fld # row) # rows))"
| "csv_scan Quoted fld row rows (c # cs) =
     (if c = CHR 0x22 then csv_scan QuoteSeen fld row rows cs else csv_scan Quoted (c # fld) row rows cs)"
| "csv_scan QuoteSeen fld row rows (c # cs) =
     (if c = CHR 0x22 then csv_scan Quoted (c # fld) row rows cs
      else if c = CHR '','' then csv_scan FieldStart [] (rev fld # row) rows cs
      else if c = CHR 0x0A then csv_scan LineStart [] [] (rev (rev fld # row) # rows) cs
      else None)"
| "csv_scan Plain fld row rows (c # cs) =
     (if c = CHR '','' then csv_scan FieldStart [] (rev fld # row) rows cs
      else if c = CHR 0x0A then csv_scan LineStart [] [] (rev (rev fld # row) # rows) cs
      else if c = CHR 0x22 then None
      else csv_scan Plain (c # fld) row rows cs)"
| "csv_scan FieldStart fld row rows (c # cs) =
     (if c = CHR 0x22 then csv_scan Quoted [] row rows cs
      else if c = CHR '','' then csv_scan FieldStart [] ([] # row) rows cs
      else if c = CHR 0x0A then csv_scan LineStart [] [] (rev ([] # row) # rows) cs
      else csv_scan Plain [c] row rows cs)"
| "csv_scan LineStart fld row rows (c # cs) =
     (if c = CHR 0x0A then csv_scan LineStart [] [] rows cs
      else if c = CHR 0x22 then csv_scan Quoted [] [] rows cs
      else if c = CHR '','' then csv_scan FieldStart [] [[]] rows cs
      else csv_scan Plain [c] [] rows cs)"

definition readCSV :: "string \<Rightarrow> string list list option" where
  "readCSV txt = csv_scan LineStart [] [] [] (normalizeNL txt)"

definition runNvidiaQueryCSV :: "host \<Rightarrow> string list \<Rightarrow> string list list option" where
  "runNvidiaQueryCSV H fs =
     (case h_exec H ''nvidia-smi'' [''--query-gpu='' @ joinStr fs '','', ''--format=csv,noheader,nounits''] of
        Inl _ \<Rightarrow> None
      | Inr out \<Rightarrow> readCSV out)"

section \<open>Fields\<close>

definition normalizeField :: "string \<Rightarrow> string" where
  "normalizeField raw =
     (let v = trimSpace raw
      in if toLower v \<in> {[], ''n/a'', ''[not supported]'', ''not supported'', ''unknown'', ''-'', ''none''} then [] else v)"

definition trimUnits :: "string \<Rightarrow> string" where
  "trimUnits raw = trimSuffix (trimSuffix (trimSuffix raw ''%'') ''C'') ''W''"

definition parseFloatFlexible :: "string \<Rightarrow> f64 option" where
  "parseFloatFlexible raw =
     (if trimSpace raw = [] then Some 0
      else case strFields (trimUnits (trimSpace raw)) of
             [] \<Rightarrow> None
           | w # _ \<Rightarrow> (let (v, ok) = parseFloat w in Some (if ok then v else 0)))"

definition mibToBytes :: "u64 \<Rightarrow> u64" where
  "mibToBytes v = v * 1024 * 1024"

definition kibToMib :: "f64 \<Rightarrow> f64" where
  "kibToMib v = v / Fin 1024"

definition extractDigits :: "string \<Rightarrow> string" where
  "extractDigits raw = filter is_digit raw"

section \<open>nvidia-smi\<close>

definition nvidiaFields :: "string list" where
  "nvidiaFields =
     [''index'', ''uuid'', ''utilization.gpu'', ''utilization.memory'', ''memory.total'', ''memory.used'',
      ''memory.free'', ''power.draw'', ''power.limit'', ''temperature.gpu'', ''fan.speed'',
      ''clocks.current.graphics'', ''clocks.current.memory'', ''pcie.rx_util'', ''pcie.tx_util'']"

definition energyRow :: "platform \<Rightarrow> time \<Rightarrow> string list \<Rightarrow> (string, f64) gomap \<times> delta_engine \<Rightarrow>
    (string, f64) gomap \<times> delta_engine" where
  "energyRow pf now row acc =
     (let (out, e) = acc
      in if length row < 2 then acc
         else let uuid = normalizeField (row ! 0)
              in if uuid = [] then acc
                 else let ((delta, sec, ok), e') =
                            ObserveCounter (''gpu:'' @ uuid @ '':energy_mj'') now (parseUintFlexible pf (row ! 1)) e
                      in if ok \<and> sec > 0 then (mput uuid (f64_of_u64 delta / Fin 1000 / sec) out, e') else (out, e'))"

definition queryNvidiaEnergyCounter :: "host \<Rightarrow> time \<Rightarrow> delta_engine \<Rightarrow> (string, f64) gomap \<times> delta_engine" where
  "queryNvidiaEnergyCounter H now e =
     (case runNvidiaQueryCSV H [''uuid'', ''total_energy_consumption''] of
        None \<Rightarrow> ([], e)
      | Some rows \<Rightarrow> fold (energyRow (h_platform H) now) rows ([], e))"

definition nvidiaMetric :: "platform \<Rightarrow> time \<Rightarrow> string \<Rightarrow> (string, f64) gomap \<Rightarrow> string list \<Rightarrow>
    NodeGpuMetricLite option" where
  "nvidiaMetric pf now nodeID energyByUUID row =
     (let flt = (\<lambda>i. parseFloatFlexible (row ! i)); num = (\<lambda>i. parseUintFlexible pf (row ! i));
          uuid = normalizeField (row ! 1)
      in do {
        gpuUtil \<leftarrow> flt 2; memUtil \<leftarrow> flt 3; powerUse \<leftarrow> flt 7; powerLimit \<leftarrow> flt 8;
        temp \<leftarrow> flt 9; fan \<leftarrow> flt 10; rx \<leftarrow> flt 13; tx \<leftarrow> flt 14;
        Some \<lparr>ngm_NodeID = nodeID, ngm_GPUIndex = num 0, ngm_GPUUUID = uuid, ngm_Vendor = GpuVendorNvidia,
          ngm_TimestampUnix = unixSeconds now, ngm_GPUUtilPercent = gpuUtil, ngm_MemoryUtilPercent = memUtil,
          ngm_MemoryTotalBytes = mibToBytes (num 4), ngm_MemoryUsedBytes = mibToBytes (num 5),
          ngm_MemoryFreeBytes = mibToBytes (num 6),
          ngm_PowerUsageWatts =
            (if feq powerUse 0 then (case map_of energyByUUID uuid of Some watts \<Rightarrow> watts | None \<Rightarrow> powerUse)
             else powerUse),
          ngm_PowerLimitWatts = powerLimit, ngm_TemperatureCelsius = temp, ngm_FanSpeedPercent = fan,
          ngm_ClockCoreMhz = num 11, ngm_ClockMemMhz = num 12, ngm_PCIeRxMBS = kibToMib rx,
          ngm_PCIeTxMBS = kibToMib tx, ngm_PCIeBandwidthUtilPercent = 0, ngm_EncoderUtilPercent = 0,
          ngm_DecoderUtilPercent = 0, ngm_ComputeUtilPercent = gpuUtil, ngm_Nvidia = None, ngm_Amd = None\<rparr>
      })"

text \<open>The map \<^verbatim>\<open>byUUID\<close> points to the last device of an identifier.\<close>

definition lastByUUID :: "string \<Rightarrow> NodeGpuMetricLite list \<Rightarrow> nat option" where
  "lastByUUID uuid gs = List.find (\<lambda>i. ngm_GPUUUID (gs ! i) = uuid) (rev [0..<length gs])"

definition codecRow :: "(f64 \<Rightarrow> NodeGpuMetricLite \<Rightarrow> NodeGpuMetricLite) \<Rightarrow> string list \<Rightarrow>
    NodeGpuMetricLite list \<Rightarrow> NodeGpuMetricLite list option" where
  "codecRow upd row gs =
     (if length row < 2 then Some gs
      else case lastByUUID (normalizeField (row ! 0)) gs of
             None \<Rightarrow> Some gs
           | Some i \<Rightarrow> map_option (\<lambda>v. gs[i := upd v (gs ! i)]) (parseFloatFlexible (row ! 1)))"

definition codecQuery :: "host \<Rightarrow> string \<Rightarrow> (f64 \<Rightarrow> NodeGpuMetricLite \<Rightarrow> NodeGpuMetricLite) \<Rightarrow>
    NodeGpuMetricLite list \<Rightarrow> NodeGpuMetricLite list option" where
  "codecQuery H name upd gs =
     (case runNvidiaQueryCSV H [''uuid'', name] of
        None \<Rightarrow> Some gs
      | Some rows \<Rightarrow> fold (\<lambda>row acc. acc \<bind> codecRow upd row) rows (Some gs))"

definition applyNvidiaCodecUtil :: "host \<Rightarrow> NodeGpuMetricLite list \<Rightarrow> NodeGpuMetricLite list option" where
  "applyNvidiaCodecUtil H out =
     (if out = [] then Some out
      else do {
        out1 \<leftarrow> codecQuery H ''utilization.encoder'' (\<lambda>v g. g\<lparr>ngm_EncoderUtilPercent := v\<rparr>) out;
        codecQuery H ''utilization.decoder'' (\<lambda>v g. g\<lparr>ngm_DecoderUtilPercent := v\<rparr>) out1
      })"

definition collectNvidiaGpuLite :: "host \<Rightarrow> time \<Rightarrow> string \<Rightarrow> delta_engine \<Rightarrow>
    (NodeGpuMetricLite list \<times> delta_engine) option" where
  "collectNvidiaGpuLite H now nodeID e =
     (if \<not> h_lookPath H ''nvidia-smi'' then Some ([], e)
      else case runNvidiaQueryCSV H nvidiaFields of
             None \<Rightarrow> Some ([], e)
           | Some rows \<Rightarrow>
               if rows = [] then Some ([], e)
               else let (energyByUUID, e') = queryNvidiaEnergyCounter H now e
                    in do {
                      out \<leftarrow> those (map (nvidiaMetric (h_platform H) now nodeID energyByUUID)
                                 (filter (\<lambda>row. length nvidiaFields \<le> length row) rows));
                      out' \<leftarrow> applyNvidiaCodecUtil H out;
                      Some (out', e')
                    })"

section \<open>rocm-smi\<close>

text \<open>
  A value decoded by \<^verbatim>\<open>encoding/json\<close> into an \<^verbatim>\<open>any\<close>. The decoder of an object, \<^verbatim>\<open>fmt\<close>'s text of a value that
  is neither a text nor a number, and the order in which Go visits a map are parameters; the order may
  be another one in each of the numbered loops.
\<close>

datatype jvalue = JNull | JBool bool | JNum f64 | JStr string | JArr "jvalue list" | JObj "(string \<times> jvalue) list"

record json_tools =
  j_decode :: "string \<Rightarrow> (string \<times> jvalue) list option"
  j_text :: "jvalue \<Rightarrow> string"
  j_order :: "nat \<Rightarrow> (string \<times> jvalue) list \<Rightarrow> (string \<times> jvalue) list"

definition findByContains :: "(string \<times> jvalue) list \<Rightarrow> string list \<Rightarrow> jvalue option" where
  "findByContains m needles =
     map_option snd (List.find (\<lambda>(k, _). list_ex (\<lambda>needle. contains (toLower k) (toLower needle)) needles) m)"

definition findMapStringByContains :: "json_tools \<Rightarrow> (string \<times> jvalue) list \<Rightarrow> string list \<Rightarrow> string" where
  "findMapStringByContains J m needles =
     (case findByContains m needles of
        None \<Rightarrow> []
      | Some (JStr s) \<Rightarrow> normalizeField s
      | Some v \<Rightarrow> normalizeField (j_text J v))"

definition findMapFloatByContains :: "json_tools \<Rightarrow> (string \<times> jvalue) list \<Rightarrow> string list \<Rightarrow> f64 option" where
  "findMapFloatByContains J m needles =
     (case findByContains m needles of
        None \<Rightarrow> Some 0
      | Some (JNum f) \<Rightarrow> Some f
      | Some (JStr s) \<Rightarrow> parseFloatFlexible s
      | Some v \<Rightarrow> parseFloatFlexible (j_text J v))"

definition isCard :: "string \<Rightarrow> bool" where
  "isCard key = (let lk = toLower (trimSpace key) in contains lk ''card'' \<or> contains lk ''gpu'')"

definition amdMetric :: "json_tools \<Rightarrow> platform \<Rightarrow> time \<Rightarrow> string \<Rightarrow> string \<times> (string \<times> jvalue) list \<Rightarrow>
    NodeGpuMetricLite option" where
  "amdMetric J pf now nodeID entry =
     (let (key, obj) = entry; lk = toLower (trimSpace key);
          flt = (\<lambda>i. findMapFloatByContains J (j_order J i obj)); u = u64_of_f64 pf
      in do {
        vramTotal \<leftarrow> flt 1 [''vram total'', ''memory total'']; vramUsed \<leftarrow> flt 2 [''vram used'', ''memory used''];
        gpuUse \<leftarrow> flt 4 [''gpu use'', ''gpu busy'']; memUse \<leftarrow> flt 5 [''memory use'', ''memory busy''];
        powerUse \<leftarrow> flt 6 [''power'', ''average power'']; powerCap \<leftarrow> flt 7 [''power cap'', ''max power''];
        temp \<leftarrow> flt 8 [''temperature'']; sclk \<leftarrow> flt 9 [''sclk'', ''gpu clock''];
        mclk \<leftarrow> flt 10 [''mclk'', ''memory clock'']; compute \<leftarrow> flt 11 [''gpu use'', ''gpu busy''];
        gfx \<leftarrow> flt 12 [''gpu busy'']; memCtl \<leftarrow> flt 13 [''memory busy'']; edge \<leftarrow> flt 14 [''edge temperature''];
        hotspot \<leftarrow> flt 15 [''hotspot'']; powerAvg \<leftarrow> flt 16 [''average power'']; soc \<leftarrow> flt 17 [''socclk''];
        mclk2 \<leftarrow> flt 18 [''mclk'', ''memory clock''];
        let totalBytes = mibToBytes (u vramTotal); usedBytes = mibToBytes (u vramUsed)
        in Some \<lparr>ngm_NodeID = nodeID, ngm_GPUIndex = parseUintFlexible pf (extractDigits lk),
          ngm_GPUUUID = findMapStringByContains J (j_order J 3 obj) [''unique id'', ''uuid''],
          ngm_Vendor = GpuVendorAmd, ngm_TimestampUnix = unixSeconds now,
          ngm_GPUUtilPercent = gpuUse, ngm_MemoryUtilPercent = memUse, ngm_MemoryTotalBytes = totalBytes,
          ngm_MemoryUsedBytes = usedBytes,
          ngm_MemoryFreeBytes = (if totalBytes > usedBytes then totalBytes - usedBytes else 0),
          ngm_PowerUsageWatts = powerUse, ngm_PowerLimitWatts = powerCap, ngm_TemperatureCelsius = temp,
          ngm_FanSpeedPercent = 0, ngm_ClockCoreMhz = u sclk, ngm_ClockMemMhz = u mclk, ngm_PCIeRxMBS = 0,
          ngm_PCIeTxMBS = 0, ngm_PCIeBandwidthUtilPercent = 0, ngm_EncoderUtilPercent = 0,
          ngm_DecoderUtilPercent = 0, ngm_ComputeUtilPercent = compute, ngm_Nvidia = None,
          ngm_Amd = Some \<lparr>amx_GFXUtilPercent = gfx, amx_MemoryControllerUtilPercent = memCtl,
            amx_TemperatureEdgeCelsius = edge, amx_TemperatureHotspotCelsius = hotspot,
            amx_PowerAverageWatts = powerAvg, amx_ClockSocMhz = u soc, amx_ClockMemoryMhz = u mclk2\<rparr>\<rparr>
      })"

definition cardObject :: "string \<times> jvalue \<Rightarrow> (string \<times> (string \<times> jvalue) list) option" where
  "cardObject entry =
     (case entry of (key, JObj obj) \<Rightarrow> if isCard key then Some (key, obj) else None | _ \<Rightarrow> None)"

definition collectAmdGpuLite :: "json_tools \<Rightarrow> host \<Rightarrow> time \<Rightarrow> string \<Rightarrow> NodeGpuMetricLite list option" where
  "collectAmdGpuLite J H now nodeID =
     (if \<not> h_lookPath H ''rocm-smi'' then Some []
      else case h_exec H ''rocm-smi'' [''--json''] of
             Inl _ \<Rightarrow> Some []
           | Inr raw \<Rightarrow>
               (case j_decode J raw of
                  None \<Rightarrow> Some []
                | Some decoded \<Rightarrow>
                    those (map (amdMetric J (h_platform H) now nodeID) (List.map_filter cardObject (j_order J 0 decoded)))))"

section \<open>Totals\<close>

definition gpuAggStep :: "NodeGpuMetricLite \<Rightarrow> gpuAggregateLite \<Rightarrow> gpuAggregateLite" where
  "gpuAggStep g agg =
     agg\<lparr>gal_TotalUtil := gal_TotalUtil agg + ngm_GPUUtilPercent g,
         gal_MemoryUsedBytes := gal_MemoryUsedBytes agg + ngm_MemoryUsedBytes g,
         gal_MemoryTotalByte := gal_MemoryTotalByte agg + ngm_MemoryTotalBytes g\<rparr>"

definition summarizeGpuLite :: "NodeGpuMetricLite list \<Rightarrow> NodeGpuMetricLite list \<times> gpuAggregateLite" where
  "summarizeGpuLite gpus0 =
     (let gpus = sort_key ngm_GPUIndex gpus0; cnt = of_nat (length gpus);
          agg = fold gpuAggStep gpus (zero_gpuAggregateLite\<lparr>gal_Count := cnt\<rparr>)
      in (gpus, if cnt > 0 then agg\<lparr>gal_TotalUtil := gal_TotalUtil agg / f64_of_u64 cnt\<rparr> else agg))"

definition collectNodeGPUMetrics :: "json_tools \<Rightarrow> host \<Rightarrow> time \<Rightarrow> string \<Rightarrow> node_reader \<Rightarrow>
    ((NodeGpuMetricLite list \<times> gpuAggregateLite) \<times> node_reader) option" where
  "collectNodeGPUMetrics J H now nodeID r =
     do {
       (nvidia, e') \<leftarrow> collectNvidiaGpuLite H now nodeID (nr_delta r);
       let r' = r\<lparr>nr_delta := e'\<rparr>
       in if nvidia \<noteq> [] then Some (summarizeGpuLite nvidia, r')
          else do {
            amd \<leftarrow> collectAmdGpuLite J H now nodeID;
            Some (if amd \<noteq> [] then summarizeGpuLite amd else ([], zero_gpuAggregateLite), r')
          }
     }"

end
