(* ===== verification/Node_Reader.thy ===== *)
theory Node_Reader
  imports Node_CPU Node_Memory Node_Disk Node_Network Node_GPU
begin

text \<open>
  The node reader: the metric record of a collection cycle
  (\<^verbatim>\<open>internal/libvirt/metric/node/reader_lite.go\<close>) and the hardware record
  (\<^verbatim>\<open>internal/libvirt/metric/node/reader_hardware.go\<close>), put together from the parts. \<open>None\<close> is the panic
  of \<open>parseFloatFlexible\<close>.
\<close>

text \<open>What one collection asks of libvirt, the clock and the machine.\<close>

record node_env =
  ne_client :: "goerr option"
  ne_nodeInfo :: "goerr + u64 \<times> i32 \<times> i32" \<comment> \<open>memory in KiB, CPUs, MHz\<close>
  ne_memStats :: "goerr + (string \<times> u64) list"
  ne_now :: time
  ne_host :: host
  ne_json :: json_tools

definition NewNodeMetricsReader :: node_reader where
  "NewNodeMetricsReader =
     \<lparr>nr_delta = newDeltaEngine, nr_prevSnapshot = zero_procCPUSnapshot, nr_hasPrevSnapshot = False,
      nr_prevVMStatSnapshot = zero_vmStatSnapshot, nr_hasPrevVMStat = False, nr_cpuInfoLoaded = False,
      nr_cpuStatic = zero_cpuStaticInfo, nr_memInfoLoaded = False, nr_memHardware = zero_memoryHardwareInfo\<rparr>"

section \<open>The metric record\<close>

text \<open>Total and used memory: from \<^verbatim>\<open>/proc\<close>, else from libvirt, else from the second reader of \<^verbatim>\<open>/proc\<close>.\<close>

definition memoryFallback :: "node_env \<Rightarrow> u64 \<Rightarrow> u64 \<Rightarrow> u64 \<times> u64" where
  "memoryFallback E ramTotal ramUsed =
     (if ramTotal = 0 \<or> ramUsed = 0
      then case memoryUsageFromLibvirt (ne_memStats E) of
             Inr (usedB, totalB) \<Rightarrow> (if ramTotal = 0 then totalB else ramTotal, usedB)
           | Inl _ \<Rightarrow>
               (case ReadMemoryInfo (ne_host E) of
                  Inr mem \<Rightarrow> (if ramTotal = 0 then smi_TotalBytes mem else ramTotal, smi_UsedBytes mem)
                | Inl _ \<Rightarrow> (ramTotal, ramUsed))
      else (ramTotal, ramUsed))"

definition nodeMemory :: "node_env \<Rightarrow> u64 \<Rightarrow> memoryInfoProc \<Rightarrow> memoryInfoProc" where
  "nodeMemory E memoryKiB memInfo =
     (let (total1, used1) = memoryFallback E (mip_TotalBytes memInfo) (mip_UsedBytes memInfo);
          ramTotal = (if total1 = 0 then memoryKiB * 1024 else total1);
          avail = mip_AvailableBytes memInfo;
          ramUsed = (if used1 = 0 \<and> avail > 0 \<and> ramTotal > avail then ramTotal - avail else used1);
          memInfo1 = (if mip_TotalBytes memInfo = 0 then memInfo\<lparr>mip_TotalBytes := ramTotal\<rparr> else memInfo)
      in if mip_UsedBytes memInfo1 = 0 then memInfo1\<lparr>mip_UsedBytes := ramUsed\<rparr> else memInfo1)"

definition readOrZero :: "goerr + 'a \<Rightarrow> 'a \<Rightarrow> 'a" where
  "readOrZero res z = (case res of Inl _ \<Rightarrow> z | Inr x \<Rightarrow> x)"

definition collectNode :: "node_env \<Rightarrow> u64 \<Rightarrow> i32 \<Rightarrow> i32 \<Rightarrow> string \<Rightarrow> string \<Rightarrow> node_reader \<Rightarrow>
    (NodeMetrics \<times> node_reader) option" where
  "collectNode E memoryKiB cpus mhz nodeID hostname r =
     (let H = ne_host E; now = ne_now E; pf = h_platform H;
          snapshotRes = readProcCPUSnapshot H now;
          snapshot = readOrZero snapshotRes zero_procCPUSnapshot;
          (cpuRealtime, r1) = computeCPURealtime snapshot (\<not> isl snapshotRes) r;
          memInfo0 = readOrZero (readMemoryInfoFromProc H) zero_memoryInfoProc;
          (_, r2) = computeMemoryRates pf (readVMStatSnapshot H now) r1;
          ((_, diskAgg), r3) = collectNodeDiskMetrics H now nodeID r2;
          ((_, netAgg), r4) = collectNodeNetworkMetrics H now nodeID r3
      in do {
        ((_, gpuAgg), r5) \<leftarrow> collectNodeGPUMetrics (ne_json E) H now nodeID r4;
        let memInfo = nodeMemory E memoryKiB memInfo0;
            load = readLoadAvg H;
            runQueue = (if la_RunQueueDepth load = 0 \<and> pcs_ProcsRunning snapshot > 0
                        then pcs_ProcsRunning snapshot else la_RunQueueDepth load);
            (staticInfo, r6) = loadCPUStaticInfo H (scast mhz) (scast cpus) r5;
            threads = (if csi_ThreadCountLogical staticInfo = 0 then scast cpus else csi_ThreadCountLogical staticInfo);
            (processCount, threadCount) = readProcessThreadCounts H;
            cpuCores = (if threads = 0 then 1 else threads)
        in Some (\<lparr>nm_NodeID = nodeID,
             nm_Hostname = (if hostname = [] then h_getenv H ''HOSTNAME'' else hostname),
             nm_TimestampUnix = unixSeconds now, nm_CPUUsagePercent = crm_TotalPercent cpuRealtime,
             nm_CPULoad1 = la_Load1 load, nm_CPULoad5 = la_Load5 load, nm_CPULoad15 = la_Load15 load,
             nm_CPUCores = cpuCores, nm_CPURunQueue = f64_of_u64 runQueue,
             nm_RAMUsagePercent = percentOf (mip_UsedBytes memInfo) (mip_TotalBytes memInfo),
             nm_RAMUsedBytes = mip_UsedBytes memInfo, nm_RAMTotalBytes = mip_TotalBytes memInfo,
             nm_DiskReadMBS = dal_ReadMBS diskAgg, nm_DiskWriteMBS = dal_WriteMBS diskAgg,
             nm_DiskTotalMBS = dal_TotalMBS diskAgg, nm_DiskUtilPercent = dal_UtilPercent diskAgg,
             nm_DiskIOPS = dal_IOPS diskAgg, nm_NetRxMBS = nal_RxMBS netAgg, nm_NetTxMBS = nal_TxMBS netAgg,
             nm_NetTotalMBS = nal_TotalMBS netAgg, nm_NetPacketRate = nal_PacketRate netAgg,
             nm_GPUCount = gal_Count gpuAgg, nm_GPUTotalUtilPercent = gal_TotalUtil gpuAgg,
             nm_GPUMemoryUtilPercent = percentOf (gal_MemoryUsedBytes gpuAgg) (gal_MemoryTotalByte gpuAgg),
             nm_GPUMemoryUsedBytes = gal_MemoryUsedBytes gpuAgg, nm_GPUMemoryTotalBytes = gal_MemoryTotalByte gpuAgg,
             nm_ProcessCount = processCount, nm_ThreadCount = threadCount,
             nm_SystemLoadPercent = clampPercent (la_Load1 load / f64_of_u64 cpuCores * Fin 100)\<rparr>, r6)
      })"

definition CollectNode :: "node_env \<Rightarrow> string \<Rightarrow> string \<Rightarrow> node_reader \<Rightarrow>
    ((goerr + NodeMetrics) \<times> node_reader) option" where
  "CollectNode E nodeID hostname r =
     (case ne_client E of
        Some err \<Rightarrow> Some (Inl err, r)
      | None \<Rightarrow>
          (case ne_nodeInfo E of
             Inl err \<Rightarrow> Some (Inl (wrap ''NodeGetInfo: '' err), r)
           | Inr (memoryKiB, cpus, mhz) \<Rightarrow>
               map_option (\<lambda>(m, r'). (Inr m, r')) (collectNode E memoryKiB cpus mhz nodeID hostname r)))"

section \<open>The hardware record\<close>

definition maxU64 :: "u64 \<Rightarrow> u64 \<Rightarrow> u64" where
  "maxU64 a b = (if b \<le> a then a else b)"

definition valueAtString :: "string list \<Rightarrow> int \<Rightarrow> string" where
  "valueAtString vals idx = (if idx < 0 \<or> int (length vals) \<le> idx then [] else vals ! nat idx)"

definition valueAtU64 :: "u64 list \<Rightarrow> int \<Rightarrow> u64" where
  "valueAtU64 vals idx = (if idx < 0 \<or> int (length vals) \<le> idx then 0 else vals ! nat idx)"

definition gpuVendorName :: "GpuVendor \<Rightarrow> string" where
  "gpuVendorName v =
     (case v of GpuVendorNvidia \<Rightarrow> ''nvidia'' | GpuVendorAmd \<Rightarrow> ''amd'' | GpuVendorIntel \<Rightarrow> ''intel''
      | GpuVendorUnknown \<Rightarrow> ''unknown'')"

definition virtualizationSupported :: "string \<Rightarrow> bool" where
  "virtualizationSupported raw =
     (let normalized = toLower (trimSpace raw)
      in normalized = ''supported'' \<or> normalized = ''yes'' \<or> normalized = ''true'' \<or> normalized = ''on'')"

definition ramStick :: "memoryHardwareInfo \<Rightarrow> nat \<times> string \<Rightarrow> NodeRamStick" where
  "ramStick mem entry =
     (let i = int (fst entry)
      in \<lparr>nrs_Slot = trimSpace (snd entry), nrs_SizeBytes = valueAtU64 (mhi_StickSizeBytes mem) i,
          nrs_SpeedMhz = valueAtU64 (mhi_StickSpeedMhz mem) i,
          nrs_Type = trimSpace (valueAtString (mhi_StickType mem) i),
          nrs_Model = trimSpace (valueAtString (mhi_StickModel mem) i),
          nrs_Manufacturer = trimSpace (valueAtString (mhi_StickManufacturer mem) i),
          nrs_Serial = trimSpace (valueAtString (mhi_StickSerial mem) i)\<rparr>)"

definition buildNodeRAMSticks :: "memoryHardwareInfo \<Rightarrow> NodeRamStick list" where
  "buildNodeRAMSticks mem = map (ramStick mem) (enumerate 0 (mhi_StickSlot mem))"

definition diskInfo :: "host \<Rightarrow> (string, diskMountUsage) gomap \<Rightarrow> string \<Rightarrow> NodeDiskInfo" where
  "diskInfo H mountUsages name =
     (let sysInfo = readDiskSysInfo H name; usage = map_of mountUsages name;
          joined = (\<lambda>f. case usage of None \<Rightarrow> [] | Some u \<Rightarrow> joinStr (f u) '','')
      in \<lparr>ndi_Name = name, ndi_Model = trimSpace (dsi_Model sysInfo), ndi_Serial = trimSpace (dsi_Serial sysInfo),
          ndi_Type = trimSpace (dsi_Type sysInfo), ndi_SizeBytes = dsi_SizeBytes sysInfo,
          ndi_Mountpoint = joined dmu_Mountpoints, ndi_Filesystem = joined dmu_Filesystems\<rparr>)"

definition diskNames :: "host \<Rightarrow> string list" where
  "diskNames H =
     (case readDiskStatSnapshots H of Inl _ \<Rightarrow> [] | Inr snapshots \<Rightarrow> map fst snapshots) @
     map fst (readDiskMountUsages H) @
     (case h_readDir H ''/sys/class/block'' of
        Inl _ \<Rightarrow> []
      | Inr entries \<Rightarrow> filter (isWholeBlockDevice H) (map (\<lambda>(name, _). trimSpace name) entries))"

definition collectNodeDiskStaticInfos :: "host \<Rightarrow> NodeDiskInfo list" where
  "collectNodeDiskStaticInfos H = map (diskInfo H (readDiskMountUsages H)) (sort (remdups (diskNames H)))"

definition linkTarget :: "host \<Rightarrow> string \<Rightarrow> string option" where
  "linkTarget H link =
     (case h_readlink H link of
        Inl _ \<Rightarrow> None
      | Inr target \<Rightarrow> Some (if \<not> fpIsAbs target then fpClean (fpJoin [fpDir link, target]) else target))"

definition readNetIfDriver :: "host \<Rightarrow> string \<Rightarrow> string" where
  "readNetIfDriver H basePath =
     (case linkTarget H (fpJoin [basePath, ''device'', ''driver'']) of
        None \<Rightarrow> [] | Some target \<Rightarrow> trimSpace (fpBase target))"

definition readNetIfPCIAddress :: "host \<Rightarrow> string \<Rightarrow> string" where
  "readNetIfPCIAddress H basePath =
     (case linkTarget H (fpJoin [basePath, ''device'']) of
        None \<Rightarrow> []
      | Some target \<Rightarrow>
          (let candidate = trimSpace (fpBase target)
           in if 2 \<le> count_char candidate (CHR '':'') then candidate else []))"

definition inferNetIfType :: "host \<Rightarrow> string \<Rightarrow> string" where
  "inferNetIfType H basePath =
     (if h_exists H (fpJoin [basePath, ''wireless'']) then ''wireless''
      else let t = readTextFile H (fpJoin [basePath, ''type''])
           in if t = ''1'' then ''ethernet'' else if t = ''772'' then ''loopback'' else ''unknown'')"

definition netIfInfo :: "host \<Rightarrow> netIfSample \<Rightarrow> NodeNetIfInfo" where
  "netIfInfo H sample =
     (let basePath = fpJoin [''/sys/class/net'', ns_Name sample]
      in \<lparr>nni_Name = ns_Name sample, nni_MacAddress = trimSpace (readTextFile H (fpJoin [basePath, ''address''])),
          nni_MTU = readUintFile H (fpJoin [basePath, ''mtu'']), nni_SpeedMbps = ns_SpeedMbps sample,
          nni_Driver = readNetIfDriver H basePath, nni_PCIAddress = readNetIfPCIAddress H basePath,
          nni_Type = inferNetIfType H basePath\<rparr>)"

definition collectNodeNetIfStaticInfos :: "host \<Rightarrow> NodeNetIfInfo list" where
  "collectNodeNetIfStaticInfos H = map (netIfInfo H) (sort_key ns_Name (readNetworkInterfaceSamples H))"

subsection \<open>GPUs\<close>

definition nvidiaInfo :: "platform \<Rightarrow> string list \<Rightarrow> NodeGpuInfo" where
  "nvidiaInfo pf row =
     \<lparr>ngi_Index = parseUintFlexible pf (row ! 0), ngi_UUID = normalizeField (row ! 1), ngi_Vendor = ''nvidia'',
      ngi_Model = normalizeField (row ! 2), ngi_MemoryTotalBytes = mibToBytes (parseUintFlexible pf (row ! 3)),
      ngi_PCIAddress = normalizeField (row ! 4), ngi_DriverVersion = normalizeField (row ! 5)\<rparr>"

definition collectNvidiaGPUStaticInfos :: "host \<Rightarrow> NodeGpuInfo list" where
  "collectNvidiaGPUStaticInfos H =
     (if \<not> h_lookPath H ''nvidia-smi'' then []
      else case runNvidiaQueryCSV H [''index'', ''uuid'', ''name'', ''memory.total'', ''pci.bus_id'', ''driver_version''] of
             None \<Rightarrow> []
           | Some rows \<Rightarrow>
               sort_key ngi_Index (map (nvidiaInfo (h_platform H)) (filter (\<lambda>row. 6 \<le> length row) rows)))"

definition infoOfMetric :: "string \<Rightarrow> NodeGpuMetricLite \<Rightarrow> NodeGpuInfo" where
  "infoOfMetric vendor gpu =
     \<lparr>ngi_Index = ngm_GPUIndex gpu, ngi_UUID = trimSpace (ngm_GPUUUID gpu), ngi_Vendor = vendor, ngi_Model = [],
      ngi_MemoryTotalBytes = ngm_MemoryTotalBytes gpu, ngi_PCIAddress = [], ngi_DriverVersion = []\<rparr>"

definition collectAmdGPUStaticInfos :: "json_tools \<Rightarrow> host \<Rightarrow> time \<Rightarrow> string \<Rightarrow> NodeGpuInfo list option" where
  "collectAmdGPUStaticInfos J H now nodeID =
     map_option (\<lambda>gpus. sort_key ngi_Index (map (infoOfMetric ''amd'') gpus)) (collectAmdGpuLite J H now nodeID)"

definition isDisplayLine :: "string \<Rightarrow> bool" where
  "isDisplayLine line =
     (let lower = toLower line
      in contains lower ''vga compatible controller'' \<or> contains lower ''3d controller'' \<or>
         contains lower ''display controller'')"

definition lspciVendor :: "string \<Rightarrow> string" where
  "lspciVendor desc =
     (let descLower = toLower desc
      in if contains descLower ''nvidia'' then ''nvidia''
         else if contains descLower ''amd'' \<or> contains descLower ''advanced micro devices'' \<or> contains descLower ''ati''
           then ''amd''
         else if contains descLower ''intel'' then ''intel''
         else ''unknown'')"

definition lspciParts :: "string \<Rightarrow> string \<times> string" where
  "lspciParts line =
     (let (pciAddress, desc) =
            (case splitN2 (CHR '' '') line of [a, d] \<Rightarrow> (trimSpace a, trimSpace d) | _ \<Rightarrow> ([], line))
      in case index_of desc '': '' of
           None \<Rightarrow> (pciAddress, desc)
         | Some idx \<Rightarrow> (pciAddress, trimSpace (drop (idx + 2) desc)))"

definition lspciStep :: "string \<Rightarrow> NodeGpuInfo list \<Rightarrow> NodeGpuInfo list" where
  "lspciStep line0 out =
     (let line = trimSpace line0; (pciAddress, desc) = lspciParts line
      in if line = [] then out
         else if \<not> isDisplayLine line then out
         else out @ [\<lparr>ngi_Index = of_nat (length out), ngi_UUID = [], ngi_Vendor = lspciVendor desc, ngi_Model = desc,
                      ngi_MemoryTotalBytes = 0, ngi_PCIAddress = pciAddress, ngi_DriverVersion = []\<rparr>])"

definition collectGPUStaticInfosFromLspci :: "host \<Rightarrow> NodeGpuInfo list" where
  "collectGPUStaticInfosFromLspci H =
     (if \<not> h_lookPath H ''lspci'' then []
      else case h_exec H ''lspci'' [''-Dnn''] of Inl _ \<Rightarrow> [] | Inr raw \<Rightarrow> fold lspciStep (lines raw) [])"

definition collectNodeGPUStaticInfos :: "json_tools \<Rightarrow> host \<Rightarrow> time \<Rightarrow> string \<Rightarrow> node_reader \<Rightarrow>
    (NodeGpuInfo list \<times> node_reader) option" where
  "collectNodeGPUStaticInfos J H now nodeID r =
     (let nvidia = collectNvidiaGPUStaticInfos H
      in if nvidia \<noteq> [] then Some (nvidia, r)
         else do {
           amd \<leftarrow> collectAmdGPUStaticInfos J H now nodeID;
           if amd \<noteq> [] then Some (amd, r)
           else do {
             ((runtimeGPUs, _), r') \<leftarrow> collectNodeGPUMetrics J H now nodeID r;
             Some (if runtimeGPUs \<noteq> []
                   then sort_key ngi_Index (map (\<lambda>g. infoOfMetric (gpuVendorName (ngm_Vendor g)) g) runtimeGPUs)
                   else collectGPUStaticInfosFromLspci H, r')
           }
         })"

definition CollectHardware :: "node_env \<Rightarrow> string \<Rightarrow> string \<Rightarrow> node_reader \<Rightarrow>
    ((goerr + NodeHardwareInfo) \<times> node_reader) option" where
  "CollectHardware E nodeID hostname r =
     (case ne_client E of
        Some err \<Rightarrow> Some (Inl err, r)
      | None \<Rightarrow>
          (case ne_nodeInfo E of
             Inl err \<Rightarrow> Some (Inl err, r)
           | Inr (memoryKiB, cpus, mhz) \<Rightarrow>
               (let H = ne_host E; now = ne_now E;
                    (cpuStatic, r1) = loadCPUStaticInfo H (scast mhz) (scast cpus) r;
                    (memStatic, r2) = loadMemoryHardwareInfo H (memoryKiB * 1024) r1
                in do {
                  (gpus, r3) \<leftarrow> collectNodeGPUStaticInfos (ne_json E) H now nodeID r2;
                  Some (Inr \<lparr>nhi_NodeID = nodeID,
                    nhi_Hostname = (if trimSpace hostname = [] then trimSpace (h_getenv H ''HOSTNAME'') else hostname),
                    nhi_CPU = \<lparr>nci_Model = trimSpace (csi_ModelName cpuStatic), nci_Vendor = trimSpace (csi_Vendor cpuStatic),
                      nci_Cores = maxU64 (csi_CoreCountPhysical cpuStatic) (scast cpus),
                      nci_Threads = maxU64 (csi_ThreadCountLogical cpuStatic) (scast cpus),
                      nci_Sockets = maxU64 (csi_SocketCount cpuStatic) 1,
                      nci_BaseMhz = maxU64 (csi_FreqMinMhz cpuStatic) (scast mhz),
                      nci_MaxMhz = maxU64 (csi_FreqMaxMhz cpuStatic) (scast mhz),
                      nci_Architecture = firstNonEmpty [trimSpace (csi_Architecture cpuStatic), goarch (h_platform H)],
                      nci_VirtualizationSupport = virtualizationSupported (csi_VirtualizationSupport cpuStatic)\<rparr>,
                    nhi_RAMSticks = buildNodeRAMSticks memStatic, nhi_Disks = collectNodeDiskStaticInfos H,
                    nhi_NetIfs = collectNodeNetIfStaticInfos H, nhi_GPUs = gpus,
                    nhi_CollectedAtUnix = unixSeconds now\<rparr>, r3)
                })))"

end
