(* ===== verification/Collectors.thy ===== *)
theory Collectors
  imports Agent VM_Metrics Node_Reader
begin

text \<open>
  The four collectors of \<^verbatim>\<open>internal/collector\<close> and how the agent wires them (\<^verbatim>\<open>agent.New\<close>): each holds the
  node's identity and a pointer to a reader. The two node collectors share one reader and the two machine
  collectors the other, so the readers are one state that every collection is given and returns. With them
  one turn of a collection loop is a step from what libvirt and the host answer to what the sink is given.
\<close>

section \<open>The collectors\<close>

record node_collector =
  nc_nodeID :: string
  nc_hostname :: string

record vm_collector =
  vc_nodeID :: string

definition NewNodeCollector :: "string \<Rightarrow> string \<Rightarrow> node_collector" where
  "NewNodeCollector nodeID hostname = \<lparr>nc_nodeID = nodeID, nc_hostname = hostname\<rparr>"

definition NewNodeHardwareCollector :: "string \<Rightarrow> string \<Rightarrow> node_collector" where
  "NewNodeHardwareCollector nodeID hostname = \<lparr>nc_nodeID = nodeID, nc_hostname = hostname\<rparr>"

definition NewVMCollector :: "string \<Rightarrow> vm_collector" where
  "NewVMCollector nodeID = \<lparr>vc_nodeID = nodeID\<rparr>"

definition NewVMRuntimeCollector :: "string \<Rightarrow> vm_collector" where
  "NewVMRuntimeCollector nodeID = \<lparr>vc_nodeID = nodeID\<rparr>"

definition collectNodeMetrics ::
    "node_collector \<Rightarrow> node_env \<Rightarrow> node_reader \<Rightarrow> ((goerr + NodeMetrics) \<times> node_reader) option" where
  "collectNodeMetrics c E r = CollectNode E (nc_nodeID c) (nc_hostname c) r"

definition collectNodeHardware ::
    "node_collector \<Rightarrow> node_env \<Rightarrow> node_reader \<Rightarrow> ((goerr + NodeHardwareInfo) \<times> node_reader) option" where
  "collectNodeHardware c E r = CollectHardware E (nc_nodeID c) (nc_hostname c) r"

definition collectVMMetrics ::
    "vm_collector \<Rightarrow> 'd collect_env \<Rightarrow> vm_reader \<Rightarrow> (goerr + VMMetrics list) \<times> vm_reader" where
  "collectVMMetrics c E r = CollectVM E (vc_nodeID c) r"

definition collectVMRuntimeMetrics ::
    "vm_collector \<Rightarrow> 'd collect_env \<Rightarrow> vm_reader \<Rightarrow> (goerr + VMRuntimeMetrics list) \<times> vm_reader" where
  "collectVMRuntimeMetrics c E r = CollectRuntime E (vc_nodeID c) r"

section \<open>The agent's readers and collectors\<close>

record readers =
  rd_node :: node_reader
  rd_vm :: vm_reader

record collectors =
  co_node :: node_collector
  co_nodeHardware :: node_collector
  co_vm :: vm_collector
  co_vmRuntime :: vm_collector

definition agentReaders :: "platform \<Rightarrow> readers" where
  "agentReaders pf = \<lparr>rd_node = NewNodeMetricsReader, rd_vm = NewVMMetricsReader pf\<rparr>"

definition agentCollectors :: "config \<Rightarrow> collectors" where
  "agentCollectors cfg =
     \<lparr>co_node = NewNodeCollector (NodeID cfg) (Hostname cfg),
      co_nodeHardware = NewNodeHardwareCollector (NodeID cfg) (Hostname cfg),
      co_vm = NewVMCollector (NodeID cfg), co_vmRuntime = NewVMRuntimeCollector (NodeID cfg)\<rparr>"

section \<open>A turn of a loop, from the host to the sink\<close>

text \<open>
  What one turn sees: the node, or libvirt's machines, as the environment of the collection, and the
  current time where the turn reads the clock itself.
\<close>

datatype 'd turn =
  NodeTurn node_env
| HardwareTurn node_env
| VMTurn "'d collect_env" int
| RuntimeTurn "'d collect_env" int
| PeriodicTurn int

text \<open>The collection of a turn, and the cycle it starts; \<open>None\<close> when the collection panics.\<close>

fun collected :: "collectors \<Rightarrow> 'd turn \<Rightarrow> readers \<Rightarrow> (cycle \<times> readers) option" where
  "collected C (NodeTurn E) r =
     map_option (\<lambda>(x, n). (NodeCycle x, r\<lparr>rd_node := n\<rparr>)) (collectNodeMetrics (co_node C) E (rd_node r))"
| "collected C (HardwareTurn E) r =
     map_option (\<lambda>(x, n). (HardwareCycle x, r\<lparr>rd_node := n\<rparr>)) (collectNodeHardware (co_nodeHardware C) E (rd_node r))"
| "collected C (VMTurn E now) r =
     (let (x, v) = collectVMMetrics (co_vm C) E (rd_vm r) in Some (VMCycle x now, r\<lparr>rd_vm := v\<rparr>))"
| "collected C (RuntimeTurn E now) r =
     (let (x, v) = collectVMRuntimeMetrics (co_vmRuntime C) E (rd_vm r) in Some (RuntimeCycle x now, r\<lparr>rd_vm := v\<rparr>))"
| "collected C (PeriodicTurn now) r = Some (PeriodicCycle now, r)"

type_synonym 's agent_state = "readers \<times> scheduler \<times> 's"

definition agentTurn ::
    "collectors \<Rightarrow> 's sink_ops \<Rightarrow> 'd turn \<Rightarrow> 's agent_state \<Rightarrow> (goerr option \<times> 's agent_state) option" where
  "agentTurn C S i st =
     (case collected C i (fst st) of
        None \<Rightarrow> None
      | Some (c, r') \<Rightarrow> (let (err, st') = run_cycle S c (snd st) in Some (err, r', st')))"

end
