(* ===== verification/Scheduler_Steps.thy ===== *)
theory Scheduler_Steps
  imports Scheduler_Facts
begin

text \<open>
  A turn of a collection loop (\<^verbatim>\<open>internal/collector/scheduler.go\<close>) cut where another goroutine may come
  between: after the collection, around each send, which the transport serialises under its own mutex, and
  around each critical section under \<^verbatim>\<open>s.mu\<close>. A phase is what is left of the turn with its local
  variables. Run without interruption the phases are the cycles of \<open>Scheduler\<close>.
\<close>

section \<open>Phases\<close>

datatype turn_phase =
  SendingNode NodeMetrics
| SendingHardware NodeHardwareInfo
| SendingVM "VMMetrics list" int
| SendingRuntime "VMRuntimeMetrics list" int
| Resolving vm_map int string
| Diffing vm_map string int string
| SendingSync VMInfoSync vm_map
| Committing vm_map
| Snapshotting int
| SendingFull VMInfoSync
| CommittingFull
| Finished "goerr option"

text \<open>\<^verbatim>\<open>syncVMInfoFromMap\<close> on a map with the node's identity, if there is one, and the time.\<close>

definition syncing :: "vm_map \<Rightarrow> string \<Rightarrow> int \<Rightarrow> turn_phase" where
  "syncing current nodeID ts =
     (if nodeID = [] then Resolving current ts ''runtime_change'' else Diffing current nodeID ts ''runtime_change'')"

definition syncingLite :: "VMMetrics list \<Rightarrow> int \<Rightarrow> turn_phase" where
  "syncingLite metrics now =
     (case metrics of
        [] \<Rightarrow> syncing (BuildVMInfoMap metrics) [] now
      | m # _ \<Rightarrow> syncing (BuildVMInfoMap metrics) (vl_NodeID m) (vl_TimestampUnix m))"

definition syncingRuntime :: "VMRuntimeMetrics list \<Rightarrow> int \<Rightarrow> turn_phase" where
  "syncingRuntime metrics now =
     (case metrics of
        [] \<Rightarrow> syncing (BuildVMInfoMapFromRuntime metrics) [] now
      | m # _ \<Rightarrow> syncing (BuildVMInfoMapFromRuntime metrics) (vr_NodeID m) (vr_TimestampUnix m))"

text \<open>The phase after the collection.\<close>

fun first_phase :: "scheduler \<Rightarrow> cycle \<Rightarrow> turn_phase" where
  "first_phase s (NodeCycle x) = (case x of Inl e \<Rightarrow> Finished (Some e) | Inr m \<Rightarrow> SendingNode m)"
| "first_phase s (HardwareCycle x) =
     (if \<not> sc_hasHardware s then Finished None
      else case x of Inl e \<Rightarrow> Finished (Some e) | Inr h \<Rightarrow> SendingHardware h)"
| "first_phase s (VMCycle x now) =
     (case x of
        Inl e \<Rightarrow> Finished (Some e)
      | Inr ms \<Rightarrow>
          if ms \<noteq> [] then SendingVM ms now
          else if \<not> sc_hasRuntime s then syncing [] [] now else Finished None)"
| "first_phase s (RuntimeCycle x now) =
     (case x of
        Inl e \<Rightarrow> Finished (Some e)
      | Inr ms \<Rightarrow> if ms \<noteq> [] then SendingRuntime ms now else syncing [] [] now)"
| "first_phase s (PeriodicCycle now) = Snapshotting now"

text \<open>After a send: on an error the turn is over.\<close>

definition after_send :: "(goerr option \<times> 's) \<Rightarrow> turn_phase \<Rightarrow> scheduler \<Rightarrow> turn_phase \<times> scheduler \<times> 's" where
  "after_send r p s = (case r of (Some e, k) \<Rightarrow> (Finished (Some e), s, k) | (None, k) \<Rightarrow> (p, s, k))"

fun phase_step :: "'s sink_ops \<Rightarrow> turn_phase \<times> scheduler \<times> 's \<Rightarrow> turn_phase \<times> scheduler \<times> 's" where
  "phase_step S (SendingNode m, s, k) = after_send (SendNodeMetrics S m k) (Finished None) s"
| "phase_step S (SendingHardware h, s, k) = after_send (SendNodeHardwareInfo S h k) (Finished None) s"
| "phase_step S (SendingVM ms now, s, k) =
     after_send (SendVMMetrics S ms k) (if \<not> sc_hasRuntime s then syncingLite ms now else Finished None) s"
| "phase_step S (SendingRuntime ms now, s, k) = after_send (SendVMRuntimeMetrics S ms k) (syncingRuntime ms now) s"
| "phase_step S (Resolving current ts reason, s, k) = (Diffing current (resolveVMNodeID s current) ts reason, s, k)"
| "phase_step S (Diffing current nodeID ts reason, s, k) =
     (let (d, s') = computeVMInfoDiff s current
      in (if \<not> snd (snd (snd d)) then Finished None else SendingSync (sync_message nodeID ts reason d) current, s', k))"
| "phase_step S (SendingSync info current, s, k) = after_send (SendVMInfoSync S info k) (Committing current) s"
| "phase_step S (Committing current, s, k) = (Finished None, commitVMInfoSync s current, k)"
| "phase_step S (Snapshotting now, s, k) =
     (case periodicSnapshot s now of None \<Rightarrow> (Finished None, s, k) | Some info \<Rightarrow> (SendingFull info, s, k))"
| "phase_step S (SendingFull info, s, k) = after_send (SendVMInfoSync S info k) CommittingFull s"
| "phase_step S (CommittingFull, s, k) = (Finished None, periodicCommit s, k)"
| "phase_step S (Finished err, s, k) = (Finished err, s, k)"

fun phase_left :: "turn_phase \<Rightarrow> nat" where
  "phase_left (SendingNode _) = 1"
| "phase_left (SendingHardware _) = 1"
| "phase_left (SendingVM _ _) = 5"
| "phase_left (SendingRuntime _ _) = 5"
| "phase_left (Resolving _ _ _) = 4"
| "phase_left (Diffing _ _ _ _) = 3"
| "phase_left (SendingSync _ _) = 2"
| "phase_left (Committing _) = 1"
| "phase_left (Snapshotting _) = 3"
| "phase_left (SendingFull _) = 2"
| "phase_left CommittingFull = 1"
| "phase_left (Finished _) = 0"

lemma phase_left_cases: "phase_left p = 0 \<longleftrightarrow> (\<exists>err. p = Finished err)"
  by (cases p) auto

lemma phase_left_syncing [simp]: "phase_left (syncing m n t) \<le> 4"
  by (simp add: syncing_def)

lemma phase_left_bound: "phase_left p \<le> 5"
  by (cases p) auto

lemma phase_step_left: "0 < phase_left p \<Longrightarrow> phase_left (fst (phase_step S (p, s, k))) < phase_left p"
proof -
  have *: "phase_left (syncing m n t) < 5" for m n t
    using phase_left_syncing [of m n t] by linarith
  assume "0 < phase_left p"
  then show ?thesis
    by (cases p) (auto simp: after_send_def syncingLite_def syncingRuntime_def * Let_def split_def split: option.splits prod.splits list.splits)
qed

section \<open>An uninterrupted turn\<close>

fun phases :: "'s sink_ops \<Rightarrow> nat \<Rightarrow> turn_phase \<times> scheduler \<times> 's \<Rightarrow> turn_phase \<times> scheduler \<times> 's" where
  "phases S 0 st = st"
| "phases S (Suc n) st = phases S n (phase_step S st)"

lemma phases_Finished [simp]: "phases S n (Finished err, s, k) = (Finished err, s, k)"
  by (induction n) simp_all

abbreviation outcome :: "goerr option \<times> scheduler \<times> 's \<Rightarrow> turn_phase \<times> scheduler \<times> 's" where
  "outcome r \<equiv> (Finished (fst r), snd r)"

lemma phases_diff:
  "phases S 3 (Diffing m (if n = [] then resolveVMNodeID s m else n) t r, s, k) = outcome (syncVMInfoFromMap S m n t r (s, k))"
  by (auto simp: numeral_3_eq_3 syncVMInfoFromMap_def after_send_def Let_def split_def split: option.splits prod.splits)

lemma phases_more:
  "phases S n st = (Finished err, st') \<Longrightarrow> n \<le> m \<Longrightarrow> phases S m st = (Finished err, st')"
proof (induction n arbitrary: m st)
  case 0
  then show ?case by (cases st') simp
next
  case (Suc n)
  then show ?case by (cases m) simp_all
qed

lemma phases_syncing:
  "phases S 4 (syncing m n t, s, k) = outcome (syncVMInfoFromMap S m n t ''runtime_change'' (s, k))"
proof (cases "n = []")
  case True
  then show ?thesis
    using phases_diff [of S m n s t "''runtime_change''" k] by (simp add: syncing_def eval_nat_numeral)
next
  case False
  then show ?thesis
    using phases_more [OF phases_diff [of S m n s t "''runtime_change''" k], of 4] by (simp add: syncing_def)
qed

lemma phases_syncing':
  "phases S 5 (syncing m n t, s, k) = outcome (syncVMInfoFromMap S m n t ''runtime_change'' (s, k))"
  using phases_more [OF phases_syncing, of 5] by simp

lemma phases_lite:
  "phases S 4 (syncingLite ms now, s, k) = outcome (syncVMInfoFromVMMetrics S ms now ''runtime_change'' (s, k))"
  by (cases ms) (simp_all add: syncingLite_def syncVMInfoFromVMMetrics_def phases_syncing)

lemma phases_runtime:
  "phases S 4 (syncingRuntime ms now, s, k) = outcome (syncVMInfoFromRuntimeMetrics S ms now ''runtime_change'' (s, k))"
  by (cases ms) (simp_all add: syncingRuntime_def syncVMInfoFromRuntimeMetrics_def phases_syncing)

lemma phases_step5: "phases S 5 st = phases S 4 (phase_step S st)"
  by (simp add: eval_nat_numeral)

lemmas phases_turn = phases_step5 phases_syncing' [unfolded phases_step5] phases_lite phases_runtime after_send_def

lemma phases_cycle: "phases S 5 (first_phase s c, s, k) = outcome (run_cycle S c (s, k))"
proof (cases c)
  case (PeriodicCycle now)
  then show ?thesis
    by (auto simp: eval_nat_numeral syncVMInfoPeriodic_def after_send_def split: option.splits prod.splits)
qed (auto simp: phases_turn collectAndSendNode_def syncNodeHardwarePeriodic_def collectAndSendVM_def
    collectAndSendVMRuntime_def Let_def split: sum.splits option.splits prod.splits)

end
