(* ===== verification/Scheduler_Run.thy ===== *)
theory Scheduler_Run
  imports Collectors Scheduler_Steps
begin

text \<open>
  \<^verbatim>\<open>Scheduler.Run\<close>: the four loops as goroutines of one process that share the readers, the scheduler and the
  sink. Each loop rests at a point of its code or is in a phase of a turn (\<open>Scheduler_Steps\<close>); a step
  is the collection that begins a turn, one phase of it, its end, a loop that wakes from its back-off, a loop
  that returns, or the end of the context. Which loop moves is free, so the runs are all interleavings of
  the loops' critical sections and sends. After the end of the context a ticker may still win the
  \<^verbatim>\<open>select\<close>, as in Go. A collection that panics has no step: it ends the agent.
\<close>

section \<open>The loops\<close>

datatype loop = NodeLoop | VMLoop | RuntimeLoop | InfoLoop

text \<open>
  Where a loop rests: before its first turn, at its \<^verbatim>\<open>select\<close>, between the two parts of a turn of the
  information loop, in its back-off, or returned with \<^verbatim>\<open>nil\<close>, which is all a loop returns.
\<close>

datatype loop_pc = Starting | Waiting | AfterHardware | Sleeping | Returned

fun turn_loop :: "'d turn \<Rightarrow> loop" where
  "turn_loop (NodeTurn _) = NodeLoop"
| "turn_loop (HardwareTurn _) = InfoLoop"
| "turn_loop (VMTurn _ _) = VMLoop"
| "turn_loop (RuntimeTurn _ _) = RuntimeLoop"
| "turn_loop (PeriodicTurn _) = InfoLoop"

text \<open>
  Where a turn leaves its loop, given the turn's error; \<open>None\<close> when the turn is not the loop's next. The
  error of a first turn is only logged; an error of a later one costs the back-off, if that is positive.
\<close>

fun ticker_pc :: "scheduler \<Rightarrow> loop_pc \<Rightarrow> goerr option \<Rightarrow> loop_pc option" where
  "ticker_pc sc Starting err = Some Waiting"
| "ticker_pc sc Waiting err = Some (if err \<noteq> None \<and> sleepWithContext (sc_errorBackoff sc) \<noteq> [] then Sleeping else Waiting)"
| "ticker_pc sc _ err = None"

fun info_pc :: "scheduler \<Rightarrow> bool \<Rightarrow> loop_pc \<Rightarrow> loop_pc option" where
  "info_pc sc hardware Starting = (if hardware \<and> sc_hasHardware sc then Some Waiting else None)"
| "info_pc sc hardware Waiting =
     (if hardware \<noteq> sc_hasHardware sc then None else Some (if hardware then AfterHardware else Waiting))"
| "info_pc sc hardware AfterHardware = (if hardware then None else Some Waiting)"
| "info_pc sc hardware _ = None"

fun next_pc :: "scheduler \<Rightarrow> 'd turn \<Rightarrow> loop_pc \<Rightarrow> goerr option \<Rightarrow> loop_pc option" where
  "next_pc sc (NodeTurn _) p err = ticker_pc sc p err"
| "next_pc sc (VMTurn _ _) p err = ticker_pc sc p err"
| "next_pc sc (RuntimeTurn _ _) p err = (if sc_hasRuntime sc then ticker_pc sc p err else None)"
| "next_pc sc (HardwareTurn _) p err = info_pc sc True p"
| "next_pc sc (PeriodicTurn _) p err = info_pc sc False p"

text \<open>
  Where a loop starts that has nothing to do at first: the runtime loop returns at once when there is no
  runtime collector, the information loop goes to its \<^verbatim>\<open>select\<close> when there is no hardware collector.
\<close>

fun idle_start :: "scheduler \<Rightarrow> loop \<Rightarrow> loop_pc option" where
  "idle_start sc RuntimeLoop = (if sc_hasRuntime sc then None else Some Returned)"
| "idle_start sc InfoLoop = (if sc_hasHardware sc then None else Some Waiting)"
| "idle_start sc _ = None"

section \<open>The run\<close>

datatype 'd activity = Resting loop_pc | Busy "'d turn" loop_pc turn_phase

record ('d, 's) run_state =
  rs_at :: "loop \<Rightarrow> 'd activity"
  rs_cancelled :: bool
  rs_readers :: readers
  rs_shared :: "scheduler \<times> 's"

abbreviation rs_scheduler :: "('d, 's) run_state \<Rightarrow> scheduler" where
  "rs_scheduler st \<equiv> fst (rs_shared st)"

abbreviation rs_sink :: "('d, 's) run_state \<Rightarrow> 's" where
  "rs_sink st \<equiv> snd (rs_shared st)"

definition at_loop :: "loop \<Rightarrow> 'd activity \<Rightarrow> ('d, 's) run_state \<Rightarrow> ('d, 's) run_state" where
  "at_loop l x st = st\<lparr>rs_at := (rs_at st)(l := x)\<rparr>"

datatype 'd run_label = Begin "'d turn" | Move loop | End "'d turn" "goerr option" | IdleStart loop | Wake loop | Return loop | Cancel

inductive run_step ::
    "collectors \<Rightarrow> 's sink_ops \<Rightarrow> ('d, 's) run_state \<Rightarrow> 'd run_label \<Rightarrow> ('d, 's) run_state \<Rightarrow> bool"
  for C :: collectors and S :: "'s sink_ops" where
  begin_turn: "rs_at st (turn_loop i) = Resting p \<Longrightarrow> next_pc (rs_scheduler st) i p None \<noteq> None \<Longrightarrow>
     collected C i (rs_readers st) = Some (c, r) \<Longrightarrow>
     run_step C S st (Begin i)
       (at_loop (turn_loop i) (Busy i p (first_phase (rs_scheduler st) c)) (st\<lparr>rs_readers := r\<rparr>))"
| move: "rs_at st l = Busy i p ph \<Longrightarrow> 0 < phase_left ph \<Longrightarrow> phase_step S (ph, rs_shared st) = (ph', shared) \<Longrightarrow>
     run_step C S st (Move l) (at_loop l (Busy i p ph') (st\<lparr>rs_shared := shared\<rparr>))"
| end_turn: "rs_at st (turn_loop i) = Busy i p (Finished err) \<Longrightarrow> next_pc (rs_scheduler st) i p err = Some q \<Longrightarrow>
     run_step C S st (End i err) (at_loop (turn_loop i) (Resting q) st)"
| idle_start: "rs_at st l = Resting Starting \<Longrightarrow> idle_start (rs_scheduler st) l = Some p \<Longrightarrow>
     run_step C S st (IdleStart l) (at_loop l (Resting p) st)"
| wake: "rs_at st l = Resting Sleeping \<Longrightarrow> run_step C S st (Wake l) (at_loop l (Resting Waiting) st)"
| return: "rs_at st l = Resting Waiting \<Longrightarrow> rs_cancelled st \<Longrightarrow>
     run_step C S st (Return l) (at_loop l (Resting Returned) st)"
| cancel: "run_step C S st Cancel (st\<lparr>rs_cancelled := True\<rparr>)"

inductive_cases end_stepE: "run_step C S st (End i err) st'"
inductive_cases move_stepE: "run_step C S st (Move l) st'"

inductive run_steps ::
    "collectors \<Rightarrow> 's sink_ops \<Rightarrow> ('d, 's) run_state \<Rightarrow> 'd run_label list \<Rightarrow> ('d, 's) run_state \<Rightarrow> bool"
  for C :: collectors and S :: "'s sink_ops" and st0 :: "('d, 's) run_state" where
  run_start: "run_steps C S st0 [] st0"
| run_more: "run_steps C S st0 ls st \<Longrightarrow> run_step C S st l st' \<Longrightarrow> run_steps C S st0 (ls @ [l]) st'"

definition run_init :: "'s agent_state \<Rightarrow> ('d, 's) run_state" where
  "run_init a = \<lparr>rs_at = (\<lambda>_. Resting Starting), rs_cancelled = False, rs_readers = fst a, rs_shared = snd a\<rparr>"

text \<open>\<^verbatim>\<open>g.Wait()\<close>: the answer of \<^verbatim>\<open>Run\<close> once all four loops have returned.\<close>

definition run_answer :: "('d, 's) run_state \<Rightarrow> goerr option option" where
  "run_answer st =
     (if \<forall>l \<in> {NodeLoop, VMLoop, RuntimeLoop, InfoLoop}. case rs_at st l of Resting p \<Rightarrow> p = Returned | _ \<Rightarrow> False
      then Some None else None)"

lemma run_steps_trans: "run_steps C S st1 ls' st2 \<Longrightarrow> run_steps C S st0 ls st1 \<Longrightarrow> run_steps C S st0 (ls @ ls') st2"
  by (induction rule: run_steps.induct) (auto simp flip: append_assoc intro: run_more)

lemma run_steps_one: "run_step C S st l st' \<Longrightarrow> run_steps C S st [l] st'"
  using run_more [OF run_start] by fastforce

lemma run_steps_Cons: "run_step C S st l st1 \<Longrightarrow> run_steps C S st1 ls st' \<Longrightarrow> run_steps C S st (l # ls) st'"
  using run_steps_trans [OF _ run_steps_one] by fastforce

lemma run_steps_snocE:
  assumes "run_steps C S st0 (ls @ [x]) st'"
  obtains st where "run_steps C S st0 ls st" and "run_step C S st x st'"
  using assms by (cases rule: run_steps.cases) auto

lemma run_steps_ConsE:
  assumes "run_steps C S st0 (x # ls) st'"
  obtains st where "run_step C S st0 x st" and "run_steps C S st ls st'"
  using assms
proof (induction ls arbitrary: st' thesis rule: rev_induct)
  case Nil
  then show ?case using run_steps_snocE [of C S st0 "[]" x st'] run_start
    by (metis append_Nil append_is_Nil_conv not_Cons_self2 run_steps.cases)
next
  case (snoc y ls)
  then show ?case using run_steps_snocE [of C S st0 "x # ls" y st'] run_more by (metis append_Cons)
qed

lemma run_steps_NilD: "run_steps C S st0 [] st \<Longrightarrow> st = st0"
  by (cases rule: run_steps.cases) auto

lemma at_loop_simps [simp]:
  "rs_cancelled (at_loop l x st) = rs_cancelled st" "rs_readers (at_loop l x st) = rs_readers st"
  "rs_shared (at_loop l x st) = rs_shared st" "rs_at (at_loop l x st) = (rs_at st)(l := x)"
  by (simp_all add: at_loop_def)

text \<open>The turns that a run has begun.\<close>

fun begun :: "'d run_label list \<Rightarrow> 'd turn list" where
  "begun [] = []"
| "begun (Begin i # ls) = i # begun ls"
| "begun (_ # ls) = begun ls"

lemma begun_append [simp]: "begun (ls @ ls') = begun ls @ begun ls'"
  by (induction ls rule: begun.induct) simp_all

section \<open>A whole turn as a run\<close>

text \<open>The phases of a turn that no other loop interrupts.\<close>

lemma run_phases:
  assumes "rs_at st l = Busy i p ph" and "phases S n (ph, rs_shared st) = (Finished err, shared)"
  shows "\<exists>ls. run_steps C S st ls (at_loop l (Busy i p (Finished err)) (st\<lparr>rs_shared := shared\<rparr>)) \<and> set ls \<subseteq> {Move l}"
  using assms
proof (induction n arbitrary: st ph)
  case 0
  then have "at_loop l (Busy i p (Finished err)) (st\<lparr>rs_shared := shared\<rparr>) = st"
    by (auto simp: at_loop_def fun_upd_idem)
  then show ?case using run_start [of C S st] by (intro exI [of _ "[]"]) simp
next
  case (Suc n)
  obtain ph' sh where ph': "phase_step S (ph, rs_shared st) = (ph', sh)" by (metis surj_pair)
  show ?case
  proof (cases "phase_left ph")
    case 0
    then obtain e where e: "ph = Finished e" using phase_left_cases by blast
    then have "phases S n (ph, rs_shared st) = (Finished err, shared)"
      using Suc.prems(2) by (cases "rs_shared st"; cases shared) auto
    with Suc.IH [OF Suc.prems(1)] show ?thesis by blast
  next
    case (Suc m)
    define st1 where "st1 = at_loop l (Busy i p ph') (st\<lparr>rs_shared := sh\<rparr>)"
    have step: "run_step C S st (Move l) st1"
      unfolding st1_def using Suc.prems(1) Suc ph' by (intro move) simp_all
    have "rs_at st1 l = Busy i p ph'" "phases S n (ph', rs_shared st1) = (Finished err, shared)"
      using Suc.prems(2) ph' by (simp_all add: st1_def)
    from Suc.IH [OF this] obtain ls where
      "run_steps C S st1 ls (at_loop l (Busy i p (Finished err)) (st1\<lparr>rs_shared := shared\<rparr>))" "set ls \<subseteq> {Move l}"
      by blast
    moreover have "at_loop l (Busy i p (Finished err)) (st1\<lparr>rs_shared := shared\<rparr>) =
        at_loop l (Busy i p (Finished err)) (st\<lparr>rs_shared := shared\<rparr>)"
      by (simp add: st1_def at_loop_def)
    ultimately show ?thesis using run_steps_Cons [OF step] by (intro exI [of _ "Move l # ls"]) simp
  qed
qed

lemma agentTurnE:
  assumes "agentTurn C S i (r, sh) = Some (err, r', sh')"
  obtains c where "run_cycle S c sh = (err, sh')" and "collected C i r = Some (c, r')"
  using assms by (auto simp: agentTurn_def split_def Let_def prod_eq_iff split: option.splits)

text \<open>An uninterrupted turn does what \<open>agentTurn\<close> says.\<close>

lemma run_whole_turn:
  assumes rest: "rs_at st (turn_loop i) = Resting p"
    and turn: "agentTurn C S i (rs_readers st, rs_shared st) = Some (err, r, shared)"
    and pc: "next_pc (fst shared) i p err = Some q" "next_pc (rs_scheduler st) i p None \<noteq> None"
  shows "\<exists>ls. run_steps C S st (Begin i # ls @ [End i err])
      (at_loop (turn_loop i) (Resting q) (st\<lparr>rs_readers := r, rs_shared := shared\<rparr>)) \<and> set ls \<subseteq> {Move (turn_loop i)}"
proof -
  let ?l = "turn_loop i"
  obtain c where c: "collected C i (rs_readers st) = Some (c, r)" "run_cycle S c (rs_shared st) = (err, shared)"
    by (rule agentTurnE [OF turn])
  define st1 where "st1 = at_loop ?l (Busy i p (first_phase (rs_scheduler st) c)) (st\<lparr>rs_readers := r\<rparr>)"
  have first: "run_step C S st (Begin i) st1"
    unfolding st1_def using rest pc(2) c(1) by (rule begin_turn)
  have "phases S 5 (first_phase (rs_scheduler st) c, rs_shared st1) = (Finished err, shared)"
    using phases_cycle [of S "rs_scheduler st" c "rs_sink st"] c(2) by (simp add: st1_def)
  from run_phases [OF _ this, of ?l i p C] obtain ls where
    mid: "run_steps C S st1 ls (at_loop ?l (Busy i p (Finished err)) (st1\<lparr>rs_shared := shared\<rparr>))" and ls: "set ls \<subseteq> {Move ?l}"
    by (auto simp: st1_def)
  let ?st2 = "at_loop ?l (Busy i p (Finished err)) (st1\<lparr>rs_shared := shared\<rparr>)"
  have "run_step C S ?st2 (End i err) (at_loop ?l (Resting q) ?st2)"
    using pc(1) by (intro end_turn) simp_all
  moreover have "at_loop ?l (Resting q) ?st2 = at_loop ?l (Resting q) (st\<lparr>rs_readers := r, rs_shared := shared\<rparr>)"
    by (simp add: st1_def at_loop_def)
  ultimately show ?thesis
    using run_steps_Cons [OF first run_more [OF mid]] ls by (intro exI [of _ ls]) simp
qed

end
