(* ===== verification/Agent_Facts.thy ===== *)
theory Agent_Facts
  imports Agent "HOL-Library.Sublist"
begin

text \<open>
  What the agent guarantees as a whole: its libvirt flag tells the truth after every tick, a signal
  always leads to an end, shutdown releases both links, and over the gRPC sink the control plane's
  table of virtual machines follows the scheduler's.
\<close>

section \<open>The health flags\<close>

lemma healthTick_truth:
  assumes "healthTick E (h, m, t) = Some (h', m', t')" and "conn_ok m t"
  shows "conn_ok m' t' \<and> (libvirtConnected h' \<longleftrightarrow> cm_client m' \<noteq> None)"
proof -
  obtain r m1 t1 where healthy: "Healthy E m t = Some (r, m1, t1)"
    using assms(1) by (auto simp: healthTick_def split: option.splits)
  have ok1: "conn_ok m1 t1" by (rule Healthy_ok [OF healthy assms(2)])
  show ?thesis
  proof (cases r)
    case None
    have "cm_client m1 \<noteq> None"
    proof -
      obtain r2 m2 t2 where c: "ConnClient E m t = Some (r2, m2, t2)"
        using healthy by (auto simp: Healthy_def split: option.splits)
      with ConnClient_ok [OF c assms(2)] healthy None show ?thesis
        by (auto simp: Healthy_def split: sum.splits)
    qed
    with None healthy assms(1) ok1 show ?thesis by (auto simp: healthTick_def SetLibvirtConnected_def)
  next
    case (Some err)
    with healthy assms(1) obtain r2 m2 t2 where rec: "Reconnect E m1 t1 = Some (r2, m2, t2)"
      by (auto simp: healthTick_def Let_def split: option.splits)
    from Reconnect_ok [OF rec ok1] Some healthy rec assms(1) show ?thesis
      by (auto simp: healthTick_def Let_def SetLibvirtConnected_def split: option.splits)
  qed
qed

lemma healthTicks_truth:
  assumes "healthTicks sels (h, m, t) = Looping (h', m', t')" and "conn_ok m t"
    and "libvirtConnected h \<longleftrightarrow> cm_client m \<noteq> None"
  shows "conn_ok m' t' \<and> (libvirtConnected h' \<longleftrightarrow> cm_client m' \<noteq> None)"
  using assms
proof (induction sels arbitrary: h m t)
  case (Cons a sels)
  show ?case
  proof (cases a)
    case (Some E)
    with Cons.prems(1) obtain h1 m1 t1 where tick: "healthTick E (h, m, t) = Some (h1, m1, t1)"
      "healthTicks sels (h1, m1, t1) = Looping (h', m', t')"
      by (auto split: option.splits)
    from healthTick_truth [OF tick(1) Cons.prems(2)] Cons.IH [OF tick(2)] show ?thesis by simp
  qed (use Cons.prems in simp)
qed simp


lemma calm_start:
  "startAgent calm_env (NewHealthStatus, NewConnManager [] 0 0, []) =
     Some (None, NewHealthStatus\<lparr>libvirtConnected := True, streamConnected := True\<rparr>,
           (NewConnManager [] 0 0)\<lparr>cm_client := Some 0\<rparr>, [VDial QEMUSystem None])"
  by (simp add: startAgent_def Connect_def connectLocked_def parseURI_def urlScheme_def has_control_def
      QEMUSystem_def toLower_def lower_char_def NewConnManager_def is_letter_def connectLoop_dial Let_def
      SetLibvirtConnected_def SetStreamConnected_def)

definition example_config :: config where
  "example_config =
     \<lparr>NodeID = ''n1'', Hostname = ''n1'', LibvirtURI = ''qemu:///system'', ProbeListenAddr = '':7443'',
      HealthInterval = second, ReconnectInterval = second, ShutdownTimeout = second,
      BackendGRPCAddr = ''a:1'', BackendToken = [], AgentVersion = HardcodedVersion, TLSEnabled = False,
      TLSSkipVerify = False, TLSCAPath = [], TLSCertPath = [], TLSKeyPath = [], LogLevel = ''info'',
      StreamBufferSize = 0, CollectorErrorBackoff = second, MaxReconnectJitter = 0\<rparr>"

lemma calm_loop:
  "runHealthLoop example_config [Some calm_env, None]
     (h, (NewConnManager [] 0 0)\<lparr>cm_client := Some 0\<rparr>, [VDial QEMUSystem None]) =
   Looping (h\<lparr>libvirtConnected := True\<rparr>, (NewConnManager [] 0 0)\<lparr>cm_client := Some 0\<rparr>,
            [VDial QEMUSystem None, VVersion 0 None])"
  by (simp add: runHealthLoop_def example_config_def second_def healthTick_def Healthy_def ConnClient_def
      SetLibvirtConnected_def)


text \<open>
  A configuration that passes validation can still crash the agent: with the health interval set
  to zero, loading succeeds and the health loop panics at its start, whatever else happens.
\<close>

theorem zero_health_interval_panics:
  "\<exists>E c. Load E (Inr ''n1'') = Inr c \<and> (\<forall>sels st. \<exists>msg. runHealthLoop c sels st = Panicked msg)"
proof (intro exI conjI allI)
  let ?E = "\<lambda>k. if k = ''AURORA_HEALTH_INTERVAL'' then ''0'' else []"
  have z: "trimSpace ''0'' = ''0''" by (simp add: trimSpace_def is_space_def)
  have v: "trimSpace HardcodedVersion \<noteq> []" "trimSpace ''0.0.0.0:7443'' = ''0.0.0.0:7443''"
    by (simp_all add: HardcodedVersion_def trimSpace_Nil_iff is_space_def) (simp add: trimSpace_def is_space_def)
  let ?c = "\<lparr>NodeID = ''n1'', Hostname = ''n1'', LibvirtURI = ''qemu+unix:///system'',
    ProbeListenAddr = ''0.0.0.0:7443'', HealthInterval = 0, ReconnectInterval = 4 * 1000000000,
    ShutdownTimeout = 20 * 1000000000, BackendGRPCAddr = ''127.0.0.1:3001'', BackendToken = [],
    AgentVersion = HardcodedVersion, TLSEnabled = False, TLSSkipVerify = False, TLSCAPath = [],
    TLSCertPath = [], TLSKeyPath = [], LogLevel = ''info'', StreamBufferSize = 1024,
    CollectorErrorBackoff = 1500 * 1000000, MaxReconnectJitter = 900 * 1000000\<rparr>"
  show "Load ?E (Inr ''n1'') = Inr ?c"
    by (simp add: Load_def env_str_def envDuration_def envBool_def envInt_def Validate_def z v Let_def
        parseDuration_def hasPrefix_def toLower_def lower_char_def)
  show "runHealthLoop ?c sels st = Panicked ''non-positive interval for NewTicker''" for sels st
    by (simp add: runHealthLoop_def)
qed

section \<open>Signals\<close>

lemma arrive_ended [simp]: "foldl arrive (Ended e c) as = Ended e c"
  by (induction as) simp_all

lemma awaitEnd_origin:
  "foldl arrive p as = Ended (Some e) c \<Longrightarrow> p \<in> {Running, Stopping} \<Longrightarrow>
   RunReturned (Some e) \<in> set as \<or> e = canceled \<or> e = deadlineExceeded"
proof (induction as arbitrary: p)
  case (Cons a as)
  then show ?case by (cases p; cases a) auto
qed auto



section \<open>Shutdown\<close>

text \<open>
  C30. Shutdown releases both links: from any state the agent can be in, it closes the gRPC connection
  with its streams and disconnects libvirt, and clears both health flags, whatever the two libraries
  answer to the closes.
\<close>

theorem shutdown_releases:
  assumes "client_ok (fst st)" and "conn_ok (fst cm) (snd cm)"
    and "shutdown (grpc_sink E) E' st cm = ((g, h), m, t)"
  shows "usage (snd g) = Some (None, {}) \<and> cm_client m = None \<and>
    lv_usage t = Some ({}, length t) \<and> \<not> libvirtConnected h \<and> \<not> streamConnected h"
proof -
  obtain r1 g1 where c1: "gClose E (fst st) = (r1, g1)" by (cases "gClose E (fst st)")
  obtain r2 m2 t2 where c2: "CloseConn E' (fst cm) (snd cm) = (r2, m2, t2)"
    by (cases "CloseConn E' (fst cm) (snd cm)") auto
  have g: "g = g1" and mt: "m = m2" "t = t2" and flags: "\<not> libvirtConnected h" "\<not> streamConnected h"
    using assms(3) c1 c2
    by (auto simp: shutdown_def hClose_def grpc_sink_def SetStreamConnected_def SetLibvirtConnected_def Let_def)
  have "client_ok g1" "fst g1 = dropped (fst (fst st))" using gClose_law [OF assms(1) c1] by simp_all
  then have "usage (snd g1) = Some (None, {})" by (simp add: client_ok_def held_def)
  moreover have "conn_ok m2 t2 \<and> cm_client m2 = None" by (rule CloseConn_ok [OF c2 assms(2)])
  ultimately show ?thesis using g mt flags by (simp add: conn_ok_def)
qed

lemma idle_shutdown:
  "shutdown (grpc_sink flaky_env) calm_env (fresh_client ''a'' [] False, NewHealthStatus)
     ((NewConnManager [] 0 0)\<lparr>cm_client := Some 0\<rparr>, [VDial QEMUSystem None]) =
   ((fresh_client ''a'' [] False, NewHealthStatus), NewConnManager [] 0 0,
    [VDial QEMUSystem None, VDisconnect 0 None])"
  by (simp add: shutdown_def hClose_def grpc_sink_def gClose_def locked_def CloseClient_def closeSend_def
      fresh_client_def NewSinkFromConfig_def NewGRPCClient_def CloseConn_def NewConnManager_def io_simps
      NewHealthStatus_def SetStreamConnected_def SetLibvirtConnected_def Let_def)

theorem shutdown_releases_witness:
  "lv_usage [VDial QEMUSystem None, VDisconnect 0 None] = Some ({}, 2)"
  using shutdown_releases [OF _ _ idle_shutdown] client_ok_fresh
  by (simp add: conn_ok_def lv_usage_def)

section \<open>The whole agent in step with the control plane\<close>

lemma new_agent_good:
  assumes "NewAgent T cfg = Inr ag"
  shows "agent.good (ag_scheduler ag, ag_sink ag)"
proof -
  have "client_ok (fst (ag_sink ag)) \<and> client_sent (fst (ag_sink ag)) = [] \<and>
      latestVMInfoByID (ag_scheduler ag) = [] \<and> lastVMInfoByID (ag_scheduler ag) = [] \<and>
      \<not> vmInfoSynced (ag_scheduler ag)"
    using assms client_ok_fresh
    by (auto simp: NewAgent_def NewScheduler_def client_sent_def fresh_client_def split: sum.splits)
  then show ?thesis by (simp add: agent.good_def in_step_def sched_wf_def)
qed


text \<open>
  What a successful cycle means at the other side: after any history, a runtime cycle that answers
  no error leaves the control plane with exactly the machines of that cycle, each as its metrics
  describe it; a delta, a full message or no message at all was enough.
\<close>

theorem runtime_cycle_delivers:
  assumes "NewAgent T cfg = Inr ag"
    and "run_cycles (agent_sink E) cs (ag_scheduler ag, ag_sink ag) = (s, k)"
    and "collectAndSendVMRuntime (agent_sink E) (Inr ms) now (s, k) = (None, s', (c, t), h)"
  shows "view (delivered t) = table_of (BuildVMInfoMapFromRuntime ms)"
proof -
  have "agent.good (s, k)"
    using agent.run_good [OF new_agent_good [OF assms(1)], where cs = cs and E = E] assms(2) by simp
  from agent.runtime_cycle(2) [OF this assms(3) refl refl] show ?thesis by (simp add: client_sent_def)
qed

text \<open>A run at a concrete input: a host without machines, and a library that answers every call.\<close>

definition up_env :: genv where
  "up_env = flaky_env\<lparr>ge_dial := (\<lambda>_. None)\<rparr>"

definition no_tls :: "(unit, unit) tls_env" where
  "no_tls = \<lparr>te_readFile = (\<lambda>_. Inr []), te_pool = (\<lambda>_. None), te_keyPair = (\<lambda>_ _. Inr ())\<rparr>"

definition example_agent :: agent where
  "example_agent =
     \<lparr>ag_cfg = example_config, ag_conn = NewConnManager ''qemu:///system'' second 0,
      ag_scheduler = NewScheduler True True nodeLiteStreamInterval vmInfoSyncInterval
        vmLiteStreamInterval vmDetailStreamInterval second HardcodedVersion,
      ag_sink = (fresh_client ''a:1'' [] False, NewHealthStatus)\<rparr>"

lemma example_agent_new: "NewAgent no_tls example_config = Inr example_agent"
  by (simp add: NewAgent_def TLSConfig_def example_config_def example_agent_def fresh_client_def)

lemma example_first_sync:
  "\<exists>k'. collectAndSendVMRuntime (agent_sink up_env) (Inr []) 7 (ag_scheduler example_agent, ag_sink example_agent) =
     (None, (ag_scheduler example_agent)\<lparr>vmInfoSynced := True\<rparr>, k')"
  by (simp add: collectAndSendVMRuntime_def syncVMInfoFromMap_def example_agent_def computeVMInfoDiff_def
      NewScheduler_def resolveVMNodeID_def first_node_id_def SortedVMInfosByID_def cloneVMInfoMap_def
      commitVMInfoSync_def agent_sink_def health_sink_def hSendVMInfoSync_def withHealth_def sync_message_def
      fresh_client_def up_env_def client_eval defaultVMInfoSyncMethod_def)


theorem runtime_cycle_delivers_witness:
  "\<exists>s' c t h. collectAndSendVMRuntime (agent_sink up_env) (Inr []) 7 (ag_scheduler example_agent, ag_sink example_agent) =
     (None, s', (c, t), h) \<and> view (delivered t) = Map.empty"
proof -
  obtain c t h where run: "collectAndSendVMRuntime (agent_sink up_env) (Inr []) 7
      (ag_scheduler example_agent, ag_sink example_agent) =
      (None, (ag_scheduler example_agent)\<lparr>vmInfoSynced := True\<rparr>, (c, t), h)"
    using example_first_sync by (metis prod.exhaust)
  have "view (delivered t) = table_of (BuildVMInfoMapFromRuntime [])"
    by (rule runtime_cycle_delivers [OF example_agent_new _ run, where cs = "[]"]) simp
  then show ?thesis using run by (simp add: BuildVMInfoMapFromRuntime_def table_of_def)
qed

section \<open>The event monitor\<close>

fun tick_times :: "monitor_step list \<Rightarrow> int list" where
  "tick_times [] = []"
| "tick_times (MTick now # as) = now # tick_times as"
| "tick_times (_ # as) = tick_times as"

lemma tick_times_append [simp]: "tick_times (as @ bs) = tick_times as @ tick_times bs"
  by (induction as rule: tick_times.induct) simp_all

definition monitor_ok :: "monitor_step list \<Rightarrow> event_state \<Rightarrow> bool" where
  "monitor_ok as s \<longleftrightarrow>
     length (ev_channel s) \<le> event_capacity \<and> subseq (ev_taken s @ ev_channel s) (tick_times as) \<and>
     (\<not> ev_done s \<longrightarrow>
        length (ev_taken s) + length (ev_channel s) + ev_dropped s = length (tick_times as))"

lemma monitor_ok_step: "monitor_ok as s \<Longrightarrow> monitor_ok (as @ [a]) (monitorStep s a)"
proof -
  assume ok: "monitor_ok as s"
  have later: "subseq xs (tick_times as @ tick_times [a])" if "subseq xs (tick_times as)" for xs
    using that by (rule list_emb_prefix)
  show ?thesis
  proof (cases "ev_done s")
    case True
    with ok later show ?thesis by (simp add: monitor_ok_def monitorStep_def)
  next
    case False
    show ?thesis
    proof (cases a)
      case (MTick now)
      have "subseq ((ev_taken s @ ev_channel s) @ [now]) (tick_times as @ [now])"
        using ok by (intro list_emb_append_mono) (simp_all add: monitor_ok_def)
      with ok later MTick False show ?thesis by (simp add: monitor_ok_def monitorStep_def)
    qed (use ok later False in \<open>auto simp: monitor_ok_def monitorStep_def split: list.splits\<close>)
  qed
qed



end
