(* ===== verification/Run_Facts.thy ===== *)
theory Run_Facts
  imports Scheduler_Run Agent_Facts
begin

text \<open>
  How \<^verbatim>\<open>Scheduler.Run\<close> ends, over every interleaving of its loops: no failure ends a loop, every loop makes
  a turn before it first waits, and the end of the context can end the run with no error and no
  further collection.
\<close>

section \<open>The collectors a scheduler has\<close>

definition wired :: "scheduler \<Rightarrow> bool \<times> bool" where
  "wired s = (sc_hasHardware s, sc_hasRuntime s)"

lemma wired_phase_step: "wired (fst (snd (phase_step S (p, s, k)))) = wired s"
  by (cases p) (auto simp: wired_def after_send_def commitVMInfoSync_def periodicCommit_def Let_def split_def
      split: option.splits prod.splits)

lemma wired_phases: "wired (fst (snd (phases S n (p, s, k)))) = wired s"
proof (induction n arbitrary: p s k)
  case (Suc n)
  then show ?case using wired_phase_step [of S p s k] by (metis phases.simps(2) prod.collapse)
qed simp

lemma wired_run_step: "run_step C S st l st' \<Longrightarrow> wired (rs_scheduler st') = wired (rs_scheduler st)"
proof (induction rule: run_step.induct)
  case (move st l i p ph ph' shared)
  then show ?case using wired_phase_step [of S ph "rs_scheduler st" "rs_sink st"] by simp
qed simp_all

lemma wired_run_steps: "run_steps C S st0 ls st \<Longrightarrow> wired (rs_scheduler st) = wired (rs_scheduler st0)"
  by (induction rule: run_steps.induct) (auto simp: wired_run_step)

section \<open>Where the loops are\<close>

lemma next_pc_defined:
  "wired sc = wired sc' \<Longrightarrow> next_pc sc i p err \<noteq> None \<longleftrightarrow> next_pc sc' i p err' \<noteq> None"
  by (cases i; cases p) (auto simp: wired_def)

lemma next_pc_cases:
  assumes "next_pc sc i p err = Some q"
  shows "q \<noteq> Returned" and "q \<noteq> Starting" and "q = AfterHardware \<Longrightarrow> turn_loop i = InfoLoop"
  using assms by (cases i; cases p; auto split: if_splits)+

text \<open>
  Without the end of the context no loop has returned; only the information loop is ever between the two
  parts of its turn; a loop that has left its start has made a turn; and a loop is only busy with a turn of
  its own.
\<close>

definition loop_ok :: "'d turn list \<Rightarrow> bool \<Rightarrow> scheduler \<Rightarrow> loop \<Rightarrow> 'd activity \<Rightarrow> bool" where
  "loop_ok turns cancelled sc l x \<longleftrightarrow>
     (x \<noteq> Resting Starting \<longrightarrow> (\<exists>i \<in> set turns. turn_loop i = l)) \<and>
     (case x of
        Resting p \<Rightarrow> (p = Returned \<longrightarrow> cancelled) \<and> (p = AfterHardware \<longrightarrow> l = InfoLoop)
      | Busy i p ph \<Rightarrow> turn_loop i = l \<and> next_pc sc i p None \<noteq> None)"

definition loops_ok :: "'d run_label list \<Rightarrow> ('d, 's) run_state \<Rightarrow> bool" where
  "loops_ok ls st \<longleftrightarrow>
     wired (rs_scheduler st) = (True, True) \<and>
     (\<forall>l. loop_ok (begun ls) (rs_cancelled st) (rs_scheduler st) l (rs_at st l))"

lemma loop_ok_mono:
  assumes "loop_ok turns c sc l x" and "set turns \<subseteq> set turns'" and "c \<longrightarrow> c'" and "wired sc = wired sc'"
  shows "loop_ok turns' c' sc' l x"
proof -
  have "next_pc sc' i p None \<noteq> None" if "next_pc sc i p None \<noteq> None" for i :: "'a turn" and p
    using that next_pc_defined [OF assms(4)] by blast
  then show ?thesis using assms(1-3) by (auto simp: loop_ok_def split: activity.splits)
qed

text \<open>A step that changes the activity of one loop.\<close>

lemma loops_ok_at:
  assumes "loops_ok ls st" and "run_step C S st x (at_loop l y st')" and "rs_at st' = rs_at st"
    and "rs_cancelled st' = rs_cancelled st"
    and "loop_ok (begun (ls @ [x])) (rs_cancelled st) (rs_scheduler st) l y"
  shows "loops_ok (ls @ [x]) (at_loop l y st')"
proof -
  have w: "wired (rs_scheduler st) = wired (rs_scheduler st')" using wired_run_step [OF assms(2)] by simp
  have "loop_ok (begun (ls @ [x])) (rs_cancelled st) (rs_scheduler st') k (rs_at st k)" for k
    using assms(1) by (intro loop_ok_mono [OF _ _ _ w, of "begun ls" "rs_cancelled st"]) (auto simp: loops_ok_def)
  with assms w loop_ok_mono [OF assms(5) subset_refl impI w] show ?thesis by (simp add: loops_ok_def)
qed

lemma loops_ok_step:
  assumes ok: "loops_ok ls st" and step: "run_step C S st l st'"
  shows "loops_ok (ls @ [l]) st'"
proof -
  have at: "loop_ok (begun ls) (rs_cancelled st) (rs_scheduler st) k (rs_at st k)" for k
    using ok by (simp add: loops_ok_def)
  from step show ?thesis
  proof cases
    case (begin_turn i p c r)
    with step ok show ?thesis by (auto intro!: loops_ok_at simp: loop_ok_def)
  next
    case (move k i p ph ph' shared)
    with step ok at [of k] show ?thesis by (auto intro!: loops_ok_at simp: loop_ok_def)
  next
    case (end_turn i p err q)
    with step ok at [of "turn_loop i"] next_pc_cases [OF end_turn(4)] show ?thesis
      by (auto intro!: loops_ok_at simp: loop_ok_def)
  next
    case (idle_start k p)
    with ok show ?thesis by (cases k) (auto simp: loops_ok_def wired_def)
  next
    case (wake k)
    with step ok at [of k] show ?thesis by (auto intro!: loops_ok_at simp: loop_ok_def)
  next
    case (return k)
    with step ok at [of k] show ?thesis by (auto intro!: loops_ok_at simp: loop_ok_def)
  next
    case cancel
    have "loop_ok (begun ls) True (rs_scheduler st) k (rs_at st k)" for k
      by (rule loop_ok_mono [OF at]) simp_all
    with ok cancel show ?thesis by (simp add: loops_ok_def)
  qed
qed

lemma loops_ok_init: "wired (fst (snd a)) = (True, True) \<Longrightarrow> loops_ok [] (run_init a)"
  by (simp add: loops_ok_def loop_ok_def run_init_def)

lemma loops_ok_steps: "run_steps C S st0 ls' st \<Longrightarrow> loops_ok ls st0 \<Longrightarrow> loops_ok (ls @ ls') st"
  by (induction rule: run_steps.induct) (auto simp flip: append_assoc intro: loops_ok_step)

section \<open>The end of a run\<close>

text \<open>Steps that ask neither the host nor libvirt.\<close>

definition no_collection :: "'d run_label list \<Rightarrow> bool" where
  "no_collection ls \<longleftrightarrow> (\<forall>i \<in> set (begun ls). \<exists>now. i = PeriodicTurn now)"

lemma no_collection_simps [simp]:
  "no_collection []" "no_collection (ls @ ls') \<longleftrightarrow> no_collection ls \<and> no_collection ls'"
  by (auto simp: no_collection_def)

text \<open>How far a loop past its start is from its return, once the context has ended.\<close>

fun turn_left :: "'d turn \<Rightarrow> nat" where
  "turn_left (HardwareTurn _) = 6"
| "turn_left (PeriodicTurn _) = 1"
| "turn_left _ = 2"

fun activity_left :: "'d activity \<Rightarrow> nat" where
  "activity_left (Resting Sleeping) = 2"
| "activity_left (Resting Waiting) = 1"
| "activity_left (Resting AfterHardware) = 6"
| "activity_left (Resting _) = 0"
| "activity_left (Busy i p ph) = phase_left ph + 1 + turn_left i"

lemma activity_left_bound: "activity_left x \<le> 12"
proof (cases x)
  case (Resting p)
  then show ?thesis by (cases p) auto
next
  case (Busy i p ph)
  then show ?thesis using phase_left_bound [of ph] by (cases i) auto
qed

lemma next_pc_left: "next_pc sc i p err = Some q \<Longrightarrow> activity_left (Resting q :: 'd activity) \<le> turn_left i"
  by (cases i; cases p) (auto split: if_splits)

definition can_step :: "collectors \<Rightarrow> 's sink_ops \<Rightarrow> ('d, 's) run_state \<Rightarrow> loop \<Rightarrow> bool" where
  "can_step C S st l \<longleftrightarrow>
     (\<exists>x y (st' :: ('d, 's) run_state). run_step C S st x st' \<and> no_collection [x] \<and> rs_cancelled st' \<and>
        rs_at st' = (rs_at st)(l := y) \<and> y \<noteq> Resting Starting \<and> activity_left y < activity_left (rs_at st l))"

lemma can_stepI:
  assumes "run_step C S st x (at_loop l y st')" and "no_collection [x]" and "rs_cancelled st'" and "rs_at st' = rs_at st"
    and "y \<noteq> Resting Starting" and "activity_left y < activity_left (rs_at st l)"
  shows "can_step C S st l"
  unfolding can_step_def by (rule exI [of _ x], rule exI [of _ y], rule exI [of _ "at_loop l y st'"]) (use assms in simp)

lemma loop_can_step:
  fixes st :: "('d, 's) run_state"
  assumes ok: "loops_ok ls st" and c: "rs_cancelled st" and l: "rs_at st l \<noteq> Resting Starting" "rs_at st l \<noteq> Resting Returned"
  shows "can_step C S st l"
proof (cases "rs_at st l")
  case (Resting p)
  show ?thesis
  proof (cases p)
    case Waiting
    show ?thesis by (rule can_stepI [OF return [OF Resting [unfolded Waiting] c]]) (use c Resting Waiting in \<open>simp_all add: no_collection_def\<close>)
  next
    case Sleeping
    show ?thesis by (rule can_stepI [OF wake [OF Resting [unfolded Sleeping]]]) (use c Resting Sleeping in \<open>simp_all add: no_collection_def\<close>)
  next
    case AfterHardware
    then have info: "l = InfoLoop" using ok Resting by (auto simp: loops_ok_def loop_ok_def dest!: spec [of _ l])
    let ?i = "PeriodicTurn 0 :: 'd turn"
    have "run_step C S st (Begin ?i) (at_loop (turn_loop ?i) (Busy ?i AfterHardware
        (first_phase (rs_scheduler st) (PeriodicCycle 0))) (st\<lparr>rs_readers := rs_readers st\<rparr>))"
      by (rule begin_turn) (use Resting AfterHardware info in simp_all)
    from can_stepI [OF this] show ?thesis using c Resting AfterHardware info by (simp add: no_collection_def)
  qed (use l Resting in simp_all)
next
  case (Busy i p ph)
  from ok Busy have i: "turn_loop i = l" and pc: "next_pc (rs_scheduler st) i p None \<noteq> None"
    by (auto simp: loops_ok_def loop_ok_def dest!: spec [of _ l])
  show ?thesis
  proof (cases "phase_left ph = 0")
    case True
    then obtain err where err: "ph = Finished err" using phase_left_cases by blast
    from pc next_pc_defined [OF refl, of "rs_scheduler st" i p err None] obtain q
      where q: "next_pc (rs_scheduler st) i p err = Some q" by auto
    have "run_step C S st (End i err) (at_loop (turn_loop i) (Resting q) st)"
      by (rule end_turn) (use Busy err i q in simp_all)
    from can_stepI [OF this] show ?thesis
      using c Busy i next_pc_cases(2) [OF q] next_pc_left [OF q, where 'd = 'd] by (simp add: no_collection_def)
  next
    case False
    obtain ph' sh where ph': "phase_step S (ph, rs_shared st) = (ph', sh)" by (metis surj_pair)
    have step: "run_step C S st (Move l) (at_loop l (Busy i p ph') (st\<lparr>rs_shared := sh\<rparr>))"
      by (rule move) (use Busy False ph' in simp_all)
    have "phase_left ph' < phase_left ph"
      using phase_step_left [of ph S "rs_scheduler st" "rs_sink st"] False ph' by simp
    with can_stepI [OF step] show ?thesis using c Busy by (simp add: no_collection_def)
  qed
qed

lemma loop_returns:
  fixes st :: "('d, 's) run_state"
  assumes "loops_ok ls st" and "rs_cancelled st" and "rs_at st l \<noteq> Resting Starting"
  shows "\<exists>ls' st'. run_steps C S st ls' st' \<and> length ls' \<le> activity_left (rs_at st l) \<and> no_collection ls' \<and>
    rs_cancelled st' \<and> rs_at st' = (rs_at st)(l := Resting Returned)"
  using assms
proof (induction "activity_left (rs_at st l)" arbitrary: ls st rule: less_induct)
  case less
  show ?case
  proof (cases "rs_at st l = Resting Returned")
    case True
    then have "rs_at st = (rs_at st)(l := Resting Returned)" by (simp add: fun_upd_idem)
    then show ?thesis using less.prems(2) run_start [of C S st] by (metis list.size(3) no_collection_simps(1) zero_le)
  next
    case False
    then obtain x y st1 where step: "run_step C S st x st1" "no_collection [x]" and c: "rs_cancelled st1"
      and st1: "rs_at st1 = (rs_at st)(l := y)" and y: "y \<noteq> Resting Starting" "activity_left y < activity_left (rs_at st l)"
      using loop_can_step [OF less.prems(1,2), of l C S] less.prems(3) unfolding can_step_def by blast
    have "activity_left (rs_at st1 l) < activity_left (rs_at st l)" "rs_at st1 l \<noteq> Resting Starting"
      using y by (simp_all add: st1)
    from less.hyps [OF this(1) loops_ok_step [OF less.prems(1) step(1)] c this(2)] obtain ls' st' where
      run: "run_steps C S st1 ls' st'" "length ls' \<le> activity_left y" "no_collection ls'" "rs_cancelled st'"
      "rs_at st' = (rs_at st1)(l := Resting Returned)" by (auto simp: st1)
    show ?thesis
      using run_steps_Cons [OF step(1) run(1)] run(2-5) step(2) y st1 no_collection_simps(2) [of "[x]" ls']
      by (intro exI [of _ "x # ls'"] exI [of _ st']) simp
  qed
qed

lemma loops_return:
  fixes st :: "('d, 's) run_state"
  assumes "loops_ok ls st" and "rs_cancelled st" and "\<forall>l. rs_at st l \<noteq> Resting Starting"
  shows "\<exists>ls' st'. run_steps C S st ls' st' \<and> length ls' \<le> 12 * length todo \<and> no_collection ls' \<and> rs_cancelled st' \<and>
    (\<forall>l. rs_at st' l = (if l \<in> set todo then Resting Returned else rs_at st l))"
proof (induction todo)
  case Nil
  show ?case using assms(2) run_start [of C S st] by (intro exI [of _ "[]"] exI [of _ st]) simp
next
  case (Cons l todo)
  then obtain ls1 st1 where run: "run_steps C S st ls1 st1" "length ls1 \<le> 12 * length todo" "no_collection ls1"
    "rs_cancelled st1" and at: "\<forall>k. rs_at st1 k = (if k \<in> set todo then Resting Returned else rs_at st k)"
    by blast
  have "rs_at st1 l \<noteq> Resting Starting" using at assms(3) by simp
  from loop_returns [OF loops_ok_steps [OF run(1) assms(1)] run(4) this] obtain ls2 st2 where
    "run_steps C S st1 ls2 st2" "length ls2 \<le> activity_left (rs_at st1 l)" "no_collection ls2" "rs_cancelled st2"
    "rs_at st2 = (rs_at st1)(l := Resting Returned)" by blast
  then show ?case
    using run at activity_left_bound [of "rs_at st1 l"] run_steps_trans [OF _ run(1)]
    by (intro exI [of _ "ls1 @ ls2"] exI [of _ st2]) auto
qed


text \<open>The example agent while libvirt is away: every loop begins its first turn, and the context ends.\<close>

definition away :: goerr where
  "away = Leaf ''libvirt is away''"

definition away_start :: "(unit, grpc_state health_state) run_state" where
  "away_start =
     run_init (agentReaders \<lparr>cvt_u64 = (\<lambda>_. 0), goarch = ''amd64'', page_size = 4096, num_cpu = 4\<rparr>,
       ag_scheduler example_agent, ag_sink example_agent)"

lemma away_run:
  obtains ls st where "run_steps (agentCollectors example_config) (agent_sink up_env) away_start ls st"
    and "rs_cancelled st" and "\<forall>l. rs_at st l \<noteq> Resting Starting"
proof -
  let ?C = "agentCollectors example_config" and ?S = "agent_sink up_env"
  obtain E :: node_env where E: "ne_client E = Some away" by (metis node_env.select_convs(1))
  obtain V :: "unit collect_env" where V: "ce_client V = Some away" by (metis collect_env.select_convs(1))
  have first: "run_step ?C ?S st (Begin i)
      (at_loop (turn_loop i) (Busy i Starting (first_phase (rs_scheduler st) c)) st)"
    if "rs_at st (turn_loop i) = Resting Starting" and "wired (rs_scheduler st) = (True, True)"
      and "collected ?C i (rs_readers st) = Some (c, rs_readers st)" and "\<forall>now. i \<noteq> PeriodicTurn now"
    for st :: "(unit, grpc_state health_state) run_state" and i c
    using begin_turn [OF that(1) _ that(3), of ?S] that(2,4) by (cases i) (simp_all add: wired_def)
  have sc: "wired (rs_scheduler away_start) = (True, True)"
    by (simp add: away_start_def run_init_def wired_def example_agent_def NewScheduler_def)
  have at: "rs_at away_start = (\<lambda>_. Resting Starting)" by (simp add: away_start_def run_init_def)
  let ?n = "NodeTurn E" and ?v = "VMTurn V 1" and ?r = "RuntimeTurn V 1" and ?h = "HardwareTurn E"
  have fails: "collected ?C ?n r = Some (NodeCycle (Inl away), r)" "collected ?C ?h r = Some (HardwareCycle (Inl away), r)"
    "collected ?C ?v r = Some (VMCycle (Inl away) 1, r)" "collected ?C ?r r = Some (RuntimeCycle (Inl away) 1, r)" for r
    using E V by (simp_all add: collectNodeMetrics_def CollectNode_def collectNodeHardware_def CollectHardware_def
        collectVMMetrics_def CollectVM_def collectVMRuntimeMetrics_def CollectRuntime_def readRecords_def)
  define busy where "busy = (\<lambda>i :: unit turn. Busy i Starting (Finished (Some away)))"
  define s1 where "s1 = at_loop NodeLoop (busy ?n) away_start"
  define s2 where "s2 = at_loop VMLoop (busy ?v) s1"
  define s3 where "s3 = at_loop RuntimeLoop (busy ?r) s2"
  define s4 where "s4 = at_loop InfoLoop (busy ?h) s3"
  have 1: "run_step ?C ?S away_start (Begin ?n) s1"
    using first [of away_start ?n, OF _ sc fails(1)] by (simp add: at s1_def busy_def)
  have 2: "run_step ?C ?S s1 (Begin ?v) s2"
    using first [of s1 ?v, OF _ _ fails(3)] sc by (simp add: at s1_def s2_def busy_def)
  have 3: "run_step ?C ?S s2 (Begin ?r) s3"
    using first [of s2 ?r, OF _ _ fails(4)] sc by (simp add: at s1_def s2_def s3_def busy_def)
  have 4: "run_step ?C ?S s3 (Begin ?h) s4"
    using first [of s3 ?h, OF _ _ fails(2)] sc by (simp add: at s1_def s2_def s3_def s4_def busy_def wired_def)
  have "rs_at s4 l \<noteq> Resting Starting" for l
    by (cases l) (simp_all add: s1_def s2_def s3_def s4_def busy_def)
  with that [OF run_steps_Cons [OF 1 run_steps_Cons [OF 2 run_steps_Cons [OF 3 run_steps_Cons [OF 4 run_steps_one [OF cancel]]]]]]
  show ?thesis by simp
qed


end
