(* ===== verification/VM_Metrics_Facts.thy ===== *)
theory VM_Metrics_Facts
  imports VM_Metrics Sync_Info
begin

text \<open>
  What the virtual machine metrics guarantee: rates and shares that make sense whatever libvirt
  answers and however the two collections interleave, sums that do not depend on Go's map order, and
  machine identifiers that tell machines apart, so that the inventory built from a collection is complete.
\<close>

section \<open>Rates\<close>

lemma deltaPerSec_nonneg [percents]: "u < t \<Longrightarrow> fnonneg (deltaPerSec c p (seconds (timeSub t u)))"
  by (auto simp: deltaPerSec_def intro!: rate_nonneg fnonneg_of_u64)

lemma vmPercentOf_percentOf: "vmPercentOf v w = percentOf v w"
  by (simp add: vmPercentOf_def percentOf_def clampPercent_def Let_def)

text \<open>The number of processors as the reader keeps it.\<close>

definition cores_ok :: "f64 \<Rightarrow> bool" where
  "cores_ok c \<longleftrightarrow> (\<exists>n. 1 \<le> n \<and> n < 2 ^ 53 \<and> c = f64_of_int n)"

lemma cores_ok_factor: "cores_ok c \<Longrightarrow> \<exists>q. Fin 100 / c = Fin q \<and> 0 < q"
proof -
  assume "cores_ok c"
  then obtain n where n: "1 \<le> n" "n < 2 ^ 53" "c = f64_of_int n" by (auto simp: cores_ok_def)
  have c: "c = Fin (of_int n)" using rnd_of_nat [of "nat n"] n by (simp add: f64_of_int_def)
  have n1: "(1 :: rat) \<le> of_int n" using n(1) by simp
  have le: "2 powi (- 53) \<le> 100 / (of_int n :: rat)"
  proof -
    have "(of_int n :: rat) \<le> of_int (2 ^ 53)" using n(2) by (simp only: of_int_le_iff)
    then have "2 powi (- 53) * (of_int n :: rat) \<le> 2 powi (- 53) * of_int (2 ^ 53)"
      by (intro mult_left_mono) simp_all
    also have "\<dots> \<le> 100" by (simp add: power_int_minus)
    finally show ?thesis using n1 by (simp add: pos_le_divide_eq)
  qed
  have "100 / (of_int n :: rat) \<le> 2 ^ 7" using n1 by (simp add: pos_divide_le_eq)
  then obtain q where "rnd (100 / of_int n) = Fin q"
    using rnd_nonneg_finite [of "100 / of_int n" 7] n1 by auto
  moreover have "fpos (rnd (100 / of_int n))" by (rule rnd_fpos [OF le]) simp
  ultimately show ?thesis using c n1 by simp
qed

text \<open>The processor share as a function of a machine's last sample and the new one.\<close>

definition cpu_rate :: "f64 \<Rightarrow> vmSample option \<Rightarrow> vmSample \<Rightarrow> f64" where
  "cpu_rate cores last_sample s =
     (case last_sample of
        None \<Rightarrow> 0
      | Some p \<Rightarrow>
          if smp_cpuNs s \<le> smp_cpuNs p \<or> smp_at s \<le> smp_at p then 0
          else clampPercent (f64_of_u64 (smp_cpuNs s - smp_cpuNs p) / Fin 1000000000 /
                 seconds (timeSub (smp_at s) (smp_at p)) * (Fin 100 / cores)))"

definition lite_rate :: "vmLiteSample option \<Rightarrow> vmLiteSample \<Rightarrow> f64 \<times> f64" where
  "lite_rate last_sample s =
     (case last_sample of
        None \<Rightarrow> (0, 0)
      | Some p \<Rightarrow>
          if sml_at s \<le> sml_at p then (0, 0)
          else let dt = seconds (timeSub (sml_at s) (sml_at p))
               in (deltaPerSec (sml_netRXBytes s) (sml_netRXBytes p) dt,
                   deltaPerSec (sml_netTXBytes s) (sml_netTXBytes p) dt))"

definition runtime_rate :: "vmRuntimeSample option \<Rightarrow> vmRuntimeSample \<Rightarrow> runtime_rates" where
  "runtime_rate last_sample s =
     (case last_sample of
        None \<Rightarrow> (0, 0, 0, 0, 0, 0, 0, 0)
      | Some p \<Rightarrow>
          if smr_at s \<le> smr_at p then (0, 0, 0, 0, 0, 0, 0, 0)
          else let rate = (\<lambda>f. deltaPerSec (f s) (f p) (seconds (timeSub (smr_at s) (smr_at p))))
               in (rate smr_diskReadBytes, rate smr_diskWriteBytes, rate smr_diskReadReqs,
                   rate smr_diskWriteReqs, rate smr_netRXBytes, rate smr_netTXBytes,
                   rate smr_netRXPkts, rate smr_netTXPkts))"

text \<open>The three kinds of observation a reader makes of a machine, interleaved by the two collections.\<close>

datatype vm_observation = OCPU vmSample | OLite vmLiteSample | ORuntime vmRuntimeSample

datatype vm_answer = ACPU f64 | ALite "f64 \<times> f64" | ARuntime runtime_rates

fun observe_vm :: "string \<Rightarrow> vm_observation \<Rightarrow> vm_reader \<Rightarrow> vm_answer \<times> vm_reader" where
  "observe_vm k (OCPU s) r = map_prod ACPU id (computeCPU k (smp_cpuNs s) (smp_at s) r)"
| "observe_vm k (OLite s) r =
     map_prod ALite id (computeLiteNetRates k (sml_netRXBytes s) (sml_netTXBytes s) (sml_at s) r)"
| "observe_vm k (ORuntime s) r = map_prod ARuntime id (computeRuntimeRates k s r)"

text \<open>The observations of one kind, alone: three samplers.\<close>

definition observe_cpu :: "string \<Rightarrow> vmSample \<Rightarrow> vm_reader \<Rightarrow> f64 \<times> vm_reader" where
  "observe_cpu k s = computeCPU k (smp_cpuNs s) (smp_at s)"

definition observe_lite :: "string \<Rightarrow> vmLiteSample \<Rightarrow> vm_reader \<Rightarrow> (f64 \<times> f64) \<times> vm_reader" where
  "observe_lite k s = computeLiteNetRates k (sml_netRXBytes s) (sml_netTXBytes s) (sml_at s)"

fun cpu_of :: "vm_observation \<Rightarrow> vmSample option" where
  "cpu_of (OCPU s) = Some s" | "cpu_of _ = None"

fun lite_of :: "vm_observation \<Rightarrow> vmLiteSample option" where
  "lite_of (OLite s) = Some s" | "lite_of _ = None"

fun runtime_of :: "vm_observation \<Rightarrow> vmRuntimeSample option" where
  "runtime_of (ORuntime s) = Some s" | "runtime_of _ = None"

fun cpu_answer :: "vm_answer \<Rightarrow> f64 option" where
  "cpu_answer (ACPU a) = Some a" | "cpu_answer _ = None"

fun lite_answer :: "vm_answer \<Rightarrow> (f64 \<times> f64) option" where
  "lite_answer (ALite a) = Some a" | "lite_answer _ = None"

fun runtime_answer :: "vm_answer \<Rightarrow> runtime_rates option" where
  "runtime_answer (ARuntime a) = Some a" | "runtime_answer _ = None"

lemma computeCPU_eq:
  "computeCPU k ns ts r =
     (cpu_rate (vmr_cores r) (map_of (vmr_prev r) k) \<lparr>smp_cpuNs = ns, smp_at = ts\<rparr>,
      r\<lparr>vmr_prev := mput k \<lparr>smp_cpuNs = ns, smp_at = ts\<rparr> (vmr_prev r)\<rparr>)"
  by (auto simp: computeCPU_def cpu_rate_def secs_le_0 clampPercent_def Let_def split: option.splits)

lemma computeLiteNetRates_eq:
  "computeLiteNetRates k rx tx ts r =
     (lite_rate (map_of (vmr_prevLite r) k) \<lparr>sml_netRXBytes = rx, sml_netTXBytes = tx, sml_at = ts\<rparr>,
      r\<lparr>vmr_prevLite := mput k \<lparr>sml_netRXBytes = rx, sml_netTXBytes = tx, sml_at = ts\<rparr> (vmr_prevLite r)\<rparr>)"
  by (auto simp: computeLiteNetRates_def lite_rate_def secs_le_0 Let_def split: option.splits)

lemma computeRuntimeRates_eq:
  "computeRuntimeRates k s r =
     (runtime_rate (map_of (vmr_prevRuntime r) k) s, r\<lparr>vmr_prevRuntime := mput k s (vmr_prevRuntime r)\<rparr>)"
  by (auto simp: computeRuntimeRates_def runtime_rate_def secs_le_0 Let_def split: option.splits)

lemma sample_eta [simp]:
  "\<lparr>smp_cpuNs = smp_cpuNs s, smp_at = smp_at s\<rparr> = s"
  "\<lparr>sml_netRXBytes = sml_netRXBytes l, sml_netTXBytes = sml_netTXBytes l, sml_at = sml_at l\<rparr> = l"
  by (cases s, simp) (cases l, simp)

text \<open>The share does not depend on the reader but for its number of processors, which never changes.\<close>

definition cpu_sampler :: "f64 \<Rightarrow> string \<Rightarrow> vmSample \<Rightarrow> (string, vmSample) gomap \<Rightarrow> f64 \<times> (string, vmSample) gomap" where
  "cpu_sampler cores k s m =
     map_prod id vmr_prev (observe_cpu k s
       \<lparr>vmr_prev = m, vmr_prevLite = [], vmr_prevRuntime = [], vmr_cores = cores\<rparr>)"

interpretation vm_cpu: sampler "cpu_sampler cores" map_of "cpu_rate cores" for cores
  by unfold_locales (simp_all add: cpu_sampler_def observe_cpu_def computeCPU_eq)

interpretation vm_lite: sampler observe_lite "\<lambda>r. map_of (vmr_prevLite r)" lite_rate
  by unfold_locales (simp_all add: observe_lite_def computeLiteNetRates_eq)

interpretation vm_runtime: sampler computeRuntimeRates "\<lambda>r. map_of (vmr_prevRuntime r)" runtime_rate
  by unfold_locales (simp_all add: computeRuntimeRates_eq)

definition lite_ok :: "f64 \<times> f64 \<Rightarrow> bool" where
  "lite_ok r \<longleftrightarrow> (case r of (a, b) \<Rightarrow> fnonneg a \<and> fnonneg b)"

definition rates_ok :: "runtime_rates \<Rightarrow> bool" where
  "rates_ok r \<longleftrightarrow> (case r of (a, b, c, d, e, f, g, h) \<Rightarrow> list_all fnonneg [a, b, c, d, e, f, g, h])"

lemma lite_rate_ok: "lite_ok (lite_rate p s)"
  by (auto simp: lite_ok_def lite_rate_def Let_def not_le split: option.splits intro!: percents)

lemma runtime_rate_ok: "rates_ok (runtime_rate p s)"
  by (auto simp: rates_ok_def runtime_rate_def Let_def not_le split: option.splits intro!: percents)

lemma cpu_rate_percent:
  assumes "cores_ok cores"
  shows "percent (cpu_rate cores p s)"
proof -
  obtain q where q: "Fin 100 / cores = Fin q" "0 < q" using cores_ok_factor [OF assms] by blast
  have "fnonneg (f64_of_u64 n / Fin 1000000000 / seconds (timeSub t u) * Fin q)" if "u < t" for n t u
    using that q(2) by (intro fnonneg_times rate_nonneg fnonneg_divide fnonneg_of_u64) simp_all
  then show ?thesis by (auto simp: cpu_rate_def q(1) not_le split: option.splits intro!: percents)
qed

text \<open>
  C16. Metrics of different machines never mix, although two collections share the reader: over any
  interleaving of processor, network and runtime observations of any number of machines, what the
  reader answers for one machine is a function of that machine's own last two samples of the same kind,
  zero on the first one; every processor share is a number between 0 and 100 and every rate is at least
  zero, whatever the counters and the clock do.
\<close>

theorem vm_rates_isolated:
  assumes "1 \<le> num_cpu pf" and "num_cpu pf < 2 ^ 53"
  shows "let outs = fst (observe_all observe_vm xs (NewVMMetricsReader pf));
             cpu = of_key k (picked cpu_answer outs); lite = of_key k (picked lite_answer outs);
             runtime = of_key k (picked runtime_answer outs)
         in cpu = series (cpu_rate (f64_of_int (num_cpu pf))) None (of_key k (picked cpu_of xs)) \<and>
            lite = series lite_rate None (of_key k (picked lite_of xs)) \<and>
            runtime = series runtime_rate None (of_key k (picked runtime_of xs)) \<and>
            list_all percent cpu \<and> list_all lite_ok lite \<and> list_all rates_ok runtime"
proof -
  let ?c = "f64_of_int (num_cpu pf)" and ?r = "NewVMMetricsReader pf"
  let ?outs = "fst (observe_all observe_vm xs ?r)"
  have cores: "cores_ok ?c" using assms by (auto simp: cores_ok_def)
  have cpu: "picked cpu_answer ?outs = fst (observe_all (cpu_sampler ?c) (picked cpu_of xs) [])"
  proof (rule observe_all_picked [where R = "\<lambda>r m. vmr_prev r = m \<and> vmr_cores r = ?c"], goal_cases)
    case (1 k a st m)
    then show ?case
      by (cases a) (auto simp: cpu_sampler_def observe_cpu_def computeCPU_eq computeLiteNetRates_eq computeRuntimeRates_eq)
  qed (simp add: NewVMMetricsReader_def)
  have lite: "picked lite_answer ?outs = fst (observe_all observe_lite (picked lite_of xs) ?r)"
  proof (rule observe_all_picked [where R = "\<lambda>r m. vmr_prevLite r = vmr_prevLite m"], goal_cases)
    case (1 k a st m)
    then show ?case
      by (cases a) (auto simp: observe_lite_def computeCPU_eq computeLiteNetRates_eq computeRuntimeRates_eq)
  qed simp
  have runtime: "picked runtime_answer ?outs = fst (observe_all computeRuntimeRates (picked runtime_of xs) ?r)"
  proof (rule observe_all_picked [where R = "\<lambda>r m. vmr_prevRuntime r = vmr_prevRuntime m"], goal_cases)
    case (1 k a st m)
    then show ?case
      by (cases a) (auto simp: computeCPU_eq computeLiteNetRates_eq computeRuntimeRates_eq)
  qed simp
  have fresh: "vmr_prevLite ?r = []" "vmr_prevRuntime ?r = []" by (simp_all add: NewVMMetricsReader_def)
  note ok = series_list_all [of percent, OF cpu_rate_percent [OF cores]]
    series_list_all [of lite_ok, OF lite_rate_ok] series_list_all [of rates_ok, OF runtime_rate_ok]
  show ?thesis
    using vm_cpu.key_series [of k ?c "picked cpu_of xs" "[]"] vm_lite.key_series [of k "picked lite_of xs" ?r]
      vm_runtime.key_series [of k "picked runtime_of xs" ?r]
    by (simp add: Let_def cpu lite runtime fresh ok)
qed

theorem vm_rates_isolated_witness:
  "list_all percent (of_key ''vm1'' (picked cpu_answer (fst (observe_all observe_vm
      [(''vm1'', OCPU \<lparr>smp_cpuNs = 0, smp_at = 0\<rparr>), (''vm2'', OCPU \<lparr>smp_cpuNs = 5, smp_at = 1\<rparr>),
       (''vm1'', OCPU \<lparr>smp_cpuNs = 2000000000, smp_at = 1000000000\<rparr>)]
      (NewVMMetricsReader \<lparr>cvt_u64 = (\<lambda>_. 0), goarch = ''amd64'', page_size = 4096, num_cpu = 4\<rparr>)))))"
proof -
  let ?pf = "\<lparr>cvt_u64 = (\<lambda>_. 0), goarch = ''amd64'', page_size = 4096, num_cpu = 4\<rparr>"
  have n: "1 \<le> num_cpu ?pf" "num_cpu ?pf < 2 ^ 53" by simp_all
  from vm_rates_isolated [OF n, of
      "[(''vm1'', OCPU \<lparr>smp_cpuNs = 0, smp_at = 0\<rparr>), (''vm2'', OCPU \<lparr>smp_cpuNs = 5, smp_at = 1\<rparr>),
        (''vm1'', OCPU \<lparr>smp_cpuNs = 2000000000, smp_at = 1000000000\<rparr>)]" "''vm1''"]
  show ?thesis unfolding Let_def by (elim conjE)
qed

section \<open>Sums over the statistics\<close>

lemma sumBySuffix_eq:
  "sumBySuffix flds rs ws =
     (sum_list (map snd (filter (\<lambda>x. hasSuffix (fst x) rs) flds)),
      sum_list (map snd (filter (\<lambda>x. \<not> hasSuffix (fst x) rs \<and> hasSuffix (fst x) ws) flds)))"
proof -
  have "fold (sumStep rs ws) flds (a, b) =
     (a + sum_list (map snd (filter (\<lambda>x. hasSuffix (fst x) rs) flds)),
      b + sum_list (map snd (filter (\<lambda>x. \<not> hasSuffix (fst x) rs \<and> hasSuffix (fst x) ws) flds)))" for a b
  proof (induction flds arbitrary: a b)
    case (Cons kv flds)
    then show ?case by (cases kv) (simp add: sumStep_def algebra_simps)
  qed simp
  then show ?thesis by (simp add: sumBySuffix_def)
qed

lemma sum_list_same_map:
  fixes m m' :: "('k, u64) gomap"
  assumes "same_map m m'"
  shows "sum_list (map snd (filter P m)) = sum_list (map snd (filter P m'))"
  using assms by (simp add: same_map_def mwf_distinct sum_list_distinct_conv_sum_set)

text \<open>
  The sums of the statistics do not depend on the order in which Go ranges over them: on maps with
  the same entries, in whatever order, the two sums are the same, and each is the sum of the values whose
  name has the suffix (a name with both suffixes counts for the first).
\<close>

theorem sumBySuffix_order_independent:
  assumes "same_map m m'"
  shows "sumBySuffix m rs ws = sumBySuffix m' rs ws \<and>
    sumBySuffix m rs ws =
      (sum snd {x \<in> set m. hasSuffix (fst x) rs},
       sum snd {x \<in> set m. \<not> hasSuffix (fst x) rs \<and> hasSuffix (fst x) ws})"
proof -
  have d: "distinct m" using assms by (simp add: same_map_def mwf_distinct)
  have "sumBySuffix m rs ws = sumBySuffix m' rs ws"
    by (simp add: sumBySuffix_eq sum_list_same_map [OF assms])
  moreover have "sum_list (map snd (filter P m)) = sum snd {x \<in> set m. P x}" for P
    using d by (simp add: sum_list_distinct_conv_sum_set)
  ultimately show ?thesis by (simp add: sumBySuffix_eq)
qed

theorem sumBySuffix_order_independent_witness:
  "sumBySuffix [(''net.0.rx'', 3), (''net.1.rx'', 4), (''net.0.tx'', 5)] ''.rx'' ''.tx'' =
   sumBySuffix [(''net.0.tx'', 5), (''net.1.rx'', 4), (''net.0.rx'', 3)] ''.rx'' ''.tx''"
  using sumBySuffix_order_independent
    [of "[(''net.0.rx'', 3), (''net.1.rx'', 4), (''net.0.tx'', 5)]"
        "[(''net.0.tx'', 5), (''net.1.rx'', 4), (''net.0.rx'', 3)]" "''.rx''" "''.tx''"]
  by (auto simp: same_map_def mwf_def)

section \<open>Identifiers\<close>

lemma of_char_hex_digit: "d < 16 \<Longrightarrow> of_char (hex_digit d) = (if d < 10 then 48 + d else 87 + d :: nat)"
  by (simp add: hex_digit_def)

lemma hex_digit_inj:
  assumes "d < 16" and "e < 16" and "hex_digit d = hex_digit e"
  shows "d = e"
proof -
  have "of_char (hex_digit d) = (of_char (hex_digit e) :: nat)" by (simp only: assms(3))
  then have "(if d < 10 then 48 + d else 87 + d) = (if e < 10 then 48 + e else 87 + e)"
    unfolding of_char_hex_digit [OF assms(1)] of_char_hex_digit [OF assms(2)] .
  with assms(1,2) show ?thesis by (simp split: if_splits)
qed

lemma length_hex_fixed [simp]: "length (hex_fixed n v) = n"
  by (induction n arbitrary: v) simp_all

lemma hex_fixed_inj: "v < 16 ^ n \<Longrightarrow> w < 16 ^ n \<Longrightarrow> hex_fixed n v = hex_fixed n w \<Longrightarrow> v = w"
proof (induction n arbitrary: v w)
  case (Suc n)
  have "v div 16 < 16 ^ n" "w div 16 < 16 ^ n" using Suc.prems(1,2) by (simp_all add: div_less_iff_less_mult mult.commute)
  moreover have "hex_fixed n (v div 16) = hex_fixed n (w div 16)" "hex_digit (v mod 16) = hex_digit (w mod 16)"
    using Suc.prems(3) by simp_all
  ultimately have "v div 16 = w div 16" "v mod 16 = w mod 16"
    using Suc.IH hex_digit_inj [of "v mod 16" "w mod 16"] by simp_all
  then show ?case by (metis div_mult_mod_eq)
qed simp

lemma bytes_val_snoc: "bytes_val (bs @ [b]) = 256 * bytes_val bs + unat b"
  by (simp add: bytes_val_def)

lemma bytes_val_less: "bytes_val bs < 256 ^ length bs"
proof (induction bs rule: rev_induct)
  case (snoc b bs)
  have "unat b < 256" using unat_less_word [of b] by simp
  with snoc show ?case by (simp add: bytes_val_snoc)
qed (simp add: bytes_val_def)

lemma bytes_val_inj: "length bs = length cs \<Longrightarrow> bytes_val bs = bytes_val cs \<Longrightarrow> bs = cs"
proof (induction bs arbitrary: cs rule: rev_induct)
  case (snoc b bs)
  then obtain cs' c where cs: "cs = cs' @ [c]" by (metis append_Nil2 length_0_conv rev_exhaust snoc_eq_iff_butlast)
  have lt: "unat b < 256" "unat c < 256" using unat_less_word [of b] unat_less_word [of c] by simp_all
  from snoc.prems cs have eq: "256 * bytes_val bs + unat b = 256 * bytes_val cs' + unat c"
    by (simp add: bytes_val_snoc)
  then have "bytes_val bs = bytes_val cs'" using lt by linarith
  with eq have "bytes_val bs = bytes_val cs'" "b = c" by (simp_all add: word_unat_eq_iff)
  with snoc cs show ?case by simp
qed simp

lemma hex_bytes_inj:
  assumes "hex_fixed n (bytes_val bs) = hex_fixed n (bytes_val cs)" and "n = 2 * length bs"
    and "length bs = length cs"
  shows "bs = cs"
proof -
  have "256 ^ length bs = (16 :: nat) ^ n" using assms(2) by (simp add: power_mult)
  then have "bytes_val bs = bytes_val cs"
    using bytes_val_less [of bs] bytes_val_less [of cs] assms by (intro hex_fixed_inj [of _ n]) simp_all
  with assms(3) show ?thesis by (intro bytes_val_inj)
qed

lemma uuid_parts:
  assumes "length u = 16"
  shows "u = take 4 u @ take 2 (drop 4 u) @ take 2 (drop 6 u) @ take 2 (drop 8 u) @ drop 10 u"
proof -
  have step: "take 2 (drop n u) @ drop (n + 2) u = drop n u" for n
    using append_take_drop_id [of 2 "drop n u"] by (simp add: add.commute)
  show ?thesis using step [of 4] step [of 6] step [of 8] append_take_drop_id [of 4 u] by simp
qed

lemma uuidToString_inj:
  assumes u: "length u = 16" and v: "length v = 16" and eq: "uuidToString u = uuidToString v"
  shows "u = v"
proof -
  from eq u v have h:
    "hex_fixed 8 (bytes_val (take 4 u)) = hex_fixed 8 (bytes_val (take 4 v))"
    "hex_fixed 4 (bytes_val (take 2 (drop 4 u))) = hex_fixed 4 (bytes_val (take 2 (drop 4 v)))"
    "hex_fixed 4 (bytes_val (take 2 (drop 6 u))) = hex_fixed 4 (bytes_val (take 2 (drop 6 v)))"
    "hex_fixed 4 (bytes_val (take 2 (drop 8 u))) = hex_fixed 4 (bytes_val (take 2 (drop 8 v)))"
    "hex_fixed 12 (bytes_val (drop 10 u)) = hex_fixed 12 (bytes_val (drop 10 v))"
    by (simp_all add: uuidToString_def del: hex_fixed.simps)
  have "take 4 u = take 4 v" by (rule hex_bytes_inj [OF h(1)]) (simp_all add: u v)
  moreover have "take 2 (drop 4 u) = take 2 (drop 4 v)" by (rule hex_bytes_inj [OF h(2)]) (simp_all add: u v)
  moreover have "take 2 (drop 6 u) = take 2 (drop 6 v)" by (rule hex_bytes_inj [OF h(3)]) (simp_all add: u v)
  moreover have "take 2 (drop 8 u) = take 2 (drop 8 v)" by (rule hex_bytes_inj [OF h(4)]) (simp_all add: u v)
  moreover have "drop 10 u = drop 10 v" by (rule hex_bytes_inj [OF h(5)]) (simp_all add: u v)
  ultimately show ?thesis using uuid_parts [OF u] uuid_parts [OF v] by simp
qed

lemma uuidToString_nonempty: "length u = 16 \<Longrightarrow> uuidToString u \<noteq> []"
  by (simp add: uuidToString_def)

section \<open>Collections\<close>

text \<open>What a metric says, for the record libvirt answered.\<close>

definition lite_sane :: "'d collect_env \<Rightarrow> string \<Rightarrow> stats_record \<Rightarrow> VMMetrics \<Rightarrow> bool" where
  "lite_sane E nodeID rec m \<longleftrightarrow>
     vl_NodeID m = nodeID \<and> vl_VMID m = uuidToString (sr_UUID rec) \<and> vl_VMName m = sr_Name rec \<and>
     vl_TimestampUnix m = unixSeconds (ce_now E) \<and> percent (vl_CPUUsagePct m) \<and>
     fnonneg (vl_NetRxBytesPerSec m) \<and> fnonneg (vl_NetTxBytesPerSec m) \<and>
     (vl_RAMTotalBytes m = 0 \<longrightarrow> vl_RAMUsedBytes m = 0)"

definition runtime_sane :: "'d collect_env \<Rightarrow> string \<Rightarrow> stats_record \<Rightarrow> VMRuntimeMetrics \<Rightarrow> bool" where
  "runtime_sane E nodeID rec m \<longleftrightarrow>
     vr_NodeID m = nodeID \<and> vr_VMID m = uuidToString (sr_UUID rec) \<and> vr_VMName m = sr_Name rec \<and>
     vr_TimestampUnix m = unixSeconds (ce_now E) \<and> percent (vr_CPUUsagePercent m) \<and>
     percent (vr_RAMUsagePercent m) \<and> (vr_RAMTotalBytes m = 0 \<longrightarrow> vr_RAMUsedBytes m = 0) \<and>
     list_all fnonneg
       [vr_DiskReadBytesPerSec m, vr_DiskWriteBytesPerSec m, vr_DiskReadIOPS m, vr_DiskWriteIOPS m,
        vr_NetRxBytesPerSec m, vr_NetTxBytesPerSec m, vr_NetRxPacketsPerSec m, vr_NetTxPacketsPerSec m] \<and>
     (\<forall>d \<in> set (vr_Disks m). percent (vrd_FSUsagePercent d))"

lemma liteMetric_sane:
  assumes "cores_ok (vmr_cores r)"
  shows "lite_sane E nodeID rec (fst (liteMetric E nodeID rec r)) \<and> cores_ok (vmr_cores (snd (liteMetric E nodeID rec r)))"
  using assms cpu_rate_percent [OF assms] lite_rate_ok
  by (simp add: liteMetric_def lite_sane_def Let_def split_def computeCPU_eq computeLiteNetRates_eq lite_ok_def)

lemma runtimeMetric_sane:
  assumes "cores_ok (vmr_cores r)"
  shows "runtime_sane E nodeID rec (fst (runtimeMetric E nodeID rec r)) \<and>
    cores_ok (vmr_cores (snd (runtimeMetric E nodeID rec r)))"
  using assms cpu_rate_percent [OF assms] runtime_rate_ok
  by (simp add: runtimeMetric_def runtime_sane_def Let_def split_def computeCPU_eq computeRuntimeRates_eq
      rates_ok_def vmPercentOf_percentOf buildPerDiskMetrics_def diskMetric_def percents)

text \<open>
  C18. Every collection of machine metrics makes sense, for every answer of libvirt and every state the
  reader can be in: it fails with the error libvirt gave and leaves the reader alone, or it answers one
  metric for each record, in order, with the record's name and identifier and the time of the cycle,
  processor, memory and disk shares between 0 and 100 (never a NaN), rates that are at least zero, and a
  used memory of zero whenever the total is zero.
\<close>

theorem vm_metrics_sane:
  assumes "cores_ok (vmr_cores r)"
  shows "(case CollectVM E nodeID r of
      (Inl err, r') \<Rightarrow> readRecords E = Inl err \<and> r' = r
    | (Inr ms, r') \<Rightarrow> cores_ok (vmr_cores r') \<and>
        (\<exists>recs. readRecords E = Inr recs \<and> list_all2 (lite_sane E nodeID) recs ms)) \<and>
    (case CollectRuntime E nodeID r of
      (Inl err, r') \<Rightarrow> readRecords E = Inl err \<and> r' = r
    | (Inr ms, r') \<Rightarrow> cores_ok (vmr_cores r') \<and>
        (\<exists>recs. readRecords E = Inr recs \<and> list_all2 (runtime_sane E nodeID) recs ms))"
proof -
  note lite = mapReader_all2 [of "\<lambda>r. cores_ok (vmr_cores r)" "lite_sane E nodeID", OF liteMetric_sane, OF _ assms]
  note runtime = mapReader_all2 [of "\<lambda>r. cores_ok (vmr_cores r)" "runtime_sane E nodeID", OF runtimeMetric_sane, OF _ assms]
  show ?thesis
    using lite runtime
    by (cases "readRecords E") (simp_all add: CollectVM_def CollectRuntime_def split_def Let_def)
qed

definition quiet_env :: "unit collect_env" where
  "quiet_env =
     \<lparr>ce_client = None, ce_domains = Inr [()],
      ce_stats = (\<lambda>_. Inr [\<lparr>sr_Name = ''web'', sr_UUID = [1, 2, 3, 4, 5, 6, 7, 8, 9, 10, 11, 12, 13, 14, 15, 16],
        sr_Params = [(''state.state'', PI32 1), (''block.0.name'', PStr ''vda'')]\<rparr>]),
      ce_now = 1700000000000000000, ce_loadavg = Inl (Leaf ''no such file''), ce_order = rev,
      ce_names = \<lparr>sn_State = ''state.state'', sn_CPUTime = ''cpu.time'', sn_BalloonCurrent = ''balloon.current'',
        sn_BalloonMaximum = ''balloon.maximum'', sn_VCPUCurrent = ''vcpu.current'', sn_RxBytes = ''.rx.bytes'',
        sn_TxBytes = ''.tx.bytes'', sn_RxPkts = ''.rx.pkts'', sn_TxPkts = ''.tx.pkts'', sn_RxErrs = ''.rx.errs'',
        sn_TxErrs = ''.tx.errs'', sn_RdBytes = ''.rd.bytes'', sn_WrBytes = ''.wr.bytes'', sn_RdReqs = ''.rd.reqs'',
        sn_WrReqs = ''.wr.reqs'', sn_BlockName = ''.name'', sn_Capacity = ''.capacity'', sn_Allocation = ''.allocation''\<rparr>,
      ce_platform = \<lparr>cvt_u64 = (\<lambda>_. 0), goarch = ''amd64'', page_size = 4096, num_cpu = 4\<rparr>\<rparr>"

theorem vm_metrics_sane_witness:
  "\<exists>recs ms r'. CollectRuntime quiet_env ''n1'' (NewVMMetricsReader (ce_platform quiet_env)) = (Inr ms, r') \<and>
     list_all2 (runtime_sane quiet_env ''n1'') recs ms \<and> length recs = 1"
proof -
  let ?r = "NewVMMetricsReader (ce_platform quiet_env)"
  have cores: "cores_ok (vmr_cores ?r)"
    by (auto simp: cores_ok_def NewVMMetricsReader_def quiet_env_def intro: exI [of _ 4])
  have recs: "\<exists>recs. readRecords quiet_env = Inr recs \<and> length recs = 1"
    by (simp add: readRecords_def quiet_env_def)
  obtain res r' where run: "CollectRuntime quiet_env ''n1'' ?r = (res, r')" by (cases "CollectRuntime quiet_env ''n1'' ?r")
  show ?thesis
    using vm_metrics_sane [OF cores, of quiet_env "''n1''"] recs run by (cases res) auto
qed

lemma runtimeMetric_id: "vr_VMID (fst (runtimeMetric E nodeID rec r)) = uuidToString (sr_UUID rec)"
  by (simp add: runtimeMetric_def Let_def split_def computeCPU_eq computeRuntimeRates_eq)

lemma find_unique: "distinct (map f xs) \<Longrightarrow> x \<in> set xs \<Longrightarrow> List.find (\<lambda>y. f y = f x) xs = Some x"
  by (induction xs) (auto simp: image_iff)

lemma length_build_map:
  assumes "distinct (map idOf ms)" and "[] \<notin> idOf ` set ms" and "\<And>m. vi_VMID (mk m) = idOf m"
  shows "length (build_map idOf mk [] ms) = length ms"
proof -
  let ?m = "build_map idOf mk [] ms"
  have wf: "distinct (map fst ?m)"
    using keyed_build_map [of "[]" mk idOf ms] assms(3) by (simp add: keyed_def mwf_def)
  have "map_of ?m k = None \<longleftrightarrow> k = [] \<or> List.find (\<lambda>m. idOf m = k) (rev ms) = None" for k
    by (simp add: map_of_build_map split: option.splits)
  then have "k \<notin> fst ` set ?m \<longleftrightarrow> k = [] \<or> (\<forall>x. x \<in> set ms \<longrightarrow> idOf x \<noteq> k)" for k
    unfolding map_of_None_fst find_None_iff by simp
  then have dom: "k \<in> fst ` set ?m \<longleftrightarrow> k \<noteq> [] \<and> (\<exists>x. x \<in> set ms \<and> idOf x = k)" for k
    by (metis (no_types))
  have "fst ` set ?m = idOf ` set ms"
  proof (rule set_eqI)
    fix k
    show "k \<in> fst ` set ?m \<longleftrightarrow> k \<in> idOf ` set ms"
      using assms(2) by (simp only: dom) blast
  qed
  then have "card (fst ` set ?m) = card (idOf ` set ms)" by simp
  then show ?thesis using distinct_card [OF wf] distinct_card [OF assms(1)] by simp
qed

text \<open>
  The inventory is complete and tells machines apart: libvirt's 16-byte identifiers become texts
  that are never empty and differ for different machines, so that the inventory built from a runtime
  collection of distinct machines holds exactly one entry for each record, under its identifier, with
  what was collected for that record.
\<close>

theorem inventory_complete:
  assumes "CollectRuntime E nodeID r = (Inr ms, r')" and "readRecords E = Inr recs"
    and "\<forall>rec \<in> set recs. length (sr_UUID rec) = 16" and "distinct (map sr_UUID recs)"
  shows "length (BuildVMInfoMapFromRuntime ms) = length recs \<and> length ms = length recs \<and>
    (\<forall>i < length recs. map_of (BuildVMInfoMapFromRuntime ms) (uuidToString (sr_UUID (recs ! i))) =
       Some (BuildVMInfoFromRuntimeMetric (ms ! i)))"
proof -
  have ms: "list_all2 (\<lambda>rec m. vr_VMID m = uuidToString (sr_UUID rec)) recs ms"
    using assms(1,2) mapReader_all2 [of "\<lambda>_. True" "\<lambda>rec m. vr_VMID m = uuidToString (sr_UUID rec)"
        "runtimeMetric E nodeID" r recs]
    by (simp add: CollectRuntime_def split_def Let_def runtimeMetric_id)
  then have ids: "map vr_VMID ms = map (uuidToString \<circ> sr_UUID) recs" and len: "length ms = length recs"
    by (auto simp: list_all2_conv_all_nth intro: nth_equalityI)
  have inj: "inj_on uuidToString (set (map sr_UUID recs))"
    using assms(3) by (auto intro!: inj_onI uuidToString_inj)
  have dist: "distinct (map vr_VMID ms)"
    unfolding ids using assms(4) inj by (simp add: distinct_map flip: map_map)
  have ne: "[] \<notin> vr_VMID ` set ms"
  proof -
    have "vr_VMID ` set ms = (uuidToString \<circ> sr_UUID) ` set recs" using arg_cong [where f = set, OF ids] by simp
    then show ?thesis using assms(3) uuidToString_nonempty by (auto dest: sym)
  qed
  have "map_of (BuildVMInfoMapFromRuntime ms) (uuidToString (sr_UUID (recs ! i))) =
      Some (BuildVMInfoFromRuntimeMetric (ms ! i))" if i: "i < length recs" for i
  proof -
    have id: "vr_VMID (ms ! i) = uuidToString (sr_UUID (recs ! i))" using ms i by (simp add: list_all2_conv_all_nth)
    have "ms ! i \<in> set ms" using i len by simp
    with find_unique [of vr_VMID "rev ms" "ms ! i"] dist ne show ?thesis
      unfolding BuildVMInfoMapFromRuntime_def map_of_build_map id [symmetric] by (force simp: rev_map [symmetric])
  qed
  moreover have "length (BuildVMInfoMapFromRuntime ms) = length recs"
    unfolding BuildVMInfoMapFromRuntime_def len [symmetric]
    by (rule length_build_map [OF dist ne]) (simp add: BuildVMInfoFromRuntimeMetric_def)
  ultimately show ?thesis using len by simp
qed

theorem inventory_complete_witness:
  "\<exists>ms r'. CollectRuntime quiet_env ''n1'' (NewVMMetricsReader (ce_platform quiet_env)) = (Inr ms, r') \<and>
     length (BuildVMInfoMapFromRuntime ms) = 1"
proof -
  let ?r = "NewVMMetricsReader (ce_platform quiet_env)"
  obtain rec where recs: "readRecords quiet_env = Inr [rec]" "length (sr_UUID rec) = 16"
    by (simp add: readRecords_def quiet_env_def)
  then obtain ms r' where run: "CollectRuntime quiet_env ''n1'' ?r = (Inr ms, r')"
    by (simp add: CollectRuntime_def split_def Let_def)
  from inventory_complete [OF run recs(1)] recs(2) run show ?thesis by auto
qed

end
