(* ===== verification/Node_Facts.thy ===== *)
theory Node_Facts
  imports Node_Reader
begin

text \<open>
  What the node's records guarantee, whatever the machine answers: shares are percentages, rates are
  non-negative numbers, and the samples of one interface or disk never reach another.
\<close>

section \<open>Interfaces\<close>

definition net_sane :: "NodeNetIfMetricLite \<Rightarrow> bool" where
  "net_sane m \<longleftrightarrow> fnonneg (nnm_RxMBS m) \<and> fnonneg (nnm_TxMBS m) \<and> fnonneg (nnm_TotalMBS m) \<and>
     fnonneg (nnm_RxPacketsPerSec m) \<and> fnonneg (nnm_TxPacketsPerSec m) \<and> percent (nnm_BandwidthUtilPercent m)"

lemma eighth_finite: "f64_of_u64 w / Fin 8 \<noteq> PInf"
proof -
  obtain r where r: "f64_of_u64 w = Fin r" "0 \<le> r" "r \<le> 2 ^ 64" using f64_of_u64_finite by blast
  then have "0 \<le> r / 8" "r / 8 \<le> 2 ^ 64" by simp_all
  moreover have "rnd (2 ^ 64) = Fin (2 ^ 64)" by (rule rnd_pow) simp
  ultimately obtain s where "rnd (r / 8) = Fin s" using rnd_between by blast
  with r show ?thesis by simp
qed

lemma computeBandwidthUtilPercent_percent [percents]:
  assumes "fnonneg rx" and "fnonneg tx"
  shows "percent (computeBandwidthUtilPercent speed rx tx)"
proof (cases "speed = 0 \<or> f64_of_u64 speed / Fin 8 \<le> 0")
  case False
  have "fnonneg (f64_of_u64 speed / Fin 8)" by (rule fnonneg_divide [OF fnonneg_of_u64]) simp_all
  with False have "fpos (f64_of_u64 speed / Fin 8)"
    by (cases "f64_of_u64 speed / Fin 8") (auto simp: less_eq_f64_def zero_f64_def)
  then have "fnonneg ((rx + tx) / (f64_of_u64 speed / Fin 8))"
    using eighth_finite assms by (intro fnonneg_divide fnonneg_add)
  with False show ?thesis by (auto simp: computeBandwidthUtilPercent_def Let_def intro!: clampPercent_percent fnonneg_100)
qed (auto simp: computeBandwidthUtilPercent_def)

lemma mibPerSec_nonneg: "fnonneg (fst (whenObserved mibPerSec key now cur e))"
  by (rule whenObserved_cases) (simp_all add: mibPerSec_def Let_def percents)

lemma perSec_nonneg: "fnonneg (fst (whenObserved perSec key now cur e))"
  by (rule whenObserved_cases) (simp_all add: perSec_def percents)

lemma netIfMetric_sane: "net_sane (fst (netIfMetric now nodeID s e))"
  by (simp add: netIfMetric_def net_sane_def split_def Let_def mibPerSec_nonneg perSec_nonneg percents)

lemma netAgg_sane:
  assumes "\<forall>m \<in> set ms. net_sane m"
    and "fnonneg (nal_RxMBS agg)" and "fnonneg (nal_TxMBS agg)" and "fnonneg (nal_PacketRate agg)"
  shows "fnonneg (nal_RxMBS (fold netAggStep ms agg)) \<and> fnonneg (nal_TxMBS (fold netAggStep ms agg)) \<and>
    fnonneg (nal_PacketRate (fold netAggStep ms agg))"
  using assms
proof (induction ms arbitrary: agg)
  case (Cons m ms)
  then show ?case by (simp add: netAggStep_def net_sane_def percents)
qed simp

lemma collectNodeNetworkMetrics_sane:
  assumes "collectNodeNetworkMetrics H now nodeID r = ((ms, agg), r')"
  shows "(\<forall>m \<in> set ms. net_sane m) \<and> fnonneg (nal_RxMBS agg) \<and> fnonneg (nal_TxMBS agg) \<and>
    fnonneg (nal_TotalMBS agg) \<and> fnonneg (nal_PacketRate agg)"
proof (cases "readNetworkInterfaceSamples H = []")
  case True
  with assms show ?thesis by (auto simp: collectNodeNetworkMetrics_def Let_def zero_netAggregateLite_def)
next
  case False
  let ?ss = "readNetworkInterfaceSamples H"
  let ?ms = "fst (mapReader (netIfMetric now nodeID) ?ss (nr_delta r))"
  have "list_all2 (\<lambda>s. net_sane) ?ss ?ms"
    using mapReader_all2 [of "\<lambda>_. True" "\<lambda>s. net_sane" "netIfMetric now nodeID" "nr_delta r" ?ss]
    by (simp add: netIfMetric_sane)
  then have ms: "\<forall>m \<in> set ?ms. net_sane m"
    by (metis in_set_conv_nth list_all2_lengthD list_all2_nthD2)
  from netAgg_sane [OF ms, of zero_netAggregateLite] ms False assms show ?thesis
    by (auto simp: collectNodeNetworkMetrics_def Let_def split_def zero_netAggregateLite_def percents)
qed

section \<open>Disks\<close>

definition disk_sane :: "NodeDiskMetricLite \<Rightarrow> bool" where
  "disk_sane d \<longleftrightarrow> fnonneg (ndm_ReadMBS d) \<and> fnonneg (ndm_WriteMBS d) \<and> fnonneg (ndm_TotalMBS d) \<and>
     fnonneg (ndm_ReadIOPS d) \<and> fnonneg (ndm_WriteIOPS d) \<and> fnonneg (ndm_TotalIOPS d) \<and>
     percent (ndm_UtilPercent d) \<and> fnonneg (ndm_ReadLatencyMs d) \<and> fnonneg (ndm_WriteLatencyMs d) \<and>
     percent (ndm_FSUsagePercent d)"

lemma sectorsMibPerSec_nonneg: "fnonneg (fst (whenObserved sectorsMibPerSec key now cur e))"
  by (rule whenObserved_cases) (simp_all add: sectorsMibPerSec_def Let_def percents)

lemma opsPerSec_nonneg: "fnonneg (fst (whenObserved opsPerSec key now cur e))"
  by (rule whenObserved_cases) (simp_all add: opsPerSec_def percents)

lemma busyShare_percent: "percent (fst (whenObserved busyShare key now cur e))"
proof (rule whenObserved_cases)
  fix delta r assume r: "0 < r" "tiny \<le> r"
  then have "2 powi (- 1074) \<le> r * 10" unfolding tiny_def [symmetric] by linarith
  then have pos: "fpos (rnd (r * 10))" by (rule rnd_fpos) simp
  then have "fnonneg (f64_of_u64 delta / rnd (r * 10))"
  proof (cases "rnd (r * 10) = PInf")
    case True
    obtain d where "f64_of_u64 delta = Fin d" using f64_of_u64_finite by blast
    with True show ?thesis by simp
  qed (rule fnonneg_divide [OF fnonneg_of_u64 pos])
  then show "percent (busyShare delta (Fin r))" by (simp add: busyShare_def clampPercent_percent)
qed simp

lemma latencyMs_nonneg: "fnonneg (latencyMs ops dur)"
proof (cases "fst ops > 0")
  case True
  then have "fst ops \<noteq> 0" by auto
  then show ?thesis by (auto simp: latencyMs_def split_def Let_def intro: fnonneg_share)
qed (simp add: latencyMs_def split_def Let_def)

lemma nodeDiskMetric_sane: "disk_sane (fst (nodeDiskMetric H now nodeID us entry e))"
  by (simp add: nodeDiskMetric_def disk_sane_def split_def Let_def sectorsMibPerSec_nonneg opsPerSec_nonneg
      busyShare_percent latencyMs_nonneg percents split: option.split)

text \<open>
  The utilisation is an average of percentages: its sum stays exact enough below \<open>2 ^ 46\<close> disks, so that
  rounding never carries the average above 100.
\<close>

definition util_sum :: "nat \<Rightarrow> f64 \<Rightarrow> bool" where
  "util_sum n f \<longleftrightarrow> (\<exists>s. f = Fin s \<and> 0 \<le> s \<and> s \<le> 100 * of_nat n)"

lemma rnd_hundreds: "n < 2 ^ 46 \<Longrightarrow> rnd (100 * of_nat n) = Fin (100 * of_nat n)"
  using rnd_of_nat [of "100 * n"] by simp

lemma util_sum_add:
  assumes "util_sum n f" and "percent p" and "Suc n < 2 ^ 46"
  shows "util_sum (Suc n) (f + p)"
proof -
  obtain s q where "f = Fin s" "0 \<le> s" "s \<le> 100 * of_nat n" "p = Fin q" "0 \<le> q" "q \<le> 100"
    using assms(1,2) by (auto simp: util_sum_def percent_def)
  moreover have "rnd (100 * of_nat (Suc n)) = Fin (100 * of_nat (Suc n))" by (rule rnd_hundreds [OF assms(3)])
  ultimately show ?thesis using rnd_between [of "s + q" "100 * of_nat (Suc n)"] by (auto simp: util_sum_def)
qed

lemma util_average:
  assumes "util_sum n f" and "0 < n" and "n < 2 ^ 46"
  shows "percent (f / f64_of_int (int n))"
proof -
  obtain s where s: "f = Fin s" "0 \<le> s" "s \<le> 100 * of_nat n" using assms(1) by (auto simp: util_sum_def)
  have n: "f64_of_int (int n) = Fin (of_nat n)" using assms(3) by (simp add: f64_of_int_def)
  have "0 \<le> s / of_nat n" "s / of_nat n \<le> 100" using s assms(2) by (simp_all add: divide_le_eq)
  moreover have "rnd 100 = Fin 100" by simp
  ultimately obtain r where "rnd (s / of_nat n) = Fin r" "0 \<le> r" "r \<le> 100" using rnd_between by blast
  with s n assms(2) show ?thesis by (simp add: percent_def)
qed

definition agg_sane :: "diskAggregateLite \<times> nat \<Rightarrow> bool" where
  "agg_sane acc \<longleftrightarrow> fnonneg (dal_ReadMBS (fst acc)) \<and> fnonneg (dal_WriteMBS (fst acc)) \<and>
     fnonneg (dal_IOPS (fst acc)) \<and> util_sum (snd acc) (dal_UtilPercent (fst acc)) \<and>
     (snd acc = 0 \<longrightarrow> dal_UtilPercent (fst acc) = 0)"

lemma diskAgg_fold:
  assumes "\<forall>d \<in> set ds. disk_sane d" and "agg_sane acc" and "snd acc + length ds < 2 ^ 46"
  shows "agg_sane (fold diskAggStep ds acc) \<and> snd (fold diskAggStep ds acc) \<le> snd acc + length ds"
  using assms
proof (induction ds arbitrary: acc)
  case (Cons d ds)
  have d: "disk_sane d" using Cons.prems(1) by simp
  have step: "agg_sane (diskAggStep d acc)" "snd (diskAggStep d acc) \<le> Suc (snd acc)"
    using d Cons.prems(2,3) util_sum_add [of "snd acc" "dal_UtilPercent (fst acc)" "ndm_UtilPercent d"]
    by (auto simp: diskAggStep_def split_def Let_def agg_sane_def disk_sane_def percents)
  show ?case using Cons.IH [OF _ step(1)] step(2) Cons.prems by simp
qed simp

lemma diskAggregate_sane:
  assumes "\<forall>d \<in> set ds. disk_sane d" and "length ds < 2 ^ 46"
  shows "fnonneg (dal_ReadMBS (diskAggregate ds)) \<and> fnonneg (dal_WriteMBS (diskAggregate ds)) \<and>
    fnonneg (dal_TotalMBS (diskAggregate ds)) \<and> fnonneg (dal_IOPS (diskAggregate ds)) \<and>
    percent (dal_UtilPercent (diskAggregate ds))"
proof -
  obtain agg n where run: "fold diskAggStep ds (zero_diskAggregateLite, 0) = (agg, n)" by fastforce
  have "agg_sane (zero_diskAggregateLite, 0)"
    by (simp add: agg_sane_def zero_diskAggregateLite_def util_sum_def zero_f64_def)
  from diskAgg_fold [OF assms(1) this] assms(2) run have "agg_sane (agg, n)" "n < 2 ^ 46" by simp_all
  then show ?thesis using run util_average [of n "dal_UtilPercent agg"]
    by (auto simp: diskAggregate_def agg_sane_def Let_def percents)
qed

lemma mput_length: "length (mput k v m) \<le> Suc (length m)"
  by (induction m) (auto simp: mput_def)

lemma fold_mput_length:
  assumes "\<And>x m. length (f x m) \<le> Suc (length m)"
  shows "length (fold f xs m) \<le> length xs + length m"
proof (induction xs arbitrary: m)
  case (Cons x xs)
  show ?case using Cons [of "f x m"] assms [of x m] by simp
qed simp

lemma diskstatsLine_length: "length (diskstatsLine H line m) \<le> Suc (length m)"
  by (auto simp: diskstatsLine_def Let_def intro: mput_length)

lemma readDiskStatSnapshots_length:
  assumes "readDiskStatSnapshots H = Inr m"
  shows "\<exists>raw. h_readFile H ''/proc/diskstats'' = Inr raw \<and> length m \<le> length (lines raw)"
proof -
  from assms obtain raw where raw: "h_readFile H ''/proc/diskstats'' = Inr raw"
    by (auto simp: readDiskStatSnapshots_def split: sum.splits)
  with assms have "m = fold (diskstatsLine H) (fst (scanLines H ''/proc/diskstats'' raw)) []"
    by (auto simp: readDiskStatSnapshots_def split_def Let_def split: option.splits)
  moreover have "length (fst (scanLines H ''/proc/diskstats'' raw)) \<le> length (lines raw)"
    by (simp add: scanLines_def length_takeWhile_le)
  ultimately have "length m \<le> length (lines raw)"
    using fold_mput_length [of "diskstatsLine H" "fst (scanLines H ''/proc/diskstats'' raw)" "[]", OF diskstatsLine_length]
    by simp
  with raw show ?thesis by blast
qed

definition few_lines :: "host \<Rightarrow> bool" where
  "few_lines H \<longleftrightarrow> (\<forall>raw. h_readFile H ''/proc/diskstats'' = Inr raw \<longrightarrow> length (lines raw) < 2 ^ 46)"

lemma collectNodeDiskMetrics_sane:
  assumes "collectNodeDiskMetrics H now nodeID r = ((ds, agg), r')" and "few_lines H"
  shows "(\<forall>d \<in> set ds. disk_sane d) \<and> fnonneg (dal_ReadMBS agg) \<and> fnonneg (dal_WriteMBS agg) \<and>
    fnonneg (dal_TotalMBS agg) \<and> fnonneg (dal_IOPS agg) \<and> percent (dal_UtilPercent agg)"
proof (cases "readDiskStatSnapshots H")
  case (Inl err)
  with assms(1) show ?thesis by (auto simp: collectNodeDiskMetrics_def zero_diskAggregateLite_def)
next
  case (Inr m)
  define f where "f = nodeDiskMetric H now nodeID (readDiskMountUsages H)"
  have all: "list_all2 (\<lambda>x. disk_sane) (sort_key fst m) (fst (mapReader f (sort_key fst m) (nr_delta r)))"
    using mapReader_all2 [of "\<lambda>_. True" "\<lambda>x. disk_sane" f "nr_delta r" "sort_key fst m"]
    by (simp add: nodeDiskMetric_sane f_def)
  from assms(1) Inr have ds: "ds = fst (mapReader f (sort_key fst m) (nr_delta r))" "agg = diskAggregate ds"
    by (auto simp: collectNodeDiskMetrics_def split_def Let_def f_def)
  have "length ds < 2 ^ 46"
    using readDiskStatSnapshots_length [OF Inr] assms(2) list_all2_lengthD [OF all] ds(1) by (auto simp: few_lines_def)
  moreover have "\<forall>d \<in> set ds. disk_sane d"
    using all unfolding ds(1) by (metis in_set_conv_nth list_all2_lengthD list_all2_nthD2)
  ultimately show ?thesis using diskAggregate_sane ds(2) by blast
qed

section \<open>The record\<close>

lemma busyShares_percent: "fnonneg (busyShares cur prev whole)"
proof -
  have "fnonneg f" if "percent f" for f using that by (auto simp: percent_def)
  then show ?thesis by (simp add: busyShares_def Let_def percents percentDelta_percent)
qed

lemma computeCPURealtime_percent: "percent (crm_TotalPercent (fst (computeCPURealtime cur ready r)))"
  by (simp add: computeCPURealtime_def cpuShares_def Let_def zero_cpuRealtimeMetrics_def busyShares_percent percents)

lemma clampPercent_cases: "percent (clampPercent x) \<or> x = NaN"
  by (cases x) (auto simp: clampPercent_def percent_def zero_f64_def)

text \<open>
  A record is sane when its shares are percentages and its rates non-negative. The load averages are
  handed on as \<^verbatim>\<open>/proc/loadavg\<close> has them, and the GPU utilisation as the vendor's tool prints it.
\<close>

definition metrics_sane :: "NodeMetrics \<Rightarrow> bool" where
  "metrics_sane m \<longleftrightarrow> percent (nm_CPUUsagePercent m) \<and> percent (nm_RAMUsagePercent m) \<and>
     percent (nm_DiskUtilPercent m) \<and> percent (nm_GPUMemoryUtilPercent m) \<and> nm_CPUCores m \<noteq> 0 \<and>
     (nm_CPULoad1 m \<noteq> NaN \<longrightarrow> percent (nm_SystemLoadPercent m)) \<and>
     list_all (\<lambda>f. fnonneg (f m)) [nm_DiskReadMBS, nm_DiskWriteMBS, nm_DiskTotalMBS, nm_DiskIOPS,
       nm_NetRxMBS, nm_NetTxMBS, nm_NetTotalMBS, nm_NetPacketRate, nm_CPURunQueue]"

lemma load_share_not_NaN: "w \<noteq> 0 \<Longrightarrow> x \<noteq> NaN \<Longrightarrow> x / f64_of_u64 w * Fin 100 \<noteq> NaN"
proof -
  assume w: "w \<noteq> 0" and x: "x \<noteq> NaN"
  obtain r where r: "f64_of_u64 w = Fin r" using f64_of_u64_finite by blast
  with fpos_of_u64 [OF w] have "0 < r" by simp
  with x r have "x / f64_of_u64 w \<noteq> NaN" by (cases x) (auto simp: signed_inf_def)
  then show ?thesis by (cases "x / f64_of_u64 w") (auto simp: signed_inf_def)
qed

lemma collectNode_sane:
  assumes "collectNode E memoryKiB cpus mhz nodeID hostname r = Some (m, r')" and "few_lines (ne_host E)"
  shows "metrics_sane m \<and> nm_NodeID m = nodeID \<and> nm_TimestampUnix m = unixSeconds (ne_now E)"
proof -
  let ?H = "ne_host E" and ?now = "ne_now E"
  define snapRes where "snapRes = readProcCPUSnapshot ?H ?now"
  define snap where "snap = readOrZero snapRes zero_procCPUSnapshot"
  obtain cpu r1 where cpu: "computeCPURealtime snap (\<not> isl snapRes) r = (cpu, r1)" by fastforce
  obtain mem r2 where mem: "computeMemoryRates (h_platform ?H) (readVMStatSnapshot ?H ?now) r1 = (mem, r2)" by fastforce
  obtain ds disk r3 where disk: "collectNodeDiskMetrics ?H ?now nodeID r2 = ((ds, disk), r3)" by (metis prod.collapse)
  obtain ns net r4 where net: "collectNodeNetworkMetrics ?H ?now nodeID r3 = ((ns, net), r4)" by (metis prod.collapse)
  from assms(1) obtain gs gpu r5 where gpu: "collectNodeGPUMetrics (ne_json E) ?H ?now nodeID r4 = Some ((gs, gpu), r5)"
    unfolding collectNode_def Let_def snapRes_def [symmetric] snap_def [symmetric] cpu mem disk net
    by (cases "collectNodeGPUMetrics (ne_json E) ?H ?now nodeID r4") (auto simp: snap_def snapRes_def cpu mem disk net)
  have cpu_ok: "percent (crm_TotalPercent cpu)" using computeCPURealtime_percent [of snap "\<not> isl snapRes" r] cpu by simp
  note disk_ok = collectNodeDiskMetrics_sane [OF disk assms(2)]
  note net_ok = collectNodeNetworkMetrics_sane [OF net]
  let ?c = "collectNode E memoryKiB cpus mhz nodeID hostname r"
  have m: "m = fst (the ?c)" using assms(1) by simp
  have eqs: "nm_NodeID m = nodeID" "nm_TimestampUnix m = unixSeconds ?now"
    "nm_CPUUsagePercent m = crm_TotalPercent cpu" "\<exists>v w. nm_RAMUsagePercent m = percentOf v w"
    "\<exists>v w. nm_GPUMemoryUtilPercent m = percentOf v w" "nm_CPUCores m \<noteq> 0"
    "nm_SystemLoadPercent m = clampPercent (nm_CPULoad1 m / f64_of_u64 (nm_CPUCores m) * Fin 100)"
    "nm_DiskReadMBS m = dal_ReadMBS disk" "nm_DiskWriteMBS m = dal_WriteMBS disk"
    "nm_DiskTotalMBS m = dal_TotalMBS disk" "nm_DiskIOPS m = dal_IOPS disk" "nm_DiskUtilPercent m = dal_UtilPercent disk"
    "nm_NetRxMBS m = nal_RxMBS net" "nm_NetTxMBS m = nal_TxMBS net" "nm_NetTotalMBS m = nal_TotalMBS net"
    "nm_NetPacketRate m = nal_PacketRate net" "\<exists>w. nm_CPURunQueue m = f64_of_u64 w"
    using m unfolding collectNode_def Let_def snapRes_def [symmetric] snap_def [symmetric]
    by (auto simp: cpu mem disk net gpu split_def Let_def simp flip: snap_def snapRes_def)
  show ?thesis
    using eqs(4,5,17) clampPercent_cases [of "nm_CPULoad1 m / f64_of_u64 (nm_CPUCores m) * Fin 100"]
      load_share_not_NaN [OF eqs(6), of "nm_CPULoad1 m"]
    by (auto simp: metrics_sane_def eqs(1-3,6-16) cpu_ok disk_ok net_ok percentOf_percent fnonneg_of_u64)
qed

section \<open>Panics\<close>

text \<open>
  \<^verbatim>\<open>parseFloatFlexible\<close> panics exactly on a text that consists of units and spaces only; \<^verbatim>\<open>%\<close> is one.
\<close>

definition bareUnit :: "string \<Rightarrow> bool" where
  "bareUnit raw \<longleftrightarrow> trimSpace raw \<noteq> [] \<and> (\<forall>c \<in> set (trimUnits (trimSpace raw)). is_space c)"

lemma parseFloatFlexible_None: "parseFloatFlexible raw = None \<longleftrightarrow> bareUnit raw"
  by (auto simp: parseFloatFlexible_def bareUnit_def fields_Nil_iff [symmetric] split_def Let_def split: list.splits)

lemma bind_Some: "m \<noteq> None \<Longrightarrow> (\<And>x. f x \<noteq> None) \<Longrightarrow> m \<bind> f \<noteq> None" for m :: "'a option"
  by (cases m) simp_all

lemma those_None: "those xs = None \<longleftrightarrow> None \<in> set xs"
  by (induction xs) (auto split: option.splits)

definition float_columns :: "nat set" where
  "float_columns = {2, 3, 7, 8, 9, 10, 13, 14}"

lemma nvidiaMetric_None:
  "nvidiaMetric pf now nodeID energy row = None \<longleftrightarrow> (\<exists>i \<in> float_columns. bareUnit (row ! i))"
  by (simp add: nvidiaMetric_def Let_def float_columns_def flip: parseFloatFlexible_None)
    (auto simp: bind_eq_None_conv)

definition clean_rows :: "string list list \<Rightarrow> bool" where
  "clean_rows rows \<longleftrightarrow> (\<forall>row \<in> set rows. \<forall>f \<in> set row. \<not> bareUnit f)"

lemma codecRow_Some:
  assumes "\<forall>f \<in> set row. \<not> bareUnit f"
  shows "codecRow upd row gs \<noteq> None"
proof (cases "length row < 2")
  case False
  then have "row ! 1 \<in> set row" by simp
  with assms have "parseFloatFlexible (row ! 1) \<noteq> None" by (simp add: parseFloatFlexible_None)
  with False show ?thesis by (auto simp: codecRow_def split: option.splits)
qed (simp add: codecRow_def)

lemma codec_rows_Some:
  "clean_rows rows \<Longrightarrow> fold (\<lambda>row acc. acc \<bind> codecRow upd row) rows (Some gs) \<noteq> None"
proof (induction rows arbitrary: gs)
  case (Cons row rows)
  then have "codecRow upd row gs \<noteq> None" by (intro codecRow_Some) (simp add: clean_rows_def)
  then obtain gs' where "codecRow upd row gs = Some gs'" by auto
  with Cons show ?case by (simp add: clean_rows_def)
qed simp

text \<open>Tools whose answers hold no bare unit.\<close>

definition clean_nvidia :: "host \<Rightarrow> bool" where
  "clean_nvidia H \<longleftrightarrow> (\<forall>fs rows. runNvidiaQueryCSV H fs = Some rows \<longrightarrow> clean_rows rows)"

definition clean_value :: "json_tools \<Rightarrow> jvalue \<Rightarrow> bool" where
  "clean_value J v = (case v of JNum f \<Rightarrow> True | JStr s \<Rightarrow> \<not> bareUnit s | _ \<Rightarrow> \<not> bareUnit (j_text J v))"

definition clean_amd :: "json_tools \<Rightarrow> bool" where
  "clean_amd J \<longleftrightarrow> (\<forall>i m. set (j_order J i m) = set m) \<and>
     (\<forall>raw decoded key obj k v. j_decode J raw = Some decoded \<longrightarrow> (key, JObj obj) \<in> set decoded \<longrightarrow>
        (k, v) \<in> set obj \<longrightarrow> clean_value J v)"

lemma codecQuery_Some: "clean_nvidia H \<Longrightarrow> codecQuery H name upd gs \<noteq> None"
  using codec_rows_Some by (auto simp: codecQuery_def clean_nvidia_def split: option.split)

lemma applyNvidiaCodecUtil_Some: "clean_nvidia H \<Longrightarrow> applyNvidiaCodecUtil H gs \<noteq> None"
  unfolding applyNvidiaCodecUtil_def by (simp del: not_None_eq) (intro impI bind_Some codecQuery_Some)

lemma collectNvidiaGpuLite_Some:
  assumes "clean_nvidia H"
  shows "collectNvidiaGpuLite H now nodeID e \<noteq> None"
proof (cases "h_lookPath H ''nvidia-smi'' \<and> runNvidiaQueryCSV H nvidiaFields \<noteq> None")
  case True
  then obtain rows where rows: "runNvidiaQueryCSV H nvidiaFields = Some rows" by auto
  with assms have clean: "clean_rows rows" by (simp add: clean_nvidia_def)
  have "None \<notin> nvidiaMetric (h_platform H) now nodeID energy ` set (filter (\<lambda>row. length nvidiaFields \<le> length row) rows)"
    for energy
  proof
    assume "None \<in> nvidiaMetric (h_platform H) now nodeID energy ` set (filter (\<lambda>row. length nvidiaFields \<le> length row) rows)"
    then obtain row where row: "row \<in> set rows" "15 \<le> length row" "nvidiaMetric (h_platform H) now nodeID energy row = None"
      by (auto simp: nvidiaFields_def)
    then obtain i where "i \<in> float_columns" "bareUnit (row ! i)" by (auto simp: nvidiaMetric_None)
    moreover from this row(2) have "row ! i \<in> set row" by (auto simp: float_columns_def)
    ultimately show False using clean row(1) by (auto simp: clean_rows_def)
  qed
  then have "those (map (nvidiaMetric (h_platform H) now nodeID energy)
      (filter (\<lambda>row. length nvidiaFields \<le> length row) rows)) \<noteq> None" for energy
    by (simp only: those_None set_map not_False_eq_True)
  then have "those (map (nvidiaMetric (h_platform H) now nodeID energy)
      (filter (\<lambda>row. length nvidiaFields \<le> length row) rows)) \<bind>
      (\<lambda>out. applyNvidiaCodecUtil H out \<bind> (\<lambda>out'. Some (out', e'))) \<noteq> None" for energy and e' :: delta_engine
    by (intro bind_Some applyNvidiaCodecUtil_Some [OF assms]) simp_all
  with rows show ?thesis by (simp add: collectNvidiaGpuLite_def split_def Let_def del: not_None_eq)
qed (auto simp: collectNvidiaGpuLite_def)

lemma findMapFloatByContains_Some:
  assumes "\<forall>(k, v) \<in> set m. clean_value J v"
  shows "findMapFloatByContains J m needles \<noteq> None"
proof (cases "findByContains m needles")
  case (Some v)
  then obtain k where "(k, v) \<in> set m"
    by (auto simp: findByContains_def find_Some_iff) (metis nth_mem)
  with assms have "clean_value J v" by auto
  with Some show ?thesis
    by (cases v) (auto simp: findMapFloatByContains_def clean_value_def simp flip: parseFloatFlexible_None)
qed (simp add: findMapFloatByContains_def)

lemma amdMetric_Some:
  assumes "\<forall>i m. set (j_order J i m) = set m" and "\<forall>(k, v) \<in> set obj. clean_value J v"
  shows "amdMetric J pf now nodeID (key, obj) \<noteq> None"
proof -
  have "\<forall>(k, v) \<in> set (j_order J i obj). clean_value J v" for i using assms by simp
  from findMapFloatByContains_Some [OF this]
  have "findMapFloatByContains J (j_order J i obj) needles \<noteq> None" for i needles .
  then show ?thesis by (simp add: amdMetric_def Let_def bind_eq_None_conv)
qed

lemma collectAmdGpuLite_Some:
  assumes "clean_amd J"
  shows "collectAmdGpuLite J H now nodeID \<noteq> None"
proof (cases "h_lookPath H ''rocm-smi''")
  case True
  have "those (map (amdMetric J (h_platform H) now nodeID) (List.map_filter cardObject (j_order J 0 decoded))) \<noteq> None"
    if dec: "j_decode J raw = Some decoded" for raw decoded
    unfolding those_None set_map
  proof
    assume "None \<in> amdMetric J (h_platform H) now nodeID ` set (List.map_filter cardObject (j_order J 0 decoded))"
    then obtain key obj where bad: "amdMetric J (h_platform H) now nodeID (key, obj) = None"
      and mem: "(key, obj) \<in> set (List.map_filter cardObject (j_order J 0 decoded))"
      unfolding image_iff by (metis prod.collapse)
    from mem have "(key, JObj obj) \<in> set (j_order J 0 decoded)"
      by (auto simp: List.map_filter_def cardObject_def split: jvalue.splits if_splits)
    then have "(key, JObj obj) \<in> set decoded" using assms by (simp add: clean_amd_def)
    with dec assms have "\<forall>(k, v) \<in> set obj. clean_value J v" by (auto simp: clean_amd_def)
    moreover from assms have "\<forall>i m. set (j_order J i m) = set m" by (simp add: clean_amd_def)
    ultimately show False using amdMetric_Some bad by blast
  qed
  with True show ?thesis by (auto simp: collectAmdGpuLite_def split: sum.split option.split)
qed (simp add: collectAmdGpuLite_def)

lemma collectNodeGPUMetrics_Some:
  "clean_nvidia H \<Longrightarrow> clean_amd J \<Longrightarrow> collectNodeGPUMetrics J H now nodeID r \<noteq> None"
  using collectNvidiaGpuLite_Some [of H now nodeID "nr_delta r"] collectAmdGpuLite_Some [of J H now nodeID]
  by (auto simp: collectNodeGPUMetrics_def Let_def split_def bind_eq_None_conv)

lemma collectNvidiaGpuLite_panics:
  assumes "h_lookPath H ''nvidia-smi''" and "runNvidiaQueryCSV H nvidiaFields = Some rows"
    and "row \<in> set rows" and "15 \<le> length row" and "i \<in> float_columns" and "bareUnit (row ! i)"
  shows "collectNvidiaGpuLite H now nodeID e = None"
proof -
  have "None \<in> nvidiaMetric (h_platform H) now nodeID energy ` set (filter (\<lambda>row. length nvidiaFields \<le> length row) rows)" for energy
    using assms(3-6) nvidiaMetric_None [of "h_platform H" now nodeID energy row]
    by (auto simp: nvidiaFields_def image_iff)
  then have "those (map (nvidiaMetric (h_platform H) now nodeID energy)
      (filter (\<lambda>row. length nvidiaFields \<le> length row) rows)) = None" for energy
    by (simp only: those_None set_map)
  with assms show ?thesis by (auto simp: collectNvidiaGpuLite_def split_def Let_def)
qed

lemma collectNode_None:
  "collectNode E memoryKiB cpus mhz nodeID hostname r = None \<longleftrightarrow>
     (\<exists>r4. collectNodeGPUMetrics (ne_json E) (ne_host E) (ne_now E) nodeID r4 = None \<and>
       r4 = snd (collectNodeNetworkMetrics (ne_host E) (ne_now E) nodeID
              (snd (collectNodeDiskMetrics (ne_host E) (ne_now E) nodeID
                (snd (computeMemoryRates (h_platform (ne_host E)) (readVMStatSnapshot (ne_host E) (ne_now E))
                  (snd (computeCPURealtime (readOrZero (readProcCPUSnapshot (ne_host E) (ne_now E)) zero_procCPUSnapshot)
                     (\<not> isl (readProcCPUSnapshot (ne_host E) (ne_now E))) r))))))))"
  by (simp add: collectNode_def split_def Let_def bind_eq_None_conv)

section \<open>Properties\<close>

text \<open>
  C0. A node metric record is well formed, whatever \<^verbatim>\<open>/proc\<close>, \<^verbatim>\<open>/sys\<close>, libvirt and the GPU tools answer
  and whatever was sampled before: the CPU, RAM, disk and GPU memory shares are numbers between 0 and
  100, the rates are non-negative and never a NaN, the number of cores is positive (it is divided by),
  and the system load is a percentage unless the load file holds a NaN. A collection answers an error
  exactly when libvirt cannot be reached or does not describe the node, and then changes nothing.
\<close>

theorem node_metrics_sane:
  assumes "CollectNode E nodeID hostname r = Some (res, r')" and "few_lines (ne_host E)"
  shows "case res of
      Inr m \<Rightarrow> metrics_sane m \<and> nm_NodeID m = nodeID \<and> nm_TimestampUnix m = unixSeconds (ne_now E) \<and>
        ne_client E = None \<and> \<not> isl (ne_nodeInfo E)
    | Inl err \<Rightarrow> r' = r \<and> (ne_client E = Some err \<or>
        ne_client E = None \<and> (\<exists>e. ne_nodeInfo E = Inl e \<and> err = wrap ''NodeGetInfo: '' e))"
proof (cases "ne_client E")
  case (Some err)
  with assms(1) show ?thesis by (auto simp: CollectNode_def)
next
  case None
  show ?thesis
  proof (cases "ne_nodeInfo E")
    case (Inl err)
    with assms(1) None show ?thesis by (auto simp: CollectNode_def)
  next
    case (Inr info)
    with assms(1) None obtain m memoryKiB cpus mhz where
      "collectNode E memoryKiB cpus mhz nodeID hostname r = Some (m, r')" "res = Inr m"
      by (auto simp: CollectNode_def split: prod.splits)
    with collectNode_sane [OF _ assms(2)] None Inr show ?thesis by auto
  qed
qed

text \<open>A machine with one disk, one interface and one GPU, whose utilisation is printed as \<open>util\<close>.\<close>

definition sample_host :: "string \<Rightarrow> host" where
  "sample_host util =
     \<lparr>h_readFile = (\<lambda>path.
        if path = ''/proc/diskstats'' then Inr ''8 0 sda 100 0 2048 30 50 0 1024 20 0 40 50''
        else if path = ''/sys/class/net/eth0/statistics/rx_bytes'' then Inr ''1000''
        else if path = ''/proc/loadavg'' then Inr ''0.5 0.25 0.1 1/200 4242''
        else Inl (Leaf ''no such file'')),
      h_scanErr = (\<lambda>_. None), h_readDir = (\<lambda>path. if path = ''/sys/class/net'' then Inr [(''eth0'', False)] else Inr []),
      h_glob = (\<lambda>_. []), h_readlink = (\<lambda>_. Inl (Leaf ''no such file'')), h_exists = (\<lambda>_. False),
      h_statfs = (\<lambda>_. None), h_lookPath = (\<lambda>tool. tool = ''nvidia-smi''),
      h_exec = (\<lambda>tool _. if tool = ''nvidia-smi''
        then Inr (''0,GPU-1,'' @ util @ '',10,100,50,50,20,70,40,30,1000,1000,0,0'') else Inl (Leaf ''exit status 1'')),
      h_getenv = (\<lambda>_. []),
      h_platform = \<lparr>cvt_u64 = (\<lambda>_. 0), goarch = ''amd64'', page_size = 4096, num_cpu = 4\<rparr>\<rparr>"

definition sample_env :: "string \<Rightarrow> node_env" where
  "sample_env util =
     \<lparr>ne_client = None, ne_nodeInfo = Inr (8388608, 4, 2400), ne_memStats = Inr [(''total'', 8388608), (''free'', 4194304)],
      ne_now = 1700000000000000000, ne_host = sample_host util,
      ne_json = \<lparr>j_decode = (\<lambda>_. None), j_text = (\<lambda>_. []), j_order = (\<lambda>_ m. m)\<rparr>\<rparr>"

definition sample_row :: "string \<Rightarrow> string list" where
  "sample_row util =
     [''0'', ''GPU-1'', util, ''10'', ''100'', ''50'', ''50'', ''20'', ''70'', ''40'', ''30'', ''1000'', ''1000'', ''0'', ''0'']"

lemma sample_exec:
  "h_exec (sample_host util) ''nvidia-smi'' args =
     Inr (''0,GPU-1,'' @ util @ '',10,100,50,50,20,70,40,30,1000,1000,0,0'')"
  by (simp only: sample_host_def host.select_convs if_True simp_thms)

lemma sample_read:
  "readCSV (''0,GPU-1,'' @ ''%'' @ '',10,100,50,50,20,70,40,30,1000,1000,0,0'') = Some [sample_row ''%'']"
  "readCSV (''0,GPU-1,'' @ ''35'' @ '',10,100,50,50,20,70,40,30,1000,1000,0,0'') = Some [sample_row ''35'']"
  unfolding sample_row_def by code_simp+

lemma sample_csv:
  "runNvidiaQueryCSV (sample_host ''%'') fs = Some [sample_row ''%'']"
  "runNvidiaQueryCSV (sample_host ''35'') fs = Some [sample_row ''35'']"
  by (simp_all only: runNvidiaQueryCSV_def sample_exec sum.case sample_read)

lemma sample_units: "list_all (\<lambda>f. \<not> bareUnit f) (sample_row ''35'')" "bareUnit (sample_row ''%'' ! 2)"
  by code_simp+

lemma sample_clean: "clean_nvidia (sample_host ''35'')" "clean_amd (ne_json (sample_env util))"
  using sample_units(1) by (auto simp: clean_nvidia_def clean_rows_def sample_csv list_all_iff clean_amd_def sample_env_def)

lemma sample_Some: "\<exists>m r'. CollectNode (sample_env ''35'') nodeID hostname r = Some (Inr m, r')"
proof -
  have "collectNode (sample_env ''35'') k c z nodeID hostname r \<noteq> None" for k c z
    using collectNodeGPUMetrics_Some [OF sample_clean(1,2)] by (auto simp: collectNode_None sample_env_def)
  then show ?thesis by (auto simp: CollectNode_def sample_env_def)
qed

lemma sample_few_lines: "few_lines (sample_host util)"
  by (simp add: few_lines_def sample_host_def lines_def)

theorem node_metrics_sane_witness:
  "\<exists>m r'. CollectNode (sample_env ''35'') ''n1'' ''h1'' NewNodeMetricsReader = Some (Inr m, r') \<and> metrics_sane m"
proof -
  obtain m r' where run: "CollectNode (sample_env ''35'') ''n1'' ''h1'' NewNodeMetricsReader = Some (Inr m, r')"
    using sample_Some by blast
  have "few_lines (ne_host (sample_env ''35''))" using sample_few_lines by (simp add: sample_env_def)
  from node_metrics_sane [OF run this] run show ?thesis by auto
qed



end
