(* ===== verification/System_Facts.thy ===== *)
theory System_Facts
  imports Collectors Agent_Facts VM_Metrics_Facts Node_Facts Sync_Properties
begin

text \<open>
  What the agent puts on the wire, from the answers of libvirt and the host to the frames: every collection
  gives well-formed records that name this node, every inventory message is well formed, and the inventory of
  a collection has an entry for each machine. The properties over runs are in \<open>Run_Frames\<close> and \<open>Run_Delivery\<close>.
\<close>

section \<open>Frames that a step adds\<close>

text \<open>The inventory messages of a scheduler state.\<close>

definition sync_frames :: "scheduler \<Rightarrow> vm_map \<Rightarrow> frame set" where
  "sync_frames s current =
     {FSync (NewVMInfoSyncFrame (sync_message n t r (fst (computeVMInfoDiff s current)))) | n t r.
        snd (snd (snd (fst (computeVMInfoDiff s current))))}"

context sink
begin

definition adds :: "frame set \<Rightarrow> 's \<Rightarrow> 's \<Rightarrow> bool" where
  "adds F k k' \<longleftrightarrow> inv k' \<and> (\<exists>fs. sent k' = sent k @ fs \<and> set fs \<subseteq> F)"

lemma adds_refl: "inv k \<Longrightarrow> adds F k k"
  by (simp add: adds_def)

lemma sends_adds: "inv k' \<Longrightarrow> sends sent r k k' fs \<Longrightarrow> set fs \<subseteq> F \<Longrightarrow> adds F k k'"
  by (auto simp: adds_def sends_def split: if_splits)

end

section \<open>Well-formed frames\<close>

definition lite_fine :: "string \<Rightarrow> VMMetrics \<Rightarrow> bool" where
  "lite_fine nodeID m \<longleftrightarrow>
     vl_NodeID m = nodeID \<and> percent (vl_CPUUsagePct m) \<and> fnonneg (vl_NetRxBytesPerSec m) \<and>
     fnonneg (vl_NetTxBytesPerSec m) \<and> (vl_RAMTotalBytes m = 0 \<longrightarrow> vl_RAMUsedBytes m = 0)"

definition runtime_fine :: "string \<Rightarrow> VMRuntimeMetrics \<Rightarrow> bool" where
  "runtime_fine nodeID m \<longleftrightarrow>
     vr_NodeID m = nodeID \<and> percent (vr_CPUUsagePercent m) \<and> percent (vr_RAMUsagePercent m) \<and>
     (vr_RAMTotalBytes m = 0 \<longrightarrow> vr_RAMUsedBytes m = 0) \<and>
     list_all fnonneg
       [vr_DiskReadBytesPerSec m, vr_DiskWriteBytesPerSec m, vr_DiskReadIOPS m, vr_DiskWriteIOPS m,
        vr_NetRxBytesPerSec m, vr_NetTxBytesPerSec m, vr_NetRxPacketsPerSec m, vr_NetTxPacketsPerSec m] \<and>
     (\<forall>d \<in> set (vr_Disks m). percent (vrd_FSUsagePercent d))"

text \<open>
  A sync message is either full, without removals, or a delta; it is in the order of the identifiers,
  names none twice, and removes none that it also writes.
\<close>

definition sync_fine :: "VMInfoSyncFrame \<Rightarrow> bool" where
  "sync_fine f \<longleftrightarrow>
     (sf_SyncMode f = SyncModeFull \<and> sf_RemovedVMIDs f = [] \<or>
      sf_SyncMode f = SyncModeDelta \<and> (sf_Upserts f \<noteq> [] \<or> sf_RemovedVMIDs f \<noteq> [])) \<and>
     sorted_wrt (<) (map vi_VMID (sf_Upserts f)) \<and> sorted_wrt (<) (sf_RemovedVMIDs f) \<and>
     set (sf_RemovedVMIDs f) \<inter> vi_VMID ` set (sf_Upserts f) = {}"

fun frame_fine :: "string \<Rightarrow> frame \<Rightarrow> bool" where
  "frame_fine nodeID (FNode f) \<longleftrightarrow>
     nf_NodeID f = nodeID \<and> nm_NodeID (nf_Metrics f) = nodeID \<and>
     nf_TimestampUnix f = nm_TimestampUnix (nf_Metrics f) \<and> metrics_sane (nf_Metrics f)"
| "frame_fine nodeID (FHardware f) \<longleftrightarrow>
     hf_NodeID f = nodeID \<and> nhi_NodeID (hf_Metrics f) = nodeID \<and>
     hf_TimestampUnix f = nhi_CollectedAtUnix (hf_Metrics f)"
| "frame_fine nodeID (FVM f) \<longleftrightarrow>
     vf_NodeID f = nodeID \<and> vf_Metrics f \<noteq> [] \<and> list_all (lite_fine nodeID) (vf_Metrics f)"
| "frame_fine nodeID (FRuntime f) \<longleftrightarrow>
     rf_NodeID f = nodeID \<and> rf_Metrics f \<noteq> [] \<and> list_all (runtime_fine nodeID) (rf_Metrics f)"
| "frame_fine nodeID (FSync f) \<longleftrightarrow> sync_fine f"

lemma strict_sort: "distinct xs \<Longrightarrow> sorted_wrt (<) (sort xs)"
  by (simp add: strict_sorted_iff)

lemma full_fine: "keyed m \<Longrightarrow> sorted_wrt (<) (map vi_VMID (SortedVMInfosByID m))"
  by (simp add: ids_SortedVMInfosByID strict_sort keyed_def mwf_def)

lemma delta_fine:
  assumes "keyed current" and "keyed lastm"
  shows "sorted_wrt (<) (map vi_VMID (sort_key vi_VMID (changed_infos lastm current)))"
    and "sorted_wrt (<) (sort (removed_ids lastm current))"
    and "set (removed_ids lastm current) \<inter> vi_VMID ` set (changed_infos lastm current) = {}"
proof -
  show "sorted_wrt (<) (map vi_VMID (sort_key vi_VMID (changed_infos lastm current)))"
    using distinct_changed_ids [OF assms(1), of lastm] by (simp add: strict_sorted_iff distinct_map)
  show "sorted_wrt (<) (sort (removed_ids lastm current))"
    using distinct_removed_ids [OF keyed_mwf [OF assms(2)]] by (rule strict_sort)
  show "set (removed_ids lastm current) \<inter> vi_VMID ` set (changed_infos lastm current) = {}"
    by (auto simp: set_removed_ids set_changed_infos [OF assms(1)])
qed

lemma sync_frames_fine:
  assumes "sched_wf s" and "keyed current" and "f \<in> sync_frames s current"
  shows "frame_fine nodeID f"
  using assms full_fine [OF assms(2)] delta_fine [OF assms(2), of "lastVMInfoByID s"]
  by (auto simp: sync_frames_def sync_fine_def computeVMInfoDiff_def sync_message_def NewVMInfoSyncFrame_def
      sched_wf_def Let_def split: if_splits)

lemma periodic_fine:
  "sched_wf s \<Longrightarrow> periodicSnapshot s now = Some info \<Longrightarrow> frame_fine nodeID (FSync (NewVMInfoSyncFrame info))"
  using full_fine [of "latestVMInfoByID s"]
  by (auto simp: periodicSnapshot_def sync_fine_def NewVMInfoSyncFrame_def sched_wf_def Let_def split: if_splits)

section \<open>Well-formed collections\<close>

fun cycle_fine :: "string \<Rightarrow> cycle \<Rightarrow> bool" where
  "cycle_fine n (NodeCycle x) \<longleftrightarrow> (\<forall>m. x = Inr m \<longrightarrow> nm_NodeID m = n \<and> metrics_sane m)"
| "cycle_fine n (HardwareCycle x) \<longleftrightarrow> (\<forall>h. x = Inr h \<longrightarrow> nhi_NodeID h = n)"
| "cycle_fine n (VMCycle x now) \<longleftrightarrow> (\<forall>ms. x = Inr ms \<longrightarrow> list_all (lite_fine n) ms)"
| "cycle_fine n (RuntimeCycle x now) \<longleftrightarrow> (\<forall>ms. x = Inr ms \<longrightarrow> list_all (runtime_fine n) ms)"
| "cycle_fine n (PeriodicCycle now) \<longleftrightarrow> True"

lemma list_all2_right: "list_all2 P xs ys \<Longrightarrow> (\<And>x y. P x y \<Longrightarrow> Q y) \<Longrightarrow> list_all Q ys"
  by (induction rule: list_all2_induct) auto

lemma CollectVM_fine:
  assumes "cores_ok (vmr_cores r)"
  shows "cores_ok (vmr_cores (snd (CollectVM E n r)))"
    and "fst (CollectVM E n r) = Inr ms \<Longrightarrow> list_all (lite_fine n) ms"
proof -
  have "list_all2 (lite_sane E n) recs (fst (mapReader (liteMetric E n) recs r)) \<and>
      cores_ok (vmr_cores (snd (mapReader (liteMetric E n) recs r)))" for recs
    by (rule mapReader_all2 [where I = "\<lambda>r. cores_ok (vmr_cores r)"]) (use liteMetric_sane assms in blast)+
  moreover have "lite_sane E n rec m \<Longrightarrow> lite_fine n m" for rec m by (simp add: lite_sane_def lite_fine_def)
  ultimately show "cores_ok (vmr_cores (snd (CollectVM E n r)))"
    and "fst (CollectVM E n r) = Inr ms \<Longrightarrow> list_all (lite_fine n) ms"
    using assms by (auto simp: CollectVM_def split_def Let_def intro: list_all2_right split: sum.splits)
qed

lemma CollectRuntime_fine:
  assumes "cores_ok (vmr_cores r)"
  shows "cores_ok (vmr_cores (snd (CollectRuntime E n r)))"
    and "fst (CollectRuntime E n r) = Inr ms \<Longrightarrow> list_all (runtime_fine n) ms"
proof -
  have "list_all2 (runtime_sane E n) recs (fst (mapReader (runtimeMetric E n) recs r)) \<and>
      cores_ok (vmr_cores (snd (mapReader (runtimeMetric E n) recs r)))" for recs
    by (rule mapReader_all2 [where I = "\<lambda>r. cores_ok (vmr_cores r)"]) (use runtimeMetric_sane assms in blast)+
  moreover have "runtime_sane E n rec m \<Longrightarrow> runtime_fine n m" for rec m by (simp add: runtime_sane_def runtime_fine_def)
  ultimately show "cores_ok (vmr_cores (snd (CollectRuntime E n r)))"
    and "fst (CollectRuntime E n r) = Inr ms \<Longrightarrow> list_all (runtime_fine n) ms"
    using assms by (auto simp: CollectRuntime_def split_def Let_def intro: list_all2_right split: sum.splits)
qed

lemma CollectNode_fine:
  "CollectNode E n h r = Some (Inr m, r') \<Longrightarrow> few_lines (ne_host E) \<Longrightarrow> nm_NodeID m = n \<and> metrics_sane m"
  using collectNode_sane by (force simp: CollectNode_def split: option.splits sum.splits)

lemma CollectHardware_fine: "CollectHardware E n h r = Some (Inr info, r') \<Longrightarrow> nhi_NodeID info = n"
  by (auto simp: CollectHardware_def Let_def split_def bind_eq_Some_conv split: option.splits sum.splits)

text \<open>The bound on the lines of \<^verbatim>\<open>/proc/diskstats\<close>, for the turns that read the node.\<close>

fun turn_ok :: "'d turn \<Rightarrow> bool" where
  "turn_ok (NodeTurn E) \<longleftrightarrow> few_lines (ne_host E)"
| "turn_ok _ \<longleftrightarrow> True"

lemma collected_fine:
  assumes "collected (agentCollectors cfg) i r = Some (c, r')" and "turn_ok i" and "cores_ok (vmr_cores (rd_vm r))"
  shows "cycle_fine (NodeID cfg) c \<and> cores_ok (vmr_cores (rd_vm r'))"
proof (cases i)
  case (NodeTurn E)
  with assms CollectNode_fine show ?thesis
    by (auto simp: collectNodeMetrics_def agentCollectors_def NewNodeCollector_def)
next
  case (HardwareTurn E)
  with assms CollectHardware_fine show ?thesis
    by (auto simp: collectNodeHardware_def agentCollectors_def NewNodeHardwareCollector_def)
next
  case (VMTurn E now)
  with assms CollectVM_fine [OF assms(3), of E "NodeID cfg"] show ?thesis
    by (auto simp: collectVMMetrics_def agentCollectors_def NewVMCollector_def split_def Let_def)
next
  case (RuntimeTurn E now)
  with assms CollectRuntime_fine [OF assms(3), of E "NodeID cfg"] show ?thesis
    by (auto simp: collectVMRuntimeMetrics_def agentCollectors_def NewVMRuntimeCollector_def split_def Let_def)
qed (use assms in auto)

section \<open>The start of a run\<close>

definition run_ok :: "string \<Rightarrow> grpc_state health_state agent_state \<Rightarrow> bool" where
  "run_ok n st \<longleftrightarrow>
     (case st of (r, s, k) \<Rightarrow>
        cores_ok (vmr_cores (rd_vm r)) \<and> agent.good (s, k) \<and> (\<forall>f \<in> set (client_sent (fst k)). frame_fine n f))"

text \<open>The start: a new agent with its readers, on a machine with at least one processor.\<close>

definition agentStart :: "platform \<Rightarrow> agent \<Rightarrow> grpc_state health_state agent_state" where
  "agentStart pf ag = (agentReaders pf, ag_scheduler ag, ag_sink ag)"

lemma agentStart_ok:
  assumes "NewAgent T cfg = Inr ag" and "1 \<le> num_cpu pf" and "num_cpu pf < 2 ^ 53"
  shows "run_ok n (agentStart pf ag)"
proof -
  have "client_sent (fst (ag_sink ag)) = []"
    using assms(1) by (auto simp: NewAgent_def client_sent_def split: sum.splits)
  moreover have "cores_ok (vmr_cores (rd_vm (agentReaders pf)))"
    using assms(2,3) by (auto simp: cores_ok_def agentReaders_def NewVMMetricsReader_def)
  ultimately show ?thesis using new_agent_good [OF assms(1)] by (simp add: run_ok_def agentStart_def)
qed

text \<open>The inventory that a collection leaves, as a table of the backend.\<close>

lemma runtime_inventory:
  assumes "CollectRuntime V n v = (Inr ms, v')" and "readRecords V = Inr recs"
    and "\<forall>rec \<in> set recs. length (sr_UUID rec) = 16" and "distinct (map sr_UUID recs)"
  shows "dom (table_of (BuildVMInfoMapFromRuntime ms)) = (\<lambda>rec. uuidToString (sr_UUID rec)) ` set recs"
proof (rule card_seteq [symmetric])
  note inv = inventory_complete [OF assms]
  show "(\<lambda>rec. uuidToString (sr_UUID rec)) ` set recs \<subseteq> dom (table_of (BuildVMInfoMapFromRuntime ms))"
    using inv by (auto simp: table_of_def in_set_conv_nth domIff)
  have "inj_on (\<lambda>rec. uuidToString (sr_UUID rec)) (set recs)"
    using assms(3,4) by (simp add: distinct_map inj_on_def) (metis uuidToString_inj)
  moreover have "distinct recs" using assms(4) by (simp add: distinct_map)
  ultimately have "card ((\<lambda>rec. uuidToString (sr_UUID rec)) ` set recs) = length recs"
    by (simp add: card_image distinct_card)
  moreover have "card (dom (table_of (BuildVMInfoMapFromRuntime ms))) \<le> length (BuildVMInfoMapFromRuntime ms)"
    by (metis card_image_le card_length dom_map_of_conv_image_fst finite_set le_trans table_of_def)
  ultimately show "card (dom (table_of (BuildVMInfoMapFromRuntime ms))) \<le>
      card ((\<lambda>rec. uuidToString (sr_UUID rec)) ` set recs)"
    using inv by simp
  show "finite (dom (table_of (BuildVMInfoMapFromRuntime ms)))" by (simp add: table_of_def finite_dom_map_of)
qed

text \<open>The example agent's first turn of the runtime loop, on a host with one machine.\<close>

definition used_client :: grpc_client where
  "used_client = (NewSinkFromConfig ''a:1'' [] False)\<lparr>gc_conn := Some 0, vmRuntimeStream := Some 1\<rparr>"

lemma up_stream:
  "\<exists>t. run_state (sendVMRuntimeFrameWithRetryLocked up_env f (NewSinkFromConfig ''a:1'' [] False)) [] = ((None, used_client), t)"
  by (simp add: used_client_def up_env_def client_eval defaultVMRuntimeStreamMethod_def
      sendVMRuntimeFrameWithRetryLocked_def newStream_def openVMRuntimeStreamLocked_def streamAttempt_def)

lemma up_sync: "\<exists>t'. run_state (sendVMInfoWithRetryLocked up_env f used_client) t = ((None, used_client), t')"
  by (simp add: used_client_def up_env_def client_eval defaultVMInfoSyncMethod_def)

lemma up_runtime_send:
  assumes "ms \<noteq> []"
  shows "\<exists>t h. SendVMRuntimeMetrics (agent_sink up_env) ms (ag_sink example_agent) = (None, (used_client, t), h)"
proof -
  have "vmRuntimeMethod (NewSinkFromConfig ''a:1'' [] False) \<noteq> []"
    by (simp add: NewSinkFromConfig_def NewGRPCClient_def defaultVMRuntimeStreamMethod_def)
  with assms up_stream [of "NewVMRuntimeFrame (ge_now up_env) ms"] show ?thesis
    by (auto simp: example_agent_def fresh_client_def agent_sink_def health_sink_def hSendVMRuntimeMetrics_def
        withHealth_def grpc_sink_def gSendVMRuntimeMetrics_def locked_def)
qed

lemma up_info_send:
  "\<exists>t' h'. SendVMInfoSync (agent_sink up_env) info ((used_client, t), h) = (None, (used_client, t'), h')"
  using up_sync [of "NewVMInfoSyncFrame info" t]
  by (auto simp: agent_sink_def health_sink_def hSendVMInfoSync_def withHealth_def grpc_sink_def gSendVMInfoSync_def
      locked_def)

lemma up_sync_from_map:
  "\<exists>s' t' h'. syncVMInfoFromMap (agent_sink up_env) m n ts reason (s, (used_client, t), h) = (None, s', (used_client, t'), h')"
proof -
  let ?d = "fst (computeVMInfoDiff s m)"
  obtain t' h' where "SendVMInfoSync (agent_sink up_env)
      (sync_message (if n = [] then resolveVMNodeID s m else n) ts reason ?d) ((used_client, t), h) = (None, (used_client, t'), h')"
    using up_info_send by blast
  then show ?thesis
    by (cases "n = []"; cases "snd (snd (snd ?d))") (simp_all add: syncVMInfoFromMap_def Let_def split_def)
qed

lemma up_runtime_turn:
  assumes "ms \<noteq> []"
  shows "\<exists>s t h. collectAndSendVMRuntime (agent_sink up_env) (Inr ms) now
    (ag_scheduler example_agent, ag_sink example_agent) = (None, s, (used_client, t), h)"
proof -
  obtain t h where send: "SendVMRuntimeMetrics (agent_sink up_env) ms (ag_sink example_agent) = (None, (used_client, t), h)"
    using up_runtime_send [OF assms] by blast
  obtain m ms' where "ms = m # ms'" using assms by (cases ms) simp_all
  then show ?thesis
    using send up_sync_from_map [of "BuildVMInfoMapFromRuntime ms" "vr_NodeID m" "vr_TimestampUnix m" "''runtime_change''"
        "ag_scheduler example_agent" t h]
    by (simp add: collectAndSendVMRuntime_def syncVMInfoFromRuntimeMetrics_def)
qed

lemma quiet_records:
  obtains rec where "readRecords quiet_env = Inr [rec]"
    and "sr_UUID rec = [1, 2, 3, 4, 5, 6, 7, 8, 9, 10, 11, 12, 13, 14, 15, 16]"
  by (simp add: readRecords_def quiet_env_def)

abbreviation "quiet_start \<equiv> agentStart (ce_platform quiet_env) example_agent"

lemma quiet_turn:
  "\<exists>r s t h. agentTurn (agentCollectors example_config) (agent_sink up_env) (RuntimeTurn quiet_env 7) quiet_start =
     Some (None, r, s, (used_client, t), h)"
proof -
  let ?n = "vc_nodeID (co_vmRuntime (agentCollectors example_config))"
  obtain rec where "readRecords quiet_env = Inr [rec]" by (rule quiet_records)
  then obtain ms v where run: "CollectRuntime quiet_env ?n (rd_vm (fst quiet_start)) = (Inr ms, v)" and "ms \<noteq> []"
    by (auto simp: CollectRuntime_def split_def Let_def)
  with up_runtime_turn [of ms 7] show ?thesis
    by (auto simp: agentTurn_def collectVMRuntimeMetrics_def agentStart_def)
qed

end
