(* ===== verification/Run_Sync.thy ===== *)
theory Run_Sync
  imports Run_Facts System_Facts
begin

text \<open>
  The inventory over a run of \<^verbatim>\<open>Scheduler.Run\<close>. Two loops synchronise it: the runtime loop after each
  collection and the information loop periodically. Over every interleaving a runtime turn keeps what it
  collected in its hands, and the latest map is that of the turn in flight. While no synchronisation of the
  runtime loop falls into a periodic round the backend's table is level with the scheduler; and one
  undisturbed round makes it level again.
\<close>

section \<open>What the inventory says of a machine\<close>

definition machine_entry :: "'d collect_env \<Rightarrow> string \<Rightarrow> stats_record \<Rightarrow> VMInfo" where
  "machine_entry E nodeID rec =
     (let N = ce_names E;
          (st, uints, strs) = fold (runtimeParam E) (sr_Params rec) (''unknown'', [], []);
          used = mget 0 uints (sn_BalloonCurrent N) * 1024;
          top = mget 0 uints (sn_BalloonMaximum N) * 1024
      in \<lparr>vi_NodeID = nodeID, vi_VMID = uuidToString (sr_UUID rec), vi_VMName = sr_Name rec, vi_State = st,
          vi_VCPUCount = mget 0 uints (sn_VCPUCurrent N), vi_RAMTotalBytes = (if top = 0 then used else top),
          vi_DiskCount = of_nat (length (buildPerDiskMetrics N (ce_order E) uints strs)), vi_GPUCount = 0\<rparr>)"

definition machine_table :: "'d collect_env \<Rightarrow> string \<Rightarrow> stats_record list \<Rightarrow> vm_table" where
  "machine_table E nodeID recs = map_of (map (\<lambda>rec. (uuidToString (sr_UUID rec), machine_entry E nodeID rec)) recs)"

lemma runtimeMetric_entry:
  "BuildVMInfoFromRuntimeMetric (fst (runtimeMetric E nodeID rec r)) = machine_entry E nodeID rec"
  by (simp add: runtimeMetric_def machine_entry_def BuildVMInfoFromRuntimeMetric_def Let_def split_def
      computeCPU_eq computeRuntimeRates_eq)

text \<open>The inventory of a collection does not depend on the reader's samples.\<close>

lemma collected_table:
  assumes run: "CollectRuntime E n r = (Inr ms, r')" and recs: "readRecords E = Inr recs"
    and uuid: "\<forall>rec \<in> set recs. length (sr_UUID rec) = 16" "distinct (map sr_UUID recs)"
  shows "table_of (BuildVMInfoMapFromRuntime ms) = machine_table E n recs"
proof
  fix k
  note all = inventory_complete [OF run recs uuid]
  have "list_all2 (\<lambda>rec m. BuildVMInfoFromRuntimeMetric m = machine_entry E n rec) recs ms"
    using run recs mapReader_all2 [of "\<lambda>_. True" "\<lambda>rec m. BuildVMInfoFromRuntimeMetric m = machine_entry E n rec"
        "runtimeMetric E n" r recs]
    by (simp add: CollectRuntime_def split_def Let_def runtimeMetric_entry)
  then have entry: "BuildVMInfoFromRuntimeMetric (ms ! i) = machine_entry E n (recs ! i)" if "i < length recs" for i
    using that by (simp add: list_all2_conv_all_nth)
  have keys: "distinct (map (\<lambda>rec. uuidToString (sr_UUID rec)) recs)"
    using uuid by (auto simp: distinct_map inj_on_def dest!: uuidToString_inj)
  show "table_of (BuildVMInfoMapFromRuntime ms) k = machine_table E n recs k"
  proof (cases "k \<in> (\<lambda>rec. uuidToString (sr_UUID rec)) ` set recs")
    case True
    then obtain i where i: "i < length recs" "k = uuidToString (sr_UUID (recs ! i))" by (auto simp: in_set_conv_nth)
    then have "machine_table E n recs k = Some (machine_entry E n (recs ! i))"
      using keys unfolding machine_table_def by (intro map_of_is_SomeI) (auto simp: comp_def)
    then show ?thesis using all i entry by (simp add: table_of_def)
  next
    case False
    moreover have "dom (table_of (BuildVMInfoMapFromRuntime ms)) = (\<lambda>rec. uuidToString (sr_UUID rec)) ` set recs"
      by (rule runtime_inventory [OF run recs uuid])
    ultimately have "table_of (BuildVMInfoMapFromRuntime ms) k = None" by (metis domIff)
    moreover have "machine_table E n recs k = None" using False by (auto simp: machine_table_def map_of_eq_None_iff)
    ultimately show ?thesis by simp
  qed
qed

section \<open>A runtime turn and its map\<close>

text \<open>The loops that have a phase among those of their turns, when both optional collectors are there.\<close>

fun phase_loops :: "turn_phase \<Rightarrow> loop set" where
  "phase_loops (SendingNode _) = {NodeLoop}"
| "phase_loops (SendingHardware _) = {InfoLoop}"
| "phase_loops (SendingVM _ _) = {VMLoop}"
| "phase_loops (Snapshotting _) = {InfoLoop}"
| "phase_loops (SendingFull _) = {InfoLoop}"
| "phase_loops CommittingFull = {InfoLoop}"
| "phase_loops (Finished _) = UNIV"
| "phase_loops _ = {RuntimeLoop}"

lemma phase_loops_syncing [simp]: "phase_loops (syncing m n t) = {RuntimeLoop}" "phase_loops (syncingRuntime ms now) = {RuntimeLoop}"
  by (auto simp: syncing_def syncingRuntime_def split: list.splits)

text \<open>The map that a phase of a runtime turn has in its hands; and a map that some collection gave.\<close>

fun phase_map :: "turn_phase \<Rightarrow> vm_map option" where
  "phase_map (SendingRuntime ms _) = Some (BuildVMInfoMapFromRuntime ms)"
| "phase_map (Resolving m _ _) = Some m"
| "phase_map (Diffing m _ _ _) = Some m"
| "phase_map (SendingSync _ m) = Some m"
| "phase_map (Committing m) = Some m"
| "phase_map _ = None"

lemma phase_map_syncing [simp]:
  "phase_map (syncing m n t) = Some m" "phase_map (syncingRuntime ms now) = Some (BuildVMInfoMapFromRuntime ms)"
  by (auto simp: syncing_def syncingRuntime_def split: list.splits)

definition collected_map :: "collectors \<Rightarrow> 'd collect_env \<Rightarrow> vm_map \<Rightarrow> bool" where
  "collected_map C V m \<longleftrightarrow>
     (\<exists>r ms r'. CollectRuntime V (vc_nodeID (co_vmRuntime C)) r = (Inr ms, r') \<and> m = BuildVMInfoMapFromRuntime ms)"

lemma collected_map_keyed: "collected_map C V m \<Longrightarrow> keyed m"
  by (auto simp: collected_map_def keyed_BuildVMInfoMapFromRuntime)

text \<open>
  What holds of the runtime loop in a phase, whatever the other loops did: its map is one of its
  collection; once it is past its diff that is the latest map of the scheduler; and its message leaves the
  table that it describes alone.
\<close>

definition turn_map_ok :: "collectors \<Rightarrow> 'd turn \<Rightarrow> scheduler \<Rightarrow> turn_phase \<Rightarrow> bool" where
  "turn_map_ok C i s ph \<longleftrightarrow>
     (\<exists>V now. i = RuntimeTurn V now \<and> (\<forall>m. phase_map ph = Some m \<longrightarrow> collected_map C V m) \<and>
        (ph = Finished None \<longrightarrow> collected_map C V (latestVMInfoByID s))) \<and>
     (case ph of
        SendingSync msg m \<Rightarrow> latestVMInfoByID s = m \<and> receive msg (table_of m) = table_of m
      | Committing m \<Rightarrow> latestVMInfoByID s = m
      | _ \<Rightarrow> True)"

lemma turn_map_syncing [simp]:
  "turn_map_ok C i s (syncing m n t) \<longleftrightarrow> (\<exists>V now. i = RuntimeTurn V now \<and> collected_map C V m)"
  "turn_map_ok C i s (syncingRuntime ms t) \<longleftrightarrow>
     (\<exists>V now. i = RuntimeTurn V now \<and> collected_map C V (BuildVMInfoMapFromRuntime ms))"
  by (auto simp: turn_map_ok_def syncing_def syncingRuntime_def split: list.splits)

lemma turn_map_ok_latest:
  "turn_map_ok C i s ph \<Longrightarrow> latestVMInfoByID s' = latestVMInfoByID s \<Longrightarrow> turn_map_ok C i s' ph"
  by (simp add: turn_map_ok_def split: turn_phase.splits)

lemma turn_map_keyed: "turn_map_ok C i s ph \<Longrightarrow> phase_map ph = Some m \<Longrightarrow> keyed m"
  by (auto simp: turn_map_ok_def dest: collected_map_keyed)

lemma turn_map_first:
  assumes "collected C i r = Some (c, r')" and "turn_loop i = RuntimeLoop"
  shows "turn_map_ok C i s (first_phase s c)"
proof -
  obtain V now where i: "i = RuntimeTurn V now" using assms(2) by (cases i) auto
  obtain x v where run: "CollectRuntime V (vc_nodeID (co_vmRuntime C)) (rd_vm r) = (x, v)" by fastforce
  then have c: "c = RuntimeCycle x now" using assms(1) i by (simp add: collectVMRuntimeMetrics_def)
  have "collected_map C V (BuildVMInfoMapFromRuntime ms)" if "x = Inr ms" for ms
    using run that by (auto simp: collected_map_def)
  moreover have "BuildVMInfoMapFromRuntime [] = []" by (simp add: BuildVMInfoMapFromRuntime_def)
  ultimately show ?thesis
    unfolding c i by (cases x) (auto simp: turn_map_ok_def [where ph = "Finished e" for e] turn_map_ok_def [where ph = "SendingRuntime a b" for a b])
qed

lemma after_send_split:
  "P (after_send r p s) \<longleftrightarrow> (\<forall>k. r = (None, k) \<longrightarrow> P (p, s, k)) \<and> (\<forall>e k. r = (Some e, k) \<longrightarrow> P (Finished (Some e), s, k))"
  by (cases r; cases "fst r") (auto simp: after_send_def)

lemma turn_map_step:
  assumes ok: "turn_map_ok C i s ph" and step: "phase_step S (ph, s, k) = (ph', s', k')" and own: "RuntimeLoop \<in> phase_loops ph"
    and left: "0 < phase_left ph"
  shows "turn_map_ok C i s' ph'"
proof (cases ph)
  case (SendingRuntime ms now)
  then obtain V t where "i = RuntimeTurn V t" "collected_map C V (BuildVMInfoMapFromRuntime ms)"
    using ok by (auto simp: turn_map_ok_def)
  with SendingRuntime step show ?thesis
    by (auto simp: after_send_def turn_map_ok_def [where ph = "Finished e" for e] split: option.splits prod.splits)
next
  case (Diffing m n t r)
  have k: "keyed m" using turn_map_keyed [OF ok] Diffing by simp
  from Diffing ok step diff_message_idem [OF k, of s n t r] show ?thesis
    by (auto simp: turn_map_ok_def Let_def split_def split: if_splits)
next
  case (SendingSync msg m)
  with ok step show ?thesis by (auto simp: turn_map_ok_def after_send_def split: option.splits prod.splits)
next
  case (Committing m)
  with ok step show ?thesis by (auto simp: turn_map_ok_def commitVMInfoSync_def cloneVMInfoMap_def)
qed (use ok step own left in \<open>auto simp: turn_map_ok_def\<close>)

lemma other_step_latest:
  assumes "phase_step S (ph, s, k) = (ph', s', k')" and "l \<in> phase_loops ph" and "l \<noteq> RuntimeLoop" and "0 < phase_left ph"
  shows "latestVMInfoByID s' = latestVMInfoByID s"
  using assms by (cases ph) (auto simp: after_send_def split: option.splits prod.splits)

lemma own_phase_step:
  assumes "phase_step S (ph, s, k) = (ph', s', k')" and "l \<in> phase_loops ph" and "sc_hasRuntime s"
  shows "l \<in> phase_loops ph'"
  using assms by (cases ph) (auto simp: after_send_def Let_def split_def split: option.splits prod.splits if_splits)

lemma own_first_phase:
  assumes "collected C i r = Some (c, r')" and "sc_hasRuntime s"
  shows "turn_loop i \<in> phase_loops (first_phase s c)"
  using assms by (cases i) (auto simp: Let_def split_def split: sum.splits)

end
