(* ===== verification/Run_Frames.thy ===== *)
theory Run_Frames
  imports Run_Facts System_Facts
begin

text \<open>
  What the backend is delivered over a run of \<^verbatim>\<open>Scheduler.Run\<close>: whatever the interleaving, and whatever
  fails, every frame is well formed and names this node.
\<close>

section \<open>Phases that send only well-formed frames\<close>

fun phase_fine :: "string \<Rightarrow> turn_phase \<Rightarrow> bool" where
  "phase_fine n (SendingNode m) \<longleftrightarrow> nm_NodeID m = n \<and> metrics_sane m"
| "phase_fine n (SendingHardware h) \<longleftrightarrow> nhi_NodeID h = n"
| "phase_fine n (SendingVM ms _) \<longleftrightarrow> ms \<noteq> [] \<and> list_all (lite_fine n) ms"
| "phase_fine n (SendingRuntime ms _) \<longleftrightarrow> ms \<noteq> [] \<and> list_all (runtime_fine n) ms"
| "phase_fine n (Resolving m _ _) \<longleftrightarrow> keyed m"
| "phase_fine n (Diffing m _ _ _) \<longleftrightarrow> keyed m"
| "phase_fine n (SendingSync msg m) \<longleftrightarrow> keyed m \<and> frame_fine n (FSync (NewVMInfoSyncFrame msg))"
| "phase_fine n (Committing m) \<longleftrightarrow> keyed m"
| "phase_fine n (SendingFull msg) \<longleftrightarrow> frame_fine n (FSync (NewVMInfoSyncFrame msg))"
| "phase_fine n _ \<longleftrightarrow> True"

lemma syncing_fine [simp]: "phase_fine n (syncing m nodeID ts) \<longleftrightarrow> keyed m"
  by (simp add: syncing_def)

lemma syncing_metrics_fine [simp]: "phase_fine n (syncingLite ms now)" "phase_fine n (syncingRuntime rs now)"
  using keyed_BuildVMInfoMap keyed_BuildVMInfoMapFromRuntime
  by (auto simp: syncingLite_def syncingRuntime_def split: list.splits)

lemma first_phase_fine: "cycle_fine n c \<Longrightarrow> phase_fine n (first_phase s c)"
  by (cases c) (auto split: sum.splits)

lemma diff_fine:
  assumes "sched_wf s" and "keyed m" and "snd (snd (snd (fst (computeVMInfoDiff s m))))"
  shows "frame_fine n (FSync (NewVMInfoSyncFrame (sync_message nodeID ts reason (fst (computeVMInfoDiff s m)))))"
  using assms by (intro sync_frames_fine [OF assms(1,2)]) (auto simp: sync_frames_def)

lemma metric_frames_fine:
  "nm_NodeID m = n \<Longrightarrow> metrics_sane m \<Longrightarrow> frame_fine n (FNode (NewNodeFrame m))"
  "nhi_NodeID h = n \<Longrightarrow> frame_fine n (FHardware (NewNodeHardwareInfoFrame h))"
  "ms \<noteq> [] \<Longrightarrow> list_all (lite_fine n) ms \<Longrightarrow> frame_fine n (FVM (NewVMFrame t ms))"
  "rs \<noteq> [] \<Longrightarrow> list_all (runtime_fine n) rs \<Longrightarrow> frame_fine n (FRuntime (NewVMRuntimeFrame t rs))"
  by (auto simp: NewNodeFrame_def NewNodeHardwareInfoFrame_def NewVMFrame_def NewVMRuntimeFrame_def
      lite_fine_def runtime_fine_def split: list.splits)

lemma sched_wf_commits:
  "keyed m \<Longrightarrow> sched_wf (commitVMInfoSync s m)" "sched_wf s \<Longrightarrow> sched_wf (periodicCommit s)"
  "sched_wf s \<Longrightarrow> keyed m \<Longrightarrow> sched_wf (s\<lparr>latestVMInfoByID := m\<rparr>)"
  by (simp_all add: sched_wf_def commitVMInfoSync_def periodicCommit_def cloneVMInfoMap_def Let_def)

lemma after_send_simps [simp]:
  "snd (snd (after_send r p s)) = snd r" "fst (snd (after_send r p s)) = s"
  "fst (after_send r p s) = (case fst r of None \<Rightarrow> p | Some e \<Rightarrow> Finished (Some e))"
  by (cases r; cases "fst r"; simp add: after_send_def)+

context sink
begin

lemma law_adds: "inv k' \<and> sends sent r k k' fs \<Longrightarrow> set fs \<subseteq> F \<Longrightarrow> adds F k k'"
  using sends_adds by blast

lemma phase_step_fine:
  assumes "inv k" and "sched_wf s" and "phase_fine n ph"
  shows "phase_fine n (fst (phase_step S (ph, s, k)))"
    and "sched_wf (fst (snd (phase_step S (ph, s, k))))"
    and "adds {f. frame_fine n f} k (snd (snd (phase_step S (ph, s, k))))"
proof -
  show "phase_fine n (fst (phase_step S (ph, s, k)))"
    using assms diff_fine [OF assms(2)] periodic_fine [OF assms(2)]
    by (cases ph) (auto simp: Let_def split_def simp del: frame_fine.simps split: option.splits)
  show "sched_wf (fst (snd (phase_step S (ph, s, k))))"
    using assms sched_wf_commits by (cases ph) (auto simp: Let_def split_def split: option.splits)
  show "adds {f. frame_fine n f} k (snd (snd (phase_step S (ph, s, k))))"
  proof (cases ph)
    case (SendingNode m)
    with metric_frames_fine(1) [of m n] assms(3) show ?thesis
      using law_adds [OF node_law [OF assms(1)]] by simp
  next
    case (SendingHardware h)
    with metric_frames_fine(2) [of h n] assms(3) show ?thesis
      using law_adds [OF hardware_law [OF assms(1)]] by simp
  next
    case (SendingVM ms t)
    with metric_frames_fine(3) [of ms n 0] assms(3) show ?thesis
      using law_adds [OF vm_law [OF assms(1)]] by simp
  next
    case (SendingRuntime ms t)
    with metric_frames_fine(4) [of ms n 0] assms(3) show ?thesis
      using law_adds [OF runtime_law [OF assms(1)]] by simp
  next
    case (SendingSync msg m)
    with assms(3) show ?thesis using law_adds [OF sync_law [OF assms(1)]] by simp
  next
    case (SendingFull msg)
    with assms(3) show ?thesis using law_adds [OF sync_law [OF assms(1)]] by simp
  qed (use assms(1) in \<open>auto simp: adds_refl Let_def split_def split: option.splits\<close>)
qed

definition run_fine :: "string \<Rightarrow> ('d, 's) run_state \<Rightarrow> bool" where
  "run_fine n st \<longleftrightarrow>
     cores_ok (vmr_cores (rd_vm (rs_readers st))) \<and> sched_wf (rs_scheduler st) \<and> inv (rs_sink st) \<and>
     (\<forall>f \<in> set (sent (rs_sink st)). frame_fine n f) \<and> (\<forall>l i p ph. rs_at st l = Busy i p ph \<longrightarrow> phase_fine n ph)"

lemma run_fine_step:
  assumes fine: "run_fine (NodeID cfg) st" and step: "run_step (agentCollectors cfg) S st x st'"
    and "\<forall>i \<in> set (begun [x]). turn_ok i"
  shows "run_fine (NodeID cfg) st'"
  using step
proof cases
  case (begin_turn i p c r)
  have "cycle_fine (NodeID cfg) c \<and> cores_ok (vmr_cores (rd_vm r))"
    by (rule collected_fine [OF begin_turn(5)]) (use begin_turn fine assms(3) in \<open>auto simp: run_fine_def\<close>)
  with begin_turn fine show ?thesis by (auto simp: run_fine_def first_phase_fine)
next
  case (move l i p ph ph' shared)
  have "phase_fine (NodeID cfg) ph" using fine move(3) by (auto simp: run_fine_def)
  from phase_step_fine [OF _ _ this] fine move(5)
  have "phase_fine (NodeID cfg) ph'" "sched_wf (fst shared)" "adds {f. frame_fine (NodeID cfg) f} (rs_sink st) (snd shared)"
    by (simp_all add: run_fine_def) (metis fst_conv snd_conv prod.collapse)+
  with fine move(2) show ?thesis by (auto simp: run_fine_def adds_def)
qed (use fine in \<open>auto simp: run_fine_def\<close>)

lemma run_fine_steps:
  assumes "run_steps (agentCollectors cfg) S st0 ls st" and "run_fine (NodeID cfg) st0"
    and "\<forall>i \<in> set (begun ls). turn_ok i"
  shows "run_fine (NodeID cfg) st"
  using assms
proof (induction rule: run_steps.induct)
  case (run_more ls st x st')
  then have "run_fine (NodeID cfg) st" "\<forall>i \<in> set (begun [x]). turn_ok i" by simp_all
  with run_more.hyps(2) show ?case using run_fine_step by blast
qed simp

end

lemma agentStart_fine:
  assumes "NewAgent T cfg = Inr ag" and "1 \<le> num_cpu pf" and "num_cpu pf < 2 ^ 53"
  shows "agent.run_fine n (run_init (agentStart pf ag))"
proof -
  have "run_ok n (agentStart pf ag)" by (rule agentStart_ok [OF assms])
  then show ?thesis
    by (auto simp: run_ok_def agent.run_fine_def run_init_def agent.good_def in_step_def split: prod.splits)
qed

section \<open>The frames of a run\<close>


section \<open>An example run\<close>

text \<open>The example agent makes the first turn of its runtime loop, on a host with one machine.\<close>

abbreviation "quiet_init \<equiv> run_init quiet_start :: (unit, grpc_state health_state) run_state"

abbreviation "quiet_turn_label \<equiv> RuntimeTurn quiet_env 7"

lemma quiet_scheduler: "wired (rs_scheduler quiet_init) = (True, True)"
  by (simp add: wired_def run_init_def agentStart_def example_agent_def NewScheduler_def)

lemma quiet_run:
  obtains ls st where "set ls \<subseteq> {Move RuntimeLoop}"
    and "run_steps (agentCollectors example_config) (agent_sink up_env) quiet_init
      (Begin quiet_turn_label # ls @ [End quiet_turn_label None]) st"
    and "rs_at st = (rs_at quiet_init)(RuntimeLoop := Resting Waiting)"
    and "\<exists>t h. rs_sink st = ((used_client, t), h)" and "wired (rs_scheduler st) = (True, True)"
proof -
  let ?C = "agentCollectors example_config" and ?S = "agent_sink up_env" and ?i = quiet_turn_label
  obtain r s t h where turn: "agentTurn ?C ?S ?i (rs_readers quiet_init, rs_shared quiet_init) =
      Some (None, r, s, (used_client, t), h)"
    using quiet_turn by (auto simp: run_init_def)
  obtain cy where "run_cycle ?S cy (rs_shared quiet_init) = (None, s, (used_client, t), h)"
    by (rule agentTurnE [OF turn])
  then have wired: "wired s = (True, True)"
    using phases_cycle [of ?S "rs_scheduler quiet_init" cy "rs_sink quiet_init"] wired_phases quiet_scheduler
    by (metis fst_conv prod.collapse snd_conv)
  from wired have "next_pc s ?i Starting None = Some Waiting" "next_pc (rs_scheduler quiet_init) ?i Starting None \<noteq> None"
    using quiet_scheduler by (simp_all add: wired_def)
  from run_whole_turn [OF _ turn, of Starting Waiting] this that wired show ?thesis
    by (fastforce simp: run_init_def)
qed


end
