(* ===== verification/Run_Delivery.thy ===== *)
theory Run_Delivery
  imports Run_Sync Run_Frames
begin

text \<open>
  The backend over a run of \<^verbatim>\<open>Scheduler.Run\<close>: as long as no synchronisation of the runtime loop falls into
  a periodic round, a successful runtime turn leaves the backend with exactly the machines that libvirt listed;
  and after an undisturbed periodic round that is so again, whatever the loops did before.
\<close>

section \<open>What holds over every interleaving\<close>

definition phase_at :: "('d, 's) run_state \<Rightarrow> loop \<Rightarrow> turn_phase option" where
  "phase_at st l = (case rs_at st l of Busy _ _ ph \<Rightarrow> Some ph | Resting _ \<Rightarrow> None)"

lemma phase_at_upd:
  "phase_at (at_loop l x st) k =
     (if k = l then (case x of Busy _ _ ph \<Rightarrow> Some ph | Resting _ \<Rightarrow> None) else phase_at st k)"
  by (simp add: phase_at_def)

lemma phase_at_Some: "phase_at st l = Some ph \<longleftrightarrow> (\<exists>i p. rs_at st l = Busy i p ph)"
  by (simp add: phase_at_def split: activity.splits)

context sink
begin

definition maps_ok :: "collectors \<Rightarrow> ('d, 's) run_state \<Rightarrow> bool" where
  "maps_ok C st \<longleftrightarrow>
     wired (rs_scheduler st) = (True, True) \<and> sched_wf (rs_scheduler st) \<and> inv (rs_sink st) \<and>
     (\<forall>l i p ph. rs_at st l = Busy i p ph \<longrightarrow> turn_loop i = l \<and> l \<in> phase_loops ph) \<and>
     (\<forall>i p ph. rs_at st RuntimeLoop = Busy i p ph \<longrightarrow> turn_map_ok C i (rs_scheduler st) ph)"

lemma phase_step_inv: "inv k \<Longrightarrow> inv (snd (snd (phase_step S (ph, s, k))))"
  using node_law hardware_law vm_law runtime_law sync_law
  by (cases ph) (auto simp: Let_def split_def split: option.splits)

lemma phase_step_wf:
  assumes "sched_wf s" and "\<And>m. phase_map ph = Some m \<Longrightarrow> keyed m" and "phase_step S (ph, s, k) = (ph', s', k')"
  shows "sched_wf s'"
  using assms sched_wf_commits
  by (cases ph) (auto simp: Let_def split_def after_send_def split: option.splits prod.splits)

lemma phase_map_loop: "phase_map ph = Some m \<Longrightarrow> l \<in> phase_loops ph \<Longrightarrow> l = RuntimeLoop"
  by (cases ph) simp_all

lemma maps_ok_rest: "maps_ok C st \<Longrightarrow> maps_ok C (at_loop l (Resting q) st)"
  by (simp add: maps_ok_def)

lemma maps_ok_cancel [simp]: "maps_ok C (st\<lparr>rs_cancelled := b\<rparr>) \<longleftrightarrow> maps_ok C st"
  by (simp add: maps_ok_def)

lemma maps_ok_step:
  assumes ok: "maps_ok C st" and step: "run_step C S st x st'"
  shows "maps_ok C st'"
  using step
proof cases
  case (begin_turn i p c r)
  have "sc_hasRuntime (rs_scheduler st)" using ok by (simp add: maps_ok_def wired_def)
  from own_first_phase [OF begin_turn(5) this] turn_map_first [OF begin_turn(5)] ok begin_turn(2)
  show ?thesis by (auto simp: maps_ok_def)
next
  case (move l i p ph ph' shared)
  obtain s k s' k' where sh: "rs_shared st = (s, k)" "shared = (s', k')" by (metis surj_pair)
  from ok move(3) have own: "l \<in> phase_loops ph" "turn_loop i = l" by (auto simp: maps_ok_def)
  have step': "phase_step S (ph, s, k) = (ph', s', k')" using move(5) sh by simp
  have run: "sc_hasRuntime s" "sched_wf s" "inv k" "wired s = (True, True)"
    using ok sh by (simp_all add: maps_ok_def wired_def)
  have "wired s' = (True, True)" using wired_phase_step [of S ph s k] step' run by simp
  moreover have "keyed m" if "phase_map ph = Some m" for m
    using ok move(3) phase_map_loop [OF that own(1)] turn_map_keyed [OF _ that] by (auto simp: maps_ok_def)
  with phase_step_wf [OF run(2) _ step'] have "sched_wf s'" by blast
  moreover have "inv k'" using phase_step_inv [OF run(3), of ph s] step' by simp
  moreover have "l \<in> phase_loops ph'" by (rule own_phase_step [OF step' own(1) run(1)])
  moreover have "turn_map_ok C i s' ph'" if "l = RuntimeLoop"
    using ok move(3,4) that own sh turn_map_step [OF _ step'] by (auto simp: maps_ok_def)
  moreover have "turn_map_ok C j s' q" if "rs_at st RuntimeLoop = Busy j p' q" "l \<noteq> RuntimeLoop" for j p' q
    using ok that sh turn_map_ok_latest other_step_latest [OF step' own(1) that(2) move(4)] by (fastforce simp: maps_ok_def)
  ultimately show ?thesis using ok own sh move(2) by (auto simp: maps_ok_def)
qed (use ok maps_ok_rest [OF ok] in simp_all)

lemma maps_ok_steps: "run_steps C S st0 ls st \<Longrightarrow> maps_ok C st0 \<Longrightarrow> maps_ok C st"
  by (induction rule: run_steps.induct) (auto intro: maps_ok_step)

end

section \<open>Level with the backend\<close>

text \<open>
  The backend's table beside the scheduler, the phase of the runtime loop and that of the information loop.
\<close>

definition level :: "scheduler \<Rightarrow> vm_table \<Rightarrow> turn_phase option \<Rightarrow> turn_phase option \<Rightarrow> bool" where
  "level s tab R L \<longleftrightarrow>
     (\<forall>info. L = Some (SendingFull info) \<longrightarrow>
        latestVMInfoByID s \<noteq> [] \<and> (\<forall>t. receive info t = table_of (latestVMInfoByID s))) \<and>
     (L = Some CommittingFull \<longrightarrow> latestVMInfoByID s \<noteq> [] \<and> tab = table_of (latestVMInfoByID s)) \<and>
     (\<forall>msg m. R = Some (SendingSync msg m) \<longrightarrow> receive msg tab = table_of m) \<and>
     (\<forall>m. R = Some (Committing m) \<longrightarrow> tab = table_of m) \<and>
     (R = Some (Finished None) \<longrightarrow> vmInfoSynced s \<and> tab = table_of (latestVMInfoByID s)) \<and>
     (vmInfoSynced s \<longrightarrow> L \<noteq> Some CommittingFull \<longrightarrow> (\<forall>m. R \<noteq> Some (Committing m)) \<longrightarrow>
        tab = table_of (lastVMInfoByID s))"

text \<open>A periodic round that has taken its snapshot, and the phases that synchronise.\<close>

fun in_round :: "turn_phase option \<Rightarrow> bool" where
  "in_round (Some (SendingFull _)) = True"
| "in_round (Some CommittingFull) = True"
| "in_round _ = False"

fun syncs :: "turn_phase option \<Rightarrow> bool" where
  "syncs (Some (Diffing _ _ _ _)) = True"
| "syncs (Some (SendingSync _ _)) = True"
| "syncs (Some (Committing _)) = True"
| "syncs _ = False"

text \<open>A step is calm when it is not a synchronising phase within a periodic round.\<close>

definition calm :: "('d, 's) run_state \<Rightarrow> 'd run_label \<Rightarrow> bool" where
  "calm st x \<longleftrightarrow> (\<forall>l. x = Move l \<longrightarrow> syncs (phase_at st l) \<longrightarrow> \<not> in_round (phase_at st InfoLoop))"

inductive calm_steps ::
    "collectors \<Rightarrow> 's sink_ops \<Rightarrow> ('d, 's) run_state \<Rightarrow> 'd run_label list \<Rightarrow> ('d, 's) run_state \<Rightarrow> bool"
  for C :: collectors and S :: "'s sink_ops" and st0 :: "('d, 's) run_state" where
  calm_start: "calm_steps C S st0 [] st0"
| calm_more: "calm_steps C S st0 ls st \<Longrightarrow> run_step C S st x st' \<Longrightarrow> calm st x \<Longrightarrow> calm_steps C S st0 (ls @ [x]) st'"

lemma calm_steps_run: "calm_steps C S st0 ls st \<Longrightarrow> run_steps C S st0 ls st"
  by (induction rule: calm_steps.induct) (auto intro: run_start run_more)

text \<open>Phases of the runtime loop that the backend's table does not depend on.\<close>

fun neutral :: "turn_phase option \<Rightarrow> bool" where
  "neutral (Some (SendingSync _ _)) = False"
| "neutral (Some (Committing _)) = False"
| "neutral (Some (Finished None)) = False"
| "neutral _ = True"

lemma neutral_syncing [simp]: "neutral (Some (syncing m n t))" "neutral (Some (syncingRuntime ms now))"
  by (auto simp: syncing_def syncingRuntime_def split: list.splits)

lemma level_neutral:
  assumes "level s tab R L" and "\<forall>m. R \<noteq> Some (Committing m)" and "neutral R'"
  shows "level s tab R' L"
  using assms unfolding level_def by auto

lemma level_outside: "level s tab R L \<Longrightarrow> \<not> in_round L \<Longrightarrow> \<not> in_round L' \<Longrightarrow> level s tab R L'"
  unfolding level_def by auto

context sink
begin

lemma view_hardware: "inv k \<Longrightarrow> SendNodeHardwareInfo S h k = (r, k') \<Longrightarrow> view (sent k') = view (sent k)"
  using hardware_law [of k h] by (auto simp: sends_def)

lemma view_node: "inv k \<Longrightarrow> SendNodeMetrics S m k = (r, k') \<Longrightarrow> view (sent k') = view (sent k)"
  using node_law [of k m] by (auto simp: sends_def)

text \<open>A phase of the runtime loop, of the information loop, and of the other two.\<close>

lemma runtime_level:
  assumes lv: "level s (view (sent k)) (Some ph) L" and inv: "inv k" and wf: "sched_wf s"
    and map: "turn_map_ok C i s ph" and own: "RuntimeLoop \<in> phase_loops ph" and left: "0 < phase_left ph"
    and calm: "syncs (Some ph) \<longrightarrow> \<not> in_round L" and step: "phase_step S (ph, s, k) = (ph', s', k')"
  shows "level s' (view (sent k')) (Some ph') L"
proof (cases ph)
  case (SendingRuntime ms now)
  then have "s' = s" "view (sent k') = view (sent k)" "neutral (Some ph')"
    using step view_runtime [OF inv, of ms] by (auto simp: after_send_def split: option.splits prod.splits)
  with level_neutral [OF lv] SendingRuntime show ?thesis by simp
next
  case (Resolving m t r)
  with step level_neutral [OF lv] show ?thesis by auto
next
  case (Diffing m n t r)
  have k: "keyed m" using turn_map_keyed [OF map] Diffing by simp
  have lst: "keyed (lastVMInfoByID s)" using wf by (simp add: sched_wf_def)
  have L: "\<not> in_round L" using calm Diffing by simp
  have tab: "vmInfoSynced s \<Longrightarrow> view (sent k) = table_of (lastVMInfoByID s)"
    using lv L Diffing by (auto simp: level_def)
  have out: "\<forall>info. L \<noteq> Some (SendingFull info)" "L \<noteq> Some CommittingFull" using L by auto
  let ?d = "fst (computeVMInfoDiff s m)"
  show ?thesis
  proof (cases "snd (snd (snd ?d))")
    case True
    then have "s' = s\<lparr>latestVMInfoByID := m\<rparr>" "k' = k" "ph' = SendingSync (sync_message n t r ?d) m"
      using Diffing step by (simp_all add: Let_def split_def)
    with diff_message_correct [OF k lst True tab, of n t r] tab out show ?thesis by (simp add: level_def)
  next
    case False
    then have "s' = s\<lparr>latestVMInfoByID := m\<rparr>" "k' = k" "ph' = Finished None"
      using Diffing step by (simp_all add: Let_def split_def)
    with False diff_unsent_iff [OF k lst] tab out show ?thesis by (simp add: level_def)
  qed
next
  case (SendingSync msg m)
  have m: "receive msg (view (sent k)) = table_of m" using lv SendingSync by (simp add: level_def)
  obtain res k1 where send: "SendVMInfoSync S msg k = (res, k1)" by fastforce
  show ?thesis
  proof (cases res)
    case None
    then have "ph' = Committing m" "s' = s" "k' = k1" using step SendingSync send by (simp_all add: after_send_def)
    moreover have "view (sent k1) = table_of m" using view_sync_ok [OF inv send [unfolded None]] m by simp
    moreover have "\<not> in_round L" using calm SendingSync by simp
    ultimately show ?thesis by (auto simp: level_def)
  next
    case (Some e)
    then have "ph' = Finished (Some e)" "s' = s" "k' = k1" using step SendingSync send by (simp_all add: after_send_def)
    moreover have "sent k1 = sent k" using sync_err(1) [OF inv send [unfolded Some]] .
    ultimately show ?thesis using level_neutral [OF lv] SendingSync by simp
  qed
next
  case (Committing m)
  have "view (sent k) = table_of m" using lv Committing by (simp add: level_def)
  moreover have "\<not> in_round L" using calm Committing by simp
  ultimately show ?thesis
    using step Committing by (auto simp: level_def commitVMInfoSync_def cloneVMInfoMap_def)
qed (use own left in auto)

lemma info_level:
  assumes lv: "level s (view (sent k)) R (Some ph)" and inv: "inv k" and wf: "sched_wf s"
    and map: "\<forall>q. R = Some q \<longrightarrow> (\<exists>C (i :: 'd turn). turn_map_ok C i s q)" and own: "InfoLoop \<in> phase_loops ph" and left: "0 < phase_left ph"
    and step: "phase_step S (ph, s, k) = (ph', s', k')"
  shows "level s' (view (sent k')) R (Some ph')"
proof -
  let ?l = "latestVMInfoByID s"
  have R: "R = Some (SendingSync msg m) \<Longrightarrow> ?l = m \<and> receive msg (table_of m) = table_of m"
    "R = Some (Committing m) \<Longrightarrow> ?l = m" for msg m
    using map by (auto simp: turn_map_ok_def)
  show ?thesis
  proof (cases ph)
    case (SendingHardware h)
    then have "s' = s" "view (sent k') = view (sent k)" "\<not> in_round (Some ph')"
      using step view_hardware [OF inv, of h] by (auto simp: after_send_def split: option.splits prod.splits)
    with level_outside [OF lv] SendingHardware show ?thesis by simp
  next
    case (Snapshotting now)
    show ?thesis
    proof (cases "periodicSnapshot s now")
      case None
      with step Snapshotting level_outside [OF lv] show ?thesis by auto
    next
      case (Some info)
      then have "ph' = SendingFull info" "s' = s" "k' = k" using step Snapshotting by simp_all
      moreover have "?l \<noteq> []" using Some by (auto simp: periodicSnapshot_def)
      moreover have "\<forall>t. receive info t = table_of ?l"
        using periodicSnapshot_full [OF _ Some] wf by (auto simp: sched_wf_def)
      ultimately show ?thesis using lv Snapshotting by (auto simp: level_def)
    qed
  next
    case (SendingFull info)
    have l: "?l \<noteq> []" "\<forall>t. receive info t = table_of ?l" using lv SendingFull by (simp_all add: level_def)
    obtain res k1 where send: "SendVMInfoSync S info k = (res, k1)" by fastforce
    show ?thesis
    proof (cases res)
      case None
      then have "ph' = CommittingFull" "s' = s" "k' = k1" using step SendingFull send by (simp_all add: after_send_def)
      moreover have "view (sent k1) = table_of ?l" using view_sync_ok [OF inv send [unfolded None]] l by simp
      ultimately show ?thesis using lv R l SendingFull by (auto simp: level_def)
    next
      case (Some e)
      then have "ph' = Finished (Some e)" "s' = s" "k' = k1" using step SendingFull send by (simp_all add: after_send_def)
      moreover have "sent k1 = sent k" using sync_err(1) [OF inv send [unfolded Some]] .
      ultimately show ?thesis using lv SendingFull by (auto simp: level_def)
    qed
  next
    case CommittingFull
    then have "s' = s\<lparr>vmInfoSynced := True, lastVMInfoByID := ?l\<rparr>" "ph' = Finished None" "k' = k"
      using step lv by (auto simp: level_def periodicCommit_def cloneVMInfoMap_def Let_def)
    then show ?thesis using lv CommittingFull by (auto simp: level_def)
  qed (use own left in auto)
qed

lemma metric_phase_level:
  assumes "inv k" and "phase_step S (ph, s, k) = (ph', s', k')" and "l \<in> phase_loops ph" and "l = NodeLoop \<or> l = VMLoop"
    and "0 < phase_left ph" and "sc_hasRuntime s"
  shows "s' = s" and "view (sent k') = view (sent k)"
  using assms view_node [OF assms(1)] view_vm [OF assms(1)]
  by (cases ph; auto simp: after_send_def split: option.splits prod.splits)+

section \<open>Calm runs\<close>

definition in_level :: "('d, 's) run_state \<Rightarrow> bool" where
  "in_level st \<longleftrightarrow>
     level (rs_scheduler st) (view (sent (rs_sink st))) (phase_at st RuntimeLoop) (phase_at st InfoLoop)"

abbreviation busy_phase :: "'d activity \<Rightarrow> turn_phase option" where
  "busy_phase x \<equiv> (case x of Busy _ _ ph \<Rightarrow> Some ph | Resting _ \<Rightarrow> None)"

text \<open>A loop that begins or ends a turn.\<close>

lemma in_level_upd:
  assumes lv: "in_level st" and same: "rs_shared st' = rs_shared st" "rs_at st' = rs_at st"
    and R: "l = RuntimeLoop \<Longrightarrow> neutral (busy_phase x) \<and> (\<forall>m. phase_at st l \<noteq> Some (Committing m))"
    and L: "l = InfoLoop \<Longrightarrow> \<not> in_round (phase_at st l) \<and> \<not> in_round (busy_phase x)"
  shows "in_level (at_loop l x st')"
proof -
  have at: "phase_at (at_loop l x st') k = (if k = l then busy_phase x else phase_at st k)" for k
    by (simp add: phase_at_def same)
  note lv' = lv [unfolded in_level_def]
  consider "l = RuntimeLoop" | "l = InfoLoop" | "l \<noteq> RuntimeLoop" "l \<noteq> InfoLoop" by blast
  then show ?thesis
  proof cases
    case 1
    with level_neutral [OF lv', of "busy_phase x"] R show ?thesis unfolding in_level_def at by (simp add: same)
  next
    case 2
    with level_outside [OF lv', of "busy_phase x"] L show ?thesis unfolding in_level_def at by (simp add: same)
  next
    case 3
    with lv' show ?thesis unfolding in_level_def at by (simp add: same)
  qed
qed

lemma in_level_step:
  fixes st :: "('d, 's) run_state"
  assumes ok: "maps_ok C st" and lv: "in_level st" and step: "run_step C S st x st'" and calm: "calm st x"
  shows "in_level st'"
  using step
proof cases
  case (begin_turn i p c r)
  have "neutral (Some (first_phase (rs_scheduler st) c))" if "turn_loop i = RuntimeLoop"
    using begin_turn(5) that by (cases i) (auto simp: Let_def split_def split: sum.splits)
  moreover have "\<not> in_round (Some (first_phase (rs_scheduler st) c))" if "turn_loop i = InfoLoop"
    using begin_turn(5) that by (cases i) (auto simp: Let_def split_def split: sum.splits if_splits)
  moreover have "phase_at st (turn_loop i) = None" using begin_turn(3) by (simp add: phase_at_def)
  ultimately show ?thesis unfolding begin_turn(2) by (intro in_level_upd [OF lv]) simp_all
next
  case (move l i p ph ph' shared)
  obtain s k s' k' where sh: "rs_shared st = (s, k)" "shared = (s', k')" by (metis surj_pair)
  have step': "phase_step S (ph, s, k) = (ph', s', k')" using move(5) sh by simp
  have own: "l \<in> phase_loops ph" using ok move(3) by (auto simp: maps_ok_def)
  have base: "inv k" "sched_wf s" "sc_hasRuntime s" using ok sh by (simp_all add: maps_ok_def wired_def)
  have at: "phase_at st l = Some ph" using move(3) by (simp add: phase_at_def)
  have lv': "level s (view (sent k)) (phase_at st RuntimeLoop) (phase_at st InfoLoop)" using lv sh by (simp add: in_level_def)
  have "turn_map_ok C j s q" if "rs_at st RuntimeLoop = Busy j p' q" for j p' q
    using ok sh that by (auto simp: maps_ok_def)
  then have map: "\<forall>q. phase_at st RuntimeLoop = Some q \<longrightarrow> (\<exists>C (i :: 'd turn). turn_map_ok C i s q)"
    unfolding phase_at_Some by blast
  consider "l = RuntimeLoop" | "l = InfoLoop" | "l = NodeLoop \<or> l = VMLoop" by (cases l) auto
  then show ?thesis
  proof cases
    case 1
    obtain C' and i' :: "'d turn" where "turn_map_ok C' i' s ph" using map at 1 by auto
    with runtime_level [OF _ base(1,2) this _ move(4) _ step'] lv' at own calm move(1,2) 1 sh show ?thesis
      by (simp add: in_level_def phase_at_upd calm_def) (simp add: phase_at_def)
  next
    case 2
    with info_level [OF _ base(1,2) map _ move(4) step'] lv' at own move(2) sh show ?thesis
      by (simp add: in_level_def phase_at_upd) (simp add: phase_at_def)
  next
    case 3
    with metric_phase_level [OF base(1) step' own 3 move(4) base(3)] lv' move(2) sh show ?thesis
      by (auto simp: in_level_def phase_at_upd) (simp_all add: phase_at_def)
  qed
next
  case (end_turn i p err q)
  have "phase_at st (turn_loop i) = Some (Finished err)" using end_turn(3) by (simp add: phase_at_def)
  then show ?thesis unfolding end_turn(2) by (intro in_level_upd [OF lv]) simp_all
next
  case (idle_start l p)
  then have "phase_at st l = None" by (simp add: phase_at_def)
  then show ?thesis unfolding idle_start(2) by (intro in_level_upd [OF lv]) simp_all
next
  case (wake l)
  then have "phase_at st l = None" by (simp add: phase_at_def)
  then show ?thesis unfolding wake(2) by (intro in_level_upd [OF lv]) simp_all
next
  case (return l)
  then have "phase_at st l = None" by (simp add: phase_at_def)
  then show ?thesis unfolding return(2) by (intro in_level_upd [OF lv]) simp_all
next
  case cancel
  with lv show ?thesis by (simp add: in_level_def phase_at_def)
qed

lemma calm_steps_level:
  assumes "calm_steps C S st0 ls st" and "maps_ok C st0" and "in_level st0"
  shows "maps_ok C st \<and> in_level st"
  using assms by (induction rule: calm_steps.induct) (auto intro: maps_ok_step in_level_step)

text \<open>What an ended turn of the runtime loop leaves, when the backend is level.\<close>

lemma level_end:
  assumes "maps_ok C st" and "in_level st" and "run_step C S st (End (RuntimeTurn V now) None) st'"
  shows "\<exists>m. collected_map C V m \<and> view (sent (rs_sink st)) = table_of m"
proof -
  from assms(3) obtain p where at: "rs_at st RuntimeLoop = Busy (RuntimeTurn V now) p (Finished None)"
    by (auto elim: end_stepE)
  then have "collected_map C V (latestVMInfoByID (rs_scheduler st))"
    using assms(1) by (auto simp: maps_ok_def turn_map_ok_def)
  moreover have "view (sent (rs_sink st)) = table_of (latestVMInfoByID (rs_scheduler st))"
    using assms(2) at by (simp add: in_level_def level_def phase_at_def)
  ultimately show ?thesis by blast
qed

section \<open>An undisturbed round\<close>

text \<open>Three phases in a row of the information loop are a periodic round: snapshot, send and commit.\<close>

lemma move_phase:
  assumes "run_step C S st (Move l) st'"
  obtains ph ph' where "phase_at st l = Some ph" and "0 < phase_left ph"
    and "phase_step S (ph, rs_shared st) = (ph', rs_shared st')" and "phase_at st' l = Some ph'"
    and "\<And>k. k \<noteq> l \<Longrightarrow> phase_at st' k = phase_at st k" and "phase_left ph' < phase_left ph"
proof -
  from assms obtain i p ph ph' shared where at: "rs_at st l = Busy i p ph" "0 < phase_left ph"
    and step: "phase_step S (ph, rs_shared st) = (ph', shared)"
    and st': "st' = at_loop l (Busy i p ph') (st\<lparr>rs_shared := shared\<rparr>)"
    by (auto elim: move_stepE)
  have "phase_left ph' < phase_left ph"
    using phase_step_left [OF at(2), of S "rs_scheduler st" "rs_sink st"] step by simp
  with at step st' that show ?thesis by (auto simp: phase_at_def)
qed

lemma round_phases:
  assumes own: "InfoLoop \<in> phase_loops ph" and left: "3 \<le> phase_left ph"
    and step1: "phase_step S (ph, s, k) = (ph1, s1, k1)" and "0 < phase_left ph1"
    and step2: "phase_step S (ph1, s1, k1) = (ph2, s2, k2)" and "0 < phase_left ph2"
    and step3: "phase_step S (ph2, s2, k2) = (ph3, s3, k3)"
  obtains now info where "periodicSnapshot s now = Some info" and "SendVMInfoSync S info k = (None, k3)"
    and "s3 = periodicCommit s" and "ph3 = Finished None"
proof -
  obtain now where ph: "ph = Snapshotting now" using own left by (cases ph) simp_all
  obtain info where info: "periodicSnapshot s now = Some info" and 1: "ph1 = SendingFull info" "s1 = s" "k1 = k"
    using step1 assms(4) unfolding ph by (auto split: option.splits)
  obtain r kr where send: "SendVMInfoSync S info k = (r, kr)" by fastforce
  have r: "r = None" using step2 assms(6) unfolding 1 by (cases r) (auto simp: after_send_def send)
  have 2: "ph2 = CommittingFull" "s2 = s" "k2 = kr" using step2 unfolding 1 by (simp_all add: after_send_def send r)
  have "s3 = periodicCommit s" "k3 = kr" "ph3 = Finished None" using step3 unfolding 2 by simp_all
  with send r that [OF info] show thesis by blast
qed

lemma round_levels:
  assumes ok: "maps_ok C st" and run: "run_steps C S st [Move InfoLoop, Move InfoLoop, Move InfoLoop] st1"
  shows "in_level st1" and "view (sent (rs_sink st1)) = table_of (latestVMInfoByID (rs_scheduler st))"
proof -
  from run obtain sa sb where m1: "run_step C S st (Move InfoLoop) sa" and m2: "run_step C S sa (Move InfoLoop) sb"
    and m3: "run_step C S sb (Move InfoLoop) st1"
    by (auto elim!: run_steps_ConsE dest: run_steps_NilD)
  obtain ph pa where 1: "phase_at st InfoLoop = Some ph" "phase_step S (ph, rs_shared st) = (pa, rs_shared sa)"
    "phase_at sa InfoLoop = Some pa" "phase_at sa RuntimeLoop = phase_at st RuntimeLoop" "phase_left pa < phase_left ph"
    using m1 by (rule move_phase) simp
  obtain pb where 2: "phase_step S (pa, rs_shared sa) = (pb, rs_shared sb)"
    "phase_at sb InfoLoop = Some pb" "phase_at sb RuntimeLoop = phase_at sa RuntimeLoop" "phase_left pb < phase_left pa"
    using m2 by (rule move_phase) (use 1(3) in simp)
  obtain pc where 3: "phase_step S (pb, rs_shared sb) = (pc, rs_shared st1)"
    "phase_at st1 InfoLoop = Some pc" "phase_at st1 RuntimeLoop = phase_at sb RuntimeLoop" "phase_left pc < phase_left pb"
    using m3 by (rule move_phase) (use 2(2) in simp)
  obtain s k sa' ka sb' kb s1 k1 where sh: "rs_shared st = (s, k)" "rs_shared sa = (sa', ka)" "rs_shared sb = (sb', kb)"
    "rs_shared st1 = (s1, k1)" by (metis surj_pair)
  have own: "InfoLoop \<in> phase_loops ph" using ok 1(1) by (auto simp: maps_ok_def phase_at_Some)
  have left: "3 \<le> phase_left ph" "0 < phase_left pa" "0 < phase_left pb" using 1(5) 2(4) 3(4) by linarith+
  obtain now info where info: "periodicSnapshot s now = Some info" and send: "SendVMInfoSync S info k = (None, k1)"
    and s1: "s1 = periodicCommit s" and pc: "pc = Finished None"
    using own left(1) 1(2) [unfolded sh] left(2) 2(1) [unfolded sh] left(3) 3(1) [unfolded sh] by (rule round_phases)
  let ?l = "latestVMInfoByID s"
  have base: "inv k" "sched_wf s" using ok sh by (simp_all add: maps_ok_def)
  have tab: "view (sent k1) = table_of ?l"
    using view_sync_ok [OF base(1) send] periodicSnapshot_full [OF _ info] base(2) by (simp add: sched_wf_def)
  have ne: "?l \<noteq> []" using info by (auto simp: periodicSnapshot_def)
  then have s1': "s1 = s\<lparr>vmInfoSynced := True, lastVMInfoByID := ?l\<rparr>"
    by (simp add: s1 periodicCommit_def cloneVMInfoMap_def Let_def)
  have R: "phase_at st RuntimeLoop = Some (SendingSync msg m) \<Longrightarrow> ?l = m \<and> receive msg (table_of m) = table_of m"
    "phase_at st RuntimeLoop = Some (Committing m) \<Longrightarrow> ?l = m" for msg m
    using ok sh by (auto simp: maps_ok_def turn_map_ok_def phase_at_Some)
  have "level s1 (view (sent k1)) (phase_at st RuntimeLoop) (Some (Finished None))"
    unfolding tab s1' level_def using R by simp
  then show "in_level st1" using 1(4) 2(3) 3(2,3) pc sh by (simp add: in_level_def)
  show "view (sent (rs_sink st1)) = table_of (latestVMInfoByID (rs_scheduler st))" using tab sh by simp
qed

end

section \<open>From the host to the backend\<close>

lemma agentStart_level:
  assumes "NewAgent T cfg = Inr ag"
  shows "agent.maps_ok C (run_init (agentStart pf ag))" and "agent.in_level (run_init (agentStart pf ag))"
proof -
  have "wired (ag_scheduler ag) = (True, True)"
    using assms by (auto simp: NewAgent_def NewScheduler_def wired_def split: sum.splits)
  with new_agent_good [OF assms]
  show "agent.maps_ok C (run_init (agentStart pf ag))" and "agent.in_level (run_init (agentStart pf ag))"
    by (auto simp: agent.maps_ok_def agent.in_level_def agent.good_def in_step_def level_def run_init_def agentStart_def
        phase_at_def)
qed

lemma level_delivers:
  assumes "agent.maps_ok (agentCollectors cfg) st" and "agent.in_level st"
    and "run_step (agentCollectors cfg) (agent_sink E) st (End (RuntimeTurn V now) None) st'"
    and "rs_sink st = ((c, t), h)" and "readRecords V = Inr recs"
    and "\<forall>rec \<in> set recs. length (sr_UUID rec) = 16" and "distinct (map sr_UUID recs)"
  shows "view (delivered t) = machine_table V (NodeID cfg) recs"
proof -
  obtain m where "collected_map (agentCollectors cfg) V m" and tab: "view (client_sent (fst (rs_sink st))) = table_of m"
    using agent.level_end [OF assms(1-3)] by blast
  then obtain r ms r' where run: "CollectRuntime V (NodeID cfg) r = (Inr ms, r')" and m: "m = BuildVMInfoMapFromRuntime ms"
    by (auto simp: collected_map_def agentCollectors_def NewVMRuntimeCollector_def)
  show ?thesis
    using collected_table [OF run assms(5-7)] tab assms(4) by (simp add: m client_sent_def)
qed


text \<open>The example run of \<open>Run_Frames\<close> is calm up to the end of its turn.\<close>

lemma calm_without_round:
  assumes "run_steps C S st0 ls st" and "phase_at st0 InfoLoop = None"
    and "\<forall>i \<in> set (begun ls). turn_loop i \<noteq> InfoLoop"
  shows "calm_steps C S st0 ls st \<and> phase_at st InfoLoop = None"
  using assms
proof (induction rule: run_steps.induct)
  case (run_more ls st x st')
  then have calm: "calm_steps C S st0 ls st" and idle: "phase_at st InfoLoop = None" by simp_all
  have "calm st x" using idle by (simp add: calm_def)
  moreover have "phase_at st' InfoLoop = None"
    using run_more.hyps(2)
  proof cases
    case (begin_turn i p c r)
    with run_more.prems(2) idle show ?thesis by (auto simp: phase_at_def)
  qed (use idle in \<open>auto simp: phase_at_def\<close>)
  ultimately show ?case using calm_more [OF calm run_more.hyps(2)] by simp
qed (simp add: calm_start)

definition quiet_uuid :: "u8 list" where
  "quiet_uuid = [1, 2, 3, 4, 5, 6, 7, 8, 9, 10, 11, 12, 13, 14, 15, 16]"

lemma quiet_records_uuid:
  obtains recs where "readRecords quiet_env = Inr recs" and "\<forall>rec \<in> set recs. length (sr_UUID rec) = 16"
    and "distinct (map sr_UUID recs)" and "\<forall>n. dom (machine_table quiet_env n recs) = {uuidToString quiet_uuid}"
proof -
  obtain rec where rec: "readRecords quiet_env = Inr [rec]" "sr_UUID rec = quiet_uuid"
    unfolding quiet_uuid_def by (rule quiet_records)
  have "length quiet_uuid = 16" by (simp add: quiet_uuid_def)
  with rec that [of "[rec]"] show ?thesis by (simp add: machine_table_def)
qed



text \<open>The turns of a run that ended with an error.\<close>

definition failed_turns :: "'d run_label list \<Rightarrow> 'd turn set" where
  "failed_turns ls = {i. \<exists>e. End i (Some e) \<in> set ls}"

lemma failed_turns_simps [simp]: "failed_turns [] = {}" "failed_turns (ls @ ls') = failed_turns ls \<union> failed_turns ls'"
  "failed_turns (x # ls) = (case x of End i (Some e) \<Rightarrow> {i} | _ \<Rightarrow> {}) \<union> failed_turns ls"
  by (auto simp: failed_turns_def split: run_label.splits option.splits)

text \<open>
  The example: after the example run the information loop, whose hardware collections fail, begins its
  periodic turn and completes its round.
\<close>

lemma hardware_turn_fails:
  fixes E :: node_env
  assumes "ne_client E = Some e" and "wired (fst sh) = (True, True)"
  shows "agentTurn C S (HardwareTurn E) (r, sh) = Some (Some e, r, sh)"
  using assms
  by (cases sh) (simp add: agentTurn_def collectNodeHardware_def CollectHardware_def syncNodeHardwarePeriodic_def wired_def)

lemma hardware_turn_run:
  fixes E :: node_env
  assumes "ne_client E = Some e" and "wired (rs_scheduler st) = (True, True)" and "rs_at st InfoLoop = Resting p"
    and "p = Starting \<and> q = Waiting \<or> p = Waiting \<and> q = AfterHardware"
  shows "\<exists>ls. run_steps C S st ls (at_loop InfoLoop (Resting q) st) \<and> failed_turns ls \<subseteq> range HardwareTurn"
proof -
  have "next_pc (rs_scheduler st) (HardwareTurn E) p (Some e) = Some q"
    "next_pc (rs_scheduler st) (HardwareTurn E) p None \<noteq> None"
    using assms(2,4) by (auto simp: wired_def)
  from run_whole_turn [where C = C and S = S, OF _ hardware_turn_fails [OF assms(1,2)] this] assms(3)
  obtain ls where "run_steps C S st (Begin (HardwareTurn E) # ls @ [End (HardwareTurn E) (Some e)])
      (at_loop InfoLoop (Resting q) st)" and "set ls \<subseteq> {Move InfoLoop}"
    by (simp del: ex_simps) blast
  moreover from this(2) have "failed_turns (Begin (HardwareTurn E) # ls @ [End (HardwareTurn E) (Some e)]) \<subseteq> range HardwareTurn"
    by (auto simp: failed_turns_def)
  ultimately show ?thesis by blast
qed

lemma quiet_before_round:
  obtains ls st t h recs where "run_steps (agentCollectors example_config) (agent_sink up_env) quiet_init ls st"
    and "failed_turns ls \<subseteq> range HardwareTurn"
    and "rs_at st = (\<lambda>_. Resting Starting)(RuntimeLoop := Resting Waiting,
      InfoLoop := Busy (PeriodicTurn 9) AfterHardware (Snapshotting 9))" and "rs_sink st = ((used_client, t), h)"
    and "readRecords quiet_env = Inr recs" and "dom (machine_table quiet_env (NodeID example_config) recs) = {uuidToString quiet_uuid}"
    and "table_of (latestVMInfoByID (rs_scheduler st)) = machine_table quiet_env (NodeID example_config) recs"
proof -
  let ?C = "agentCollectors example_config" and ?S = "agent_sink up_env"
  obtain ls0 st0 t h where ls0: "set ls0 \<subseteq> {Move RuntimeLoop}"
    and run0: "run_steps ?C ?S quiet_init ((Begin quiet_turn_label # ls0) @ [End quiet_turn_label None]) st0"
    and at0: "rs_at st0 = (rs_at quiet_init)(RuntimeLoop := Resting Waiting)"
    and sink: "rs_sink st0 = ((used_client, t), h)" and w: "wired (rs_scheduler st0) = (True, True)"
    by (rule quiet_run) auto
  obtain stm where pre: "run_steps ?C ?S quiet_init (Begin quiet_turn_label # ls0) stm"
    and last: "run_step ?C ?S stm (End quiet_turn_label None) st0"
    by (rule run_steps_snocE [OF run0])
  obtain p q where "rs_at stm RuntimeLoop = Busy quiet_turn_label p (Finished None)"
    and st0: "st0 = at_loop RuntimeLoop (Resting q) stm"
    using last by (auto elim: end_stepE)
  with agent.maps_ok_steps [OF pre agentStart_level(1) [OF example_agent_new]]
  have "collected_map ?C quiet_env (latestVMInfoByID (rs_scheduler stm))"
    by (auto simp: agent.maps_ok_def turn_map_ok_def)
  then obtain r ms r' where col: "CollectRuntime quiet_env (NodeID example_config) r = (Inr ms, r')"
    and lat: "latestVMInfoByID (rs_scheduler st0) = BuildVMInfoMapFromRuntime ms"
    using st0 by (auto simp: collected_map_def agentCollectors_def NewVMRuntimeCollector_def)
  obtain recs where recs: "readRecords quiet_env = Inr recs" "\<forall>rec \<in> set recs. length (sr_UUID rec) = 16"
    "distinct (map sr_UUID recs)" "\<forall>n. dom (machine_table quiet_env n recs) = {uuidToString quiet_uuid}"
    by (rule quiet_records_uuid)
  have tab: "table_of (latestVMInfoByID (rs_scheduler st0)) = machine_table quiet_env (NodeID example_config) recs"
    by (simp add: lat collected_table [OF col recs(1-3)])
  obtain E :: node_env where E: "ne_client E = Some (Leaf ''libvirt is away'')" by (metis node_env.select_convs(1))
  define st1 where "st1 = at_loop InfoLoop (Resting Waiting) st0"
  define st2 where "st2 = at_loop InfoLoop (Resting AfterHardware) st1"
  obtain ls1 where run1: "run_steps ?C ?S st0 ls1 st1" "failed_turns ls1 \<subseteq> range HardwareTurn"
    unfolding st1_def using hardware_turn_run [OF E w, of Starting Waiting ?C ?S] by (auto simp: at0 run_init_def)
  obtain ls2 where run2: "run_steps ?C ?S st1 ls2 st2" "failed_turns ls2 \<subseteq> range HardwareTurn"
    unfolding st2_def using hardware_turn_run [OF E, of st1 Waiting AfterHardware ?C ?S] w by (auto simp: st1_def)
  let ?i = "PeriodicTurn 9 :: unit turn"
  define st3 where "st3 = at_loop (turn_loop ?i) (Busy ?i AfterHardware (first_phase (rs_scheduler st2) (PeriodicCycle 9)))
    (st2\<lparr>rs_readers := rs_readers st2\<rparr>)"
  have run3: "run_step ?C ?S st2 (Begin ?i) st3"
    unfolding st3_def by (rule begin_turn) (simp_all add: st2_def)
  let ?ls = "(((Begin quiet_turn_label # ls0) @ [End quiet_turn_label None]) @ ls1) @ ls2 @ [Begin ?i]"
  have run: "run_steps ?C ?S quiet_init ?ls st3"
    by (rule run_steps_trans [OF run_more [OF run2(1) run3] run_steps_trans [OF run1(1) run0]])
  have "failed_turns ls0 = {}" using ls0 by (auto simp: failed_turns_def)
  then have failed: "failed_turns ?ls \<subseteq> range HardwareTurn" using run1(2) run2(2) by simp
  have at: "rs_at st3 = (\<lambda>_. Resting Starting)(RuntimeLoop := Resting Waiting,
      InfoLoop := Busy ?i AfterHardware (Snapshotting 9))"
    by (simp add: st3_def st2_def st1_def at0 run_init_def)
  have "rs_shared st3 = rs_shared st0" by (simp add: st3_def st2_def st1_def)
  with sink tab have "rs_sink st3 = ((used_client, t), h)"
    "table_of (latestVMInfoByID (rs_scheduler st3)) = machine_table quiet_env (NodeID example_config) recs" by simp_all
  with that [OF run failed at _ recs(1)] recs(4) show ?thesis by simp
qed


end
