(* ===== verification/Run_Race.thy ===== *)
theory Run_Race
  imports Run_Delivery
begin

text \<open>
  The interleaving that loses an update, as a run of the whole agent: the periodic loop takes its snapshot,
  the runtime loop then makes a turn in which a machine has stopped, and only after that the snapshot
  goes out and is committed as synchronised.
\<close>

section \<open>Turns of the example agent once it is connected\<close>

lemma up_stream_again:
  "\<exists>t'. run_state (sendVMRuntimeFrameWithRetryLocked up_env f used_client) t = ((None, used_client), t')"
  by (simp add: used_client_def up_env_def client_eval defaultVMRuntimeStreamMethod_def
      sendVMRuntimeFrameWithRetryLocked_def newStream_def openVMRuntimeStreamLocked_def streamAttempt_def)

lemma up_runtime_send_again:
  assumes "ms \<noteq> []"
  shows "\<exists>t' h'. SendVMRuntimeMetrics (agent_sink up_env) ms ((used_client, t), h) = (None, (used_client, t'), h')"
proof -
  have "vmRuntimeMethod used_client \<noteq> []"
    by (simp add: used_client_def NewSinkFromConfig_def NewGRPCClient_def defaultVMRuntimeStreamMethod_def)
  with assms up_stream_again [of "NewVMRuntimeFrame (ge_now up_env) ms" t] show ?thesis
    by (auto simp: agent_sink_def health_sink_def hSendVMRuntimeMetrics_def withHealth_def grpc_sink_def
        gSendVMRuntimeMetrics_def locked_def)
qed

lemma up_runtime_turn_again:
  assumes "ms \<noteq> []"
  shows "\<exists>s' t' h'. collectAndSendVMRuntime (agent_sink up_env) (Inr ms) now (s, (used_client, t), h) =
     (None, s', (used_client, t'), h')"
proof -
  obtain t1 h1 where send: "SendVMRuntimeMetrics (agent_sink up_env) ms ((used_client, t), h) = (None, (used_client, t1), h1)"
    using up_runtime_send_again [OF assms] by blast
  obtain m ms' where "ms = m # ms'" using assms by (cases ms) simp_all
  then show ?thesis
    using send up_sync_from_map [of "BuildVMInfoMapFromRuntime ms" "vr_NodeID m" "vr_TimestampUnix m" "''runtime_change''" s t1 h1]
    by (simp add: collectAndSendVMRuntime_def syncVMInfoFromRuntimeMetrics_def)
qed

text \<open>The scheduler after a synchronisation that answers no error.\<close>

lemma synced_state:
  assumes "syncVMInfoFromMap S m n t r (s, k) = (None, s', k')" and "keyed m" and "keyed (lastVMInfoByID s)"
  shows "latestVMInfoByID s' = m" and "vmInfoSynced s'" and "table_of (lastVMInfoByID s') = table_of m"
    and "keyed (lastVMInfoByID s')"
  using assms diff_unsent_iff [OF assms(2,3)]
  by (cases "snd (snd (snd (fst (computeVMInfoDiff s m))))";
      auto simp: syncVMInfoFromMap_def commitVMInfoSync_def cloneVMInfoMap_def Let_def split_def split: option.splits)+

lemma runtime_state:
  assumes "collectAndSendVMRuntime S (Inr ms) now (s, k) = (None, s', k')" and "keyed (lastVMInfoByID s)"
  shows "latestVMInfoByID s' = BuildVMInfoMapFromRuntime ms" and "vmInfoSynced s'"
    and "table_of (lastVMInfoByID s') = table_of (BuildVMInfoMapFromRuntime ms)" and "keyed (lastVMInfoByID s')"
proof -
  have "\<exists>n t k0. syncVMInfoFromMap S (BuildVMInfoMapFromRuntime ms) n t ''runtime_change'' (s, k0) = (None, s', k')"
  proof (cases "ms = []")
    case True
    moreover have "BuildVMInfoMapFromRuntime [] = []" by (simp add: BuildVMInfoMapFromRuntime_def)
    ultimately show ?thesis using assms(1) by (auto simp: collectAndSendVMRuntime_def)
  next
    case False
    then show ?thesis using assms(1)
      by (auto simp: collectAndSendVMRuntime_def syncVMInfoFromRuntimeMetrics_def Let_def split_def split: option.splits prod.splits)
  qed
  then obtain n t k0 where "syncVMInfoFromMap S (BuildVMInfoMapFromRuntime ms) n t ''runtime_change'' (s, k0) = (None, s', k')"
    by blast
  note state = synced_state [OF this keyed_BuildVMInfoMapFromRuntime assms(2)]
  show "latestVMInfoByID s' = BuildVMInfoMapFromRuntime ms" and "vmInfoSynced s'"
    and "table_of (lastVMInfoByID s') = table_of (BuildVMInfoMapFromRuntime ms)" and "keyed (lastVMInfoByID s')"
    using state by simp_all
qed

text \<open>The machine of \<open>quiet_env\<close> once it has stopped.\<close>

definition stopped_env :: "unit collect_env" where
  "stopped_env = quiet_env\<lparr>ce_stats := (\<lambda>_. Inr [\<lparr>sr_Name = ''web'',
     sr_UUID = [1, 2, 3, 4, 5, 6, 7, 8, 9, 10, 11, 12, 13, 14, 15, 16],
     sr_Params = [(''state.state'', PI32 5), (''block.0.name'', PStr ''vda'')]\<rparr>])\<rparr>"

definition web_record :: "i32 \<Rightarrow> stats_record" where
  "web_record st =
     \<lparr>sr_Name = ''web'', sr_UUID = quiet_uuid, sr_Params = [(''state.state'', PI32 st), (''block.0.name'', PStr ''vda'')]\<rparr>"

lemma web_records: "readRecords quiet_env = Inr [web_record 1]" "readRecords stopped_env = Inr [web_record 5]"
  by (simp_all add: readRecords_def stopped_env_def quiet_env_def quiet_uuid_def web_record_def)

lemma state_fields: "equalFold ''state.state'' ''state.state''" "\<not> equalFold ''block.0.name'' ''state.state''"
  by (simp add: equalFold_def, code_simp)

lemma web_states: "vi_State (machine_entry quiet_env n (web_record 1)) = ''running''"
  "vi_State (machine_entry stopped_env n (web_record 5)) = ''shutoff''"
  by (simp_all add: machine_entry_def web_record_def runtimeParam_def stopped_env_def quiet_env_def Let_def split_def
      state_fields asUint64_def domainStateString_def)

section \<open>The lost update\<close>

lemma machine_table_nonempty:
  assumes "table_of m = machine_table E n [rec]"
  shows "m \<noteq> []"
  using fun_cong [OF assms, of "uuidToString (sr_UUID rec)"] by (auto simp: table_of_def machine_table_def)

text \<open>A whole turn of the runtime loop, in which the machine has stopped, while the other loops stand still.\<close>

lemma stopped_turn_run:
  fixes st :: "(unit, grpc_state health_state) run_state"
  assumes rest: "rs_at st RuntimeLoop = Resting Waiting" and sh: "rs_shared st = (s, (used_client, t), h)"
    and w: "wired s = (True, True)" and k: "keyed (lastVMInfoByID s)"
  obtains ls r s' t' h' where "run_steps (agentCollectors example_config) (agent_sink up_env) st ls
      (st\<lparr>rs_readers := r, rs_shared := (s', (used_client, t'), h')\<rparr>)"
    and "failed_turns ls = {}" and "vmInfoSynced s'" and "keyed (latestVMInfoByID s')"
    and "table_of (latestVMInfoByID s') = machine_table stopped_env (NodeID example_config) [web_record 5]"
    and "latestVMInfoByID s' \<noteq> []"
proof -
  let ?C = "agentCollectors example_config" and ?S = "agent_sink up_env" and ?i = "RuntimeTurn stopped_env 10"
  obtain ms v where run: "CollectRuntime stopped_env (NodeID example_config) (rd_vm (rs_readers st)) = (Inr ms, v)" and "ms \<noteq> []"
    using web_records(2) by (auto simp: CollectRuntime_def split_def Let_def)
  obtain s' t' h' where cycle: "collectAndSendVMRuntime ?S (Inr ms) 10 (s, (used_client, t), h) = (None, s', (used_client, t'), h')"
    using up_runtime_turn_again [OF \<open>ms \<noteq> []\<close>] by blast
  let ?r = "(rs_readers st)\<lparr>rd_vm := v\<rparr>"
  have turn: "agentTurn ?C ?S ?i (rs_readers st, rs_shared st) = Some (None, ?r, s', (used_client, t'), h')"
    using run cycle sh
    by (simp add: agentTurn_def collectVMRuntimeMetrics_def agentCollectors_def NewVMRuntimeCollector_def)
  obtain c where "run_cycle ?S c (rs_shared st) = (None, s', (used_client, t'), h')" by (rule agentTurnE [OF turn])
  then have "wired s' = (True, True)"
    using phases_cycle [of ?S s c "((used_client, t), h)"] wired_phases w sh by (metis fst_conv snd_conv)
  then have "next_pc s' ?i Waiting None = Some Waiting" "next_pc s ?i Waiting None \<noteq> None" using w by (simp_all add: wired_def)
  with run_whole_turn [OF _ turn, of Waiting Waiting] rest sh obtain ls where
    steps: "run_steps ?C ?S st (Begin ?i # ls @ [End ?i None])
      (at_loop RuntimeLoop (Resting Waiting) (st\<lparr>rs_readers := ?r, rs_shared := (s', (used_client, t'), h')\<rparr>))"
    and ls: "set ls \<subseteq> {Move RuntimeLoop}" by auto
  have same: "at_loop RuntimeLoop (Resting Waiting) (st\<lparr>rs_readers := ?r, rs_shared := (s', (used_client, t'), h')\<rparr>) =
      st\<lparr>rs_readers := ?r, rs_shared := (s', (used_client, t'), h')\<rparr>"
    using rest by (simp add: at_loop_def fun_upd_idem)
  have "failed_turns ls = {}" using ls by (auto simp: failed_turns_def)
  then have failed: "failed_turns (Begin ?i # ls @ [End ?i None]) = {}" by simp
  note state = runtime_state [OF cycle k]
  have "length quiet_uuid = 16" by (simp add: quiet_uuid_def)
  with collected_table [OF run web_records(2)]
  have tab: "table_of (latestVMInfoByID s') = machine_table stopped_env (NodeID example_config) [web_record 5]"
    by (simp add: state(1) web_record_def)
  then have "latestVMInfoByID s' \<noteq> []" by (rule machine_table_nonempty)
  with that [OF steps [unfolded same] failed state(2) _ tab] show ?thesis by (simp add: state(1) keyed_BuildVMInfoMapFromRuntime)
qed

text \<open>
  C26. The loops can lose an update: there is a run of the whole agent, from its start to the frames the
  backend was delivered, in which no turn that synchronises the inventory fails, after which every loop is
  at rest, the scheduler counts itself synchronised and computes no message for its latest inventory, in
  which the one machine is shut off, while the backend still takes the machine for running.
\<close>

theorem interleaving_loses_update:
  "\<exists>ls st c t h. run_steps (agentCollectors example_config) (agent_sink up_env) quiet_init ls st \<and>
     failed_turns ls \<subseteq> range HardwareTurn \<and> (\<forall>l. \<exists>p. rs_at st l = Resting p) \<and> rs_sink st = ((c, t), h) \<and>
     vmInfoSynced (rs_scheduler st) \<and>
     \<not> snd (snd (snd (fst (computeVMInfoDiff (rs_scheduler st) (latestVMInfoByID (rs_scheduler st)))))) \<and>
     map_option vi_State (table_of (latestVMInfoByID (rs_scheduler st)) (uuidToString quiet_uuid)) = Some ''shutoff'' \<and>
     map_option vi_State (view (delivered t) (uuidToString quiet_uuid)) = Some ''running''"
proof -
  let ?C = "agentCollectors example_config" and ?S = "agent_sink up_env" and ?i = "PeriodicTurn 9 :: unit turn"
  obtain ls st t h recs where run: "run_steps ?C ?S quiet_init ls st" and failed: "failed_turns ls \<subseteq> range HardwareTurn"
    and at: "rs_at st = (\<lambda>_. Resting Starting)(RuntimeLoop := Resting Waiting, InfoLoop := Busy ?i AfterHardware (Snapshotting 9))"
    and sink: "rs_sink st = ((used_client, t), h)" and recs: "readRecords quiet_env = Inr recs"
    and tab: "table_of (latestVMInfoByID (rs_scheduler st)) = machine_table quiet_env (NodeID example_config) recs"
    by (rule quiet_before_round)
  have r: "recs = [web_record 1]" using recs web_records(1) by simp
  have ok: "agent.maps_ok ?C st" by (rule agent.maps_ok_steps [OF run agentStart_level(1) [OF example_agent_new]])
  obtain s where sh: "rs_shared st = (s, (used_client, t), h)" using sink by (cases "rs_shared st") simp
  have wf: "keyed (latestVMInfoByID s)" "keyed (lastVMInfoByID s)" and w: "wired s = (True, True)"
    using ok sh by (simp_all add: agent.maps_ok_def sched_wf_def)
  have "latestVMInfoByID s \<noteq> []" using machine_table_nonempty tab sh r by simp
  then obtain info where info: "periodicSnapshot s 9 = Some info" by (simp add: periodicSnapshot_def Let_def)
  define busy where "busy = (\<lambda>ph. Busy ?i AfterHardware ph)"
  define sa where "sa = at_loop InfoLoop (busy (SendingFull info)) (st\<lparr>rs_shared := rs_shared st\<rparr>)"
  have a: "run_step ?C ?S st (Move InfoLoop) sa"
    unfolding sa_def busy_def by (rule move [where ph = "Snapshotting 9"]) (simp_all add: at sh info)
  have "rs_at sa RuntimeLoop = Resting Waiting" "rs_shared sa = (s, (used_client, t), h)" by (simp_all add: sa_def at sh)
  then obtain ls1 rd s2 t2 h2 where run2: "run_steps ?C ?S sa ls1 (sa\<lparr>rs_readers := rd, rs_shared := (s2, (used_client, t2), h2)\<rparr>)"
    and failed2: "failed_turns ls1 = {}" and s2: "vmInfoSynced s2" "keyed (latestVMInfoByID s2)"
      "table_of (latestVMInfoByID s2) = machine_table stopped_env (NodeID example_config) [web_record 5]" "latestVMInfoByID s2 \<noteq> []"
    using w wf(2) by (rule stopped_turn_run)
  define sb where "sb = sa\<lparr>rs_readers := rd, rs_shared := (s2, (used_client, t2), h2)\<rparr>"
  obtain t3 h3 where send: "SendVMInfoSync ?S info ((used_client, t2), h2) = (None, (used_client, t3), h3)"
    using up_info_send by blast
  let ?s3 = "periodicCommit s2"
  define sc where "sc = at_loop InfoLoop (busy CommittingFull) (sb\<lparr>rs_shared := (s2, (used_client, t3), h3)\<rparr>)"
  define sd where "sd = at_loop InfoLoop (busy (Finished None)) (sc\<lparr>rs_shared := (?s3, (used_client, t3), h3)\<rparr>)"
  define se where "se = at_loop InfoLoop (Resting Waiting) sd"
  have c: "run_step ?C ?S sb (Move InfoLoop) sc"
    unfolding sc_def busy_def by (rule move [where ph = "SendingFull info"]) (auto simp: sb_def sa_def busy_def after_send_def send)
  have d: "run_step ?C ?S sc (Move InfoLoop) sd"
    unfolding sd_def busy_def by (rule move [where ph = CommittingFull]) (auto simp: sc_def busy_def)
  have e: "run_step ?C ?S sd (End ?i None) (at_loop (turn_loop ?i) (Resting Waiting) sd)"
    by (rule end_turn [where p = AfterHardware]) (simp_all add: sd_def busy_def)
  let ?ls = "((((ls @ [Move InfoLoop]) @ ls1) @ [Move InfoLoop]) @ [Move InfoLoop]) @ [End ?i None]"
  have steps: "run_steps ?C ?S quiet_init ?ls se"
    using run_more [OF run_more [OF run_more [OF run_steps_trans [OF run2 [folded sb_def] run_more [OF run a]] c] d] e]
    by (simp add: se_def)
  have "client_ok (used_client, t2)"
    using agent.maps_ok_steps [OF run_steps_trans [OF run2 run_more [OF run a]] agentStart_level(1) [OF example_agent_new]]
    by (simp add: agent.maps_ok_def)
  then have "view (client_sent (used_client, t3)) = receive info (view (client_sent (used_client, t2)))"
    using agent.view_sync_ok [OF _ send] by simp
  then have view: "view (delivered t3) = machine_table quiet_env (NodeID example_config) [web_record 1]"
    using periodicSnapshot_full [OF wf(1) info] tab sh r by (simp add: client_sent_def)
  have s3: "latestVMInfoByID ?s3 = latestVMInfoByID s2" "lastVMInfoByID ?s3 = latestVMInfoByID s2" "vmInfoSynced ?s3"
    using s2(4) by (simp_all add: periodicCommit_def cloneVMInfoMap_def Let_def)
  have shared: "rs_shared se = (?s3, (used_client, t3), h3)" by (simp add: se_def sd_def)
  have rest: "\<exists>p. rs_at se l = Resting p" for l
    by (cases l) (simp_all add: se_def sd_def sc_def sb_def sa_def at)
  have quiet: "\<not> snd (snd (snd (fst (computeVMInfoDiff ?s3 (latestVMInfoByID ?s3)))))"
    using diff_unsent_iff [of "latestVMInfoByID ?s3" ?s3] s2(2) s3 by simp
  have "failed_turns ?ls \<subseteq> range HardwareTurn" using failed failed2 by simp
  moreover have "map_option vi_State (table_of (latestVMInfoByID ?s3) (uuidToString quiet_uuid)) = Some ''shutoff''"
    using s2(3) s3(1) web_states(2) by (simp add: machine_table_def web_record_def)
  moreover have "map_option vi_State (view (delivered t3) (uuidToString quiet_uuid)) = Some ''running''"
    using view web_states(1) by (simp add: machine_table_def web_record_def)
  ultimately show ?thesis
    using steps rest quiet s3(3) shared by (intro exI [of _ ?ls] exI [of _ se] exI conjI) simp_all
qed

end
