(* ===== verification/Node_Rates.thy ===== *)
theory Node_Rates
  imports Node_Facts
begin

text \<open>
  Whose samples a rate of the node is computed from. Interfaces, disks and GPUs share one counter
  engine, with one key per device and counter; the keys never collide, so that a device's rates depend
  on its own last two readings only.
\<close>

section \<open>Keys\<close>

lemma after_last_colon:
  assumes "CHR '':'' \<notin> set c" and "CHR '':'' \<notin> set c'"
  shows "k @ '':'' @ c = k' @ '':'' @ c' \<longleftrightarrow> k = k' \<and> c = c'"
proof
  assume eq: "k @ '':'' @ c = k' @ '':'' @ c'"
  have tail: "takeWhile (\<lambda>x. x \<noteq> CHR '':'') (rev (l @ '':'' @ d)) = rev d" if "CHR '':'' \<notin> set d" for l d
  proof -
    have "takeWhile (\<lambda>x. x \<noteq> CHR '':'') (rev d @ CHR '':'' # rev l) = rev d @ takeWhile (\<lambda>x. x \<noteq> CHR '':'') (CHR '':'' # rev l)"
      using that by (intro takeWhile_append2) auto
    then show ?thesis by simp
  qed
  from tail [OF assms(1), of k] tail [OF assms(2), of k'] have "c = c'" unfolding eq by simp
  with eq show "k = k' \<and> c = c'" by simp
qed simp

definition energyKey :: "string \<Rightarrow> string" where
  "energyKey uuid = ''gpu:'' @ uuid @ '':energy_mj''"

lemma netKey_eq: "CHR '':'' \<notin> set c \<Longrightarrow> CHR '':'' \<notin> set c' \<Longrightarrow> netKey k c = netKey k' c' \<longleftrightarrow> k = k' \<and> c = c'"
  using after_last_colon [of c c' k k'] by (simp add: netKey_def)

lemma diskKey_eq: "CHR '':'' \<notin> set c \<Longrightarrow> CHR '':'' \<notin> set c' \<Longrightarrow> diskKey k c = diskKey k' c' \<longleftrightarrow> k = k' \<and> c = c'"
  using after_last_colon [of c c' k k'] by (simp add: diskKey_def)

lemma kinds_apart:
  "netKey k c \<noteq> diskKey k' c'" "diskKey k' c' \<noteq> netKey k c" "netKey k c \<noteq> energyKey u" "energyKey u \<noteq> netKey k c"
  "diskKey k c \<noteq> energyKey u" "energyKey u \<noteq> diskKey k c"
  by (simp_all add: netKey_def diskKey_def energyKey_def)

lemmas keys_apart = netKey_eq diskKey_eq kinds_apart

section \<open>Rates as functions of two readings\<close>

definition since :: "(u64 \<Rightarrow> f64 \<Rightarrow> f64) \<Rightarrow> (time \<times> u64) option \<Rightarrow> time \<Rightarrow> u64 \<Rightarrow> f64" where
  "since f prev now cur =
     (case prev of
        None \<Rightarrow> 0
      | Some (t, v) \<Rightarrow> if now \<le> t \<or> cur < v then 0 else f (cur - v) (seconds (timeSub now t)))"

definition held :: "delta_engine \<Rightarrow> string \<Rightarrow> (time \<times> u64) option" where
  "held e key = map_option (\<lambda>p. (sm_at p, sm_value p)) (map_of e key)"

lemma held_mput [simp]: "held (mput key \<lparr>sm_value = v, sm_at = t\<rparr> e) key' = (if key' = key then Some (t, v) else held e key')"
  by (simp add: held_def)

lemma secs_pos: "now \<le> t \<longleftrightarrow> \<not> seconds (timeSub now t) > 0"
proof (cases "now \<le> t")
  case True
  then have "seconds (timeSub now t) \<le> 0" by (simp add: secs_le_0)
  then show ?thesis using True by (cases "seconds (timeSub now t)") (auto simp: less_eq_f64_def zero_f64_def)
next
  case False
  then show ?thesis using elapsed_pos [of t now] by (auto simp: zero_f64_def)
qed

lemma whenObserved_since:
  "whenObserved f key now cur e = (since f (held e key) now cur, mput key \<lparr>sm_value = cur, sm_at = now\<rparr> e)"
proof -
  have "snd (ObserveCounter key now cur e) = mput key \<lparr>sm_value = cur, sm_at = now\<rparr> e"
    by (auto simp: ObserveCounter_def Let_def split: option.splits)
  then show ?thesis
    using ObserveCounter_answer [of key now cur e] secs_pos [of now]
    by (cases "ObserveCounter key now cur e")
      (auto simp: whenObserved_def since_def held_def counter_rate_def split_def Let_def split: option.splits if_splits)
qed

text \<open>An interface's metric, from the time and counters of its last reading.\<close>

type_synonym net_reading = "time \<times> string \<times> netIfSample"

definition net_rate :: "net_reading option \<Rightarrow> net_reading \<Rightarrow> NodeNetIfMetricLite" where
  "net_rate prev cur =
     (let (now, nodeID, s) = cur;
          rate = (\<lambda>f g. since f (map_option (\<lambda>(t, _, p). (t, g p)) prev) now (g s));
          rx = rate mibPerSec ns_RxBytesTotal; tx = rate mibPerSec ns_TxBytesTotal
      in \<lparr>nnm_NodeID = nodeID, nnm_InterfaceName = ns_Name s, nnm_TimestampUnix = unixSeconds now,
          nnm_RxMBS = rx, nnm_TxMBS = tx, nnm_TotalMBS = rx + tx,
          nnm_RxPacketsPerSec = rate perSec ns_RxPacketsTotal, nnm_TxPacketsPerSec = rate perSec ns_TxPacketsTotal,
          nnm_RxErrors = ns_RxErrors s, nnm_TxErrors = ns_TxErrors s, nnm_RxDropped = ns_RxDropped s,
          nnm_TxDropped = ns_TxDropped s, nnm_BandwidthUtilPercent = computeBandwidthUtilPercent (ns_SpeedMbps s) rx tx,
          nnm_SpeedMbps = ns_SpeedMbps s, nnm_LinkUp = ns_LinkUp s\<rparr>)"

definition net_counters :: "(string \<times> (netIfSample \<Rightarrow> u64)) list" where
  "net_counters = [(''rx_bytes'', ns_RxBytesTotal), (''tx_bytes'', ns_TxBytesTotal),
     (''rx_packets'', ns_RxPacketsTotal), (''tx_packets'', ns_TxPacketsTotal)]"

text \<open>The engine holds the last reading of each interface.\<close>

definition holds_nets :: "delta_engine \<Rightarrow> (string, net_reading) gomap \<Rightarrow> bool" where
  "holds_nets e m \<longleftrightarrow> (\<forall>k. list_all (\<lambda>(c, g). held e (netKey k c) = map_option (\<lambda>(t, _, p). (t, g p)) (map_of m k)) net_counters)"

definition net_put :: "string \<Rightarrow> net_reading \<Rightarrow> (string, net_reading) gomap \<Rightarrow> NodeNetIfMetricLite \<times> (string, net_reading) gomap" where
  "net_put k s m = (net_rate (map_of m k) s, mput k s m)"

interpretation nets: sampler net_put map_of net_rate
  by unfold_locales (simp_all add: net_put_def)

lemma netIfMetric_rate:
  assumes "holds_nets e m"
  shows "fst (netIfMetric now nodeID s e) = net_rate (map_of m (ns_Name s)) (now, nodeID, s)"
    and "holds_nets (snd (netIfMetric now nodeID s e)) (mput (ns_Name s) (now, nodeID, s) m)"
  using assms
  by (simp_all add: netIfMetric_def whenObserved_since Let_def split_def holds_nets_def net_counters_def net_rate_def keys_apart)

section \<open>Disks\<close>

record disk_reading =
  dr_time :: time
  dr_host :: host
  dr_mounts :: "(string, diskMountUsage) gomap"
  dr_nodeID :: string
  dr_name :: string
  dr_stat :: diskStatSnapshot

definition latency_since :: "(time \<times> u64 \<times> u64) option \<Rightarrow> time \<Rightarrow> u64 \<Rightarrow> u64 \<Rightarrow> f64" where
  "latency_since prev now ops ms =
     (case prev of
        None \<Rightarrow> 0
      | Some (t, ops0, ms0) \<Rightarrow>
          if now \<le> t \<or> ops \<le> ops0 \<or> ms < ms0 then 0 else f64_of_u64 (ms - ms0) / f64_of_u64 (ops - ops0))"

definition counted :: "(time \<times> u64) option \<Rightarrow> time \<Rightarrow> u64 \<Rightarrow> u64 \<times> f64 \<times> bool" where
  "counted prev now cur = counter_rate (map_option (\<lambda>(t, v). \<lparr>sm_value = v, sm_at = t\<rparr>) prev) \<lparr>sm_value = cur, sm_at = now\<rparr>"

lemma ObserveCounter_counted:
  "ObserveCounter key now cur e = (counted (held e key) now cur, mput key \<lparr>sm_value = cur, sm_at = now\<rparr> e)"
proof -
  have "snd (ObserveCounter key now cur e) = mput key \<lparr>sm_value = cur, sm_at = now\<rparr> e"
    by (auto simp: ObserveCounter_def Let_def split: option.splits)
  moreover have "map_option (\<lambda>(t, v). \<lparr>sm_value = v, sm_at = t\<rparr>) (held e key) = map_of e key"
    by (cases "map_of e key") (simp_all add: held_def)
  ultimately show ?thesis using ObserveCounter_answer [of key now cur e]
    by (cases "ObserveCounter key now cur e") (simp add: counted_def)
qed

lemma latencyMs_counted:
  "latencyMs (counted (map_option (\<lambda>(t, a, b). (t, a)) prev) now ops) (counted (map_option (\<lambda>(t, a, b). (t, b)) prev) now ms) =
     latency_since prev now ops ms"
proof (cases prev)
  case (Some p)
  obtain t a b where p: "p = (t, a, b)" by (cases p)
  have "a < ops \<Longrightarrow> ops - a \<noteq> 0" "a \<le> ops \<Longrightarrow> 0 < ops - a \<longleftrightarrow> a < ops"
    by (auto simp: word_less_nat_alt unat_sub word_le_nat_alt)
  then show ?thesis
    by (auto simp: Some p latencyMs_def counted_def counter_rate_def latency_since_def not_le not_less)
qed (simp add: latencyMs_def counted_def counter_rate_def latency_since_def)

definition disk_rate :: "disk_reading option \<Rightarrow> disk_reading \<Rightarrow> NodeDiskMetricLite" where
  "disk_rate prev cur =
     (let now = dr_time cur; s = dr_stat cur; name = dr_name cur;
          rate = (\<lambda>f g. since f (map_option (\<lambda>p. (dr_time p, g (dr_stat p))) prev) now (g s));
          latency = (\<lambda>g h. latency_since (map_option (\<lambda>p. (dr_time p, g (dr_stat p), h (dr_stat p))) prev) now (g s) (h s));
          (mountpoint, fsUsage) =
            (case map_of (dr_mounts cur) name of
               None \<Rightarrow> ([], 0)
             | Some u \<Rightarrow> (joinStr (dmu_Mountpoints u) '','', percentOf (dmu_FSUsed u) (dmu_FSTotal u)));
          rd = rate sectorsMibPerSec dss_SectorsRead; wr = rate sectorsMibPerSec dss_SectorsWritten;
          rdOps = rate opsPerSec dss_ReadsCompleted; wrOps = rate opsPerSec dss_WritesCompleted
      in \<lparr>ndm_NodeID = dr_nodeID cur, ndm_DiskName = name, ndm_TimestampUnix = unixSeconds now,
          ndm_ReadMBS = rd, ndm_WriteMBS = wr, ndm_TotalMBS = rd + wr,
          ndm_ReadIOPS = rdOps, ndm_WriteIOPS = wrOps, ndm_TotalIOPS = rdOps + wrOps,
          ndm_UtilPercent = rate busyShare dss_TimeDoingIOms,
          ndm_ReadLatencyMs = latency dss_ReadsCompleted dss_TimeReadingMs,
          ndm_WriteLatencyMs = latency dss_WritesCompleted dss_TimeWritingMs, ndm_FSUsagePercent = fsUsage,
          ndm_SizeBytes = dsi_SizeBytes (readDiskSysInfo (dr_host cur) name), ndm_Mountpoint = mountpoint\<rparr>)"

definition disk_counters :: "(string \<times> (diskStatSnapshot \<Rightarrow> u64)) list" where
  "disk_counters = [(''sectors_read'', dss_SectorsRead), (''sectors_written'', dss_SectorsWritten),
     (''reads_completed'', dss_ReadsCompleted), (''writes_completed'', dss_WritesCompleted),
     (''reads_for_latency'', dss_ReadsCompleted), (''writes_for_latency'', dss_WritesCompleted),
     (''read_time_ms'', dss_TimeReadingMs), (''write_time_ms'', dss_TimeWritingMs), (''busy_ms'', dss_TimeDoingIOms)]"

definition holds_disks :: "delta_engine \<Rightarrow> (string, disk_reading) gomap \<Rightarrow> bool" where
  "holds_disks e m \<longleftrightarrow> (\<forall>k. list_all (\<lambda>(c, g).
     held e (diskKey k c) = map_option (\<lambda>p. (dr_time p, g (dr_stat p))) (map_of m k)) disk_counters)"

definition disk_put :: "string \<Rightarrow> disk_reading \<Rightarrow> (string, disk_reading) gomap \<Rightarrow> NodeDiskMetricLite \<times> (string, disk_reading) gomap" where
  "disk_put k s m = (disk_rate (map_of m k) s, mput k s m)"

interpretation disks: sampler disk_put map_of disk_rate
  by unfold_locales (simp_all add: disk_put_def)

definition read_disk :: "disk_reading \<Rightarrow> delta_engine \<Rightarrow> NodeDiskMetricLite \<times> delta_engine" where
  "read_disk d e = nodeDiskMetric (dr_host d) (dr_time d) (dr_nodeID d) (dr_mounts d) (dr_name d, dr_stat d) e"

lemma latencyMs_fields:
  "latencyMs (counted (map_option (\<lambda>p. (dr_time p, g (dr_stat p))) prev) now ops)
     (counted (map_option (\<lambda>p. (dr_time p, h (dr_stat p))) prev) now ms) =
   latency_since (map_option (\<lambda>p. (dr_time p, g (dr_stat p), h (dr_stat p))) prev) now ops ms"
  using latencyMs_counted [of "map_option (\<lambda>p. (dr_time p, g (dr_stat p), h (dr_stat p))) prev" now ops ms]
  by (simp add: option.map_comp comp_def)

lemma read_disk_rate:
  assumes "holds_disks e m"
  shows "fst (read_disk d e) = disk_rate (map_of m (dr_name d)) d"
    and "holds_disks (snd (read_disk d e)) (mput (dr_name d) d m)"
  using assms
  by (simp_all add: read_disk_def nodeDiskMetric_def whenObserved_since ObserveCounter_counted Let_def split_def
      holds_disks_def disk_counters_def disk_rate_def keys_apart latencyMs_fields)

section \<open>One engine for all devices\<close>

text \<open>What the node reader asks of the engine: a reading of an interface, of a disk, of a GPU's energy counter.\<close>

datatype node_use = UseNet net_reading | UseDisk disk_reading | UseEnergy string time u64

datatype node_answer = AnsNet NodeNetIfMetricLite | AnsDisk NodeDiskMetricLite | AnsEnergy "u64 \<times> f64 \<times> bool"

fun use_engine :: "string \<Rightarrow> node_use \<Rightarrow> delta_engine \<Rightarrow> node_answer \<times> delta_engine" where
  "use_engine k (UseNet (now, nodeID, s)) e = map_prod AnsNet id (netIfMetric now nodeID s e)"
| "use_engine k (UseDisk d) e = map_prod AnsDisk id (read_disk d e)"
| "use_engine k (UseEnergy uuid now mj) e = map_prod AnsEnergy id (ObserveCounter (energyKey uuid) now mj e)"

fun device :: "node_use \<Rightarrow> string" where
  "device (UseNet (now, nodeID, s)) = ns_Name s"
| "device (UseDisk d) = dr_name d"
| "device (UseEnergy uuid now mj) = uuid"

definition keyed_uses :: "node_use list \<Rightarrow> (string \<times> node_use) list" where
  "keyed_uses us = map (\<lambda>u. (device u, u)) us"

fun net_use :: "node_use \<Rightarrow> net_reading option" where
  "net_use (UseNet s) = Some s" | "net_use _ = None"

fun disk_use :: "node_use \<Rightarrow> disk_reading option" where
  "disk_use (UseDisk d) = Some d" | "disk_use _ = None"

fun net_answer :: "node_answer \<Rightarrow> NodeNetIfMetricLite option" where
  "net_answer (AnsNet m) = Some m" | "net_answer _ = None"

fun disk_answer :: "node_answer \<Rightarrow> NodeDiskMetricLite option" where
  "disk_answer (AnsDisk d) = Some d" | "disk_answer _ = None"

lemma netIfMetric_disks: "holds_disks e m \<Longrightarrow> holds_disks (snd (netIfMetric now nodeID s e)) m"
  by (simp add: netIfMetric_def whenObserved_since Let_def split_def holds_disks_def disk_counters_def keys_apart)

lemma read_disk_nets: "holds_nets e m \<Longrightarrow> holds_nets (snd (read_disk d e)) m"
  by (simp add: read_disk_def nodeDiskMetric_def whenObserved_since ObserveCounter_counted Let_def split_def
      holds_nets_def net_counters_def keys_apart)

lemma energy_frame:
  "holds_nets e m \<Longrightarrow> holds_nets (snd (ObserveCounter (energyKey u) now v e)) m"
  "holds_disks e m' \<Longrightarrow> holds_disks (snd (ObserveCounter (energyKey u) now v e)) m'"
  by (simp_all add: ObserveCounter_counted holds_nets_def holds_disks_def net_counters_def disk_counters_def keys_apart)

lemma fresh_engine: "holds_nets newDeltaEngine []" "holds_disks newDeltaEngine []"
  by (simp_all add: newDeltaEngine_def holds_nets_def holds_disks_def net_counters_def disk_counters_def held_def)

text \<open>
  C20. The rates of one device never contain another's traffic, although interfaces, disks and GPUs of any
  names share one counter engine: over any interleaving of readings, what is reported for an interface
  (or a disk) is a function of that device's own reading and its own reading before it, zero rates on
  the first one, and zero for a counter that was reset or when the clock did not advance.
\<close>

theorem node_rates_isolated:
  "let outs = fst (observe_all use_engine (keyed_uses uses) newDeltaEngine)
   in of_key k (picked net_answer outs) = series net_rate None (of_key k (picked net_use (keyed_uses uses))) \<and>
      of_key k (picked disk_answer outs) = series disk_rate None (of_key k (picked disk_use (keyed_uses uses)))"
proof -
  let ?xs = "keyed_uses uses" and ?outs = "fst (observe_all use_engine (keyed_uses uses) newDeltaEngine)"
  have net: "picked net_answer ?outs = fst (observe_all net_put (picked net_use ?xs) [])"
  proof (rule observe_all_picked [where R = holds_nets], goal_cases)
    case (1 k a e m)
    then show ?case
      by (cases a) (auto simp: keyed_uses_def net_put_def netIfMetric_rate read_disk_nets energy_frame split_def)
  qed (rule fresh_engine)
  have disk: "picked disk_answer ?outs = fst (observe_all disk_put (picked disk_use ?xs) [])"
  proof (rule observe_all_picked [where R = holds_disks], goal_cases)
    case (1 k a e m)
    then show ?case
      by (cases a) (auto simp: keyed_uses_def disk_put_def read_disk_rate netIfMetric_disks energy_frame split_def)
  qed (rule fresh_engine)
  show ?thesis
    using nets.key_series [of k "picked net_use ?xs" "[]"] disks.key_series [of k "picked disk_use ?xs" "[]"]
    by (simp add: net disk)
qed

end
