(* ===== verification/Node_Parsing.thy ===== *)
theory Node_Parsing
  imports Node_CPU Node_Memory
begin

text \<open>
  The kernel's and the firmware's tables are read back as they were written: \<^verbatim>\<open>/proc/stat\<close>, and the
  memory modules that \<^verbatim>\<open>dmidecode\<close> lists, with the one case in which a module is lost.
\<close>

section \<open>Lines and words\<close>

named_theorems texts \<open>how printed texts fall apart into lines and words\<close>

lemma splitChar_append: "sep \<notin> set l \<Longrightarrow> splitChar sep (l @ sep # r) = l # splitChar sep r"
  by (induction l) auto

definition unlines :: "string list \<Rightarrow> string" where
  "unlines ls = concat (map (\<lambda>l. l @ [CHR 0x0A]) ls)"

lemma lines_unlines [texts]: "\<forall>l \<in> set ls. CHR 0x0A \<notin> set l \<Longrightarrow> lines (unlines ls) = ls @ [[]]"
  by (induction ls) (simp_all add: lines_def unlines_def splitChar_append)

definition word :: "string \<Rightarrow> bool" where
  "word w \<longleftrightarrow> w \<noteq> [] \<and> (\<forall>c \<in> set w. \<not> is_space c)"

lemma strFields_go_word: "\<forall>c \<in> set w. \<not> is_space c \<Longrightarrow> strFields_go cur (w @ s) = strFields_go (rev w @ cur) s"
  by (induction w arbitrary: cur) simp_all

definition unwords :: "string list \<Rightarrow> string" where
  "unwords ws = concat (map (\<lambda>w. CHR '' '' # w) ws)"

lemma is_space_blank [simp]: "is_space CHR '' ''"
  by (simp add: is_space_def)

lemma strFields_go_unwords:
  "list_all word ws \<Longrightarrow> cur \<noteq> [] \<Longrightarrow> strFields_go cur (unwords ws) = rev cur # ws"
proof (induction ws arbitrary: cur)
  case (Cons w ws)
  then have w: "w \<noteq> []" "\<forall>c \<in> set w. \<not> is_space c" by (simp_all add: word_def)
  show ?case
    using Cons.IH [of "rev w"] Cons.prems w strFields_go_word [of w "[]" "unwords ws"]
    by (simp add: unwords_def)
qed (simp add: unwords_def)

lemma strFields_words [texts]: "word w \<Longrightarrow> list_all word ws \<Longrightarrow> strFields (w @ unwords ws) = w # ws"
  using strFields_go_unwords [of ws "rev w"] strFields_go_word [of w "[]" "unwords ws"]
  by (simp add: strFields_def word_def)

lemma trimSpace_id:
  assumes "s \<noteq> []" and "\<not> is_space (hd s)" and "\<not> is_space (last s)"
  shows "trimSpace s = s"
  using assms by (simp add: trimSpace_def dropWhile_idle hd_rev)

lemma unwords_last: "list_all word ws \<Longrightarrow> ws \<noteq> [] \<Longrightarrow> unwords ws \<noteq> [] \<and> last (unwords ws) = last (last ws)"
proof (induction ws)
  case (Cons w ws)
  then show ?case by (cases "ws = []") (auto simp: unwords_def word_def)
qed simp

lemma trimSpace_words [texts]:
  assumes "word w" and "list_all word ws"
  shows "trimSpace (w @ unwords ws) = w @ unwords ws"
proof (rule trimSpace_id)
  have w: "w \<noteq> []" "\<not> is_space (hd w)" "\<not> is_space (last w)" using assms(1) by (auto simp: word_def)
  then show "w @ unwords ws \<noteq> []" "\<not> is_space (hd (w @ unwords ws))" by simp_all
  show "\<not> is_space (last (w @ unwords ws))"
  proof (cases "ws = []")
    case False
    then have "word (last ws)" using assms(2) by (simp add: list_all_iff)
    then have "\<not> is_space (last (last ws))" by (auto simp: word_def)
    with unwords_last [OF assms(2) False] show ?thesis by simp
  qed (use w in \<open>simp add: unwords_def\<close>)
qed

lemma digit_not_space: "is_digit c \<Longrightarrow> \<not> is_space c"
  by (auto simp: is_digit_def is_space_def)

lemma word_show_nat [texts]: "word (show_nat n)"
  using show_nat_digits [of n] digit_not_space by (auto simp: word_def list_all_iff)

lemma word_formatUint [texts]: "word (formatUint v)"
  by (simp add: formatUint_def word_show_nat)

lemma list_all_word_formatUint [texts]: "list_all word (map formatUint vs)"
  by (simp add: list_all_iff word_formatUint)

lemma word_append: "word v \<Longrightarrow> word w \<Longrightarrow> word (v @ w)"
  by (auto simp: word_def)

lemma word_no_newline: "word w \<Longrightarrow> CHR 0x0A \<notin> set w"
  by (auto simp: word_def is_space_def)

lemma atoi_show_nat [texts]:
  assumes "n < 2 ^ 63"
  shows "atoi (show_nat n) = Some (int n)"
proof -
  have d: "list_all is_digit (show_nat n)" "digits_val (show_nat n) = n" "show_nat n \<noteq> []"
    using show_nat_digits [of n] by simp_all
  then obtain c cs where c: "show_nat n = c # cs" "is_digit c" by (cases "show_nat n") auto
  then have "c \<noteq> CHR ''-''" "c \<noteq> CHR ''+''" by (auto simp: is_digit_def)
  with c d assms show ?thesis by (auto simp: atoi_def hasPrefix_def Let_def)
qed

section \<open>The table of processor times\<close>

definition stat_line :: "string \<Rightarrow> u64 list \<Rightarrow> string" where
  "stat_line name vals = name @ unwords (map formatUint vals)"

definition core_name :: "nat \<Rightarrow> string" where
  "core_name i = ''cpu'' @ show_nat i"

definition kernel_stat :: "u64 list \<Rightarrow> (nat \<times> u64 list) list \<Rightarrow> u64 list \<Rightarrow> u64 \<Rightarrow> u64 \<Rightarrow> string" where
  "kernel_stat agg cores intr ctxt running =
     unlines (stat_line ''cpu'' agg # map (\<lambda>(i, vals). stat_line (core_name i) vals) cores @
       [stat_line ''intr'' intr, stat_line ''ctxt'' [ctxt], stat_line ''procs_running'' [running]])"

lemma parseStatVals_format [simp]: "parseStatVals (map formatUint vs) = Inr vs"
  by (induction vs) simp_all

lemma parseCPUCounters_format: "8 \<le> length vs \<Longrightarrow> parseCPUCounters (map formatUint vs) = Inr (countersOf vs)"
  by (simp add: parseCPUCounters_def)

lemma stat_line_words:
  assumes "word name"
  shows "trimSpace (stat_line name vs) = stat_line name vs" "strFields (stat_line name vs) = name # map formatUint vs"
    "CHR 0x0A \<notin> set (stat_line name vs)" "stat_line name vs \<noteq> []"
proof -
  show "trimSpace (stat_line name vs) = stat_line name vs" "strFields (stat_line name vs) = name # map formatUint vs"
    using assms by (simp_all add: stat_line_def texts)
  show "stat_line name vs \<noteq> []" using assms by (simp add: stat_line_def word_def)
  show "CHR 0x0A \<notin> set (stat_line name vs)"
    using assms word_no_newline [OF word_formatUint] word_no_newline [of name]
    by (auto simp: stat_line_def unwords_def)
qed

lemma parseUintFlexible_format [simp]: "parseUintFlexible pf (formatUint v) = v"
proof -
  have w: "word (formatUint v)" by (rule word_formatUint)
  have "trimSpace (formatUint v) = formatUint v" "strFields (formatUint v) = [formatUint v]"
    using trimSpace_words [OF w, of "[]"] strFields_words [OF w, of "[]"] by (simp_all add: unwords_def)
  with w show ?thesis by (simp add: parseUintFlexible_def word_def)
qed

lemma word_names [texts]: "word ''cpu''" "word ''intr''" "word ''ctxt''" "word ''procs_running''"
  by (simp_all add: word_def is_space_def)

lemma procStatLine_cpu:
  "8 \<le> length vs \<Longrightarrow> procStatLine pf (stat_line ''cpu'' vs) (sn, cores) = Inr (sn\<lparr>pcs_Aggregate := countersOf vs\<rparr>, cores)"
  by (cases vs) (simp_all add: procStatLine_def stat_line_words texts parseCPUCounters_format flip: list.map)

lemma word_core_name [texts]: "word (core_name i)"
  unfolding core_name_def by (intro word_append texts)

lemma core_name:
  "core_name i \<noteq> ''cpu''" "hasPrefix (core_name i) ''cpu''" "3 < length (core_name i)" "drop 3 (core_name i) = show_nat i"
  using show_nat_digits [of i] by (auto simp: core_name_def hasPrefix_def)

lemma procStatLine_core:
  assumes "8 \<le> length vs" and "i < 2 ^ 63"
  shows "procStatLine pf (stat_line (core_name i) vs) (sn, cores) = Inr (sn, cores @ [(int i, countersOf vs)])"
proof -
  have "vs \<noteq> []" using assms(1) by auto
  with assms show ?thesis
    by (simp add: procStatLine_def stat_line_words texts parseCPUCounters_format Let_def core_name)
qed

lemma procStatLine_others:
  "procStatLine pf (stat_line ''ctxt'' [v]) (sn, cores) = Inr (sn\<lparr>pcs_ContextSwitches := v\<rparr>, cores)"
  "intr \<noteq> [] \<Longrightarrow> procStatLine pf (stat_line ''intr'' intr) (sn, cores) = Inr (sn\<lparr>pcs_Interrupts := hd intr\<rparr>, cores)"
  "procStatLine pf (stat_line ''procs_running'' [v]) (sn, cores) = Inr (sn\<lparr>pcs_ProcsRunning := v\<rparr>, cores)"
  "procStatLine pf [] acc = Inr acc"
  by (cases intr; simp add: procStatLine_def stat_line_words texts hasPrefix_def split_def Let_def)+

lemma insort_key_map: "insort_key f (g x) (map g xs) = map g (insort_key (\<lambda>y. f (g y)) x xs)"
  by (induction xs) simp_all

lemma sort_key_map: "sort_key f (map g xs) = map g (sort_key (\<lambda>y. f (g y)) xs)"
  by (induction xs) (simp_all add: insort_key_map)

lemma insort_key_int: "insort_key (\<lambda>y. int (fst y)) x xs = insort_key fst x xs"
  by (induction xs) auto

lemma sort_key_int: "sort_key (\<lambda>y. int (fst y)) xs = sort_key fst xs"
  by (induction xs) (simp_all add: insort_key_int)

lemma foldErr_append [simp]:
  "foldErr f (xs @ ys) acc = (case foldErr f xs acc of Inl err \<Rightarrow> Inl err | Inr acc' \<Rightarrow> foldErr f ys acc')"
  by (induction xs arbitrary: acc) (simp_all split: sum.split)

lemma foldErr_cores:
  assumes "\<forall>(i, vs) \<in> set cs. i < 2 ^ 63 \<and> 8 \<le> length vs"
  shows "foldErr (procStatLine pf) (map (\<lambda>(i, vs). stat_line (core_name i) vs) cs) (sn, cores) =
     Inr (sn, cores @ map (\<lambda>(i, vs). (int i, countersOf vs)) cs)"
  using assms
proof (induction cs arbitrary: cores)
  case (Cons c cs)
  obtain i vs where c: "c = (i, vs)" by (cases c)
  have "i < 2 ^ 63" "8 \<le> length vs" using Cons.prems c by auto
  with Cons c show ?case by (simp add: procStatLine_core del: append_Cons)
qed simp

lemma kernel_stat_lines:
  "lines (kernel_stat agg cores intr ctxt running) =
     stat_line ''cpu'' agg # map (\<lambda>(i, vs). stat_line (core_name i) vs) cores @
       [stat_line ''intr'' intr, stat_line ''ctxt'' [ctxt], stat_line ''procs_running'' [running], []]"
proof -
  have "\<forall>l \<in> set (stat_line ''cpu'' agg # map (\<lambda>(i, vs). stat_line (core_name i) vs) cores @
       [stat_line ''intr'' intr, stat_line ''ctxt'' [ctxt], stat_line ''procs_running'' [running]]). CHR 0x0A \<notin> set l"
    by (auto simp: stat_line_words texts)
  from lines_unlines [OF this] show ?thesis by (simp add: kernel_stat_def)
qed


definition stat_host :: "string \<Rightarrow> host" where
  "stat_host raw =
     \<lparr>h_readFile = (\<lambda>path. if path = ''/proc/stat'' then Inr raw else Inl (Leaf ''no such file'')),
      h_scanErr = (\<lambda>_. None), h_readDir = (\<lambda>_. Inr []), h_glob = (\<lambda>_. []), h_readlink = (\<lambda>_. Inl (Leaf ''no such file'')),
      h_exists = (\<lambda>_. False), h_statfs = (\<lambda>_. None), h_lookPath = (\<lambda>_. False),
      h_exec = (\<lambda>_ _. Inl (Leaf ''exit status 1'')), h_getenv = (\<lambda>_. []),
      h_platform = \<lparr>cvt_u64 = (\<lambda>_. 0), goarch = ''amd64'', page_size = 4096, num_cpu = 2\<rparr>\<rparr>"

lemma stat_host: "h_readFile (stat_host raw) ''/proc/stat'' = Inr raw"
  by (simp add: stat_host_def)


section \<open>Memory modules\<close>

text \<open>
  The listing of \<^verbatim>\<open>dmidecode -t memory\<close>: for each memory array its header and its devices, each with its
  fields. The fields are kept as the pairs that the code reads, in order.
\<close>

type_synonym dmi_device = "(string \<times> string) list"

definition dmi_field :: "string \<times> string \<Rightarrow> string" where
  "dmi_field kv = CHR 0x09 # fst kv @ '': '' @ snd kv"

definition dmi_device :: "dmi_device \<Rightarrow> string list" where
  "dmi_device d = ''Memory Device'' # map dmi_field d @ [[]]"

definition dmi_array :: "dmi_device list \<Rightarrow> string list" where
  "dmi_array ds = ''Physical Memory Array'' # [] # concat (map dmi_device ds)"

definition dmi_text :: "dmi_device list list \<Rightarrow> string" where
  "dmi_text arrays = unlines (concat (map dmi_array arrays))"

definition trimmed_text :: "string \<Rightarrow> bool" where
  "trimmed_text s \<longleftrightarrow> s \<noteq> [] \<and> \<not> is_space (hd s) \<and> \<not> is_space (last s) \<and> CHR 0x0A \<notin> set s"

definition field_ok :: "string \<times> string \<Rightarrow> bool" where
  "field_ok kv \<longleftrightarrow> trimmed_text (fst kv) \<and> trimmed_text (snd kv) \<and> CHR '':'' \<notin> set (fst kv) \<and>
     fst kv \<noteq> ''Error Correction Type'' \<and> \<not> hasPrefix (fst kv) ''Memory Device'' \<and>
     \<not> hasPrefix (fst kv) ''Physical Memory Array''"

definition moduleOf :: "platform \<Rightarrow> dmi_device \<Rightarrow> memoryModuleInfo" where
  "moduleOf pf d = fold (\<lambda>(k, v). moduleField pf k v) d zero_memoryModuleInfo"

lemma while_append: "sep \<notin> set a \<Longrightarrow> takeWhile (\<lambda>c. c \<noteq> sep) (a @ sep # b) = a"
  "sep \<notin> set a \<Longrightarrow> dropWhile (\<lambda>c. c \<noteq> sep) (a @ sep # b) = sep # b"
  by (induction a) auto

lemma splitN2_append: "sep \<notin> set a \<Longrightarrow> splitN2 sep (a @ sep # b) = [a, b]"
  by (simp add: splitN2_def while_append)

lemma hasPrefix_before: "sep \<notin> set p \<Longrightarrow> hasPrefix (k @ sep # r) p \<longleftrightarrow> hasPrefix k p"
proof
  assume sep: "sep \<notin> set p" and "hasPrefix (k @ sep # r) p"
  then obtain r' where "k @ sep # r = p @ r'" by (auto simp: hasPrefix_iff)
  then consider us where "k = p @ us" | us where "p = k @ us" "us @ r' = sep # r"
    by (auto simp: append_eq_append_conv2)
  then show "hasPrefix k p"
  proof cases
    case 2
    with sep have "us = []" by (cases us) auto
    with 2 show ?thesis by (simp add: hasPrefix_def)
  qed simp
qed (auto simp: hasPrefix_iff)

lemma hasPrefix_upto:
  assumes "sep \<notin> set p" and "sep \<notin> set k"
  shows "hasPrefix (k @ sep # r) (p @ [sep]) \<longleftrightarrow> k = p"
proof
  assume "hasPrefix (k @ sep # r) (p @ [sep])"
  then obtain r' where "k @ sep # r = p @ sep # r'" by (auto simp: hasPrefix_iff)
  then show "k = p" using while_append(1) assms by metis
qed (auto simp: hasPrefix_iff)

lemma trimSpace_space: "is_space c \<Longrightarrow> trimSpace (c # s) = trimSpace s"
  by (simp add: trimSpace_def)

lemma trimmed_text: "trimmed_text s \<Longrightarrow> trimSpace s = s"
  by (simp add: trimmed_text_def trimSpace_id)

lemma is_space_tab [simp]: "is_space (CHR 0x09)"
  by (simp add: is_space_def)

lemma dmiLine_field:
  assumes "field_ok (k, v)"
  shows "dmiLine pf (dmi_field (k, v)) (info, True, cur) = (info, True, moduleField pf k v cur)"
proof -
  have t: "trimmed_text k" "trimmed_text v" "CHR '':'' \<notin> set k" "k \<noteq> ''Error Correction Type''"
    "\<not> hasPrefix k ''Memory Device''" "\<not> hasPrefix k ''Physical Memory Array''"
    using assms by (simp_all add: field_ok_def)
  let ?line = "k @ CHR '':'' # CHR '' '' # v"
  have trim: "trimSpace (dmi_field (k, v)) = ?line"
    using t(1,2) trimSpace_id [of ?line] by (simp add: dmi_field_def trimSpace_space trimmed_text_def)
  have no: "\<not> hasPrefix ?line ''Physical Memory Array''" "\<not> hasPrefix ?line ''Memory Device''"
    "\<not> hasPrefix ?line ''Error Correction Type:''" "?line \<noteq> []"
    using t hasPrefix_before [of "CHR '':''" "''Physical Memory Array''" k] hasPrefix_before [of "CHR '':''" "''Memory Device''" k]
      hasPrefix_upto [of "CHR '':''" "''Error Correction Type''" k] by simp_all
  have "trimSpace k = k" "trimSpace (CHR '' '' # v) = v" using t by (simp_all add: trimmed_text trimSpace_space)
  with no splitN2_append [OF t(3)] show ?thesis unfolding dmiLine_def Let_def trim by simp
qed

lemma dmiLine_heads:
  "dmiLine pf ''Physical Memory Array'' (info, dev, cur) = (info, False, cur)"
  "dmiLine pf ''Memory Device'' st = (fst (commitModule st), True, zero_memoryModuleInfo)"
  "dmiLine pf [] st = st"
  by (simp_all add: dmiLine_def trimSpace_def is_space_def hasPrefix_def split_def Let_def)

lemma fold_fields:
  "\<forall>kv \<in> set d. field_ok kv \<Longrightarrow>
     fold (dmiLine pf) (map dmi_field d) (info, True, cur) = (info, True, fold (\<lambda>(k, v). moduleField pf k v) d cur)"
proof (induction d arbitrary: cur)
  case (Cons kv d)
  then show ?case by (cases kv) (simp add: dmiLine_field)
qed simp

text \<open>The report after some modules: those without a size are left out.\<close>

definition addModule :: "memoryModuleInfo \<Rightarrow> memoryHardwareInfo \<Rightarrow> memoryHardwareInfo" where
  "addModule m info = fst (commitModule (info, True, m))"

lemma fold_device:
  assumes "\<forall>kv \<in> set d. field_ok kv"
  shows "fold (dmiLine pf) (dmi_device d) (info, True, cur) = (addModule cur info, True, moduleOf pf d)"
    and "fold (dmiLine pf) (dmi_device d) (info, False, cur) = (info, True, moduleOf pf d)"
  using fold_fields [OF assms]
  by (simp_all add: dmi_device_def dmiLine_heads addModule_def moduleOf_def commitModule_def)

lemma fold_devices:
  assumes "\<forall>d \<in> set ds. \<forall>kv \<in> set d. field_ok kv"
  shows "fold (dmiLine pf) (concat (map dmi_device ds)) (info, True, cur) =
     (fold addModule (butlast (cur # map (moduleOf pf) ds)) info, True, last (cur # map (moduleOf pf) ds))"
  using assms
proof (induction ds arbitrary: info cur)
  case (Cons d ds)
  then show ?case using fold_device(1) [of d pf info cur] by simp
qed simp

lemma fold_array:
  assumes "\<forall>d \<in> set ds. \<forall>kv \<in> set d. field_ok kv"
  shows "fold (dmiLine pf) (dmi_array ds) (info, dev, cur) =
     (if ds = [] then (info, False, cur)
      else (fold addModule (map (moduleOf pf) (butlast ds)) info, True, moduleOf pf (last ds)))"
proof (cases ds)
  case (Cons d ds')
  with assms have "fold (dmiLine pf) (dmi_device d) (info, False, cur) = (info, True, moduleOf pf d)"
    "\<forall>d \<in> set ds'. \<forall>kv \<in> set d. field_ok kv"
    using fold_device(2) [of d pf info cur] by simp_all
  then show ?thesis using fold_devices [of ds' pf info "moduleOf pf d"] Cons
    by (simp add: dmi_array_def dmiLine_heads map_butlast last_map)
qed (simp add: dmi_array_def dmiLine_heads)

text \<open>The devices that reach the report: a new array closes the last device of the one before it unseen.\<close>

fun kept :: "dmi_device list list \<Rightarrow> dmi_device list" where
  "kept [] = []"
| "kept [ds] = ds"
| "kept (ds # arrays) = butlast ds @ kept arrays"

lemma fold_arrays:
  assumes "\<forall>ds \<in> set arrays. \<forall>d \<in> set ds. \<forall>kv \<in> set d. field_ok kv" and "arrays \<noteq> []"
  shows "fst (commitModule (fold (dmiLine pf) (concat (map dmi_array arrays)) (info, dev, cur))) =
     fold addModule (map (moduleOf pf) (kept arrays)) info"
  using assms
proof (induction arrays arbitrary: info dev cur rule: kept.induct)
  case (2 ds)
  then have "fold (dmiLine pf) (dmi_array ds) (info, dev, cur) =
     (if ds = [] then (info, False, cur)
      else (fold addModule (map (moduleOf pf) (butlast ds)) info, True, moduleOf pf (last ds)))"
    by (intro fold_array) simp
  moreover have "fold addModule (map (moduleOf pf) ds) info =
      addModule (moduleOf pf (last ds)) (fold addModule (map (moduleOf pf) (butlast ds)) info)" if "ds \<noteq> []"
    using arg_cong [where f = "\<lambda>ds. fold addModule (map (moduleOf pf) ds) info", OF append_butlast_last_id [OF that]]
    by simp
  ultimately show ?case
    by (cases "ds = []") (simp add: dmi_array_def dmiLine_heads commitModule_def, simp flip: addModule_def)
next
  case (3 ds a arrays)
  from 3(2) have "fold (dmiLine pf) (dmi_array ds) (info, dev, cur) =
     (if ds = [] then (info, False, cur)
      else (fold addModule (map (moduleOf pf) (butlast ds)) info, True, moduleOf pf (last ds)))"
    by (intro fold_array) simp
  moreover have ok: "\<forall>ds \<in> set (a # arrays). \<forall>d \<in> set ds. \<forall>kv \<in> set d. field_ok kv" using 3(2) by simp
  moreover have "fst (commitModule (fold (dmiLine pf) (concat (map dmi_array (a # arrays))) (i, v, c))) =
      fold addModule (map (moduleOf pf) (kept (a # arrays))) i" for i v c
    by (rule 3(1) [OF ok]) simp
  ultimately show ?case by (cases "ds = []") simp_all
qed simp

lemma dmi_text_lines:
  assumes "\<forall>ds \<in> set arrays. \<forall>d \<in> set ds. \<forall>kv \<in> set d. field_ok kv"
  shows "lines (dmi_text arrays) = concat (map dmi_array arrays) @ [[]]"
proof -
  have f: "CHR 0x0A \<notin> set (dmi_field kv)" if "field_ok kv" for kv
    using that by (simp add: dmi_field_def field_ok_def trimmed_text_def)
  have d: "\<forall>l \<in> set (dmi_device d). CHR 0x0A \<notin> set l" if "\<forall>kv \<in> set d. field_ok kv" for d
    using that f by (auto simp: dmi_device_def)
  have "\<forall>l \<in> set (dmi_array ds). CHR 0x0A \<notin> set l" if "\<forall>d \<in> set ds. \<forall>kv \<in> set d. field_ok kv" for ds
    using that d by (auto simp: dmi_array_def)
  with assms have "\<forall>l \<in> set (concat (map dmi_array arrays)). CHR 0x0A \<notin> set l" by auto
  from lines_unlines [OF this] show ?thesis by (simp add: dmi_text_def)
qed

lemma addModule_sizes:
  "mhi_StickSizeBytes (fold addModule ms info) = mhi_StickSizeBytes info @ filter (\<lambda>n. n \<noteq> 0) (map mmi_SizeBytes ms)"
  "mhi_TotalPhysicalBytes (fold addModule ms info) = mhi_TotalPhysicalBytes info + sum_list (map mmi_SizeBytes ms)"
  by (induction ms arbitrary: info) (simp_all add: addModule_def commitModule_def)

text \<open>
  C25. What the memory report makes of a listing of memory arrays with any devices and any fields: it
  holds the installed modules in their order, their sizes and the sum of their sizes, except that the
  last device of every array but the last one is lost, because the next array's header closes it without
  recording it. On a machine with several arrays (one for each processor) modules are missing from the
  report, and their bytes from the total.
\<close>

theorem dmidecode_exact:
  assumes "\<forall>ds \<in> set arrays. \<forall>d \<in> set ds. \<forall>kv \<in> set d. field_ok kv" and "arrays \<noteq> []"
  shows "let info = parseDmidecodeMemoryInfo pf (dmi_text arrays); modules = map (moduleOf pf) (kept arrays);
             sizes = filter (\<lambda>n. n \<noteq> 0) (map mmi_SizeBytes modules)
         in info = (fold addModule modules zero_memoryHardwareInfo)\<lparr>mhi_StickCount := of_nat (length sizes)\<rparr> \<and>
            mhi_StickSizeBytes info = sizes \<and> mhi_TotalPhysicalBytes info = sum_list (map mmi_SizeBytes modules)"
proof -
  have "fst (commitModule (fold (dmiLine pf) (lines (dmi_text arrays)) (zero_memoryHardwareInfo, False, zero_memoryModuleInfo))) =
      fold addModule (map (moduleOf pf) (kept arrays)) zero_memoryHardwareInfo"
    using fold_arrays [OF assms] by (simp add: dmi_text_lines [OF assms(1)] dmiLine_heads)
  moreover have "mhi_StickSizeBytes zero_memoryHardwareInfo = []" "mhi_TotalPhysicalBytes zero_memoryHardwareInfo = 0"
    by (simp_all add: zero_memoryHardwareInfo_def)
  ultimately show ?thesis
    by (simp add: parseDmidecodeMemoryInfo_def split_def Let_def addModule_sizes comp_def)
qed

text \<open>Two processors with a module of 16 GB each: the report knows of one.\<close>

definition sample_device :: "string \<Rightarrow> dmi_device" where
  "sample_device slot = [(''Size'', ''16 GB''), (''Locator'', slot), (''Type'', ''DDR4'')]"

lemma sample_size: "mmi_SizeBytes (moduleOf pf (sample_device slot)) = 17179869184"
proof -
  have parts: "toLower (trimSpace ''16 GB'') = ''16 gb''" "strFields ''16 gb'' = [''16'', ''gb'']"
    "\<not> contains ''16 gb'' ''no module installed''" "\<not> contains ''16 gb'' ''not installed''" "\<not> contains ''16 gb'' ''unknown''"
    by code_simp+
  have "parseFloat ''16'' = (Fin 16, True)"
    by (simp add: parseFloat_def readFloat_def toLower_def lower_char_def drop_sign_def hasPrefix_def underscoreOK_def
        is_digit_def digit_val_def Let_def)
  moreover have "u64_of_f64 pf (Fin 16 * Fin 1024 * Fin 1024 * Fin 1024) = 17179869184" by (simp add: u64_of_f64_def)
  ultimately have "parseMemorySizeToBytes pf ''16 GB'' = 17179869184"
    by (simp add: parseMemorySizeToBytes_def parts Let_def less_eq_f64_def zero_f64_def)
  then show ?thesis by (simp add: moduleOf_def sample_device_def moduleField_def)
qed

theorem dmidecode_exact_witness:
  "\<forall>pf. let info = parseDmidecodeMemoryInfo pf (dmi_text [[sample_device ''DIMM_A1''], [sample_device ''DIMM_B1'']])
   in mhi_StickCount info = 1 \<and> mhi_TotalPhysicalBytes info = 17179869184"
proof
  fix pf
  have "field_ok (''Size'', ''16 GB'')" "field_ok (''Locator'', ''DIMM_A1'')" "field_ok (''Locator'', ''DIMM_B1'')"
    "field_ok (''Type'', ''DDR4'')"
    by (simp_all add: field_ok_def trimmed_text_def is_space_def hasPrefix_def)
  then have "\<forall>ds \<in> set [[sample_device ''DIMM_A1''], [sample_device ''DIMM_B1'']]. \<forall>d \<in> set ds. \<forall>kv \<in> set d. field_ok kv"
    by (simp add: sample_device_def)
  from dmidecode_exact [OF this, of pf]
  show "let info = parseDmidecodeMemoryInfo pf (dmi_text [[sample_device ''DIMM_A1''], [sample_device ''DIMM_B1'']])
    in mhi_StickCount info = 1 \<and> mhi_TotalPhysicalBytes info = 17179869184"
    by (auto simp: Let_def sample_size)
qed

end
