(* ===== verification/Node_Hardware_Facts.thy ===== *)
theory Node_Hardware_Facts
  imports Node_Facts
begin

text \<open>
  What a node's hardware record guarantees, and the two facts about the machine that it gets wrong: the
  virtualisation flag, and the vendor of a GPU that only \<^verbatim>\<open>lspci\<close> knows.
\<close>

lemma contains_iff: "contains s sub \<longleftrightarrow> (\<exists>a b. s = a @ sub @ b)"
proof (induction s)
  case Nil
  then show ?case by (auto simp: contains_def)
next
  case (Cons c s)
  have "contains (c # s) sub \<longleftrightarrow> hasPrefix (c # s) sub \<or> contains s sub" by (auto simp: contains_def)
  also have "\<dots> \<longleftrightarrow> (\<exists>a b. c # s = a @ sub @ b)"
    unfolding Cons hasPrefix_iff by (metis append_Cons append_Nil list.inject neq_Nil_conv)
  finally show ?case .
qed

lemma contains_trans: "contains s sub \<Longrightarrow> contains sub x \<Longrightarrow> contains s x"
  unfolding contains_iff by (metis append.assoc)

definition is_corporation :: "string \<Rightarrow> bool" where
  "is_corporation desc \<longleftrightarrow> contains (toLower desc) ''corporation'' \<and> \<not> contains (toLower desc) ''nvidia''"

lemma corporation_amd: "is_corporation desc \<Longrightarrow> lspciVendor desc = ''amd''"
proof -
  assume c: "is_corporation desc"
  have "contains ''corporation'' ''ati''" by code_simp
  with c have "contains (toLower desc) ''ati''" unfolding is_corporation_def by (blast intro: contains_trans)
  with c show ?thesis by (simp add: lspciVendor_def is_corporation_def Let_def)
qed

lemma lspci_vendors:
  assumes "\<forall>g \<in> set out. ngi_Vendor g = lspciVendor (ngi_Model g)"
  shows "\<forall>g \<in> set (fold lspciStep ls out). ngi_Vendor g = lspciVendor (ngi_Model g)"
  using assms
proof (induction ls arbitrary: out)
  case (Cons l ls)
  have "\<forall>g \<in> set (lspciStep l out). ngi_Vendor g = lspciVendor (ngi_Model g)"
    using Cons.prems by (auto simp: lspciStep_def Let_def split: prod.splits)
  with Cons.IH show ?case by simp
qed simp

definition no_gpu_tools :: "host \<Rightarrow> bool" where
  "no_gpu_tools H \<longleftrightarrow> \<not> h_lookPath H ''nvidia-smi'' \<and> \<not> h_lookPath H ''rocm-smi''"

lemma gpus_by_lspci:
  assumes "collectNodeGPUStaticInfos J H now nodeID r = Some (gpus, r')" and "no_gpu_tools H"
  shows "\<forall>g \<in> set gpus. is_corporation (ngi_Model g) \<longrightarrow> ngi_Vendor g = ''amd''"
proof -
  have "gpus = collectGPUStaticInfosFromLspci H"
    using assms by (auto simp: no_gpu_tools_def collectNodeGPUStaticInfos_def collectNvidiaGPUStaticInfos_def Let_def
        collectAmdGPUStaticInfos_def collectAmdGpuLite_def collectNodeGPUMetrics_def collectNvidiaGpuLite_def)
  then show ?thesis using lspci_vendors [of "[]"] corporation_amd
    by (auto simp: collectGPUStaticInfosFromLspci_def split: if_splits sum.splits)
qed

lemma virt_flag_lost:
  assumes "v = ''vmx'' \<or> v = ''svm''"
  shows "\<not> virtualizationSupported (normalizeVirtualizationSupport (firstNonEmpty [v, w]))"
proof -
  have "\<not> virtualizationSupported (normalizeVirtualizationSupport ''vmx'')" "trimSpace ''vmx'' = ''vmx''"
    "\<not> virtualizationSupported (normalizeVirtualizationSupport ''svm'')" "trimSpace ''svm'' = ''svm''" by code_simp+
  with assms show ?thesis by auto
qed

lemma cpuStaticOf_facts:
  "csi_FreqMinMhz (cpuStaticOf H mhz cpus) \<le> csi_FreqMaxMhz (cpuStaticOf H mhz cpus)"
  "csi_VirtualizationSupport (cpuStaticOf H mhz cpus) =
     normalizeVirtualizationSupport (firstNonEmpty [readVirtualizationSupportFromProc H, mget [] (readLscpuInfo H) ''Virtualization''])"
  by (simp_all add: cpuStaticOf_def split_def Let_def not_less)

lemma maxU64_mono: "a \<le> b \<Longrightarrow> maxU64 a c \<le> maxU64 b c"
  by (auto simp: maxU64_def)

lemma maxU64_ge: "c \<le> maxU64 a c"
  by (auto simp: maxU64_def)

text \<open>
  C0. The hardware record of a machine read for the first time: its disks are listed once each, in the
  order of their names; the processor counts are at least those libvirt gave, there is a socket, and the
  maximal frequency is not below the base one. Two of its fields are wrong: a processor whose flags show
  \<^verbatim>\<open>vmx\<close> or \<^verbatim>\<open>svm\<close> is reported as not supporting virtualisation; and where only \<^verbatim>\<open>lspci\<close> knows the GPUs,
  every one made by a \<^verbatim>\<open>Corporation\<close> that is not NVIDIA (such as Intel) is reported as AMD's.
\<close>

theorem hardware_record:
  assumes "CollectHardware E nodeID hostname r = Some (Inr info, r')" and "\<not> nr_cpuInfoLoaded r"
    and "ne_nodeInfo E = Inr (memoryKiB, cpus, mhz)"
  shows "sorted_wrt (<) (map ndi_Name (nhi_Disks info)) \<and> scast cpus \<le> nci_Cores (nhi_CPU info) \<and>
    scast cpus \<le> nci_Threads (nhi_CPU info) \<and> 1 \<le> nci_Sockets (nhi_CPU info) \<and>
    nci_BaseMhz (nhi_CPU info) \<le> nci_MaxMhz (nhi_CPU info) \<and>
    (readVirtualizationSupportFromProc (ne_host E) \<in> {''vmx'', ''svm''} \<longrightarrow> \<not> nci_VirtualizationSupport (nhi_CPU info)) \<and>
    (no_gpu_tools (ne_host E) \<longrightarrow> (\<forall>g \<in> set (nhi_GPUs info). is_corporation (ngi_Model g) \<longrightarrow> ngi_Vendor g = ''amd''))"
proof -
  let ?H = "ne_host E"
  define cpu where "cpu = cpuStaticOf ?H (scast mhz) (scast cpus)"
  define r1 where "r1 = r\<lparr>nr_cpuStatic := cpu, nr_cpuInfoLoaded := True\<rparr>"
  obtain mem r2 where mem: "loadMemoryHardwareInfo ?H (memoryKiB * 1024) r1 = (mem, r2)" by fastforce
  have load: "loadCPUStaticInfo ?H (scast mhz) (scast cpus) r = (cpu, r1)"
    using assms(2) by (simp add: loadCPUStaticInfo_def cpu_def r1_def Let_def)
  from assms(1,3) have client: "ne_client E = None" by (auto simp: CollectHardware_def split: option.splits)
  with assms(1,3) obtain gpus where gpus: "collectNodeGPUStaticInfos (ne_json E) ?H (ne_now E) nodeID r2 = Some (gpus, r')"
    by (auto simp: CollectHardware_def load mem Let_def bind_eq_Some_conv)
  with assms(1,3) client have info: "nhi_GPUs info = gpus" "nhi_Disks info = collectNodeDiskStaticInfos ?H"
    "nci_Cores (nhi_CPU info) = maxU64 (csi_CoreCountPhysical cpu) (scast cpus)"
    "nci_Threads (nhi_CPU info) = maxU64 (csi_ThreadCountLogical cpu) (scast cpus)"
    "nci_Sockets (nhi_CPU info) = maxU64 (csi_SocketCount cpu) 1"
    "nci_BaseMhz (nhi_CPU info) = maxU64 (csi_FreqMinMhz cpu) (scast mhz)"
    "nci_MaxMhz (nhi_CPU info) = maxU64 (csi_FreqMaxMhz cpu) (scast mhz)"
    "nci_VirtualizationSupport (nhi_CPU info) = virtualizationSupported (csi_VirtualizationSupport cpu)"
    by (auto simp: CollectHardware_def load mem Let_def)
  have "map ndi_Name (collectNodeDiskStaticInfos ?H) = sort (remdups (diskNames ?H))"
    by (simp add: collectNodeDiskStaticInfos_def diskInfo_def Let_def comp_def)
  then have disks: "sorted_wrt (<) (map ndi_Name (nhi_Disks info))"
    by (simp add: info strict_sorted_iff)
  show ?thesis
    using disks gpus_by_lspci [OF gpus] virt_flag_lost maxU64_ge maxU64_mono [OF cpuStaticOf_facts(1)]
    by (auto simp: info cpu_def cpuStaticOf_facts(2))
qed

text \<open>A machine with an Intel processor and an Intel GPU.\<close>

definition intel_host :: host where
  "intel_host =
     \<lparr>h_readFile = (\<lambda>path. if path = ''/proc/cpuinfo'' then Inr ''flags: fpu vmx sse'' else Inl (Leaf ''no such file'')),
      h_scanErr = (\<lambda>_. None), h_readDir = (\<lambda>_. Inr []), h_glob = (\<lambda>_. []), h_readlink = (\<lambda>_. Inl (Leaf ''no such file'')),
      h_exists = (\<lambda>_. False), h_statfs = (\<lambda>_. None), h_lookPath = (\<lambda>tool. tool = ''lspci''),
      h_exec = (\<lambda>tool _. if tool = ''lspci''
        then Inr ''0000:00:02.0 VGA compatible controller [0300]: Intel Corporation UHD Graphics 620 [8086:5917]''
        else Inl (Leaf ''exit status 1'')),
      h_getenv = (\<lambda>_. []),
      h_platform = \<lparr>cvt_u64 = (\<lambda>_. 0), goarch = ''amd64'', page_size = 4096, num_cpu = 4\<rparr>\<rparr>"

definition intel_env :: node_env where
  "intel_env =
     \<lparr>ne_client = None, ne_nodeInfo = Inr (8388608, 4, 2400), ne_memStats = Inr [], ne_now = 0, ne_host = intel_host,
      ne_json = \<lparr>j_decode = (\<lambda>_. None), j_text = (\<lambda>_. []), j_order = (\<lambda>_ m. m)\<rparr>\<rparr>"

lemma intel_gpus:
  "collectGPUStaticInfosFromLspci intel_host =
     [\<lparr>ngi_Index = 0, ngi_UUID = [], ngi_Vendor = ''amd'', ngi_Model = ''Intel Corporation UHD Graphics 620 [8086:5917]'',
       ngi_MemoryTotalBytes = 0, ngi_PCIAddress = ''0000:00:02.0'', ngi_DriverVersion = []\<rparr>]"
proof -
  have "lines ''0000:00:02.0 VGA compatible controller [0300]: Intel Corporation UHD Graphics 620 [8086:5917]'' =
      [''0000:00:02.0 VGA compatible controller [0300]: Intel Corporation UHD Graphics 620 [8086:5917]'']"
    by code_simp
  moreover have "lspciStep ''0000:00:02.0 VGA compatible controller [0300]: Intel Corporation UHD Graphics 620 [8086:5917]'' [] =
      [\<lparr>ngi_Index = 0, ngi_UUID = [], ngi_Vendor = ''amd'', ngi_Model = ''Intel Corporation UHD Graphics 620 [8086:5917]'',
       ngi_MemoryTotalBytes = 0, ngi_PCIAddress = ''0000:00:02.0'', ngi_DriverVersion = []\<rparr>]"
    by code_simp
  ultimately show ?thesis by (simp add: collectGPUStaticInfosFromLspci_def intel_host_def)
qed

lemma intel_flags: "readVirtualizationSupportFromProc intel_host = ''vmx''"
proof -
  have "lines ''flags: fpu vmx sse'' = [''flags: fpu vmx sse'']" "virtFlag ''flags: fpu vmx sse'' = Some ''vmx''" by code_simp+
  then show ?thesis by (simp add: readVirtualizationSupportFromProc_def intel_host_def map_filter_simps)
qed

lemma intel_tools: "no_gpu_tools intel_host"
  by (simp add: no_gpu_tools_def intel_host_def)

lemma intel_run:
  "\<exists>info r'. CollectHardware intel_env nodeID hostname NewNodeMetricsReader = Some (Inr info, r') \<and>
     nhi_GPUs info = collectGPUStaticInfosFromLspci intel_host"
proof -
  have "collectNodeGPUStaticInfos J intel_host now nodeID r = Some (collectGPUStaticInfosFromLspci intel_host, r)" for J now r
    using intel_tools by (simp add: no_gpu_tools_def collectNodeGPUStaticInfos_def collectNvidiaGPUStaticInfos_def Let_def
        collectAmdGPUStaticInfos_def collectAmdGpuLite_def collectNodeGPUMetrics_def collectNvidiaGpuLite_def)
  then show ?thesis
    by (simp add: CollectHardware_def intel_env_def split_def Let_def)
qed

theorem hardware_record_witness:
  "\<exists>info r'. CollectHardware intel_env ''n1'' ''h1'' NewNodeMetricsReader = Some (Inr info, r') \<and>
     \<not> nci_VirtualizationSupport (nhi_CPU info) \<and> length (nhi_GPUs info) = 1 \<and>
     (\<forall>g \<in> set (nhi_GPUs info). ngi_Vendor g = ''amd'')"
proof -
  obtain info r' where run: "CollectHardware intel_env ''n1'' ''h1'' NewNodeMetricsReader = Some (Inr info, r')"
    and gpus: "nhi_GPUs info = collectGPUStaticInfosFromLspci intel_host"
    using intel_run by blast
  have env: "\<not> nr_cpuInfoLoaded NewNodeMetricsReader" "ne_nodeInfo intel_env = Inr (8388608, 4, 2400)" "ne_host intel_env = intel_host"
    by (simp_all add: NewNodeMetricsReader_def intel_env_def)
  have "is_corporation ''Intel Corporation UHD Graphics 620 [8086:5917]''" by code_simp
  with hardware_record [OF run env(1,2)] have "\<not> nci_VirtualizationSupport (nhi_CPU info)"
    "\<forall>g \<in> set (nhi_GPUs info). ngi_Vendor g = ''amd''"
    unfolding env(3) gpus intel_gpus using intel_flags intel_tools by (simp_all del: virtualizationSupported_def)
  with run gpus show ?thesis by (auto simp: intel_gpus)
qed

end
