(* ===== verification/Spec2Isabelle.thy ===== *)
theory Spec2Isabelle
  imports Sync_Properties RPC_Facts Run_Race VM_Metrics_Facts Node_Rates Node_Parsing Node_Hardware_Facts
begin

text \<open>
  \<^bold>\<open>A verification library for the Aurora KVM agent.\<close>

  The agent runs on a virtualisation host. It reads metrics of the node and of its virtual machines from
  libvirt and from the operating system, streams them over gRPC to a backend together with an inventory
  of the machines, and offers an RPC by which machines are created, changed, deleted and migrated. It is
  written in Go, under \<^verbatim>\<open>src/internal\<close>. This library translates its code definition by definition and
  proves what makes each part correct; a definition carries the name of the function or type it models.

  \<^bold>\<open>How the code is modelled.\<close> A struct is a record with the struct's fields under a prefix, an enumeration a
  datatype, \<^verbatim>\<open>uint64\<close> and the other sized integers are words, so that sums wrap as in Go, a
  \<^verbatim>\<open>float64\<close> is a finite rational, an infinity or a NaN with the rounding of binary64 (\<open>Go_Float\<close>), a text
  is a list of bytes. A Go map is a list of entries with distinct keys whose order is the order of the
  next iteration; what must not depend on that order is proved so. An error is a value, a sum type with
  the error on the left; a panic is \<open>None\<close>. What the code asks of libvirt, gRPC, the file system, the clock
  and commands is a parameter: a record of functions that may answer anything. Computations that call the
  outside append each call to a trace (\<open>Prelude\<close>), over which the theorems about effects quantify. A method
  that holds its mutex throughout is one step; where two goroutines interleave between critical sections,
  the interleaving is modelled (\<open>Scheduler_Run\<close>, \<open>Sync_Race\<close>).

  \<^bold>\<open>Shared theories.\<close>
  \<^item> \<open>Prelude\<close>: words, error values, traces, weakest preconditions (\<open>wp_steps\<close>, \<open>io_simps\<close>).
  \<^item> \<open>Go_Strings\<close>, \<open>Go_Float\<close>, \<open>Go_Maps\<close>, \<open>Go_Time\<close>: what the code uses of Go's \<^verbatim>\<open>strings\<close>, \<^verbatim>\<open>strconv\<close>,
    \<^verbatim>\<open>path/filepath\<close>, \<^verbatim>\<open>sort\<close> and \<^verbatim>\<open>time\<close>, floating point with its order and rounding lemmas, maps.
  \<^item> \<open>Sampler\<close>: the interface of everything that turns counters into rates: a last sample per key. Its
    lemmas show that keys never mix; the counter engine, the machine reader and the interface and disk
    rates interpret it.
  \<^item> \<open>Host\<close>: the operating system as the node reader sees it.
  \<^item> \<open>Model_Types\<close>: the records the agent sends (\<^verbatim>\<open>internal/model\<close>).

  \<^bold>\<open>Inventory and collection loops\<close> (\<^verbatim>\<open>collector/scheduler.go\<close>, \<^verbatim>\<open>model/vm_info_sync.go\<close>). \<open>Sync_Info\<close> builds the
  inventory maps, \<open>Scheduler\<close> holds the scheduler's state, the full and delta messages, the collection
  cycles and the ticker loops. \<open>Scheduler_Facts\<close> and \<open>Sync_Properties\<close> prove that a message turns the
  receiver's table into the current one, that the delta is minimal, that the order of Go's maps does not
  show, and that over any run of cycles the scheduler, the sink and the receiver stay in step.
  \<open>Sync_Race\<close> interleaves the runtime and the periodic loop at their critical sections and shows how an
  update is lost; \<open>Sync_Healing\<close> shows that one undisturbed periodic round repairs the loss.

  \<^bold>\<open>The composition.\<close> \<open>Collectors\<close> has the four collectors (\<^verbatim>\<open>collector/*_collector.go\<close>), the two readers they share
  and the wiring of \<^verbatim>\<open>agent.New\<close>. \<open>Scheduler_Steps\<close> cuts a turn of a loop into phases, at its sends and its
  critical sections, and shows that the phases run in a row are the cycles of \<open>Scheduler\<close>. \<open>Scheduler_Run\<close> is
  \<^verbatim>\<open>Scheduler.Run\<close>: the four loops as an inductive step relation over the readers, the scheduler, the health
  flags and the gRPC client, in every interleaving of their phases, with back-off, cancellation and return.
  Over all its runs: no failure ends a loop and the end of the context can end the run with no
  error (\<open>Run_Facts\<close>); every delivered frame is well formed and names this node (\<open>System_Facts\<close>, \<open>Run_Frames\<close>); as
  long as no synchronisation of the runtime loop falls into a periodic round, a successful runtime turn
  leaves the backend with exactly the machines libvirt listed, and one undisturbed round restores
  that (\<open>Run_Sync\<close>, \<open>Run_Delivery\<close>); without that proviso an update can be lost (\<open>Run_Race\<close>).

  \<^bold>\<open>The stream\<close> (\<^verbatim>\<open>stream/\<close>). \<open>Sink\<close> states the sink's contract as a locale, \<open>GRPC_Client\<close> models dialling,
  stream opening, the retried sends, reset and close. \<open>GRPC_Facts\<close> and \<open>GRPC_Runs\<close>: no connection or stream
  is leaked or used after it is closed, the frames the library took are those of the sends that answered
  success, and a send gives up only for cause.

  \<^bold>\<open>The agent\<close> (\<^verbatim>\<open>agent/\<close>, \<^verbatim>\<open>config/\<close>, \<^verbatim>\<open>libvirt/metric/conn.go\<close>, \<^verbatim>\<open>libvirt/metric/events.go\<close>). \<open>Conn\<close> models the libvirt
  connection with its endless redial loop (a \<open>partial_function\<close>: \<open>None\<close> is not returning), \<open>Config\<close> the
  environment and its validation, \<open>Agent\<close> the health flags, the event monitor, construction, start,
  signals and shutdown, and the entry point (\<^verbatim>\<open>cmd/agent/main.go\<close>); \<open>Agent_Facts\<close> has their properties.

  \<^bold>\<open>Operations on machines\<close> (\<^verbatim>\<open>libvirt/vm/control.go\<close>). \<open>VM_Control\<close> has the four operations with their requests
  to libvirt, the file system, \<^verbatim>\<open>qemu-img\<close> and \<^verbatim>\<open>virsh\<close>. \<open>VM_Facts\<close> describes the trace of each operation for every
  behaviour of the outside; \<open>VM_Limits\<close> has the admission bounds and the cases in which the code does not
  do what it means to. The wait for a machine to stop is bounded by its own deadline: its fuel is the
  number of polls that fit into it.

  \<^bold>\<open>The RPC service\<close> (\<^verbatim>\<open>agent/vm/\<close>, \<^verbatim>\<open>agent/probe_listener.go\<close>). \<open>Agent_RPC\<close> has the requests and the response,
  the service methods, the method handlers with their decoding and their interceptor, the service
  description, the codec, and how the listener starts, answers and stops. \<open>RPC_Facts\<close> follows each call from
  the bytes of the request to the changes on the host.

  \<^bold>\<open>Metrics of machines\<close> (\<^verbatim>\<open>libvirt/metric/vm/vm_metrics.go\<close>). \<open>VM_Metrics\<close> models both collections record by
  record; \<open>VM_Metrics_Facts\<close> proves that machines never mix, that every record is well formed, and that
  the inventory built from a collection is complete.

  \<^bold>\<open>Metrics of the node\<close> (\<^verbatim>\<open>libvirt/metric/node/\<close>, \<^verbatim>\<open>system/\<close>). \<open>Delta\<close> is the counter engine and the number readers
  (\<open>Delta_Facts\<close>: deltas add up to what the counter grew by), \<open>Node_State\<close> the reader's state, and
  \<open>Node_CPU\<close>, \<open>Node_Memory\<close>, \<open>Node_Disk\<close>, \<open>Node_Network\<close> and \<open>Node_GPU\<close> the files of those names;
  \<open>Node_Reader\<close> puts the metric and the hardware record together. \<open>Node_Facts\<close>: every metric record is well
  formed, and when the GPU tools' answers end the agent. \<open>Node_Rates\<close>: all devices share one engine and
  never mix. \<open>Node_Parsing\<close>: \<^verbatim>\<open>/proc/stat\<close> and the memory listing are read back as they were written, with
  the module that is lost. \<open>Node_Hardware_Facts\<close>: the hardware record, and the two fields it gets wrong.

  \<^bold>\<open>Bounds.\<close> The average of the disks' utilisation is a percentage for fewer than \<open>2 ^ 46\<close> lines of
  \<^verbatim>\<open>/proc/diskstats\<close> (\<open>few_lines\<close>), because sums of that many percentages are exact enough; the
  processor share of a machine is one for fewer than \<open>2 ^ 53\<close> processors. No other property bounds its
  input.

  \<^bold>\<open>Not modelled.\<close> JSON encoding and decoding (\<^verbatim>\<open>encoding/json\<close>) and \<^verbatim>\<open>fmt\<close>'s text of decoded values are
  parameters. The gRPC server and client libraries, libvirt and the operating system are parameters too,
  which may answer anything. A collection is one step of
  \<open>Scheduler_Run\<close>: it reads the machine at one moment, and the two collections of the node reader, which lock
  the reader's parts one by one, do not interleave within a step. A send is one step too, because the client
  holds its mutex throughout; the health flag is set in the same step. Go's fairness is no part of the step
  relation, so that the end of a run is stated as one that is always possible. Unicode white space and letter
  case outside ASCII, negative zero, and the fused multiply-add that Go may use on some architectures are
  left out. The records of \<^verbatim>\<open>model/node_metric_cpu.go\<close>, \<^verbatim>\<open>model/node_metric_ram.go\<close> and
  \<^verbatim>\<open>model/agent_vm_operation.go\<close>, which no code uses, the scripts and the protocol files are not modelled.
\<close>

end
